(* ===== verification/Prelude.thy ===== *)
theory Prelude
  imports Main "HOL-Library.AList" "HOL-Library.Sublist" "HOL-Library.Char_ord"
begin

text \<open>
  Shared vocabulary of the development: the collections of rewrite rules the component
  theories extend, the pieces of the C++ standard library that every component uses on
  \<open>std::string\<close> (NUL-terminated views, \<open>find_last_of\<close>, \<open>std::to_string\<close>, \<open>strtol\<close>), and
  generic lemmas on lists and association lists.
\<close>

named_theorems err_defs "numeric values of the error codes and scope constants"
named_theorems path_defs "the path and name constants of font_define.h"
named_theorems world_simps "projections of the world after a primitive file-system step"

section \<open>Strings as the C++ code sees them\<close>

text \<open>The view \<open>s.c_str()\<close>: a C function that receives it stops at the first NUL.\<close>

definition NUL :: char where
  "NUL = CHR 0x00"

definition c_str :: "string \<Rightarrow> string" where
  "c_str s = takeWhile (\<lambda>c. c \<noteq> NUL) s"

definition is_cstring :: "string \<Rightarrow> bool" where
  "is_cstring s \<longleftrightarrow> NUL \<notin> set s"

lemma c_str_cstring [simp]: "is_cstring s \<Longrightarrow> c_str s = s"
  by (auto simp: is_cstring_def c_str_def takeWhile_eq_all_conv)

lemma is_cstring_c_str [simp]: "is_cstring (c_str s)"
  unfolding is_cstring_def c_str_def by (auto dest: set_takeWhileD)

lemma c_str_append_NUL [simp]: "c_str (s @ NUL # t) = c_str s"
  unfolding c_str_def by (induction s) auto

lemma is_cstring_append [simp]: "is_cstring (s @ t) \<longleftrightarrow> is_cstring s \<and> is_cstring t"
  by (simp add: is_cstring_def)

lemma is_cstring_Cons [simp]: "is_cstring (c # t) \<longleftrightarrow> c \<noteq> NUL \<and> is_cstring t"
  by (auto simp: is_cstring_def)

lemma is_cstring_Nil [simp]: "is_cstring []"
  by (simp add: is_cstring_def)

text \<open>\<open>std::string::find_last_of\<close> for a single character; \<open>None\<close> is \<open>npos\<close>.\<close>

fun find_last_of :: "string \<Rightarrow> char \<Rightarrow> nat option" where
  "find_last_of [] c = None"
| "find_last_of (x # xs) c =
     (case find_last_of xs c of
        Some i \<Rightarrow> Some (Suc i)
      | None \<Rightarrow> if x = c then Some 0 else None)"

lemma find_last_of_None: "find_last_of s c = None \<longleftrightarrow> c \<notin> set s"
  by (induction s) (auto split: option.splits)

lemma find_last_of_append:
  assumes "c \<notin> set t"
  shows "find_last_of (s @ c # t) c = Some (length s)"
proof -
  from assms have "find_last_of t c = None" by (simp add: find_last_of_None)
  then show ?thesis by (induction s) auto
qed

lemma find_last_of_SomeD:
  "find_last_of s c = Some i \<Longrightarrow>
     i < length s \<and> s ! i = c \<and> c \<notin> set (drop (Suc i) s)"
proof (induction s arbitrary: i)
  case (Cons x xs)
  then show ?case by (auto split: option.splits if_splits simp: find_last_of_None)
qed simp

text \<open>Case-insensitive comparison of ASCII keys.\<close>

definition ascii_lower :: "char \<Rightarrow> char" where
  "ascii_lower c =
     (let n = (of_char c :: nat) in if 65 \<le> n \<and> n \<le> 90 then char_of (n + 32) else c)"

definition ci_eq :: "string \<Rightarrow> string \<Rightarrow> bool" where
  "ci_eq a b \<longleftrightarrow> map ascii_lower a = map ascii_lower b"

lemma ci_eq_refl [simp]: "ci_eq a a"
  by (simp add: ci_eq_def)

section \<open>Decimal numbers: \<open>std::to_string\<close> and \<open>strtol\<close>\<close>

definition digit_char :: "nat \<Rightarrow> char" where
  "digit_char d = char_of (48 + d)"

definition is_digit :: "char \<Rightarrow> bool" where
  "is_digit c \<longleftrightarrow> 48 \<le> (of_char c :: nat) \<and> (of_char c :: nat) \<le> 57"

definition digit_value :: "char \<Rightarrow> nat" where
  "digit_value c = of_char c - 48"

fun nat_digits :: "nat \<Rightarrow> string" where
  "nat_digits n =
     (if n < 10 then [digit_char n] else nat_digits (n div 10) @ [digit_char (n mod 10)])"

declare nat_digits.simps [simp del]

definition to_string :: "int \<Rightarrow> string" where
  "to_string i =
     (if i < 0 then CHR ''-'' # nat_digits (nat (- i)) else nat_digits (nat i))"

definition digits_value :: "string \<Rightarrow> nat" where
  "digits_value = foldl (\<lambda>v c. 10 * v + digit_value c) 0"

lemma digit_char_digit [simp]: "d < 10 \<Longrightarrow> is_digit (digit_char d)"
  by (simp add: digit_char_def is_digit_def)

lemma digit_value_char [simp]: "d < 10 \<Longrightarrow> digit_value (digit_char d) = d"
  by (simp add: digit_char_def digit_value_def)

lemma nat_digits_not_Nil [simp]: "nat_digits n \<noteq> []"
  by (subst nat_digits.simps) simp

lemma nat_digits_all_digits: "c \<in> set (nat_digits n) \<Longrightarrow> is_digit c"
proof (induction n rule: nat_digits.induct)
  case (1 n)
  show ?case
  proof (cases "n < 10")
    case True
    with "1.prems" show ?thesis by (simp add: nat_digits.simps [of n])
  next
    case False
    with 1 show ?thesis by (auto simp: nat_digits.simps [of n])
  qed
qed

lemma digits_value_append_digit:
  "digits_value (s @ [c]) = 10 * digits_value s + digit_value c"
  by (simp add: digits_value_def)

lemma digits_value_nat_digits [simp]: "digits_value (nat_digits n) = n"
proof (induction n rule: nat_digits.induct)
  case (1 n)
  show ?case
  proof (cases "n < 10")
    case True
    then show ?thesis by (simp add: nat_digits.simps [of n] digits_value_def)
  next
    case False
    with 1 show ?thesis
      by (simp add: nat_digits.simps [of n] digits_value_append_digit)
  qed
qed

lemma digit_not_special: "is_digit c \<Longrightarrow> c \<noteq> CHR ''/'' \<and> c \<noteq> CHR ''-'' \<and> c \<noteq> CHR ''.'' \<and> c \<noteq> NUL"
  by (auto simp: is_digit_def NUL_def)

lemma nat_digits_inj: "nat_digits m = nat_digits n \<Longrightarrow> m = n"
  by (metis digits_value_nat_digits)

lemma nat_digits_hd: "is_digit (hd (nat_digits n))"
  by (rule nat_digits_all_digits [of _ n]) simp

lemma to_string_inj [simp]: "to_string i = to_string j \<longleftrightarrow> i = j"
proof
  assume eq: "to_string i = to_string j"
  have no: "CHR ''-'' # xs \<noteq> nat_digits n" for xs n
    using nat_digits_hd [of n] by (metis digit_not_special list.sel(1))
  show "i = j"
    using eq no by (auto simp: to_string_def split: if_splits dest!: nat_digits_inj)
      (metis no)+
qed simp

lemma to_string_no_slash [simp]: "CHR ''/'' \<notin> set (to_string i)"
  by (auto simp: to_string_def dest: nat_digits_all_digits digit_not_special)

lemma to_string_cstring [simp]: "is_cstring (to_string i)"
proof -
  have "NUL \<noteq> CHR ''-''" by (simp add: NUL_def)
  moreover have "NUL \<notin> set (nat_digits n)" for n
    using nat_digits_all_digits digit_not_special by blast
  ultimately show ?thesis by (simp add: to_string_def is_cstring_def)
qed

lemma to_string_not_Nil [simp]: "to_string i \<noteq> []"
  by (simp add: to_string_def)

lemma to_string_not_dots [simp]: "to_string i \<noteq> ''.''" "to_string i \<noteq> ''..''"
proof -
  have "CHR ''.'' \<notin> set (to_string i)"
    by (auto simp: to_string_def dest: nat_digits_all_digits digit_not_special)
  then show "to_string i \<noteq> ''.''" "to_string i \<noteq> ''..''" by auto
qed

text \<open>
  \<open>strtol (s, &end, 10)\<close> with a 64-bit \<open>long\<close>: the converted value, clamped to the range of
  \<open>long\<close>, the unread rest of the text, whether anything was converted (otherwise \<open>end\<close> is the
  start of the text), and whether \<open>errno\<close> is \<open>ERANGE\<close>.
\<close>

definition LONG_MAX :: int where "LONG_MAX = 9223372036854775807"
definition LONG_MIN :: int where "LONG_MIN = - 9223372036854775808"
definition INT32_MAX :: int where "INT32_MAX = 2147483647"

definition is_space :: "char \<Rightarrow> bool" where
  "is_space c \<longleftrightarrow> c = CHR '' '' \<or> (9 \<le> (of_char c :: nat) \<and> (of_char c :: nat) \<le> 13)"

record strtol_result =
  st_value :: int
  st_rest :: string
  st_converted :: bool
  st_erange :: bool

definition strtol10 :: "string \<Rightarrow> strtol_result" where
  "strtol10 s =
     (let body = dropWhile is_space s;
          neg = (body \<noteq> [] \<and> hd body = CHR ''-'');
          signed = (body \<noteq> [] \<and> (hd body = CHR ''-'' \<or> hd body = CHR ''+''));
          rest = (if signed then tl body else body);
          ds = takeWhile is_digit rest;
          v = int (digits_value ds);
          x = (if neg then - v else v)
      in if ds = [] then \<lparr>st_value = 0, st_rest = s, st_converted = False, st_erange = False\<rparr>
         else \<lparr>st_value = (if x > LONG_MAX then LONG_MAX else if x < LONG_MIN then LONG_MIN else x),
               st_rest = dropWhile is_digit rest, st_converted = True,
               st_erange = (x > LONG_MAX \<or> x < LONG_MIN)\<rparr>)"

lemma digit_not_space: "is_digit c \<Longrightarrow> \<not> is_space c \<and> c \<noteq> CHR ''-'' \<and> c \<noteq> CHR ''+''"
  by (auto simp: is_digit_def is_space_def)

lemma strtol10_nat_digits:
  "strtol10 (nat_digits n) =
     \<lparr>st_value = min (int n) LONG_MAX, st_rest = [], st_converted = True, st_erange = (int n > LONG_MAX)\<rparr>"
  "strtol10 (CHR ''-'' # nat_digits n) =
     \<lparr>st_value = max (- int n) LONG_MIN, st_rest = [], st_converted = True, st_erange = (- int n < LONG_MIN)\<rparr>"
proof -
  have hd: "\<not> is_space (hd (nat_digits n))" "hd (nat_digits n) \<noteq> CHR ''-''"
    "hd (nat_digits n) \<noteq> CHR ''+''"
    using digit_not_space [OF nat_digits_hd [of n]] by auto
  then have dw: "dropWhile is_space (nat_digits n) = nat_digits n"
    by (cases "nat_digits n") auto
  have all: "takeWhile is_digit (nat_digits n) = nat_digits n"
    "dropWhile is_digit (nat_digits n) = []"
    by (auto simp: takeWhile_eq_all_conv dest: nat_digits_all_digits)
  have sign: "\<not> is_space (CHR ''-'')" by (simp add: is_space_def)
  show "strtol10 (nat_digits n) =
     \<lparr>st_value = min (int n) LONG_MAX, st_rest = [], st_converted = True, st_erange = (int n > LONG_MAX)\<rparr>"
    unfolding strtol10_def Let_def dw by (simp add: hd all LONG_MIN_def)
  show "strtol10 (CHR ''-'' # nat_digits n) =
     \<lparr>st_value = max (- int n) LONG_MIN, st_rest = [], st_converted = True, st_erange = (- int n < LONG_MIN)\<rparr>"
    unfolding strtol10_def Let_def by (simp add: sign all LONG_MAX_def)
qed

section \<open>Lists and association lists\<close>

fun index_of :: "('a \<Rightarrow> bool) \<Rightarrow> 'a list \<Rightarrow> nat option" where
  "index_of P [] = None"
| "index_of P (x # xs) = (if P x then Some 0 else map_option Suc (index_of P xs))"

lemma index_of_None: "index_of P xs = None \<longleftrightarrow> (\<forall>x\<in>set xs. \<not> P x)"
  by (induction xs) auto

lemma index_of_ex: "(\<exists>i. index_of P xs = Some i) \<longleftrightarrow> (\<exists>x\<in>set xs. P x)"
  using index_of_None [of P xs] by auto

lemma index_of_SomeD:
  "index_of P xs = Some i \<Longrightarrow> i < length xs \<and> P (xs ! i) \<and> (\<forall>k<i. \<not> P (xs ! k))"
proof (induction xs arbitrary: i)
  case (Cons x xs)
  show ?case
  proof (cases "P x")
    case False
    with Cons.prems obtain k where k: "index_of P xs = Some k" "i = Suc k" by auto
    with Cons.IH [OF k(1)] False show ?thesis
      by (auto simp: nth_Cons split: nat.splits)
  qed (use Cons.prems in auto)
qed simp

lemma index_of_append:
  "index_of P (xs @ ys) =
     (case index_of P xs of Some i \<Rightarrow> Some i | None \<Rightarrow> map_option (\<lambda>i. length xs + i) (index_of P ys))"
  by (cases "index_of P ys"; induction xs) (auto split: option.splits)

lemma index_of_cong_length:
  "map P xs = map Q ys \<Longrightarrow> index_of P xs = index_of Q ys"
  by (induction xs arbitrary: ys) auto

text \<open>
  A \<open>for\<close> loop that stops at the first index whose element satisfies a test is
  \<open>find\<close> over the indices; over a list it is \<^const>\<open>index_of\<close>.
\<close>

lemma find_index_eq: "find (\<lambda>i. P (xs ! i)) [0..<length xs] = index_of P xs"
proof (induction xs rule: rev_induct)
  case (snoc x xs)
  have "find (\<lambda>i. P ((xs @ [x]) ! i)) [0..<length xs] = find (\<lambda>i. P (xs ! i)) [0..<length xs]"
    by (rule find_cong) (auto simp: nth_append)
  moreover have "find Q (as @ bs) = (case find Q as of Some z \<Rightarrow> Some z | None \<Rightarrow> find Q bs)"
    for Q :: "nat \<Rightarrow> bool" and as bs
    by (induction as) auto
  ultimately show ?case using snoc
    by (auto simp: index_of_append split: option.splits)
qed simp

definition remove_nth :: "nat \<Rightarrow> 'a list \<Rightarrow> 'a list" where
  "remove_nth i xs = take i xs @ drop (Suc i) xs"

text \<open>Removing the first element that satisfies a test, if there is one.\<close>

fun remove_first :: "('a \<Rightarrow> bool) \<Rightarrow> 'a list \<Rightarrow> 'a list" where
  "remove_first P [] = []"
| "remove_first P (x # xs) = (if P x then xs else x # remove_first P xs)"

lemma remove_nth_index_of:
  "index_of P xs = Some i \<Longrightarrow> remove_nth i xs = remove_first P xs"
  by (induction xs arbitrary: i) (auto simp: remove_nth_def split: if_splits)

lemma set_remove_first_subset: "set (remove_first P xs) \<subseteq> set xs"
  by (induction xs) auto

lemma remove_first_keeps: "x \<in> set xs \<Longrightarrow> \<not> P x \<Longrightarrow> x \<in> set (remove_first P xs)"
  by (induction xs) auto

lemma find_index_of: "find P xs = map_option (\<lambda>i. xs ! i) (index_of P xs)"
  by (induction xs) (auto simp: option.map_comp comp_def)

lemma map_of_filter_key:
  "map_of (filter (\<lambda>(k, v). P k) al) k = (if P k then map_of al k else None)"
  by (induction al) auto

lemma map_of_delete [simp]: "map_of (AList.delete k al) k' = (if k = k' then None else map_of al k')"
  by (simp add: delete_conv)

lemma map_of_update [simp]:
  "map_of (AList.update k v al) k' = (if k = k' then Some v else map_of al k')"
  by (simp add: update_conv)

text \<open>Updating every position of a list in turn is a \<open>map\<close>.\<close>

lemma foldl_update_map_prefix:
  "n \<le> length xs \<Longrightarrow>
     foldl (\<lambda>ys i. ys[i := f (ys ! i)]) xs [0..<n] = map f (take n xs) @ drop n xs"
proof (induction n)
  case (Suc n)
  then have "foldl (\<lambda>ys i. ys[i := f (ys ! i)]) xs [0..<Suc n] =
      (map f (take n xs) @ drop n xs)[n := f ((map f (take n xs) @ drop n xs) ! n)]"
    by simp
  also have "\<dots> = map f (take n xs) @ f (xs ! n) # drop (Suc n) xs"
    using Suc.prems by (simp add: nth_append list_update_append Cons_nth_drop_Suc [symmetric])
  finally show ?case using Suc.prems by (simp add: take_Suc_conv_app_nth)
qed simp

lemma foldl_update_map:
  "foldl (\<lambda>ys i. ys[i := f (ys ! i)]) xs [0..<length xs] = map f xs"
  by (simp add: foldl_update_map_prefix)

end
