(* ===== verification/CJSON_Api.thy ===== *)
theory CJSON_Api
  imports Prelude
begin

text \<open>
  The JSON library the sources call (\<open>cJSON.h\<close>, a third-party package that is not part of the
  repository). Its items are a datatype, its functions are the fields of the record
  \<open>cjson_api\<close>, an argument of every definition that calls them, and the behaviour its
  documentation promises is the locale \<open>cjson_library\<close>. Every creating or adding function may
  fail for lack of memory, as the callers assume.

  An item pointer into a parsed document is the position of the child it points to
  (\<open>item_at\<close> reads through it, \<open>item_put\<close> is the effect on the parent of changing the child in
  place). A number item is identified by its field \<open>valueint\<close>, the only one the sources read.
\<close>

datatype cJSON =
    JNull
  | JBool bool
  | JNumber int
  | JString string
  | JArray "cJSON list"
  | JObject "(string \<times> cJSON) list"

record cjson_api =
  cJSON_Parse :: "string \<Rightarrow> cJSON option"
  cJSON_Print :: "cJSON \<Rightarrow> string option"
  cJSON_IsArray :: "cJSON \<Rightarrow> bool"
  cJSON_IsString :: "cJSON \<Rightarrow> bool"
  cJSON_IsNumber :: "cJSON \<Rightarrow> bool"
  cJSON_GetObjectItem :: "cJSON \<Rightarrow> string \<Rightarrow> nat option"
  cJSON_GetArraySize :: "cJSON \<Rightarrow> nat"
  cJSON_GetArrayItem :: "cJSON \<Rightarrow> nat \<Rightarrow> nat option"
  cJSON_CreateString :: "string \<Rightarrow> cJSON option"
  cJSON_CreateNumber :: "int \<Rightarrow> cJSON option"
  cJSON_CreateArray :: "cJSON option"
  cJSON_CreateObject :: "cJSON option"
  cJSON_AddItemToArray :: "cJSON \<Rightarrow> cJSON \<Rightarrow> cJSON option"
  cJSON_AddItemToObject :: "cJSON \<Rightarrow> string \<Rightarrow> cJSON \<Rightarrow> cJSON option"
  cJSON_DeleteItemFromArray :: "cJSON \<Rightarrow> nat \<Rightarrow> cJSON"
  cJSON_DeleteItemFromObject :: "cJSON \<Rightarrow> string \<Rightarrow> cJSON"
  cJSON_ReplaceItemInObject :: "cJSON \<Rightarrow> string \<Rightarrow> cJSON \<Rightarrow> cJSON option"

section \<open>Reading and writing through item pointers\<close>

definition item_at :: "cJSON \<Rightarrow> nat \<Rightarrow> cJSON" where
  "item_at j p =
     (case j of
        JObject kvs \<Rightarrow> if p < length kvs then snd (kvs ! p) else JNull
      | JArray xs \<Rightarrow> if p < length xs then xs ! p else JNull
      | _ \<Rightarrow> JNull)"

definition item_put :: "cJSON \<Rightarrow> nat \<Rightarrow> cJSON \<Rightarrow> cJSON" where
  "item_put j p x =
     (case j of
        JObject kvs \<Rightarrow> if p < length kvs then JObject (kvs[p := (fst (kvs ! p), x)]) else j
      | JArray xs \<Rightarrow> JArray (xs[p := x])
      | _ \<Rightarrow> j)"

fun valuestring :: "cJSON \<Rightarrow> string" where
  "valuestring (JString s) = s"
| "valuestring _ = []"

fun valueint :: "cJSON \<Rightarrow> int" where
  "valueint (JNumber n) = n"
| "valueint _ = 0"

section \<open>Documents the library can represent\<close>

text \<open>
  \<open>json_valid d j\<close>: every text of the item is a C string, every number is in the range of
  \<open>valueint\<close>, and arrays and objects nest at most \<open>d\<close> levels deep. The parser accepts
  \<open>CJSON_NESTING_LIMIT\<close> levels.
\<close>

definition int32_range :: "int \<Rightarrow> bool" where
  "int32_range i \<longleftrightarrow> - 2147483648 \<le> i \<and> i \<le> 2147483647"

fun json_valid :: "nat \<Rightarrow> cJSON \<Rightarrow> bool" where
  "json_valid d JNull = True"
| "json_valid d (JBool b) = True"
| "json_valid d (JNumber i) = int32_range i"
| "json_valid d (JString s) = is_cstring s"
| "json_valid 0 (JArray xs) = False"
| "json_valid (Suc d) (JArray xs) = (\<forall>x\<in>set xs. json_valid d x)"
| "json_valid 0 (JObject kvs) = False"
| "json_valid (Suc d) (JObject kvs) =
     (\<forall>kv\<in>set kvs. is_cstring (fst kv) \<and> json_valid d (snd kv))"

definition CJSON_NESTING_LIMIT :: nat where
  "CJSON_NESTING_LIMIT = 1000"

abbreviation json_ok :: "cJSON \<Rightarrow> bool" where
  "json_ok \<equiv> json_valid CJSON_NESTING_LIMIT"

definition obj_find :: "(string \<times> cJSON) list \<Rightarrow> string \<Rightarrow> nat option" where
  "obj_find kvs key = index_of (\<lambda>kv. ci_eq (fst kv) key) kvs"

text \<open>
  A measure of the room a printed document takes: the lengths of its texts and a constant for every
  item. Documents up to \<open>JSON_MEMORY\<close> are small enough for the memory there is.
\<close>

fun json_size :: "cJSON \<Rightarrow> nat" where
  "json_size JNull = 1"
| "json_size (JBool b) = 1"
| "json_size (JNumber i) = 1 + length (to_string i)"
| "json_size (JString s) = 2 + length s"
| "json_size (JArray xs) = 1 + sum_list (map json_size xs)"
| "json_size (JObject kvs) = 1 + sum_list (map (\<lambda>kv. 2 + length (fst kv) + json_size (snd kv)) kvs)"

definition JSON_MEMORY :: nat where
  "JSON_MEMORY = 2 ^ 30"

text \<open>
  The interface \<open>cjson_library\<close> is the documented behaviour: the text of a printed document
  parses back to it, the empty text is no document, a printed text fits in memory, members are
  looked up by case-insensitive key and the first match counts, adding appends without
  looking for an existing key, deleting removes one child.
\<close>

locale cjson_library =
  fixes E :: "'a cjson_api_scheme"
  assumes parse_ok: "cJSON_Parse E t = Some j \<Longrightarrow> json_ok j"
    and print_parse: "json_ok j \<Longrightarrow> cJSON_Print E j = Some t \<Longrightarrow> cJSON_Parse E t = Some j"
    and print_cstring: "json_ok j \<Longrightarrow> cJSON_Print E j = Some t \<Longrightarrow> is_cstring t"
    and print_size: "cJSON_Print E j = Some t \<Longrightarrow> int (length t) < LONG_MAX"
    and parse_empty: "cJSON_Parse E [] = None"
    and IsArray: "cJSON_IsArray E j \<longleftrightarrow> (\<exists>xs. j = JArray xs)"
    and IsString: "cJSON_IsString E j \<longleftrightarrow> (\<exists>s. j = JString s)"
    and IsNumber: "cJSON_IsNumber E j \<longleftrightarrow> (\<exists>n. j = JNumber n)"
    and GetObjectItem: "cJSON_GetObjectItem E (JObject kvs) key = obj_find kvs key"
    and GetObjectItem_other: "(\<forall>kvs. j \<noteq> JObject kvs) \<Longrightarrow> cJSON_GetObjectItem E j key = None"
    and GetArraySize: "cJSON_GetArraySize E (JArray xs) = length xs"
    and GetArrayItem:
      "cJSON_GetArrayItem E (JArray xs) i = (if i < length xs then Some i else None)"
    and CreateString: "cJSON_CreateString E s = Some j \<Longrightarrow> j = JString (c_str s)"
    and CreateNumber: "cJSON_CreateNumber E n = Some j \<Longrightarrow> int32_range n \<Longrightarrow> j = JNumber n"
    and CreateArray: "cJSON_CreateArray E = Some j \<Longrightarrow> j = JArray []"
    and CreateObject: "cJSON_CreateObject E = Some j \<Longrightarrow> j = JObject []"
    and AddItemToArray:
      "cJSON_AddItemToArray E (JArray xs) x = Some j \<Longrightarrow> j = JArray (xs @ [x])"
    and AddItemToObject:
      "cJSON_AddItemToObject E (JObject kvs) key x = Some j \<Longrightarrow>
         j = JObject (kvs @ [(c_str key, x)])"
    and DeleteItemFromArray:
      "i < length xs \<Longrightarrow> cJSON_DeleteItemFromArray E (JArray xs) i = JArray (remove_nth i xs)"
    and DeleteItemFromObject:
      "cJSON_DeleteItemFromObject E (JObject kvs) key =
         (case obj_find kvs key of
            None \<Rightarrow> JObject kvs | Some i \<Rightarrow> JObject (remove_nth i kvs))"
    and ReplaceItemInObject:
      "cJSON_ReplaceItemInObject E (JObject kvs) key x = Some j \<Longrightarrow>
         \<exists>i. obj_find kvs key = Some i \<and> j = JObject (kvs[i := (c_str key, x)])"

text \<open>With memory to spare, nothing reasonable that is asked of the library fails.\<close>

locale cjson_memory = cjson_library +
  assumes print_mem: "json_size j \<le> JSON_MEMORY \<Longrightarrow> cJSON_Print E j \<noteq> None"
    and CreateString_mem: "cJSON_CreateString E s \<noteq> None"
    and CreateNumber_mem: "cJSON_CreateNumber E n \<noteq> None"
    and CreateArray_mem: "cJSON_CreateArray E \<noteq> None"
    and CreateObject_mem: "cJSON_CreateObject E \<noteq> None"
    and AddItemToArray_mem: "cJSON_AddItemToArray E (JArray xs) x \<noteq> None"
    and AddItemToObject_mem: "cJSON_AddItemToObject E (JObject kvs) key x \<noteq> None"
    and ReplaceItemInObject_mem:
      "obj_find kvs key \<noteq> None \<Longrightarrow> cJSON_ReplaceItemInObject E (JObject kvs) key x \<noteq> None"

context cjson_library
begin

lemma GetObjectItem_case:
  "cJSON_GetObjectItem E j key = (case j of JObject kvs \<Rightarrow> obj_find kvs key | _ \<Rightarrow> None)"
  by (cases j) (simp_all add: GetObjectItem GetObjectItem_other)

lemmas read_laws = IsArray IsString IsNumber GetObjectItem_case GetArraySize GetArrayItem
  DeleteItemFromArray DeleteItemFromObject

end

section \<open>Validity through reads and updates\<close>

lemma item_at_JArray [simp]: "i < length xs \<Longrightarrow> item_at (JArray xs) i = xs ! i"
  by (simp add: item_at_def)

lemma item_at_JObject [simp]: "i < length kvs \<Longrightarrow> item_at (JObject kvs) i = snd (kvs ! i)"
  by (simp add: item_at_def)

lemma item_put_JObject [simp]:
  "i < length kvs \<Longrightarrow> item_put (JObject kvs) i x = JObject (kvs[i := (fst (kvs ! i), x)])"
  by (simp add: item_put_def)

lemma item_put_JArray [simp]: "item_put (JArray xs) i x = JArray (xs[i := x])"
  by (simp add: item_put_def)

lemma obj_find_SomeD:
  "obj_find kvs key = Some i \<Longrightarrow> i < length kvs \<and> ci_eq (fst (kvs ! i)) key"
  by (auto simp: obj_find_def dest: index_of_SomeD)

lemma obj_find_update_value:
  assumes "i < length kvs"
  shows "obj_find (kvs[i := (fst (kvs ! i), x)]) key = obj_find kvs key"
  unfolding obj_find_def
proof (rule index_of_cong_length)
  have "map fst (kvs[i := (fst (kvs ! i), x)]) = map fst kvs"
    using assms by (simp add: map_update list_update_same_conv)
  then have "map (\<lambda>k. ci_eq k key) (map fst (kvs[i := (fst (kvs ! i), x)]))
      = map (\<lambda>k. ci_eq k key) (map fst kvs)" by simp
  then show "map (\<lambda>kv. ci_eq (fst kv) key) (kvs[i := (fst (kvs ! i), x)])
      = map (\<lambda>kv. ci_eq (fst kv) key) kvs" by (simp add: comp_def)
qed

lemma json_valid_JArray: "json_valid d (JArray xs) \<longleftrightarrow> 0 < d \<and> (\<forall>x\<in>set xs. json_valid (d - 1) x)"
  by (cases d) auto

lemma json_valid_JObject:
  "json_valid d (JObject kvs) \<longleftrightarrow>
     0 < d \<and> (\<forall>kv\<in>set kvs. is_cstring (fst kv) \<and> json_valid (d - 1) (snd kv))"
  by (cases d) auto

lemma set_remove_nth: "set (remove_nth i xs) \<subseteq> set xs"
  by (auto simp: remove_nth_def dest: in_set_takeD in_set_dropD)

end
