(* ===== verification/Font_Define.thy ===== *)
theory Font_Define
  imports Prelude
begin

text \<open>
  The constants of \<open>common/include/font_define.h\<close>: result codes, the installation paths, the
  names of files and directories, the limits and the scope values. The operations return codes
  and scope values in one \<open>int32_t\<close>, so the enumerators are integers here as they are there.
\<close>

section \<open>Result codes\<close>

definition ERR_OK :: int where [err_defs]: "ERR_OK = 0"
definition ERR_NO_PERMISSION :: int where [err_defs]: "ERR_NO_PERMISSION = 201"
definition ERR_NOT_SYSTEM_APP :: int where [err_defs]: "ERR_NOT_SYSTEM_APP = 202"
definition ERR_INVALID_PARAM :: int where [err_defs]: "ERR_INVALID_PARAM = 401"
definition ERR_FILE_NOT_EXISTS :: int where [err_defs]: "ERR_FILE_NOT_EXISTS = 31100101"
definition ERR_FILE_VERIFY_FAIL :: int where [err_defs]: "ERR_FILE_VERIFY_FAIL = 31100102"
definition ERR_COPY_FAIL :: int where [err_defs]: "ERR_COPY_FAIL = 31100103"
definition ERR_INSTALLED_ALRADY :: int where [err_defs]: "ERR_INSTALLED_ALRADY = 31100104"
definition ERR_MAX_FILE_COUNT :: int where [err_defs]: "ERR_MAX_FILE_COUNT = 31100105"
definition ERR_INSTALL_FAIL :: int where [err_defs]: "ERR_INSTALL_FAIL = 31100106"
definition ERR_UNINSTALL_FILE_NOT_EXISTS :: int where
  [err_defs]: "ERR_UNINSTALL_FILE_NOT_EXISTS = 31100107"
definition ERR_UNINSTALL_REMOVE_FAIL :: int where [err_defs]: "ERR_UNINSTALL_REMOVE_FAIL = 31100108"
definition ERR_UNINSTALL_FAIL :: int where [err_defs]: "ERR_UNINSTALL_FAIL = 31100109"
definition ERR_SYSTEM_ERROR :: int where [err_defs]: "ERR_SYSTEM_ERROR = 31100110"
definition ERR_DATA_MIGRATIONING :: int where [err_defs]: "ERR_DATA_MIGRATIONING = 31100111"
definition ERR_SCOPE_FONT_NOT_FOUND :: int where [err_defs]: "ERR_SCOPE_FONT_NOT_FOUND = 31100112"
definition ERR_SCOPE_FONT_REPEATED_REGISTER :: int where
  [err_defs]: "ERR_SCOPE_FONT_REPEATED_REGISTER = 31100113"
definition ERR_SCOPE_FONT_EXCEED_REGISTER_LIMIT :: int where
  [err_defs]: "ERR_SCOPE_FONT_EXCEED_REGISTER_LIMIT = 31100114"
definition ERR_SCOPE_FONT_NOT_REGISTERED :: int where
  [err_defs]: "ERR_SCOPE_FONT_NOT_REGISTERED = 31100115"

text \<open>The codes of \<open>DataMigrationResultCode\<close>.\<close>

definition ERR_NOT_NEED_DATA_MIGRATION :: int where [err_defs]: "ERR_NOT_NEED_DATA_MIGRATION = 1"
definition ERR_GET_ALL_USERIDS :: int where [err_defs]: "ERR_GET_ALL_USERIDS = 2"
definition ERR_CHECK_INSTALL_DIR :: int where [err_defs]: "ERR_CHECK_INSTALL_DIR = 3"
definition ERR_INIT_TEMP_DIR :: int where [err_defs]: "ERR_INIT_TEMP_DIR = 4"
definition ERR_OPEN_SRC_FILE :: int where [err_defs]: "ERR_OPEN_SRC_FILE = 5"
definition ERR_COPY_FILE :: int where [err_defs]: "ERR_COPY_FILE = 6"
definition ERR_RENAME_FILE :: int where [err_defs]: "ERR_RENAME_FILE = 7"
definition ERR_REMOVE_SRC_FILE :: int where [err_defs]: "ERR_REMOVE_SRC_FILE = 8"

section \<open>Paths, names and limits\<close>

definition INSTALL_PATH_APP :: string where
  [path_defs]: "INSTALL_PATH_APP = ''/data/service/el1/public/for-all-app/fonts/''"
definition INSTALL_PATH_PREFIX :: string where [path_defs]: "INSTALL_PATH_PREFIX = ''/data/service/el1/''"
definition INSTALL_PATH_SUFFIX :: string where [path_defs]: "INSTALL_PATH_SUFFIX = ''/for-all-app/fonts/''"
definition FONT_CONFIG_FILE :: string where [path_defs]: "FONT_CONFIG_FILE = ''install_fontconfig.json''"
definition TEMP_FILE :: string where [path_defs]: "TEMP_FILE = ''temp/''"
definition EXT_STORAGE_BUNDLE_PARAM_KEY :: string where
  "EXT_STORAGE_BUNDLE_PARAM_KEY = ''const.fontmanager.extstoragebundle''"
definition MAX_INSTALL_NUM_PARAM_KEY :: string where
  "MAX_INSTALL_NUM_PARAM_KEY = ''const.fontmanager.maxinstallnum''"
definition DEFAULT_MAX_INSTALL_NUM :: int where "DEFAULT_MAX_INSTALL_NUM = 200"
definition APP_FONT_DIR_PREFIX :: string where [path_defs]: "APP_FONT_DIR_PREFIX = ''app_''"
definition SESSION_FONT_DIR_PREFIX :: string where [path_defs]: "SESSION_FONT_DIR_PREFIX = ''session_''"
definition FONT_CONFIG_VERSION_7 :: string where "FONT_CONFIG_VERSION_7 = ''7.0''"
definition MAX_SCOPE_FONT_APP_NUM :: int where "MAX_SCOPE_FONT_APP_NUM = 5"
definition FONT_SCOPE_APP :: int where [err_defs]: "FONT_SCOPE_APP = 0"
definition FONT_SCOPE_SESSION :: int where [err_defs]: "FONT_SCOPE_SESSION = 1"
definition FONT_SCOPE_NONE :: int where [err_defs]: "FONT_SCOPE_NONE = -1"

text \<open>
  The installation directory of a user, the expression
  \<open>INSTALL_PATH_PREFIX + std::to_string(userId) + INSTALL_PATH_SUFFIX\<close> that the sources repeat.
\<close>

definition install_path :: "int \<Rightarrow> string" where
  "install_path userId = INSTALL_PATH_PREFIX @ to_string userId @ INSTALL_PATH_SUFFIX"

end
