(* ===== verification/File_System.thy ===== *)
theory File_System
  imports CJSON_Api Font_Define
begin

text \<open>
  What the sources use of POSIX and \<open>std::filesystem\<close>, as explicit state: a file system of
  plain files and directories without symbolic links, the table of open descriptors, and the
  trace of the notifications that leave the process. Any call may be refused: the predicate
  \<open>sys_fault\<close> of the environment says which calls fail, and every theorem is for all of them.
\<close>

section \<open>Paths\<close>

type_synonym path = "string list"

fun split_slash :: "string \<Rightarrow> string list" where
  "split_slash [] = [[]]"
| "split_slash (c # cs) =
     (if c = CHR ''/'' then [] # split_slash cs
      else (case split_slash cs of [] \<Rightarrow> [[c]] | x # xs \<Rightarrow> (c # x) # xs))"

text \<open>
  Path resolution of an absolute path: empty components and \<open>.\<close> are skipped, \<open>..\<close> leaves the
  directory (and stays at the root there). The accumulator holds the components in reverse.
\<close>

fun norm_parts :: "path \<Rightarrow> path \<Rightarrow> path" where
  "norm_parts acc [] = rev acc"
| "norm_parts acc (p # ps) =
     (if p = [] \<or> p = ''.'' then norm_parts acc ps
      else if p = ''..'' then norm_parts (tl acc) ps
      else norm_parts (p # acc) ps)"

definition resolve :: "string \<Rightarrow> path" where
  "resolve s = norm_parts [] (split_slash s)"

definition path_string :: "path \<Rightarrow> string" where
  "path_string p = (if p = [] then ''/'' else concat (map (\<lambda>n. CHR ''/'' # n) p))"

text \<open>A file name: not empty, not \<open>.\<close> or \<open>..\<close>, no separator.\<close>

definition simple_name :: "string \<Rightarrow> bool" where
  "simple_name n \<longleftrightarrow> n \<noteq> [] \<and> n \<noteq> ''.'' \<and> n \<noteq> ''..'' \<and> CHR ''/'' \<notin> set n"

lemma split_slash_not_Nil [simp]: "split_slash s \<noteq> []"
  by (induction s) (auto split: list.splits)

lemma split_slash_append: "split_slash (a @ CHR ''/'' # b) = split_slash a @ split_slash b"
  by (induction a) (auto split: list.splits)

lemma split_slash_single: "CHR ''/'' \<notin> set n \<Longrightarrow> split_slash n = [n]"
  by (induction n) auto

lemma split_slash_no_slash: "p \<in> set (split_slash s) \<Longrightarrow> CHR ''/'' \<notin> set p"
proof (induction s arbitrary: p)
  case (Cons c s)
  show ?case
  proof (cases "c = CHR ''/''")
    case False
    obtain x xs where "split_slash s = x # xs" by (cases "split_slash s") auto
    with False Cons show ?thesis by fastforce
  qed (use Cons in auto)
qed simp

lemma norm_parts_append: "norm_parts acc (ps @ qs) = norm_parts (rev (norm_parts acc ps)) qs"
  by (induction acc ps rule: norm_parts.induct) auto

lemma norm_parts_simple:
  "(\<And>p. p \<in> set acc \<Longrightarrow> simple_name p) \<Longrightarrow> (\<And>p. p \<in> set ps \<Longrightarrow> CHR ''/'' \<notin> set p) \<Longrightarrow>
     q \<in> set (norm_parts acc ps) \<Longrightarrow> simple_name q"
proof (induction acc ps rule: norm_parts.induct)
  case (2 acc p ps)
  then show ?case
    by (auto simp: simple_name_def split: if_splits dest: list.set_sel(2))
      (metis list.sel(2) list.set_sel(2))+
qed auto

lemma resolve_simple: "q \<in> set (resolve s) \<Longrightarrow> simple_name q"
  unfolding resolve_def by (rule norm_parts_simple) (auto dest: split_slash_no_slash)

lemma resolve_append: "resolve (a @ CHR ''/'' # b) = norm_parts (rev (resolve a)) (split_slash b)"
  by (simp add: resolve_def split_slash_append norm_parts_append)

lemma resolve_append_slash: "resolve (a @ ''/'') = resolve a"
  by (simp add: resolve_append)

lemma resolve_append_name:
  "simple_name n \<Longrightarrow> resolve (a @ CHR ''/'' # n) = resolve a @ [n]"
  by (simp add: resolve_append split_slash_single simple_name_def)

lemma resolve_path_string: "(\<And>p. p \<in> set ps \<Longrightarrow> simple_name p) \<Longrightarrow> resolve (path_string ps) = ps"
proof (induction ps rule: rev_induct)
  case (snoc p ps)
  show ?case
  proof (cases "ps = []")
    case True
    with snoc.prems [of p] show ?thesis
      using resolve_append_name [of p "[]"] by (simp add: path_string_def resolve_def)
  next
    case False
    then have "path_string (ps @ [p]) = path_string ps @ CHR ''/'' # p"
      by (simp add: path_string_def)
    with snoc show ?thesis by (simp add: resolve_append_name)
  qed
qed (simp add: path_string_def resolve_def)

section \<open>The environment and the world\<close>

datatype syscall =
    SysExists string
  | SysOpenR string
  | SysOpenW string
  | SysFileno string
  | SysTell string
  | SysMalloc string
  | SysRead string
  | SysMkdir string
  | SysPermissions string
  | SysRename string string
  | SysRemoveAll string
  | SysRemove string
  | SysCanonical string
  | SysReadlink int
  | SysFstat int
  | SysSprintf

text \<open>One answer of \<open>sendfile\<close>: interrupted, failed, or at most so many bytes sent.\<close>

datatype sendfile_result = SfIntr | SfFail | SfSent nat

record tm =
  tm_year :: nat
  tm_mon :: nat
  tm_mday :: nat
  tm_hour :: nat
  tm_min :: nat
  tm_sec :: nat

datatype node = File string | Dir

type_synonym file_tree = "(path \<times> node) list"

datatype FontEventType = INSTALL | UNINSTALL

text \<open>
  The services outside the repository: font parsing (\<open>Rosen::FontToolSet\<close>, by file content), the
  system parameters, the account service, the storage manager, folder sizes; the descriptor an
  opened file gets, and how often the heart-beat thread runs during a migration.
\<close>

record font_env = cjson_api +
  sys_fault :: "syscall \<Rightarrow> bool"
  fwrite_count :: "string \<Rightarrow> nat \<Rightarrow> nat"
  sendfile_script :: "int \<Rightarrow> sendfile_result list"
  GetFontFullName :: "string \<Rightarrow> string list"
  GetIntParameter :: "string \<Rightarrow> int \<Rightarrow> int"
  GetParameter :: "string \<Rightarrow> string \<Rightarrow> string"
  ACCOUNT_ENABLE :: bool
  created_accounts :: "int list"
  local_time :: tm
  thread_hash :: nat
  fileno :: "string \<Rightarrow> int"
  heart_beats :: nat
  GetFolderSize :: "file_tree \<Rightarrow> string \<Rightarrow> nat"
  GetDirFiles :: "file_tree \<Rightarrow> string \<Rightarrow> string list"
  IsEmptyFolder :: "file_tree \<Rightarrow> string \<Rightarrow> bool"
  data_statfs :: "(nat \<times> nat) option"
  samgr_present :: bool
  storage_remote_present :: bool
  storage_iface_ok :: bool
  SetExtBundleStats :: "int \<Rightarrow> string \<Rightarrow> nat \<Rightarrow> int"
  PublishCommonEventAsUser :: "FontEventType \<Rightarrow> string \<Rightarrow> int \<Rightarrow> bool"

text \<open>An open descriptor: the path \<open>readlink\<close> reports, the size \<open>fstat\<close> reports, the bytes there are.\<close>

record fd_info =
  fd_path :: string
  st_size :: int
  fd_data :: string

text \<open>
  The notifications that leave the process: system events (\<open>USER_DATA_SIZE\<close>,
  \<open>FONT_DATA_MIGRATION\<close>), the storage statistics, the font-update broadcast, the calls of the
  migration callback, and the request to unload the service.
\<close>

datatype effect =
    UserDataSize string string nat "string list" "nat list"
  | MigrationState nat nat nat nat nat nat int
  | BundleStats int string nat
  | FontUpdate string FontEventType string int
  | EventProgress nat nat
  | EventResult int
  | EventHeartBeat
  | UnloadService int

record world =
  fs :: file_tree
  fds :: "int \<rightharpoonup> fd_info"
  effects :: "effect list"

definition node_at :: "'a world_scheme \<Rightarrow> path \<Rightarrow> node option" where
  "node_at w p = (if p = [] then Some Dir else map_of (fs w) p)"

definition put_node :: "path \<Rightarrow> node \<Rightarrow> 'a world_scheme \<Rightarrow> 'a world_scheme" where
  "put_node p n w = w\<lparr>fs := AList.update p n (fs w)\<rparr>"

definition drop_tree :: "path \<Rightarrow> 'a world_scheme \<Rightarrow> 'a world_scheme" where
  "drop_tree p w = w\<lparr>fs := filter (\<lambda>(q, n). \<not> prefix p q) (fs w)\<rparr>"

definition emit :: "effect \<Rightarrow> 'a world_scheme \<Rightarrow> 'a world_scheme" where
  "emit e w = w\<lparr>effects := effects w @ [e]\<rparr>"

lemma node_at_put_node [world_simps]:
  "p \<noteq> [] \<Longrightarrow> node_at (put_node p n w) q = (if q = p then Some n else node_at w q)"
  by (auto simp: node_at_def put_node_def)

lemma node_at_drop_tree [world_simps]:
  "node_at (drop_tree p w) q = (if q \<noteq> [] \<and> prefix p q then None else node_at w q)"
  by (auto simp: node_at_def drop_tree_def map_of_filter_key)

lemma node_at_emit [world_simps]: "node_at (emit e w) q = node_at w q"
  by (simp add: node_at_def emit_def)

lemma fds_world [world_simps]:
  "fds (put_node p n w) = fds w" "fds (drop_tree p w) = fds w" "fds (emit e w) = fds w"
  by (simp_all add: put_node_def drop_tree_def emit_def)

lemma effects_world [world_simps]:
  "effects (put_node p n w) = effects w" "effects (drop_tree p w) = effects w"
  "effects (emit e w) = effects w @ [e]"
  by (simp_all add: put_node_def drop_tree_def emit_def)

lemma more_world [world_simps]:
  "world.more (put_node p n w) = world.more w" "world.more (drop_tree p w) = world.more w"
  "world.more (emit e w) = world.more w"
  by (cases w; simp add: put_node_def drop_tree_def emit_def)+

lemma fs_emit [world_simps]: "fs (emit e w) = fs w"
  by (simp add: emit_def)

lemma node_at_Nil [world_simps]: "node_at w [] = Some Dir"
  by (simp add: node_at_def)

section \<open>The calls on paths\<close>

text \<open>A trailing separator asks for a directory.\<close>

definition wants_dir :: "string \<Rightarrow> bool" where
  "wants_dir s \<longleftrightarrow> s \<noteq> [] \<and> last s = CHR ''/''"

definition path_exists :: "'a world_scheme \<Rightarrow> string \<Rightarrow> bool" where
  "path_exists w s =
     (case node_at w (resolve s) of
        None \<Rightarrow> False | Some Dir \<Rightarrow> True | Some (File d) \<Rightarrow> \<not> wants_dir s)"

definition file_content :: "'a world_scheme \<Rightarrow> string \<Rightarrow> string option" where
  "file_content w s =
     (case node_at w (resolve s) of Some (File d) \<Rightarrow> if wants_dir s then None else Some d | _ \<Rightarrow> None)"

definition can_create :: "'a world_scheme \<Rightarrow> string \<Rightarrow> bool" where
  "can_create w s \<longleftrightarrow>
     resolve s \<noteq> [] \<and> node_at w (butlast (resolve s)) = Some Dir"

text \<open>\<open>fopen (s, "r")\<close>: the content of the file, if it can be opened.\<close>

definition fopen_r :: "'e font_env_scheme \<Rightarrow> 'a world_scheme \<Rightarrow> string \<Rightarrow> string option" where
  "fopen_r E w s = (if sys_fault E (SysOpenR s) then None else file_content w s)"

text \<open>\<open>fopen (s, "w")\<close>: the file is created or truncated, if it can be opened.\<close>

definition fopen_w :: "'e font_env_scheme \<Rightarrow> 'a world_scheme \<Rightarrow> string \<Rightarrow> 'a world_scheme option" where
  "fopen_w E w s =
     (if sys_fault E (SysOpenW s) \<or> wants_dir s \<or> \<not> can_create w s
         \<or> node_at w (resolve s) = Some Dir then None
      else Some (put_node (resolve s) (File []) w))"

text \<open>
  \<open>fwrite\<close> of a whole text to a file just opened for writing: how many bytes arrive is up to the
  environment; the count is returned.
\<close>

definition fwrite_all ::
    "'e font_env_scheme \<Rightarrow> 'a world_scheme \<Rightarrow> string \<Rightarrow> string \<Rightarrow> nat \<times> 'a world_scheme" where
  "fwrite_all E w s text =
     (let n = min (fwrite_count E s (length text)) (length text)
      in (n, put_node (resolve s) (File (take n text)) w))"

text \<open>\<open>std::filesystem::create_directory\<close>: no error when the directory is there already.\<close>

definition create_directory ::
    "'e font_env_scheme \<Rightarrow> 'a world_scheme \<Rightarrow> string \<Rightarrow> bool \<times> 'a world_scheme" where
  "create_directory E w s =
     (if sys_fault E (SysMkdir s) then (False, w)
      else case node_at w (resolve s) of
        Some Dir \<Rightarrow> (True, w)
      | Some (File d) \<Rightarrow> (False, w)
      | None \<Rightarrow> if can_create w s then (True, put_node (resolve s) Dir w) else (False, w))"

text \<open>\<open>std::filesystem::rename\<close> of a plain file.\<close>

definition rename_file ::
    "'e font_env_scheme \<Rightarrow> 'a world_scheme \<Rightarrow> string \<Rightarrow> string \<Rightarrow> bool \<times> 'a world_scheme" where
  "rename_file E w src dest =
     (if sys_fault E (SysRename src dest) \<or> wants_dir dest \<or> \<not> can_create w dest
         \<or> node_at w (resolve dest) = Some Dir then (False, w)
      else case file_content w src of
        None \<Rightarrow> (False, w)
      | Some d \<Rightarrow> (True, put_node (resolve dest) (File d) (drop_tree (resolve src) w)))"

text \<open>\<open>std::filesystem::remove_all\<close>; nothing to remove is no error.\<close>

definition remove_all ::
    "'e font_env_scheme \<Rightarrow> 'a world_scheme \<Rightarrow> string \<Rightarrow> bool \<times> 'a world_scheme" where
  "remove_all E w s =
     (if sys_fault E (SysRemoveAll s) then (False, w) else (True, drop_tree (resolve s) w))"

text \<open>
  \<open>std::filesystem::weakly_canonical\<close>: without symbolic links the canonical form is the lexical
  one. \<open>None\<close> is an error code.
\<close>

definition weakly_canonical :: "'e font_env_scheme \<Rightarrow> string \<Rightarrow> string option" where
  "weakly_canonical E s =
     (if sys_fault E (SysCanonical s) then None else Some (path_string (resolve s)))"

text \<open>\<open>directory_iterator\<close>: the entries of a directory, in the order the file tree lists them.\<close>

definition dir_entries :: "'a world_scheme \<Rightarrow> path \<Rightarrow> (string \<times> node) list" where
  "dir_entries w p =
     map (\<lambda>(q, n). (last q, n)) (filter (\<lambda>(q, n). q \<noteq> [] \<and> butlast q = p) (fs w))"

section \<open>The installation directory\<close>

lemma resolve_install_path:
  "resolve (install_path u) = [''data'', ''service'', ''el1'', to_string u, ''for-all-app'', ''fonts'']"
proof -
  have *: "install_path u = ''/data/service/el1'' @ CHR ''/'' # (to_string u @ CHR ''/'' # ''for-all-app/fonts/'')"
    by (simp add: install_path_def path_defs)
  show ?thesis
    unfolding * resolve_append split_slash_append
    by (simp add: norm_parts_append split_slash_single resolve_def)
qed

lemma install_path_slash: "\<exists>a. install_path u = a @ ''/''"
  by (simp add: install_path_def path_defs)

lemma install_path_eq:
  "install_path u = (INSTALL_PATH_PREFIX @ to_string u @ ''/for-all-app/fonts'') @ ''/''"
  by (simp add: install_path_def path_defs)

lemma resolve_install_path_name:
  "simple_name n \<Longrightarrow> resolve (install_path u @ n) = resolve (install_path u) @ [n]"
  using resolve_append_name [of n "INSTALL_PATH_PREFIX @ to_string u @ ''/for-all-app/fonts''"]
  by (simp add: install_path_eq resolve_append_slash [of "INSTALL_PATH_PREFIX @ to_string u @ ''/for-all-app/fonts''", simplified])

end
