(* ===== verification/Adapters.thy ===== *)
theory Adapters
  imports File_System
begin

text \<open>
  The three adapters that report to the rest of the system: \<open>hisysevent_adapter.cpp\<close>,
  \<open>storage_manager_adapter.cpp\<close> and \<open>font_event_publish.cpp\<close>. Each appends to the trace what it
  sends and leaves the file system alone.
\<close>

definition UINT64_MAX :: nat where "UINT64_MAX = 2 ^ 64 - 1"

text \<open>\<open>freeBlocks * blockSize\<close> is computed in 64 bits and wraps; the result is in megabytes.\<close>

definition GetDataPartitionRemainSize :: "'e font_env_scheme \<Rightarrow> nat" where
  "GetDataPartitionRemainSize E =
     (case data_statfs E of
        None \<Rightarrow> UINT64_MAX
      | Some (f_bsize, f_bavail) \<Rightarrow> (f_bavail * f_bsize) mod 2 ^ 64 div (1024 * 1024))"

definition DATA_PARTITION_NAME :: string where "DATA_PARTITION_NAME = ''/data''"
definition COMPONENT_NAME :: string where "COMPONENT_NAME = ''font_manager''"

definition GetFileOrFolderPath :: "string \<Rightarrow> string list" where
  "GetFileOrFolderPath path = [path]"

definition GetFileOrFolderSize :: "'e font_env_scheme \<Rightarrow> file_tree \<Rightarrow> string \<Rightarrow> nat list" where
  "GetFileOrFolderSize E t path = [GetFolderSize E t path mod 2 ^ 64]"

definition CollectUserDataSize ::
    "'e font_env_scheme \<Rightarrow> 'a world_scheme \<Rightarrow> string \<Rightarrow> 'a world_scheme" where
  "CollectUserDataSize E w path =
     (let remainPartitionSize = GetDataPartitionRemainSize E;
          fileOrFolderPath = GetFileOrFolderPath path;
          fileOrFolderSize = GetFileOrFolderSize E (fs w) path
      in emit (UserDataSize COMPONENT_NAME DATA_PARTITION_NAME remainPartitionSize fileOrFolderPath fileOrFolderSize) w)"

definition CollectDataMigrationState ::
    "'e font_env_scheme \<Rightarrow> 'a world_scheme \<Rightarrow> int list \<Rightarrow> int \<Rightarrow> 'a world_scheme" where
  "CollectDataMigrationState E w userIds result =
     (let (count, size, userCount) =
            (if userIds \<noteq> [] then
               (length (GetDirFiles E (fs w) (install_path (last userIds))) mod 2 ^ 32,
                GetFolderSize E (fs w) (install_path (last userIds)) mod 2 ^ 64,
                length userIds mod 2 ^ 32)
             else (0, 0, 0));
          errCount = length (GetDirFiles E (fs w) INSTALL_PATH_APP) mod 2 ^ 32;
          errSize = GetFolderSize E (fs w) INSTALL_PATH_APP mod 2 ^ 64;
          freeRom = GetDataPartitionRemainSize E
      in emit (MigrationState count size errCount errSize userCount freeRom result) w)"

definition GetFontInstallerBusinessName :: "'e font_env_scheme \<Rightarrow> string" where
  "GetFontInstallerBusinessName E = GetParameter E EXT_STORAGE_BUNDLE_PARAM_KEY []"

definition GetFontFolderSize :: "'e font_env_scheme \<Rightarrow> file_tree \<Rightarrow> string \<Rightarrow> nat" where
  "GetFontFolderSize E t installPath = GetFolderSize E t installPath mod 2 ^ 64"

definition GetStorageManagerProxy ::
    "'e font_env_scheme \<Rightarrow> (int \<Rightarrow> string \<Rightarrow> nat \<Rightarrow> int) option" where
  "GetStorageManagerProxy E =
     (if \<not> samgr_present E then None
      else if \<not> storage_remote_present E then None
      else if \<not> storage_iface_ok E then None
      else Some (SetExtBundleStats E))"

definition ReportFontBundleStats ::
    "'e font_env_scheme \<Rightarrow> 'a world_scheme \<Rightarrow> int \<Rightarrow> string \<Rightarrow> int \<times> 'a world_scheme" where
  "ReportFontBundleStats E w userId installPath =
     (let businessName = GetFontInstallerBusinessName E in
      if businessName = [] then (ERR_INVALID_PARAM, w)
      else
        let size = GetFontFolderSize E (fs w) installPath in
        case GetStorageManagerProxy E of
          None \<Rightarrow> (ERR_SYSTEM_ERROR, w)
        | Some proxy \<Rightarrow> (proxy userId businessName size, emit (BundleStats userId businessName size) w))"

definition FONT_UPDATE_FOR_POLICY :: string where "FONT_UPDATE_FOR_POLICY = ''usual.event.FONT_UPDATE_FOR_POLICY''"

definition PublishFontUpdate ::
    "'e font_env_scheme \<Rightarrow> 'a world_scheme \<Rightarrow> FontEventType \<Rightarrow> string \<Rightarrow> int \<Rightarrow> bool \<times> 'a world_scheme"
  where
  "PublishFontUpdate E w eventType fullName userId =
     (PublishCommonEventAsUser E eventType fullName userId,
      emit (FontUpdate FONT_UPDATE_FOR_POLICY eventType fullName userId) w)"

text \<open>The three reports that end a successful operation, in the order the sources make them.\<close>

lemma fs_reports [world_simps]:
  "fs (CollectUserDataSize E w p) = fs w"
  "fs (CollectDataMigrationState E w ids r) = fs w"
  "fs (snd (ReportFontBundleStats E w u p)) = fs w"
  "fs (snd (PublishFontUpdate E w t n u)) = fs w"
  by (simp_all add: CollectUserDataSize_def CollectDataMigrationState_def
      ReportFontBundleStats_def PublishFontUpdate_def Let_def fs_emit split: option.split)

lemma node_at_cong_fs: "fs w = fs w' \<Longrightarrow> node_at w q = node_at w' q"
  by (simp add: node_at_def)

lemma node_at_reports [world_simps]:
  "node_at (CollectUserDataSize E w p) q = node_at w q"
  "node_at (snd (ReportFontBundleStats E w u p)) q = node_at w q"
  "node_at (snd (PublishFontUpdate E w t n u)) q = node_at w q"
  by (rule node_at_cong_fs, simp add: world_simps)+

lemma fds_reports [world_simps]:
  "fds (CollectUserDataSize E w p) = fds w"
  "fds (snd (ReportFontBundleStats E w u p)) = fds w"
  "fds (snd (PublishFontUpdate E w t n u)) = fds w"
  by (simp_all add: CollectUserDataSize_def ReportFontBundleStats_def PublishFontUpdate_def
      Let_def world_simps split: option.split)

end
