(* ===== verification/Font_Utils.thy ===== *)
theory Font_Utils
  imports Adapters
begin

text \<open>
  \<open>FontManagerUtils\<close> (\<open>frameworks/fontmgr/src/font_manager_utils.cpp\<close>): file names, directory set-up,
  copying, renaming and removing, and the sweeps over the per-application directories.
\<close>

definition MAX_FONT_FILE_SIZE :: int where "MAX_FONT_FILE_SIZE = 1024 * 1024 * 1024"
definition TIME_STRING_LENGTH :: nat where "TIME_STRING_LENGTH = 20"
definition BEGIN_YEAR :: nat where "BEGIN_YEAR = 1900"

section \<open>Names\<close>

definition GetFileName :: "string \<Rightarrow> string" where
  "GetFileName path =
     (case find_last_of path (CHR ''/'') of None \<Rightarrow> path | Some pos \<Rightarrow> drop (pos + 1) path)"

definition GetFileDirectory :: "string \<Rightarrow> string" where
  "GetFileDirectory path =
     (case find_last_of path (CHR ''/'') of None \<Rightarrow> [] | Some pos \<Rightarrow> take (pos + 1) path)"

definition MakeAppIdentifier :: "int \<Rightarrow> int \<Rightarrow> string" where
  "MakeAppIdentifier scope_value tokenId =
     (if scope_value = FONT_SCOPE_APP then APP_FONT_DIR_PREFIX @ to_string tokenId
      else SESSION_FONT_DIR_PREFIX @ to_string tokenId)"

text \<open>\<open>sprintf_s\<close> with \<open>%04u%02d%02d-%02d%02d%02d\<close> into a buffer of 20 bytes.\<close>

definition pad_zero :: "nat \<Rightarrow> nat \<Rightarrow> string" where
  "pad_zero n d = replicate (n - length (nat_digits d)) (CHR ''0'') @ nat_digits d"

definition GetFileTime :: "'e font_env_scheme \<Rightarrow> string" where
  "GetFileTime E =
     (let t = local_time E;
          text = pad_zero 4 (tm_year t + BEGIN_YEAR) @ pad_zero 2 (tm_mon t + 1) @ pad_zero 2 (tm_mday t)
             @ ''-'' @ pad_zero 2 (tm_hour t) @ pad_zero 2 (tm_min t) @ pad_zero 2 (tm_sec t)
      in if sys_fault E SysSprintf \<or> TIME_STRING_LENGTH \<le> length text then [] else text)"

section \<open>Paths and files\<close>

definition CheckPathExist :: "'e font_env_scheme \<Rightarrow> 'a world_scheme \<Rightarrow> string \<Rightarrow> bool" where
  "CheckPathExist E w pathName =
     (if pathName = [] then False
      else if sys_fault E (SysExists pathName) then False
      else path_exists w pathName)"

definition forbidden_path :: "string \<Rightarrow> bool" where
  "forbidden_path s \<longleftrightarrow> s = [] \<or> sublist ''/.'' s \<or> sublist ''./'' s"

definition CreateFileWithPermission ::
    "'e font_env_scheme \<Rightarrow> 'a world_scheme \<Rightarrow> string \<Rightarrow> string \<Rightarrow> bool \<times> 'a world_scheme" where
  "CreateFileWithPermission E w filePath defaultStr =
     (if forbidden_path filePath then (False, w)
      else case fopen_w E w filePath of
        None \<Rightarrow> (False, w)
      | Some w1 \<Rightarrow>
          let w2 = (if defaultStr \<noteq> [] then snd (fwrite_all E w1 filePath defaultStr) else w1)
          in if sys_fault E (SysPermissions filePath) then (False, w2) else (True, w2))"

definition CreateDirWithPermission ::
    "'e font_env_scheme \<Rightarrow> 'a world_scheme \<Rightarrow> string \<Rightarrow> bool \<times> 'a world_scheme" where
  "CreateDirWithPermission E w fileDir =
     (if forbidden_path fileDir then (False, w)
      else case create_directory E w fileDir of
        (False, w1) \<Rightarrow> (False, w1)
      | (True, w1) \<Rightarrow> if sys_fault E (SysPermissions fileDir) then (False, w1) else (True, w1))"

text \<open>The text of a fresh configuration file, the raw string literal of \<open>CheckFontConfigPath\<close>.\<close>

definition default_config_text :: string where
  "default_config_text =
     ''{'' @ [CHR 0x0A] @ ''        '' @ [CHR 0x22] @ ''fontlist'' @ [CHR 0x22] @ '': [],'' @ [CHR 0x0A]
     @ ''        '' @ [CHR 0x22] @ ''version'' @ [CHR 0x22] @ '': '' @ [CHR 0x22] @ ''7.0'' @ [CHR 0x22]
     @ [CHR 0x0A] @ ''    }''"

definition CheckFontConfigPath ::
    "'e font_env_scheme \<Rightarrow> 'a world_scheme \<Rightarrow> string \<Rightarrow> bool \<times> 'a world_scheme" where
  "CheckFontConfigPath E w installPath =
     (if CheckPathExist E w (installPath @ FONT_CONFIG_FILE) then (True, w)
      else CreateFileWithPermission E w (installPath @ FONT_CONFIG_FILE) default_config_text)"

text \<open>The part \<open>CheckAndInitInstallPath\<close> and \<open>CheckAndInitScopeFontPath\<close> share: one directory.\<close>

definition ensure_dir :: "'e font_env_scheme \<Rightarrow> 'a world_scheme \<Rightarrow> string \<Rightarrow> bool \<times> 'a world_scheme" where
  "ensure_dir E w p = (if \<not> CheckPathExist E w p then CreateDirWithPermission E w p else (True, w))"

definition CheckAndInitScopeFontPath ::
    "'e font_env_scheme \<Rightarrow> 'a world_scheme \<Rightarrow> string \<Rightarrow> bool \<times> 'a world_scheme" where
  "CheckAndInitScopeFontPath E w installPath =
     (case ensure_dir E w installPath of
        (False, w1) \<Rightarrow> (False, w1)
      | (True, w1) \<Rightarrow>
          (case ensure_dir E w1 (installPath @ TEMP_FILE) of
             (False, w2) \<Rightarrow> (False, w2)
           | (True, w2) \<Rightarrow> (True, w2)))"

definition CheckAndInitInstallPath ::
    "'e font_env_scheme \<Rightarrow> 'a world_scheme \<Rightarrow> string \<Rightarrow> bool \<times> 'a world_scheme" where
  "CheckAndInitInstallPath E w installPath =
     (case ensure_dir E w installPath of
        (False, w1) \<Rightarrow> (False, w1)
      | (True, w1) \<Rightarrow>
          (case ensure_dir E w1 (installPath @ TEMP_FILE) of
             (False, w2) \<Rightarrow> (False, w2)
           | (True, w2) \<Rightarrow> CheckFontConfigPath E w2 installPath))"

definition RemoveAll :: "'e font_env_scheme \<Rightarrow> 'a world_scheme \<Rightarrow> string \<Rightarrow> bool \<times> 'a world_scheme" where
  "RemoveAll E w p = remove_all E w p"

definition RemoveFile :: "'e font_env_scheme \<Rightarrow> 'a world_scheme \<Rightarrow> string \<Rightarrow> bool \<times> 'a world_scheme" where
  "RemoveFile E w fileName =
     (if \<not> CheckPathExist E w fileName then (True, w) else RemoveAll E w fileName)"

definition DeleteDir :: "'e font_env_scheme \<Rightarrow> 'a world_scheme \<Rightarrow> string \<Rightarrow> bool \<Rightarrow> 'a world_scheme" where
  "DeleteDir E w rootPath isDeleteRootDir =
     (if \<not> CheckPathExist E w rootPath then w
      else if isDeleteRootDir then snd (RemoveAll E w rootPath)
      else foldl (\<lambda>w1 (name, n). snd (RemoveAll E w1 (path_string (resolve rootPath @ [name])))) w
             (dir_entries w (resolve rootPath)))"

definition RenameFile ::
    "'e font_env_scheme \<Rightarrow> 'a world_scheme \<Rightarrow> string \<Rightarrow> string \<Rightarrow> bool \<times> 'a world_scheme" where
  "RenameFile E w src dest =
     (if \<not> CheckPathExist E w src then (False, w) else rename_file E w src dest)"

section \<open>Copying through descriptors\<close>

text \<open>
  The loop of \<open>CopyFileByFd\<close>. The first argument lists the answers the kernel has in store for
  \<open>sendfile\<close>; once it is used up the rest arrives in one piece, so the loop ends (an endless run
  of \<open>EINTR\<close> is not modelled). \<open>avail\<close> is the number of bytes the source really has. The result
  is the loop's verdict and the number of bytes that reached the target.
\<close>

primrec send_loop :: "sendfile_result list \<Rightarrow> nat \<Rightarrow> nat \<Rightarrow> nat \<Rightarrow> bool \<times> nat" where
  "send_loop [] avail fileSize bytesSent =
     (if bytesSent < fileSize then
        (if fileSize \<le> avail then (True, fileSize) else (False, max bytesSent avail))
      else (True, bytesSent))"
| "send_loop (a # as) avail fileSize bytesSent =
     (if bytesSent < fileSize then
        (case a of
           SfIntr \<Rightarrow> send_loop as avail fileSize bytesSent
         | SfFail \<Rightarrow> (False, bytesSent)
         | SfSent n \<Rightarrow>
             let ret = min n (min (fileSize - bytesSent) (avail - bytesSent))
             in if ret = 0 then (False, bytesSent)
                else send_loop as avail fileSize (bytesSent + ret))
      else (True, bytesSent))"

definition CopyFileByFd ::
    "'e font_env_scheme \<Rightarrow> 'a world_scheme \<Rightarrow> int \<Rightarrow> string \<Rightarrow> bool \<times> 'a world_scheme" where
  "CopyFileByFd E w sourceFd target =
     (if sourceFd < 0 then (False, w)
      else case fds w sourceFd of
        None \<Rightarrow> (False, w)
      | Some sourceStat \<Rightarrow>
          if sys_fault E (SysFstat sourceFd) then (False, w)
          else if st_size sourceStat < 0 \<or> st_size sourceStat > MAX_FONT_FILE_SIZE then (False, w)
          else
            let (ret, n) = send_loop (sendfile_script E sourceFd) (length (fd_data sourceStat))
                             (nat (st_size sourceStat)) 0
            in (ret, put_node (resolve target) (File (take n (fd_data sourceStat))) w))"

definition CopyFile ::
    "'e font_env_scheme \<Rightarrow> 'a world_scheme \<Rightarrow> int \<Rightarrow> string \<Rightarrow> bool \<times> 'a world_scheme" where
  "CopyFile E w sourceFd path =
     (case fopen_w E w path of
        None \<Rightarrow> (False, w)
      | Some w1 \<Rightarrow>
          if sys_fault E (SysFileno path) then (False, w1) else CopyFileByFd E w1 sourceFd path)"

definition PATH_MAX :: nat where "PATH_MAX = 4096"

definition GetFilePathByFd :: "'e font_env_scheme \<Rightarrow> 'a world_scheme \<Rightarrow> int \<Rightarrow> string" where
  "GetFilePathByFd E w fd =
     (case fds w fd of
        None \<Rightarrow> []
      | Some i \<Rightarrow> if sys_fault E (SysReadlink fd) then [] else c_str (take (PATH_MAX - 1) (fd_path i)))"

definition GetFullNamesByFd :: "'e font_env_scheme \<Rightarrow> 'a world_scheme \<Rightarrow> int \<Rightarrow> string list" where
  "GetFullNamesByFd E w fd =
     (case fds w fd of
        None \<Rightarrow> []
      | Some i \<Rightarrow>
          if sys_fault E (SysFstat fd) then []
          else if st_size i < 0 \<or> st_size i > MAX_FONT_FILE_SIZE then []
          else GetFontFullName E (fd_data i))"

definition GetFullNamesByPath :: "'e font_env_scheme \<Rightarrow> 'a world_scheme \<Rightarrow> string \<Rightarrow> string list" where
  "GetFullNamesByPath E w path =
     (case fopen_r E w path of
        None \<Rightarrow> []
      | Some d \<Rightarrow> if sys_fault E (SysFileno path) then [] else GetFontFullName E d)"

section \<open>Sweeps over the users' directories\<close>

definition GetAllCreatedUserIds :: "'e font_env_scheme \<Rightarrow> int list" where
  "GetAllCreatedUserIds E = (if ACCOUNT_ENABLE E then created_accounts E else [])"

definition ClearAllTempFileDir :: "'e font_env_scheme \<Rightarrow> 'a world_scheme \<Rightarrow> 'a world_scheme" where
  "ClearAllTempFileDir E w =
     foldl (\<lambda>w1 userId.
              let installPath = install_path userId in
              if CheckPathExist E w1 (installPath @ TEMP_FILE)
              then DeleteDir E w1 (installPath @ TEMP_FILE) True else w1)
       w (GetAllCreatedUserIds E)"

definition app_or_session_dir :: "string \<Rightarrow> bool" where
  "app_or_session_dir dirName \<longleftrightarrow>
     \<not> (\<not> prefix APP_FONT_DIR_PREFIX dirName \<and> \<not> prefix SESSION_FONT_DIR_PREFIX dirName)"

text \<open>
  One entry of a user's directory: the temporary directory of an application goes, and the
  application's directory is noted for removal when nothing is left in it.
\<close>

definition scan_scope_dir ::
    "'e font_env_scheme \<Rightarrow> string \<Rightarrow> 'a world_scheme \<times> string list \<Rightarrow> string \<times> node
       \<Rightarrow> 'a world_scheme \<times> string list" where
  "scan_scope_dir E installPath acc entry =
     (let (w, dirsToRemove) = acc; (dirName, n) = entry in
      if n \<noteq> Dir \<or> \<not> app_or_session_dir dirName then (w, dirsToRemove)
      else
        let dirPath = installPath @ dirName;
            tempPath = dirPath @ ''/'' @ TEMP_FILE;
            w1 = (if CheckPathExist E w tempPath then DeleteDir E w tempPath True else w)
        in if \<not> sys_fault E (SysExists dirPath) \<and> dir_entries w1 (resolve dirPath) = []
           then (w1, dirsToRemove @ [dirPath]) else (w1, dirsToRemove))"

definition remove_scope_dir :: "'e font_env_scheme \<Rightarrow> 'a world_scheme \<Rightarrow> string \<Rightarrow> 'a world_scheme" where
  "remove_scope_dir E w dirPath =
     (if sys_fault E (SysRemove dirPath) then w else drop_tree (resolve dirPath) w)"

definition CleanupScopeFontDirs :: "'e font_env_scheme \<Rightarrow> 'a world_scheme \<Rightarrow> 'a world_scheme" where
  "CleanupScopeFontDirs E w =
     foldl (\<lambda>w1 userId.
              let installPath = install_path userId in
              if \<not> CheckPathExist E w1 installPath then w1
              else
                let (w2, dirsToRemove) =
                  foldl (scan_scope_dir E installPath) (w1, []) (dir_entries w1 (resolve installPath))
                in foldl (remove_scope_dir E) w2 dirsToRemove)
       w (GetAllCreatedUserIds E)"

definition matching_dirs ::
    "'a world_scheme \<Rightarrow> (string \<Rightarrow> bool) \<Rightarrow> string \<Rightarrow> string list" where
  "matching_dirs w P installPath =
     map (\<lambda>(dirName, n). installPath @ dirName)
       (filter (\<lambda>(dirName, n). n = Dir \<and> P dirName) (dir_entries w (resolve installPath)))"

definition CleanupAllScopeFontDirs :: "'e font_env_scheme \<Rightarrow> 'a world_scheme \<Rightarrow> 'a world_scheme" where
  "CleanupAllScopeFontDirs E w =
     foldl (\<lambda>w1 userId.
              let installPath = install_path userId in
              if \<not> CheckPathExist E w1 installPath then w1
              else foldl (\<lambda>w2 dirPath. DeleteDir E w2 dirPath True) w1
                     (matching_dirs w1 app_or_session_dir installPath))
       w (GetAllCreatedUserIds E)"

definition CleanupAppScopeFontDirs :: "'e font_env_scheme \<Rightarrow> 'a world_scheme \<Rightarrow> 'a world_scheme" where
  "CleanupAppScopeFontDirs E w =
     foldl (\<lambda>w1 userId.
              let installPath = install_path userId in
              if \<not> CheckPathExist E w1 installPath then w1
              else foldl (\<lambda>w2 dirPath. DeleteDir E w2 dirPath True) w1
                     (matching_dirs w1 (prefix APP_FONT_DIR_PREFIX) installPath))
       w (GetAllCreatedUserIds E)"

section \<open>File names\<close>

lemma GetFileName_no_slash: "CHR ''/'' \<notin> set (GetFileName p)"
  by (auto simp: GetFileName_def find_last_of_None split: option.split dest: find_last_of_SomeD)

lemma GetFileDirectory_GetFileName: "GetFileDirectory p @ GetFileName p = p"
  by (simp add: GetFileDirectory_def GetFileName_def split: option.split)

lemma GetFileName_append: "CHR ''/'' \<notin> set n \<Longrightarrow> GetFileName (d @ CHR ''/'' # n) = n"
  by (simp add: GetFileName_def find_last_of_append)

lemma MakeAppIdentifier_inj:
  assumes "a \<in> {FONT_SCOPE_APP, FONT_SCOPE_SESSION}" "b \<in> {FONT_SCOPE_APP, FONT_SCOPE_SESSION}"
  shows "MakeAppIdentifier a t = MakeAppIdentifier b u \<longleftrightarrow> a = b \<and> t = u"
  using assms by (auto simp: MakeAppIdentifier_def path_defs err_defs)

lemma simple_name_MakeAppIdentifier: "simple_name (MakeAppIdentifier s t)"
  by (simp add: simple_name_def MakeAppIdentifier_def path_defs)

section \<open>The copying loop\<close>

lemma send_loop_complete_from:
  "send_loop as avail fileSize s = (True, n) \<Longrightarrow> s \<le> avail \<Longrightarrow> s \<le> fileSize \<Longrightarrow>
     n = fileSize \<and> fileSize \<le> avail"
proof (induction as arbitrary: s)
  case Nil
  then show ?case by (auto split: if_splits)
next
  case (Cons a as)
  show ?case
  proof (cases "s < fileSize")
    case False
    with Cons.prems show ?thesis by simp
  next
    case less: True
    show ?thesis
    proof (cases a)
      case SfIntr
      with less Cons.prems(1) have "send_loop as avail fileSize s = (True, n)" by simp
      then show ?thesis using Cons.prems(2,3) by (rule Cons.IH)
    next
      case SfFail
      with less Cons.prems(1) show ?thesis by simp
    next
      case (SfSent k)
      define r where "r = min k (min (fileSize - s) (avail - s))"
      have le: "s + r \<le> avail" "s + r \<le> fileSize"
        using Cons.prems(2,3) unfolding r_def by linarith+
      from less Cons.prems(1) SfSent have "send_loop as avail fileSize (s + r) = (True, n)"
        by (simp add: Let_def r_def [symmetric] split: if_splits)
      then show ?thesis using le by (rule Cons.IH)
    qed
  qed
qed

lemma send_loop_complete:
  "send_loop as avail fileSize 0 = (True, n) \<Longrightarrow> n = fileSize \<and> fileSize \<le> avail"
  using send_loop_complete_from [of as avail fileSize 0 n] by simp

text \<open>When the source has all the bytes \<open>fstat\<close> promises and the kernel makes progress, the loop succeeds.\<close>

lemma send_loop_progress:
  "fileSize \<le> avail \<Longrightarrow> \<forall>a\<in>set as. a = SfIntr \<or> (\<exists>n>0. a = SfSent n) \<Longrightarrow> s \<le> fileSize \<Longrightarrow>
     send_loop as avail fileSize s = (True, fileSize)"
proof (induction as arbitrary: s)
  case Nil
  then show ?case by simp
next
  case (Cons a as)
  show ?case
  proof (cases "s < fileSize")
    case False
    with Cons.prems show ?thesis by simp
  next
    case less: True
    from Cons.prems(2) consider "a = SfIntr" | k where "a = SfSent k" "0 < k" by auto
    then show ?thesis
    proof cases
      case 1
      with less Cons show ?thesis by simp
    next
      case 2
      define r where "r = min k (min (fileSize - s) (avail - s))"
      have "0 < r" "s + r \<le> fileSize"
        using less 2 Cons.prems(1) by (simp_all add: r_def)
      moreover have "send_loop as avail fileSize (s + r) = (True, fileSize)"
        using Cons.prems(1,2) \<open>s + r \<le> fileSize\<close> by (intro Cons.IH) auto
      ultimately show ?thesis using less 2 by (simp add: Let_def r_def [symmetric])
    qed
  qed
qed

end
