(* ===== verification/Font_Config.thy ===== *)
theory Font_Config
  imports Font_Utils "HOL-Library.Monad_Syntax"
begin

text \<open>
  \<open>FontConfig\<close> (\<open>frameworks/fontmgr/src/font_config.cpp\<close>): the record file
  \<open>install_fontconfig.json\<close> of one user. Every operation reads and parses the whole file, looks at
  or changes the array \<open>fontlist\<close>, and writes the whole file back. The lock each operation takes
  makes it atomic, so an operation is one state transformer.
\<close>

definition FONT_PATH :: string where "FONT_PATH = ''fontfullpath''"
definition FONT_FULL_NAME :: string where "FONT_FULL_NAME = ''fullname''"
definition FONT_SCOPE :: string where "FONT_SCOPE = ''scope''"
definition FONT_SRC_PATH :: string where "FONT_SRC_PATH = ''srcPath''"
definition FONT_APP_IDENTIFIER :: string where "FONT_APP_IDENTIFIER = ''appIdentifier''"
definition FONT_BUNDLE_NAME :: string where "FONT_BUNDLE_NAME = ''bundleName''"
definition FONT_VERSION :: string where "FONT_VERSION = ''version''"
definition FONT_LIST :: string where "FONT_LIST = ''fontlist''"
definition VERSION :: int where "VERSION = 1"

record FontRecordInfo =
  fr_fontPath :: string
  fr_fullNames :: "string list"
  fr_scope :: int
  fr_srcPath :: string
  fr_appIdentifier :: string
  fr_bundleName :: string

definition empty_record :: FontRecordInfo where
  "empty_record = \<lparr>fr_fontPath = [], fr_fullNames = [], fr_scope = -1, fr_srcPath = [],
     fr_appIdentifier = [], fr_bundleName = []\<rparr>"

record FontConfig =
  ConfigPath :: string

section \<open>The file\<close>

definition GetFileData ::
    "'e font_env_scheme \<Rightarrow> 'a world_scheme \<Rightarrow> string \<Rightarrow> (string \<times> int) option" where
  "GetFileData E w filePath =
     (case fopen_r E w filePath of
        None \<Rightarrow> None
      | Some content \<Rightarrow>
          let fileSize = (if sys_fault E (SysTell filePath) then -1 else int (length content)) in
          if fileSize < 0 then None
          else if fileSize \<ge> LONG_MAX then None
          else
            let sz = fileSize + 1 in
            if sz \<le> 0 then None
            else if sys_fault E (SysMalloc filePath) then None
            else if sys_fault E (SysRead filePath) then None
            else Some (content @ [NUL], sz))"

definition CheckConfigFile :: "'e font_env_scheme \<Rightarrow> 'a world_scheme \<Rightarrow> string \<Rightarrow> string" where
  "CheckConfigFile E w fontPath =
     (if \<not> CheckPathExist E w fontPath then []
      else case GetFileData E w fontPath of
        None \<Rightarrow> []
      | Some (data, sz) \<Rightarrow> take (nat sz) data)"

definition WriteToFile ::
    "'e font_env_scheme \<Rightarrow> 'a world_scheme \<Rightarrow> FontConfig \<Rightarrow> string option \<Rightarrow> bool \<times> 'a world_scheme"
  where
  "WriteToFile E w cfg fileData =
     (case fileData of
        None \<Rightarrow> (False, w)
      | Some text \<Rightarrow>
          (case fopen_w E w (ConfigPath cfg) of
             None \<Rightarrow> (False, w)
           | Some w1 \<Rightarrow>
               let (n, w2) = fwrite_all E w1 (ConfigPath cfg) (c_str text)
               in (n = length (c_str text), w2)))"

text \<open>The document every operation starts from: \<open>cJSON_Parse(CheckConfigFile(ConfigPath_).c_str())\<close>.\<close>

definition LoadConfig :: "'e font_env_scheme \<Rightarrow> 'a world_scheme \<Rightarrow> FontConfig \<Rightarrow> cJSON option" where
  "LoadConfig E w cfg = cJSON_Parse E (c_str (CheckConfigFile E w (ConfigPath cfg)))"

section \<open>Members of items\<close>

definition string_member :: "'e cjson_api_scheme \<Rightarrow> cJSON \<Rightarrow> string \<Rightarrow> string option" where
  "string_member E item key =
     (case cJSON_GetObjectItem E item key of
        None \<Rightarrow> None
      | Some p \<Rightarrow> if cJSON_IsString E (item_at item p) then Some (valuestring (item_at item p)) else None)"

definition array_item :: "'e cjson_api_scheme \<Rightarrow> cJSON \<Rightarrow> nat \<Rightarrow> cJSON option" where
  "array_item E arr i = map_option (item_at arr) (cJSON_GetArrayItem E arr i)"

text \<open>The loop over an array that stops at the first item a test accepts: its index.\<close>

definition find_item :: "'e cjson_api_scheme \<Rightarrow> cJSON \<Rightarrow> (cJSON \<Rightarrow> bool) \<Rightarrow> nat option" where
  "find_item E arr P =
     find (\<lambda>i. case array_item E arr i of None \<Rightarrow> False | Some item \<Rightarrow> P item)
       [0..<cJSON_GetArraySize E arr]"

definition has_name :: "'e cjson_api_scheme \<Rightarrow> string \<Rightarrow> cJSON \<Rightarrow> bool" where
  "has_name E fullName item =
     (case cJSON_GetObjectItem E item FONT_FULL_NAME of
        None \<Rightarrow> False
      | Some p \<Rightarrow>
          let nameArr = item_at item p in
          cJSON_IsArray E nameArr \<and>
          find_item E nameArr (\<lambda>n. cJSON_IsString E n \<and> fullName = valuestring n) \<noteq> None)"

text \<open>The member \<open>fontlist\<close>, and the same when it has to be an array.\<close>

definition font_list :: "'e cjson_api_scheme \<Rightarrow> cJSON \<Rightarrow> (nat \<times> cJSON) option" where
  "font_list E doc = map_option (\<lambda>p. (p, item_at doc p)) (cJSON_GetObjectItem E doc FONT_LIST)"

definition font_array :: "'e cjson_api_scheme \<Rightarrow> cJSON \<Rightarrow> (nat \<times> cJSON) option" where
  "font_array E doc =
     (case font_list E doc of
        None \<Rightarrow> None
      | Some (p, fontList) \<Rightarrow> if cJSON_IsArray E fontList then Some (p, fontList) else None)"

section \<open>Building and reading records\<close>

definition SafeAddStringToObject ::
    "'e cjson_api_scheme \<Rightarrow> cJSON \<Rightarrow> string \<Rightarrow> string \<Rightarrow> cJSON option" where
  "SafeAddStringToObject E object name value =
     do { item \<leftarrow> cJSON_CreateString E value; cJSON_AddItemToObject E object name item }"

definition SafeAddNumberToObject ::
    "'e cjson_api_scheme \<Rightarrow> cJSON \<Rightarrow> string \<Rightarrow> int \<Rightarrow> cJSON option" where
  "SafeAddNumberToObject E object name value =
     do { item \<leftarrow> cJSON_CreateNumber E value; cJSON_AddItemToObject E object name item }"

primrec add_names :: "'e cjson_api_scheme \<Rightarrow> cJSON \<Rightarrow> string list \<Rightarrow> cJSON option" where
  "add_names E arr [] = Some arr"
| "add_names E arr (name # names) =
     do { nameItem \<leftarrow> cJSON_CreateString E name;
          arr' \<leftarrow> cJSON_AddItemToArray E arr nameItem;
          add_names E arr' names }"

definition ConstructCJSON :: "'e cjson_api_scheme \<Rightarrow> string \<Rightarrow> string list \<Rightarrow> cJSON option" where
  "ConstructCJSON E fontFullPath fullName =
     do { jsonData \<leftarrow> cJSON_CreateObject E;
          jsonData \<leftarrow> SafeAddStringToObject E jsonData FONT_PATH fontFullPath;
          fullNameJson \<leftarrow> cJSON_CreateArray E;
          fullNameJson \<leftarrow> add_names E fullNameJson fullName;
          cJSON_AddItemToObject E jsonData FONT_FULL_NAME fullNameJson }"

definition ConstructScopeCJSON :: "'e cjson_api_scheme \<Rightarrow> FontRecordInfo \<Rightarrow> cJSON option" where
  "ConstructScopeCJSON E r =
     do { item \<leftarrow> ConstructCJSON E (fr_fontPath r) (fr_fullNames r);
          item \<leftarrow> (if fr_scope r \<ge> 0 then SafeAddNumberToObject E item FONT_SCOPE (fr_scope r) else Some item);
          item \<leftarrow> (if fr_srcPath r \<noteq> [] then SafeAddStringToObject E item FONT_SRC_PATH (fr_srcPath r)
                  else Some item);
          item \<leftarrow> (if fr_appIdentifier r \<noteq> []
                  then SafeAddStringToObject E item FONT_APP_IDENTIFIER (fr_appIdentifier r) else Some item);
          if fr_bundleName r \<noteq> [] then SafeAddStringToObject E item FONT_BUNDLE_NAME (fr_bundleName r)
          else Some item }"

definition names_of :: "'e cjson_api_scheme \<Rightarrow> cJSON \<Rightarrow> string list" where
  "names_of E nameArr =
     concat (map (\<lambda>j. case array_item E nameArr j of
                        None \<Rightarrow> [] | Some n \<Rightarrow> if cJSON_IsString E n then [valuestring n] else [])
              [0..<cJSON_GetArraySize E nameArr])"

definition ParseScopeRecord :: "'e cjson_api_scheme \<Rightarrow> cJSON \<Rightarrow> FontRecordInfo" where
  "ParseScopeRecord E arrItem =
     \<lparr>fr_fontPath = (case string_member E arrItem FONT_PATH of None \<Rightarrow> [] | Some s \<Rightarrow> s),
      fr_fullNames =
        (case cJSON_GetObjectItem E arrItem FONT_FULL_NAME of
           None \<Rightarrow> []
         | Some p \<Rightarrow> if cJSON_IsArray E (item_at arrItem p) then names_of E (item_at arrItem p) else []),
      fr_scope =
        (case cJSON_GetObjectItem E arrItem FONT_SCOPE of
           None \<Rightarrow> -1
         | Some p \<Rightarrow> if cJSON_IsNumber E (item_at arrItem p) then valueint (item_at arrItem p) else -1),
      fr_srcPath = (case string_member E arrItem FONT_SRC_PATH of None \<Rightarrow> [] | Some s \<Rightarrow> s),
      fr_appIdentifier = (case string_member E arrItem FONT_APP_IDENTIFIER of None \<Rightarrow> [] | Some s \<Rightarrow> s),
      fr_bundleName = (case string_member E arrItem FONT_BUNDLE_NAME of None \<Rightarrow> [] | Some s \<Rightarrow> s)\<rparr>"

section \<open>User-level records\<close>

definition InsertFontRecord ::
    "'e font_env_scheme \<Rightarrow> 'a world_scheme \<Rightarrow> FontConfig \<Rightarrow> string \<Rightarrow> string list \<Rightarrow> bool \<times> 'a world_scheme"
  where
  "InsertFontRecord E w cfg fontPath fullNames =
     (case LoadConfig E w cfg of
        None \<Rightarrow> (False, w)
      | Some jsonValue \<Rightarrow>
          (case font_list E jsonValue of
             None \<Rightarrow> (False, w)
           | Some (p, fontList) \<Rightarrow>
               if find_item E fontList (\<lambda>item. string_member E item FONT_PATH = Some fontPath) \<noteq> None
               then (True, w)
               else case ConstructCJSON E fontPath fullNames of
                 None \<Rightarrow> (False, w)
               | Some insertValue \<Rightarrow>
                   (case cJSON_AddItemToArray E fontList insertValue of
                      None \<Rightarrow> (False, w)
                    | Some fontList' \<Rightarrow>
                        WriteToFile E w cfg (cJSON_Print E (item_put jsonValue p fontList')))))"

definition InsertFontRecordIfUnderLimit ::
    "'e font_env_scheme \<Rightarrow> 'a world_scheme \<Rightarrow> FontConfig \<Rightarrow> string \<Rightarrow> string list \<Rightarrow> int
       \<Rightarrow> int \<times> 'a world_scheme" where
  "InsertFontRecordIfUnderLimit E w cfg fontPath fullNames maxCount =
     (case LoadConfig E w cfg of
        None \<Rightarrow> (ERR_INSTALL_FAIL, w)
      | Some jsonValue \<Rightarrow>
          (case font_array E jsonValue of
             None \<Rightarrow> (ERR_INSTALL_FAIL, w)
           | Some (p, fontList) \<Rightarrow>
               if find_item E fontList (\<lambda>item. string_member E item FONT_PATH = Some fontPath) \<noteq> None
               then (ERR_OK, w)
               else if int (cJSON_GetArraySize E fontList) \<ge> maxCount then (ERR_MAX_FILE_COUNT, w)
               else case ConstructCJSON E fontPath fullNames of
                 None \<Rightarrow> (ERR_INSTALL_FAIL, w)
               | Some insertValue \<Rightarrow>
                   (case cJSON_AddItemToArray E fontList insertValue of
                      None \<Rightarrow> (ERR_INSTALL_FAIL, w)
                    | Some fontList' \<Rightarrow>
                        (case WriteToFile E w cfg (cJSON_Print E (item_put jsonValue p fontList')) of
                           (False, w') \<Rightarrow> (ERR_INSTALL_FAIL, w')
                         | (True, w') \<Rightarrow> (ERR_OK, w')))))"

text \<open>
  The two deletions differ only in the member they compare: \<open>fontfullpath\<close> in
  \<open>DeleteFontRecord\<close>, \<open>srcPath\<close> in \<open>DeleteScopeFontRecordByUrl\<close>.
\<close>

definition delete_by_member ::
    "'e font_env_scheme \<Rightarrow> 'a world_scheme \<Rightarrow> FontConfig \<Rightarrow> string \<Rightarrow> string \<Rightarrow> bool \<times> 'a world_scheme"
  where
  "delete_by_member E w cfg key value =
     (case LoadConfig E w cfg of
        None \<Rightarrow> (False, w)
      | Some jsonValue \<Rightarrow>
          (case font_array E jsonValue of
             None \<Rightarrow> (False, w)
           | Some (p, fontList) \<Rightarrow>
               (case find_item E fontList (\<lambda>item. string_member E item key = Some value) of
                  None \<Rightarrow> (False, w)
                | Some i \<Rightarrow>
                    WriteToFile E w cfg
                      (cJSON_Print E (item_put jsonValue p (cJSON_DeleteItemFromArray E fontList i))))))"

definition DeleteFontRecord ::
    "'e font_env_scheme \<Rightarrow> 'a world_scheme \<Rightarrow> FontConfig \<Rightarrow> string \<Rightarrow> bool \<times> 'a world_scheme" where
  "DeleteFontRecord E w cfg fontPath = delete_by_member E w cfg FONT_PATH fontPath"

definition GetInstalledFontsNum :: "'e font_env_scheme \<Rightarrow> 'a world_scheme \<Rightarrow> FontConfig \<Rightarrow> int" where
  "GetInstalledFontsNum E w cfg =
     (case LoadConfig E w cfg of
        None \<Rightarrow> 0
      | Some jsonValue \<Rightarrow>
          (case font_array E jsonValue of
             None \<Rightarrow> 0 | Some (p, fontList) \<Rightarrow> int (cJSON_GetArraySize E fontList)))"

definition GetTotalInstalledFontsNum :: "'e font_env_scheme \<Rightarrow> 'a world_scheme \<Rightarrow> FontConfig \<Rightarrow> int" where
  "GetTotalInstalledFontsNum E w cfg =
     (case LoadConfig E w cfg of
        None \<Rightarrow> 0
      | Some jsonValue \<Rightarrow>
          (case font_array E jsonValue of
             None \<Rightarrow> 0 | Some (p, fontList) \<Rightarrow> int (cJSON_GetArraySize E fontList)))"

definition FindFontPathByName :: "'e cjson_api_scheme \<Rightarrow> cJSON \<Rightarrow> string \<Rightarrow> string" where
  "FindFontPathByName E fontList fullName =
     (case find_item E fontList (has_name E fullName) of
        None \<Rightarrow> []
      | Some i \<Rightarrow>
          (case array_item E fontList i of
             None \<Rightarrow> []
           | Some item \<Rightarrow> (case string_member E item FONT_PATH of None \<Rightarrow> [] | Some s \<Rightarrow> s)))"

definition GetFontFileByName ::
    "'e font_env_scheme \<Rightarrow> 'a world_scheme \<Rightarrow> FontConfig \<Rightarrow> string \<Rightarrow> string" where
  "GetFontFileByName E w cfg fullName =
     (case LoadConfig E w cfg of
        None \<Rightarrow> []
      | Some jsonValue \<Rightarrow>
          (case font_array E jsonValue of
             None \<Rightarrow> [] | Some (p, fontList) \<Rightarrow> FindFontPathByName E fontList fullName))"

section \<open>Scope records\<close>

definition InsertScopeFontRecord ::
    "'e font_env_scheme \<Rightarrow> 'a world_scheme \<Rightarrow> FontConfig \<Rightarrow> FontRecordInfo \<Rightarrow> bool \<times> 'a world_scheme"
  where
  "InsertScopeFontRecord E w cfg r =
     (case LoadConfig E w cfg of
        None \<Rightarrow> (False, w)
      | Some jsonValue \<Rightarrow>
          (case font_list E jsonValue of
             None \<Rightarrow> (False, w)
           | Some (p, fontList) \<Rightarrow>
               (case ConstructScopeCJSON E r of
                  None \<Rightarrow> (False, w)
                | Some insertValue \<Rightarrow>
                    (case cJSON_AddItemToArray E fontList insertValue of
                       None \<Rightarrow> (False, w)
                     | Some fontList' \<Rightarrow>
                         WriteToFile E w cfg (cJSON_Print E (item_put jsonValue p fontList'))))))"

definition DeleteScopeFontRecordByUrl ::
    "'e font_env_scheme \<Rightarrow> 'a world_scheme \<Rightarrow> FontConfig \<Rightarrow> string \<Rightarrow> bool \<times> 'a world_scheme" where
  "DeleteScopeFontRecordByUrl E w cfg srcPath = delete_by_member E w cfg FONT_SRC_PATH srcPath"

text \<open>The loop from the last index down, deleting as it goes.\<close>

definition delete_matching ::
    "'e cjson_api_scheme \<Rightarrow> (cJSON \<Rightarrow> bool) \<Rightarrow> cJSON \<Rightarrow> cJSON \<times> bool" where
  "delete_matching E P fontList =
     foldr (\<lambda>i (arr, changed).
              case array_item E arr i of
                None \<Rightarrow> (arr, changed)
              | Some item \<Rightarrow> if P item then (cJSON_DeleteItemFromArray E arr i, True) else (arr, changed))
       [0..<cJSON_GetArraySize E fontList] (fontList, False)"

definition DeleteScopeFontRecordByAppId ::
    "'e font_env_scheme \<Rightarrow> 'a world_scheme \<Rightarrow> FontConfig \<Rightarrow> string \<Rightarrow> bool \<times> 'a world_scheme" where
  "DeleteScopeFontRecordByAppId E w cfg appIdentifier =
     (case LoadConfig E w cfg of
        None \<Rightarrow> (False, w)
      | Some jsonValue \<Rightarrow>
          (case font_array E jsonValue of
             None \<Rightarrow> (False, w)
           | Some (p, fontList) \<Rightarrow>
               let (fontList', changed) =
                 delete_matching E
                   (\<lambda>item. string_member E item FONT_APP_IDENTIFIER = Some appIdentifier) fontList
               in if changed then WriteToFile E w cfg (cJSON_Print E (item_put jsonValue p fontList'))
                  else (False, w)))"

text \<open>The two lookups of a single record, by the test that selects the item.\<close>

definition lookup_record ::
    "'e font_env_scheme \<Rightarrow> 'a world_scheme \<Rightarrow> FontConfig \<Rightarrow> (cJSON \<Rightarrow> bool) \<Rightarrow> FontRecordInfo option" where
  "lookup_record E w cfg P =
     (case LoadConfig E w cfg of
        None \<Rightarrow> None
      | Some jsonValue \<Rightarrow>
          (case font_array E jsonValue of
             None \<Rightarrow> None
           | Some (p, fontList) \<Rightarrow>
               (case find_item E fontList P of
                  None \<Rightarrow> None
                | Some i \<Rightarrow> map_option (ParseScopeRecord E) (array_item E fontList i))))"

definition GetFontRecordByUrl ::
    "'e font_env_scheme \<Rightarrow> 'a world_scheme \<Rightarrow> FontConfig \<Rightarrow> string \<Rightarrow> FontRecordInfo option" where
  "GetFontRecordByUrl E w cfg srcPath =
     lookup_record E w cfg (\<lambda>item. string_member E item FONT_SRC_PATH = Some srcPath)"

definition GetFontRecordByName ::
    "'e font_env_scheme \<Rightarrow> 'a world_scheme \<Rightarrow> FontConfig \<Rightarrow> string \<Rightarrow> FontRecordInfo option" where
  "GetFontRecordByName E w cfg fullName = lookup_record E w cfg (has_name E fullName)"

text \<open>The three listings: every record whose item passes a test, in file order.\<close>

definition select_records ::
    "'e font_env_scheme \<Rightarrow> 'a world_scheme \<Rightarrow> FontConfig \<Rightarrow> (cJSON \<Rightarrow> bool) \<Rightarrow> FontRecordInfo list" where
  "select_records E w cfg P =
     (case LoadConfig E w cfg of
        None \<Rightarrow> []
      | Some jsonValue \<Rightarrow>
          (case font_array E jsonValue of
             None \<Rightarrow> []
           | Some (p, fontList) \<Rightarrow>
               concat (map (\<lambda>i. case array_item E fontList i of
                                  None \<Rightarrow> []
                                | Some item \<Rightarrow> if P item then [ParseScopeRecord E item] else [])
                        [0..<cJSON_GetArraySize E fontList])))"

definition scope_test :: "'e cjson_api_scheme \<Rightarrow> (int \<Rightarrow> bool) \<Rightarrow> cJSON \<Rightarrow> bool" where
  "scope_test E P item =
     (case cJSON_GetObjectItem E item FONT_SCOPE of
        None \<Rightarrow> False
      | Some p \<Rightarrow> cJSON_IsNumber E (item_at item p) \<and> P (valueint (item_at item p)))"

definition GetFontRecordsByAppId ::
    "'e font_env_scheme \<Rightarrow> 'a world_scheme \<Rightarrow> FontConfig \<Rightarrow> string \<Rightarrow> FontRecordInfo list" where
  "GetFontRecordsByAppId E w cfg appIdentifier =
     select_records E w cfg (\<lambda>item. string_member E item FONT_APP_IDENTIFIER = Some appIdentifier)"

definition GetScopeFontRecords ::
    "'e font_env_scheme \<Rightarrow> 'a world_scheme \<Rightarrow> FontConfig \<Rightarrow> FontRecordInfo list" where
  "GetScopeFontRecords E w cfg = select_records E w cfg (scope_test E (\<lambda>v. v \<ge> 0))"

definition GetAppScopeFontRecords ::
    "'e font_env_scheme \<Rightarrow> 'a world_scheme \<Rightarrow> FontConfig \<Rightarrow> FontRecordInfo list" where
  "GetAppScopeFontRecords E w cfg = select_records E w cfg (scope_test E (\<lambda>v. v = FONT_SCOPE_APP))"

section \<open>Version upgrade\<close>

definition SandBoxPathToRealPathCfg :: "FontConfig \<Rightarrow> string \<Rightarrow> string" where
  "SandBoxPathToRealPathCfg cfg path = GetFileDirectory (ConfigPath cfg) @ GetFileName path"

text \<open>A name that cannot be stored is left out of the fresh list; so is the list itself.\<close>

definition fresh_names :: "'e cjson_api_scheme \<Rightarrow> cJSON \<Rightarrow> string list \<Rightarrow> cJSON" where
  "fresh_names E arr names =
     foldl (\<lambda>a name. case cJSON_CreateString E name of
                       None \<Rightarrow> a
                     | Some item \<Rightarrow> (case cJSON_AddItemToArray E a item of None \<Rightarrow> a | Some a' \<Rightarrow> a'))
       arr names"

definition refresh_item ::
    "'e font_env_scheme \<Rightarrow> 'a world_scheme \<Rightarrow> FontConfig \<Rightarrow> cJSON \<Rightarrow> cJSON" where
  "refresh_item E w cfg item =
     (case string_member E item FONT_PATH of
        None \<Rightarrow> item
      | Some pathVal \<Rightarrow>
          let realPath = SandBoxPathToRealPathCfg cfg pathVal;
              freshNames = GetFullNamesByPath E w realPath
          in (case cJSON_CreateArray E of
                None \<Rightarrow> item
              | Some arr \<Rightarrow>
                  let newNameArr = fresh_names E arr freshNames;
                      item1 = cJSON_DeleteItemFromObject E item FONT_FULL_NAME
                  in (case cJSON_AddItemToObject E item1 FONT_FULL_NAME newNameArr of
                        None \<Rightarrow> item1 | Some item2 \<Rightarrow> item2)))"

definition RefreshFullNames ::
    "'e font_env_scheme \<Rightarrow> 'a world_scheme \<Rightarrow> FontConfig \<Rightarrow> cJSON \<Rightarrow> cJSON" where
  "RefreshFullNames E w cfg jsonValue =
     (case font_array E jsonValue of
        None \<Rightarrow> jsonValue
      | Some (p, fontList) \<Rightarrow>
          item_put jsonValue p
            (foldl (\<lambda>arr i. case cJSON_GetArrayItem E arr i of
                              None \<Rightarrow> arr
                            | Some q \<Rightarrow> item_put arr q (refresh_item E w cfg (item_at arr q)))
               fontList [0..<cJSON_GetArraySize E fontList]))"

definition CheckAndUpdateFontRecord ::
    "'e font_env_scheme \<Rightarrow> 'a world_scheme \<Rightarrow> FontConfig \<Rightarrow> bool \<times> 'a world_scheme" where
  "CheckAndUpdateFontRecord E w cfg =
     (case LoadConfig E w cfg of
        None \<Rightarrow> (False, w)
      | Some jsonValue \<Rightarrow>
          let versionJson = map_option (item_at jsonValue) (cJSON_GetObjectItem E jsonValue FONT_VERSION)
          in if (case versionJson of
                   None \<Rightarrow> False
                 | Some v \<Rightarrow> cJSON_IsString E v \<and> FONT_CONFIG_VERSION_7 = valuestring v)
             then (True, w)
             else if (case versionJson of
                        None \<Rightarrow> False | Some v \<Rightarrow> cJSON_IsNumber E v \<and> valueint v = VERSION)
             then (case cJSON_CreateString E FONT_CONFIG_VERSION_7 of
                     None \<Rightarrow> (False, w)
                   | Some newVersion \<Rightarrow>
                       (case cJSON_ReplaceItemInObject E (RefreshFullNames E w cfg jsonValue)
                               FONT_VERSION newVersion of
                          None \<Rightarrow> (False, w)
                        | Some doc \<Rightarrow> WriteToFile E w cfg (cJSON_Print E doc)))
             else (case SafeAddStringToObject E (RefreshFullNames E w cfg jsonValue)
                          FONT_VERSION FONT_CONFIG_VERSION_7 of
                     None \<Rightarrow> (False, w)
                   | Some doc \<Rightarrow> WriteToFile E w cfg (cJSON_Print E doc)))"

end
