(* ===== verification/Font_Manager.thy ===== *)
theory Font_Manager
  imports Font_Config
begin

text \<open>
  \<open>FontManager\<close> (\<open>frameworks/fontmgr/src/font_manager.cpp\<close>): installing and removing fonts, for a
  user and for one application, over the utilities and the configuration files. The state adds
  to the world the table \<open>configMap_\<close> of the configuration objects, one for each user.
\<close>

record fm_state = world +
  configMap :: "int \<rightharpoonup> FontConfig"

record ScopeFontInstallInfo =
  si_fd :: int
  si_scope :: int
  si_srcPath :: string
  si_bundleName :: string
  si_appIdentifier :: string
  si_userId :: int

section \<open>Limits, names and paths\<close>

definition GetMaxInstallNum :: "'e font_env_scheme \<Rightarrow> int" where
  "GetMaxInstallNum E =
     (let maxInstallNum = GetIntParameter E MAX_INSTALL_NUM_PARAM_KEY DEFAULT_MAX_INSTALL_NUM in
      if maxInstallNum < DEFAULT_MAX_INSTALL_NUM then DEFAULT_MAX_INSTALL_NUM else maxInstallNum)"

definition GetFormatFullName :: "string list \<Rightarrow> string" where
  "GetFormatFullName fullNameVector =
     (let formatFullName = concat (map (\<lambda>name. name @ '','') fullNameVector) in
      if length formatFullName \<ge> length '',''
      then take (length formatFullName - length '','') formatFullName
      else formatFullName)"

definition SandBoxPathToRealPath :: "string \<Rightarrow> string \<Rightarrow> string" where
  "SandBoxPathToRealPath installPath path =
     (if prefix INSTALL_PATH_APP path then installPath @ drop (length INSTALL_PATH_APP) path
      else installPath @ GetFileName path)"

definition ValidateAndResolveRealPath :: "'e font_env_scheme \<Rightarrow> string \<Rightarrow> string \<Rightarrow> string" where
  "ValidateAndResolveRealPath E installPath path =
     (let fileName = GetFileName path in
      if fileName = [] \<or> fileName = ''.'' \<or> fileName = ''..''
         \<or> CHR ''/'' \<in> set fileName \<or> CHR 0x5C \<in> set fileName then []
      else case weakly_canonical E (SandBoxPathToRealPath installPath path) of
        None \<Rightarrow> []
      | Some canonicalStr \<Rightarrow>
          (case weakly_canonical E installPath of
             None \<Rightarrow> []
           | Some canonicalInstall \<Rightarrow>
               let installDir = (if canonicalInstall \<noteq> [] \<and> last canonicalInstall \<noteq> CHR ''/''
                                 then canonicalInstall @ ''/'' else canonicalInstall)
               in if \<not> prefix installDir canonicalStr then [] else canonicalStr))"

definition GetAppInstallPath :: "int \<Rightarrow> string \<Rightarrow> string" where
  "GetAppInstallPath userId appIdentifier =
     INSTALL_PATH_PREFIX @ to_string userId @ INSTALL_PATH_SUFFIX @ appIdentifier @ ''/''"

text \<open>\<open>try_emplace\<close>: an entry that is there already stays as it is.\<close>

definition SafeGetOrCreateConfig ::
    "'a fm_state_scheme \<Rightarrow> int \<Rightarrow> string \<Rightarrow> FontConfig \<times> 'a fm_state_scheme" where
  "SafeGetOrCreateConfig s userId configPath =
     (case configMap s userId of
        Some cfg \<Rightarrow> (cfg, s)
      | None \<Rightarrow>
          let cfg = \<lparr>ConfigPath = configPath\<rparr> in (cfg, s\<lparr>configMap := (configMap s)(userId \<mapsto> cfg)\<rparr>))"

text \<open>The three reports at the end of every operation that changed the installed fonts.\<close>

definition report_update ::
    "'e font_env_scheme \<Rightarrow> 'a world_scheme \<Rightarrow> string \<Rightarrow> int \<Rightarrow> FontEventType \<Rightarrow> string \<Rightarrow> 'a world_scheme"
  where
  "report_update E w installPath userId eventType names =
     (let w1 = CollectUserDataSize E w installPath;
          w2 = snd (ReportFontBundleStats E w1 userId installPath)
      in snd (PublishFontUpdate E w2 eventType names userId))"

section \<open>Copying a font into place\<close>

definition CopyFileForInstall ::
    "'e font_env_scheme \<Rightarrow> 'a world_scheme \<Rightarrow> string \<Rightarrow> string \<Rightarrow> int \<Rightarrow> string \<times> 'a world_scheme" where
  "CopyFileForInstall E w installPath fileName fd =
     (let timeTag = GetFileTime E;
          threadTag = to_string (int (thread_hash E));
          tempPath = installPath @ TEMP_FILE @ timeTag @ ''_'' @ threadTag @ ''_'' @ fileName
      in case CopyFile E w fd tempPath of
           (False, w1) \<Rightarrow> ([], w1)
         | (True, w1) \<Rightarrow>
             let destPath = installPath @ timeTag @ ''_'' @ threadTag @ ''_'' @ fileName
             in case RenameFile E w1 tempPath destPath of
                  (False, w2) \<Rightarrow> ([], snd (RemoveFile E w2 tempPath))
                | (True, w2) \<Rightarrow> (destPath, w2))"

section \<open>User-level fonts\<close>

text \<open>
  The loop over the names of the new font: a name whose recorded file exists is a conflict, a
  record without its file is dropped. \<open>Some\<close> is the code the loop returns early with.
\<close>

primrec clear_stale_names ::
    "'e font_env_scheme \<Rightarrow> FontConfig \<Rightarrow> string \<Rightarrow> string list \<Rightarrow> 'a world_scheme
       \<Rightarrow> int option \<times> 'a world_scheme" where
  "clear_stale_names E cfg installPath [] w = (None, w)"
| "clear_stale_names E cfg installPath (fullName # names) w =
     (let findPath = GetFontFileByName E w cfg fullName in
      if findPath = [] then clear_stale_names E cfg installPath names w
      else if CheckPathExist E w (SandBoxPathToRealPath installPath findPath)
      then (Some ERR_INSTALLED_ALRADY, w)
      else case DeleteFontRecord E w cfg findPath of
        (False, w1) \<Rightarrow> (Some ERR_INSTALL_FAIL, w1)
      | (True, w1) \<Rightarrow> clear_stale_names E cfg installPath names w1)"

text \<open>The second half of \<open>InstallFont\<close>, once the names are free.\<close>

definition install_new_font ::
    "'e font_env_scheme \<Rightarrow> FontConfig \<Rightarrow> string \<Rightarrow> int \<Rightarrow> int \<Rightarrow> string list \<Rightarrow> 'a world_scheme
       \<Rightarrow> int \<times> 'a world_scheme" where
  "install_new_font E cfg installPath fd userId fullNames w =
     (let maxInstallNum = GetMaxInstallNum E in
      if GetInstalledFontsNum E w cfg \<ge> maxInstallNum then (ERR_MAX_FILE_COUNT, w)
      else
        let fileName = GetFileName (GetFilePathByFd E w fd) in
        case CopyFileForInstall E w installPath fileName fd of
          (destPath, w1) \<Rightarrow>
            if destPath = [] then (ERR_COPY_FAIL, w1)
            else
              let realFileName = GetFileName destPath in
              case InsertFontRecordIfUnderLimit E w1 cfg (INSTALL_PATH_APP @ realFileName) fullNames
                     maxInstallNum of
                (insertRet, w2) \<Rightarrow>
                  if insertRet \<noteq> ERR_OK then (insertRet, DeleteDir E w2 destPath True)
                  else (ERR_OK,
                        report_update E w2 installPath userId INSTALL (GetFormatFullName fullNames)))"

definition InstallFont ::
    "'e font_env_scheme \<Rightarrow> 'a fm_state_scheme \<Rightarrow> int \<Rightarrow> int \<Rightarrow> int \<times> 'a fm_state_scheme" where
  "InstallFont E s fd userId =
     (let installPath = install_path userId in
      case CheckAndInitInstallPath E s installPath of
        (False, s1) \<Rightarrow> (ERR_FILE_NOT_EXISTS, s1)
      | (True, s1) \<Rightarrow>
          (case SafeGetOrCreateConfig s1 userId (installPath @ FONT_CONFIG_FILE) of
             (cfg, s2) \<Rightarrow>
               let fullNameVector = GetFullNamesByFd E s2 fd in
               if length fullNameVector = 0 then (ERR_FILE_VERIFY_FAIL, s2)
               else case clear_stale_names E cfg installPath fullNameVector s2 of
                 (Some err, s3) \<Rightarrow> (err, s3)
               | (None, s3) \<Rightarrow> install_new_font E cfg installPath fd userId fullNameVector s3))"

definition UninstallFont ::
    "'e font_env_scheme \<Rightarrow> 'a fm_state_scheme \<Rightarrow> string \<Rightarrow> int \<Rightarrow> int \<times> 'a fm_state_scheme" where
  "UninstallFont E s fontFullName userId =
     (let installPath = install_path userId in
      if fontFullName = [] then (ERR_UNINSTALL_FILE_NOT_EXISTS, s)
      else case SafeGetOrCreateConfig s userId (installPath @ FONT_CONFIG_FILE) of
        (cfg, s1) \<Rightarrow>
          (case GetFontRecordByName E s1 cfg fontFullName of
             None \<Rightarrow> (ERR_UNINSTALL_FILE_NOT_EXISTS, s1)
           | Some record \<Rightarrow>
               if fr_fontPath record = [] then (ERR_UNINSTALL_FILE_NOT_EXISTS, s1)
               else if fr_scope record \<ge> 0 then (ERR_UNINSTALL_FILE_NOT_EXISTS, s1)
               else
                 let path = fr_fontPath record;
                     realPath = ValidateAndResolveRealPath E installPath path
                 in if realPath = [] then (ERR_UNINSTALL_FILE_NOT_EXISTS, s1)
                    else case (if CheckPathExist E s1 realPath then RemoveFile E s1 realPath else (True, s1)) of
                      (False, s2) \<Rightarrow> (ERR_UNINSTALL_REMOVE_FAIL, s2)
                    | (True, s2) \<Rightarrow>
                        (case DeleteFontRecord E s2 cfg path of
                           (False, s3) \<Rightarrow> (ERR_UNINSTALL_FAIL, s3)
                         | (True, s3) \<Rightarrow>
                             (ERR_OK, report_update E s3 installPath userId UNINSTALL fontFullName))))"

section \<open>Scope fonts\<close>

definition ValidateScopeFontForInstall ::
    "'e font_env_scheme \<Rightarrow> 'a world_scheme \<Rightarrow> FontConfig \<Rightarrow> string \<Rightarrow> int \<Rightarrow> int \<times> string list" where
  "ValidateScopeFontForInstall E w cfg srcPath fd =
     (if GetFontRecordByUrl E w cfg srcPath \<noteq> None then (ERR_INSTALLED_ALRADY, [])
      else if GetTotalInstalledFontsNum E w cfg \<ge> GetMaxInstallNum E then (ERR_MAX_FILE_COUNT, [])
      else
        let fullNames = GetFullNamesByFd E w fd in
        if fullNames = [] then (ERR_FILE_VERIFY_FAIL, fullNames)
        else if list_ex (\<lambda>name. GetFontRecordByName E w cfg name \<noteq> None) fullNames
        then (ERR_INSTALLED_ALRADY, fullNames)
        else (ERR_OK, fullNames))"

definition CopyAndInsertScopeFont ::
    "'e font_env_scheme \<Rightarrow> 'a world_scheme \<Rightarrow> ScopeFontInstallInfo \<Rightarrow> FontConfig \<Rightarrow> string list
       \<Rightarrow> int \<times> 'a world_scheme" where
  "CopyAndInsertScopeFont E w info cfg fullNames =
     (let appDir = GetAppInstallPath (si_userId info) (si_appIdentifier info) in
      case CheckAndInitScopeFontPath E w appDir of
        (False, w1) \<Rightarrow> (ERR_SYSTEM_ERROR, w1)
      | (True, w1) \<Rightarrow>
          let fileName = GetFileName (GetFilePathByFd E w1 (si_fd info)) in
          case CopyFileForInstall E w1 appDir fileName (si_fd info) of
            (destPath, w2) \<Rightarrow>
              if destPath = [] then (ERR_COPY_FAIL, w2)
              else
                let record =
                      \<lparr>fr_fontPath = INSTALL_PATH_APP @ si_appIdentifier info @ ''/'' @ GetFileName destPath,
                       fr_fullNames = fullNames, fr_scope = si_scope info, fr_srcPath = si_srcPath info,
                       fr_appIdentifier = si_appIdentifier info, fr_bundleName = si_bundleName info\<rparr>
                in case InsertScopeFontRecord E w2 cfg record of
                     (False, w3) \<Rightarrow> (ERR_SYSTEM_ERROR, DeleteDir E w3 destPath True)
                   | (True, w3) \<Rightarrow> (ERR_OK, w3))"

definition InstallScopeFont ::
    "'e font_env_scheme \<Rightarrow> 'a fm_state_scheme \<Rightarrow> ScopeFontInstallInfo \<Rightarrow> int \<times> 'a fm_state_scheme" where
  "InstallScopeFont E s info =
     (if si_scope info \<noteq> FONT_SCOPE_APP \<and> si_scope info \<noteq> FONT_SCOPE_SESSION then (ERR_INVALID_PARAM, s)
      else
        let installPath = install_path (si_userId info) in
        case CheckAndInitInstallPath E s installPath of
          (False, s1) \<Rightarrow> (ERR_SYSTEM_ERROR, s1)
        | (True, s1) \<Rightarrow>
            (case SafeGetOrCreateConfig s1 (si_userId info) (installPath @ FONT_CONFIG_FILE) of
               (cfg, s2) \<Rightarrow>
                 (case CheckAndUpdateFontRecord E s2 cfg of
                    (False, s3) \<Rightarrow> (ERR_SYSTEM_ERROR, s3)
                  | (True, s3) \<Rightarrow>
                      (case ValidateScopeFontForInstall E s3 cfg (si_srcPath info) (si_fd info) of
                         (ret, fullNames) \<Rightarrow>
                           if ret \<noteq> ERR_OK then (ret, s3)
                           else case CopyAndInsertScopeFont E s3 info cfg fullNames of
                             (ret, s4) \<Rightarrow>
                               if ret \<noteq> ERR_OK then (ret, s4)
                               else (ERR_OK,
                                     report_update E s4 installPath (si_userId info) INSTALL
                                       (GetFormatFullName fullNames))))))"

text \<open>
  The ownership test that \<open>UninstallScopeFont\<close> and \<open>GetFontScope\<close> share: the record of the URL,
  if the caller's bundle and token own it.
\<close>

definition owned_record ::
    "'e font_env_scheme \<Rightarrow> 'a world_scheme \<Rightarrow> FontConfig \<Rightarrow> string \<Rightarrow> string \<Rightarrow> int \<Rightarrow> FontRecordInfo option"
  where
  "owned_record E w cfg srcPath bundleName tokenId =
     (case GetFontRecordByUrl E w cfg srcPath of
        None \<Rightarrow> None
      | Some record \<Rightarrow>
          if fr_bundleName record \<noteq> bundleName then None
          else if fr_appIdentifier record \<noteq> MakeAppIdentifier (fr_scope record) tokenId then None
          else Some record)"

definition UninstallScopeFont ::
    "'e font_env_scheme \<Rightarrow> 'a fm_state_scheme \<Rightarrow> string \<Rightarrow> string \<Rightarrow> int \<Rightarrow> int
       \<Rightarrow> int \<times> 'a fm_state_scheme" where
  "UninstallScopeFont E s srcPath bundleName tokenId userId =
     (let installPath = install_path userId in
      if srcPath = [] then (ERR_SCOPE_FONT_NOT_FOUND, s)
      else case SafeGetOrCreateConfig s userId (installPath @ FONT_CONFIG_FILE) of
        (cfg, s1) \<Rightarrow>
          (case owned_record E s1 cfg srcPath bundleName tokenId of
             None \<Rightarrow> (ERR_SCOPE_FONT_NOT_FOUND, s1)
           | Some record \<Rightarrow>
               let realPath = ValidateAndResolveRealPath E installPath (fr_fontPath record) in
               case (if realPath \<noteq> [] \<and> CheckPathExist E s1 realPath then RemoveFile E s1 realPath
                     else (True, s1)) of
                 (False, s2) \<Rightarrow> (ERR_UNINSTALL_REMOVE_FAIL, s2)
               | (True, s2) \<Rightarrow>
                   (case DeleteScopeFontRecordByUrl E s2 cfg srcPath of
                      (False, s3) \<Rightarrow> (ERR_SYSTEM_ERROR, s3)
                    | (True, s3) \<Rightarrow>
                        (ERR_OK,
                         report_update E s3 installPath userId UNINSTALL
                           (GetFormatFullName (fr_fullNames record))))))"

definition GetFontScope ::
    "'e font_env_scheme \<Rightarrow> 'a fm_state_scheme \<Rightarrow> string \<Rightarrow> string \<Rightarrow> int \<Rightarrow> int
       \<Rightarrow> int \<times> 'a fm_state_scheme" where
  "GetFontScope E s srcPath bundleName tokenId userId =
     (case SafeGetOrCreateConfig s userId (install_path userId @ FONT_CONFIG_FILE) of
        (cfg, s1) \<Rightarrow>
          (case owned_record E s1 cfg srcPath bundleName tokenId of
             None \<Rightarrow> (ERR_SCOPE_FONT_NOT_FOUND, s1)
           | Some record \<Rightarrow> (fr_scope record, s1)))"

section \<open>Clean-up\<close>

text \<open>
  The loop of the three clean-up operations over the records to remove: file first, then record,
  collecting the names. Failures are logged and passed over.
\<close>

primrec remove_records ::
    "'e font_env_scheme \<Rightarrow> FontConfig \<Rightarrow> string \<Rightarrow> FontRecordInfo list \<Rightarrow> string \<Rightarrow> 'a world_scheme
       \<Rightarrow> string \<times> 'a world_scheme" where
  "remove_records E cfg installPath [] removedNames w = (removedNames, w)"
| "remove_records E cfg installPath (record # records) removedNames w =
     (let realPath = ValidateAndResolveRealPath E installPath (fr_fontPath record);
          w1 = (if realPath \<noteq> [] \<and> CheckPathExist E w realPath then snd (RemoveFile E w realPath) else w);
          w2 = snd (DeleteScopeFontRecordByUrl E w1 cfg (fr_srcPath record));
          names = GetFormatFullName (fr_fullNames record)
      in remove_records E cfg installPath records
           (if names \<noteq> [] then removedNames @ (if removedNames = [] then names else '','' @ names)
            else removedNames) w2)"

text \<open>What follows the choice of the records, common to the three operations.\<close>

definition cleanup_records ::
    "'e font_env_scheme \<Rightarrow> FontConfig \<Rightarrow> int \<Rightarrow> FontRecordInfo list \<Rightarrow> 'a world_scheme \<Rightarrow> 'a world_scheme"
  where
  "cleanup_records E cfg userId records w =
     (let installPath = install_path userId;
          (removedNames, w1) = remove_records E cfg installPath records [] w
      in if records \<noteq> [] then report_update E w1 installPath userId UNINSTALL removedNames
         else CollectUserDataSize E w1 installPath)"

definition CleanupAppScopeFonts ::
    "'e font_env_scheme \<Rightarrow> 'a fm_state_scheme \<Rightarrow> string \<Rightarrow> int \<Rightarrow> int \<times> 'a fm_state_scheme" where
  "CleanupAppScopeFonts E s appIdentifier userId =
     (case SafeGetOrCreateConfig s userId (install_path userId @ FONT_CONFIG_FILE) of
        (cfg, s1) \<Rightarrow>
          let s2 = cleanup_records E cfg userId (GetFontRecordsByAppId E s1 cfg appIdentifier) s1
          in (ERR_OK, DeleteDir E s2 (GetAppInstallPath userId appIdentifier) True))"

definition CleanupScopeFontsByUser ::
    "'e font_env_scheme \<Rightarrow> 'a fm_state_scheme \<Rightarrow> int \<Rightarrow> int \<times> 'a fm_state_scheme" where
  "CleanupScopeFontsByUser E s userId =
     (case SafeGetOrCreateConfig s userId (install_path userId @ FONT_CONFIG_FILE) of
        (cfg, s1) \<Rightarrow> (ERR_OK, cleanup_records E cfg userId (GetScopeFontRecords E s1 cfg) s1))"

definition CleanupAppScopeFontsByUser ::
    "'e font_env_scheme \<Rightarrow> 'a fm_state_scheme \<Rightarrow> int \<Rightarrow> int \<times> 'a fm_state_scheme" where
  "CleanupAppScopeFontsByUser E s userId =
     (case SafeGetOrCreateConfig s userId (install_path userId @ FONT_CONFIG_FILE) of
        (cfg, s1) \<Rightarrow> (ERR_OK, cleanup_records E cfg userId (GetAppScopeFontRecords E s1 cfg) s1))"

end
