(* ===== verification/Data_Migration.thy ===== *)
theory Data_Migration
  imports Font_Manager
begin

text \<open>
  \<open>DataMigrationManager\<close> (\<open>frameworks/fontmgr/src/data_migration_manager.cpp\<close>): every file of the old
  shared directory is copied to the directory of every user and then removed, with progress
  reported to a callback. The state adds the flag \<open>isDataMigrationing_\<close>, the callback and the list
  of users. A callback is \<open>None\<close> when it is null, and \<open>Some b\<close> tells whether its remote object is
  not null.
\<close>

record dm_state = fm_state +
  dm_isDataMigrationing :: bool
  dm_callback :: "bool option"
  dm_userIds :: "int list"

definition COPY_SPEED :: nat where "COPY_SPEED = 10 * 1024 div 60"
definition MAX_TRIGGER_COUNT :: nat where "MAX_TRIGGER_COUNT = 100"
definition BYTES_TO_MB_SHIFT :: nat where "BYTES_TO_MB_SHIFT = 20"

section \<open>Events\<close>

definition RefreshEventData :: "'a dm_state_scheme \<Rightarrow> effect \<Rightarrow> 'a dm_state_scheme" where
  "RefreshEventData s eventData = (if dm_callback s = Some True then emit eventData s else s)"

definition EventDataResult :: "'a dm_state_scheme \<Rightarrow> int \<Rightarrow> 'a dm_state_scheme" where
  "EventDataResult s result = RefreshEventData s (EventResult result)"

definition EventDataHeartBeat :: "'a dm_state_scheme \<Rightarrow> 'a dm_state_scheme" where
  "EventDataHeartBeat s = RefreshEventData s EventHeartBeat"

text \<open>
  The two values of a progress event. Sizes are 64-bit; the product is formed only when it cannot
  overflow; both results are cut to 32 bits.
\<close>

definition time_remaining :: "nat \<Rightarrow> nat \<Rightarrow> nat" where
  "time_remaining folderSize idsize =
     (let remain = (if 0 < idsize \<and> folderSize < UINT64_MAX div idsize
                    then (folderSize * idsize) mod 2 ^ 64 div 2 ^ BYTES_TO_MB_SHIFT else 0);
          timeRemaining = (remain div COPY_SPEED) mod 2 ^ 32
      in if timeRemaining < 1 then 1 else timeRemaining)"

definition progress_percentage :: "nat \<Rightarrow> nat \<Rightarrow> nat" where
  "progress_percentage i count =
     (if i = 0 then i
      else ((i * MAX_TRIGGER_COUNT + count div 2) mod 2 ^ 64 div count) mod 2 ^ 32)"

definition EventDataProgress ::
    "'e font_env_scheme \<Rightarrow> 'a dm_state_scheme \<Rightarrow> nat \<Rightarrow> nat \<Rightarrow> nat \<Rightarrow> 'a dm_state_scheme" where
  "EventDataProgress E s i count idsize =
     RefreshEventData s
       (EventProgress (time_remaining (GetFolderSize E (fs s) INSTALL_PATH_APP mod 2 ^ 64) idsize)
          (progress_percentage i count))"

text \<open>
  Whether file \<open>i\<close> of \<open>totalCount\<close> reports progress. The source rounds \<open>i / step\<close> for
  \<open>step = totalCount / 100\<close> to the nearest trigger (halves away from zero) and asks whether \<open>i\<close> is
  less than one half away from it; here the quotients are multiplied out, so the arithmetic of
  \<open>double\<close> is taken as exact.
\<close>

definition IsShouldUpdateProgress :: "nat \<Rightarrow> nat \<Rightarrow> bool" where
  "IsShouldUpdateProgress i totalCount =
     (if totalCount \<le> MAX_TRIGGER_COUNT then True
      else
        let expectedTriggerIndex = (2 * i * MAX_TRIGGER_COUNT + totalCount) div (2 * totalCount)
        in 2 * \<bar>int (i * MAX_TRIGGER_COUNT) - int (expectedTriggerIndex * totalCount)\<bar> < int MAX_TRIGGER_COUNT)"

definition StartHeartBeatTask :: "'e font_env_scheme \<Rightarrow> 'a dm_state_scheme \<Rightarrow> 'a dm_state_scheme" where
  "StartHeartBeatTask E s = (EventDataHeartBeat ^^ heart_beats E) s"

section \<open>The copying\<close>

definition open_fd :: "int \<Rightarrow> string \<Rightarrow> string \<Rightarrow> 'a world_scheme \<Rightarrow> 'a world_scheme" where
  "open_fd fd path content w =
     w\<lparr>fds := (fds w)(fd \<mapsto> \<lparr>fd_path = path, st_size = int (length content), fd_data = content\<rparr>)\<rparr>"

definition close_fd :: "int \<Rightarrow> 'a world_scheme \<Rightarrow> 'a world_scheme" where
  "close_fd fd w = w\<lparr>fds := (fds w)(fd := None)\<rparr>"

definition CopyFileForDataMigration ::
    "'e font_env_scheme \<Rightarrow> 'a world_scheme \<Rightarrow> string \<Rightarrow> int \<Rightarrow> int \<times> 'a world_scheme" where
  "CopyFileForDataMigration E w srcPath userId =
     (let fileName = GetFileName srcPath;
          tempPath = INSTALL_PATH_PREFIX @ to_string userId @ INSTALL_PATH_SUFFIX @ TEMP_FILE @ fileName;
          desPath = INSTALL_PATH_PREFIX @ to_string userId @ INSTALL_PATH_SUFFIX @ fileName
      in if CheckPathExist E w desPath then (ERR_OK, w)
         else case fopen_r E w srcPath of
           None \<Rightarrow> (ERR_OPEN_SRC_FILE, w)
         | Some content \<Rightarrow>
             let fd = fileno E srcPath in
             if fd < 0 then (ERR_OPEN_SRC_FILE, w)
             else
               let w1 = open_fd fd srcPath content w in
               case CopyFile E w1 fd tempPath of
                 (False, w2) \<Rightarrow> (ERR_COPY_FILE, close_fd fd w2)
               | (True, w2) \<Rightarrow>
                   (case RenameFile E w2 tempPath desPath of
                      (False, w3) \<Rightarrow> (ERR_RENAME_FILE, close_fd fd (snd (RemoveFile E w3 tempPath)))
                    | (True, w3) \<Rightarrow> (ERR_OK, close_fd fd w3)))"

primrec copy_for_users ::
    "'e font_env_scheme \<Rightarrow> string \<Rightarrow> int list \<Rightarrow> 'a world_scheme \<Rightarrow> int \<times> 'a world_scheme" where
  "copy_for_users E path [] w = (ERR_OK, w)"
| "copy_for_users E path (userId # userIds) w =
     (case CopyFileForDataMigration E w path userId of
        (ret, w1) \<Rightarrow> if ret \<noteq> ERR_OK then (ret, w1) else copy_for_users E path userIds w1)"

definition StartOneFileCopyTask ::
    "'e font_env_scheme \<Rightarrow> 'a dm_state_scheme \<Rightarrow> string \<Rightarrow> int \<times> 'a dm_state_scheme" where
  "StartOneFileCopyTask E s path =
     (case copy_for_users E path (dm_userIds s) s of
        (ret, s1) \<Rightarrow>
          if ret \<noteq> ERR_OK then (ret, s1)
          else case RemoveFile E s1 path of
            (False, s2) \<Rightarrow> (ERR_REMOVE_SRC_FILE, s2)
          | (True, s2) \<Rightarrow> (ERR_OK, s2))"

text \<open>The loop of \<open>StartDataMigration\<close>, from file number \<open>i\<close> of \<open>n\<close>.\<close>

fun migrate_files ::
    "'e font_env_scheme \<Rightarrow> nat \<Rightarrow> nat \<Rightarrow> string list \<Rightarrow> 'a dm_state_scheme \<Rightarrow> int \<times> 'a dm_state_scheme"
  where
  "migrate_files E i n [] s = (ERR_OK, s)"
| "migrate_files E i n (path # paths) s =
     (let s1 = (if IsShouldUpdateProgress i n then EventDataProgress E s i n (length (dm_userIds s)) else s)
      in case StartOneFileCopyTask E s1 path of
           (ret, s2) \<Rightarrow> if ret \<noteq> ERR_OK then (ret, s2) else migrate_files E (Suc i) n paths s2)"

definition StartDataMigration ::
    "'e font_env_scheme \<Rightarrow> 'a dm_state_scheme \<Rightarrow> int \<times> 'a dm_state_scheme" where
  "StartDataMigration E s =
     (let paths = GetDirFiles E (fs s) INSTALL_PATH_APP in migrate_files E 0 (length paths) paths s)"

section \<open>Set-up and the whole migration\<close>

definition CheckAllUserDir :: "'e font_env_scheme \<Rightarrow> 'a dm_state_scheme \<Rightarrow> bool" where
  "CheckAllUserDir E s = list_all (\<lambda>userId. CheckPathExist E s (install_path userId)) (dm_userIds s)"

primrec init_temp_dirs ::
    "'e font_env_scheme \<Rightarrow> int list \<Rightarrow> 'a world_scheme \<Rightarrow> bool \<times> 'a world_scheme" where
  "init_temp_dirs E [] w = (True, w)"
| "init_temp_dirs E (userId # userIds) w =
     (case ensure_dir E w (install_path userId @ TEMP_FILE) of
        (False, w1) \<Rightarrow> (False, w1)
      | (True, w1) \<Rightarrow> init_temp_dirs E userIds w1)"

definition InitDataMigrationTempDir ::
    "'e font_env_scheme \<Rightarrow> 'a dm_state_scheme \<Rightarrow> bool \<times> 'a dm_state_scheme" where
  "InitDataMigrationTempDir E s = init_temp_dirs E (dm_userIds s) s"

definition InitDataMigrationEnv ::
    "'e font_env_scheme \<Rightarrow> 'a dm_state_scheme \<Rightarrow> int \<times> 'a dm_state_scheme" where
  "InitDataMigrationEnv E s =
     (let s1 = s\<lparr>dm_userIds := GetAllCreatedUserIds E\<rparr> in
      if dm_userIds s1 = [] then (ERR_GET_ALL_USERIDS, s1)
      else
        let s2 = DeleteDir E s1 (INSTALL_PATH_APP @ TEMP_FILE) True in
        if IsEmptyFolder E (fs s2) INSTALL_PATH_APP then (ERR_NOT_NEED_DATA_MIGRATION, s2)
        else if \<not> CheckAllUserDir E s2 then (ERR_CHECK_INSTALL_DIR, s2)
        else case InitDataMigrationTempDir E s2 of
          (False, s3) \<Rightarrow> (ERR_INIT_TEMP_DIR, s3)
        | (True, s3) \<Rightarrow> (ERR_OK, s3))"

definition CheckAndUpdateAllFontRecord ::
    "'e font_env_scheme \<Rightarrow> 'a dm_state_scheme \<Rightarrow> 'a dm_state_scheme" where
  "CheckAndUpdateAllFontRecord E s =
     foldl (\<lambda>s1 userId. snd (CheckAndUpdateFontRecord E s1
                                \<lparr>ConfigPath = install_path userId @ FONT_CONFIG_FILE\<rparr>))
       s (dm_userIds s)"

definition DataMigrationInner ::
    "'e font_env_scheme \<Rightarrow> 'a dm_state_scheme \<Rightarrow> int \<times> 'a dm_state_scheme" where
  "DataMigrationInner E s =
     (case InitDataMigrationEnv E s of
        (ret, s1) \<Rightarrow>
          if ret \<noteq> ERR_OK then (ret, s1) else StartDataMigration E (StartHeartBeatTask E s1))"

definition DataMigration ::
    "'e font_env_scheme \<Rightarrow> 'a dm_state_scheme \<Rightarrow> bool option \<Rightarrow> 'a dm_state_scheme" where
  "DataMigration E s callback =
     (if dm_isDataMigrationing s then s
      else
        let s1 = s\<lparr>dm_isDataMigrationing := True, dm_callback := callback\<rparr>;
            (ret, s2) = DataMigrationInner E s1;
            s3 = CheckAndUpdateAllFontRecord E s2;
            s4 = (if ret = ERR_OK
                  then foldl (\<lambda>s' userId. snd (ReportFontBundleStats E s' userId (install_path userId)))
                         s3 (dm_userIds s3)
                  else s3);
            s5 = EventDataResult (s4\<lparr>dm_isDataMigrationing := False\<rparr>) ret;
            s6 = CollectDataMigrationState E s5 (dm_userIds s5) ret
        in s6\<lparr>dm_callback := None\<rparr>)"

end
