(* ===== verification/Client_Registry.thy ===== *)
theory Client_Registry
  imports Data_Migration
begin

text \<open>
  \<open>FontClientRegistry\<close> (\<open>frameworks/fontmgr/src/font_client_registry.cpp\<close>): which applications
  observe fonts. The state adds the table \<open>clients_\<close>, the tokens of every user, the death
  notifications that are linked (binder and token) and whether a callback is set. A user without
  an entry in \<open>userClients_\<close> is a user with no tokens, which \<open>operator[]\<close> makes it anyway.
\<close>

record ClientInfo =
  ci_binder :: "int option"
  ci_bundleName :: string
  ci_userId :: int
  ci_tokenId :: int
  ci_appIdentifier :: string

record registry_state = dm_state +
  clients :: "(int \<times> ClientInfo) list"
  userClients :: "int \<Rightarrow> int set"
  death_links :: "(int \<times> int) list"
  clientDiedCallback :: bool

text \<open>The binder framework: whether a recipient can be allocated, and linked to a binder.\<close>

record registry_env = font_env +
  recipient_alloc :: bool
  AddDeathRecipient :: "int \<Rightarrow> bool"

definition BuildAppIdentifier :: "int \<Rightarrow> int \<Rightarrow> string" where
  "BuildAppIdentifier scope_value tokenId =
     (if scope_value = FONT_SCOPE_APP then APP_FONT_DIR_PREFIX @ to_string tokenId
      else SESSION_FONT_DIR_PREFIX @ to_string tokenId)"

definition RegisterClient ::
    "'e registry_env_scheme \<Rightarrow> 'a registry_state_scheme \<Rightarrow> int option \<Rightarrow> string \<Rightarrow> int \<Rightarrow> int
       \<Rightarrow> int \<times> 'a registry_state_scheme" where
  "RegisterClient E s observerBinder bundleName userId tokenId =
     (if map_of (clients s) tokenId \<noteq> None then (ERR_SCOPE_FONT_REPEATED_REGISTER, s)
      else if int (card (userClients s userId)) \<ge> MAX_SCOPE_FONT_APP_NUM
      then (ERR_SCOPE_FONT_EXCEED_REGISTER_LIMIT, s)
      else case observerBinder of
        None \<Rightarrow> (ERR_SYSTEM_ERROR, s)
      | Some binder \<Rightarrow>
          if \<not> recipient_alloc E then (ERR_SYSTEM_ERROR, s)
          else if AddDeathRecipient E binder then
            let info = \<lparr>ci_binder = observerBinder, ci_bundleName = bundleName, ci_userId = userId,
                        ci_tokenId = tokenId, ci_appIdentifier = BuildAppIdentifier FONT_SCOPE_APP tokenId\<rparr>
            in (ERR_OK,
                s\<lparr>death_links := (binder, tokenId) # death_links s,
                  clients := AList.update tokenId info (clients s),
                  userClients := (userClients s)(userId := insert tokenId (userClients s userId))\<rparr>)
          else (ERR_SYSTEM_ERROR, s))"

definition IsClientRegistered :: "'a registry_state_scheme \<Rightarrow> int \<Rightarrow> bool" where
  "IsClientRegistered s tokenId \<longleftrightarrow> map_of (clients s) tokenId \<noteq> None"

definition GetClientCount :: "'a registry_state_scheme \<Rightarrow> int" where
  "GetClientCount s = int (length (clients s))"

definition SetClientDiedCallback :: "'a registry_state_scheme \<Rightarrow> bool \<Rightarrow> 'a registry_state_scheme" where
  "SetClientDiedCallback s callback = s\<lparr>clientDiedCallback := callback\<rparr>"

text \<open>The callback itself belongs to whoever set it, and is an argument here.\<close>

definition NotifyClientDied ::
    "('a registry_state_scheme \<Rightarrow> 'a registry_state_scheme) \<Rightarrow> 'a registry_state_scheme
       \<Rightarrow> 'a registry_state_scheme" where
  "NotifyClientDied callback s = (if clientDiedCallback s then callback s else s)"

text \<open>Under the lock: the entry leaves both tables.\<close>

definition erase_client :: "'a registry_state_scheme \<Rightarrow> int \<Rightarrow> int \<Rightarrow> 'a registry_state_scheme" where
  "erase_client s tokenId userId =
     s\<lparr>clients := AList.delete tokenId (clients s),
       userClients := (userClients s)(userId := userClients s userId - {tokenId})\<rparr>"

text \<open>After the lock: the client's application fonts go, if it has any.\<close>

definition cleanup_client ::
    "'e font_env_scheme \<Rightarrow> 'a registry_state_scheme \<Rightarrow> ClientInfo \<Rightarrow> 'a registry_state_scheme" where
  "cleanup_client E s info =
     (if ci_appIdentifier info \<noteq> [] \<and> ci_userId info \<ge> 0
      then snd (CleanupAppScopeFonts E s (ci_appIdentifier info) (ci_userId info)) else s)"

definition UnregisterClient ::
    "'e registry_env_scheme \<Rightarrow> ('a registry_state_scheme \<Rightarrow> 'a registry_state_scheme)
       \<Rightarrow> 'a registry_state_scheme \<Rightarrow> int \<Rightarrow> int \<times> 'a registry_state_scheme" where
  "UnregisterClient E callback s tokenId =
     (case map_of (clients s) tokenId of
        None \<Rightarrow> (ERR_SCOPE_FONT_NOT_REGISTERED, s)
      | Some info \<Rightarrow>
          let s1 = (case ci_binder info of
                      None \<Rightarrow> s
                    | Some binder \<Rightarrow> s\<lparr>death_links := removeAll (binder, tokenId) (death_links s)\<rparr>);
              s2 = erase_client s1 tokenId (ci_userId info);
              s3 = cleanup_client E s2 info
          in (ERR_OK, NotifyClientDied callback s3))"

definition OnClientDied ::
    "'e registry_env_scheme \<Rightarrow> ('a registry_state_scheme \<Rightarrow> 'a registry_state_scheme)
       \<Rightarrow> 'a registry_state_scheme \<Rightarrow> int \<Rightarrow> 'a registry_state_scheme" where
  "OnClientDied E callback s tokenId =
     (case map_of (clients s) tokenId of
        None \<Rightarrow> s
      | Some info \<Rightarrow>
          let s1 = erase_client s tokenId (ci_userId info);
              s2 = cleanup_client E s1 info
          in NotifyClientDied callback s2)"

text \<open>
  A binder dies: the framework takes the recipients linked to it off its list and calls each;
  \<open>FontClientDeathRecipient::OnRemoteDied\<close> passes its token on.
\<close>

definition OnRemoteDied ::
    "'e registry_env_scheme \<Rightarrow> ('a registry_state_scheme \<Rightarrow> 'a registry_state_scheme)
       \<Rightarrow> 'a registry_state_scheme \<Rightarrow> int \<Rightarrow> 'a registry_state_scheme" where
  "OnRemoteDied E callback s binder =
     foldl (OnClientDied E callback)
       (s\<lparr>death_links := filter (\<lambda>(b, t). b \<noteq> binder) (death_links s)\<rparr>)
       (map snd (filter (\<lambda>(b, t). b = binder) (death_links s)))"

end
