(* ===== verification/Font_Server.thy ===== *)
theory Font_Server
  imports Client_Registry "HOL-Library.Word"
begin

text \<open>
  \<open>FontManagerServer\<close> (\<open>service/server\<close>): the handlers of the remote calls with their permission
  checks, the count of running calls, the queue of posted tasks and the task that unloads the idle
  service. The state adds the atomic members, the task queue of \<open>handler_\<close> (\<open>None\<close> while it is
  null) and the subscriber. A posted task is a value; \<open>run_task\<close> is what its closure does.
\<close>

datatype server_task =
    TaskMigration "bool option"
  | TaskUnload
  | TaskCleanupBoot
  | TaskCleanupUser int
  | TaskCleanupApp

record server_state = registry_state +
  callingCount :: "32 word"
  isDataMigrationing :: bool
  handler :: "server_task list option"
  subscriber :: bool

text \<open>
  The security, account and event services. \<open>VerifyAccessToken\<close> tells whether a permission is
  granted to a token; \<open>None\<close> is a call that fails.
\<close>

record server_env = registry_env +
  VerifyAccessToken :: "32 word \<Rightarrow> string \<Rightarrow> bool"
  GetHapTokenInfo :: "32 word \<Rightarrow> string option"
  GetOsAccountLocalIdFromUid :: "int \<Rightarrow> int option"
  PostTask_ok :: "server_task \<Rightarrow> bool"
  SubscribeCommonEvent_ok :: bool
  UnloadSystemAbility :: "int \<Rightarrow> int"

record ipc_caller =
  CallingTokenID :: "32 word"
  CallingUid :: int

definition PERMISSION_UPDATE_FONT :: string where
  "PERMISSION_UPDATE_FONT = ''ohos.permission.UPDATE_FONT''"
definition PERMISSION_UPDATE_SCOPE_FONT :: string where
  "PERMISSION_UPDATE_SCOPE_FONT = ''ohos.permission.UPDATE_SCOPE_FONT''"
definition REASON_BOOT_COMPLETED :: string where
  "REASON_BOOT_COMPLETED = ''usual.event.BOOT_COMPLETED''"
definition REASON_USER_STOPPING :: string where
  "REASON_USER_STOPPING = ''usual.event.USER_STOPPING''"
definition INVALID_USERID :: int where [err_defs]: "INVALID_USERID = -1"
definition FONT_SA_ID :: int where "FONT_SA_ID = 66262"

section \<open>The caller\<close>

definition CheckPermission :: "'e server_env_scheme \<Rightarrow> ipc_caller \<Rightarrow> int" where
  "CheckPermission E c =
     (if \<not> VerifyAccessToken E (CallingTokenID c) PERMISSION_UPDATE_FONT then ERR_NO_PERMISSION else ERR_OK)"

definition CheckScopeFontPermission :: "'e server_env_scheme \<Rightarrow> ipc_caller \<Rightarrow> int" where
  "CheckScopeFontPermission E c =
     (if \<not> VerifyAccessToken E (CallingTokenID c) PERMISSION_UPDATE_SCOPE_FONT then ERR_NO_PERMISSION
      else ERR_OK)"

definition GetBundleNameByToken :: "'e server_env_scheme \<Rightarrow> ipc_caller \<Rightarrow> string" where
  "GetBundleNameByToken E c =
     (case GetHapTokenInfo E (CallingTokenID c) of None \<Rightarrow> [] | Some bundleName \<Rightarrow> bundleName)"

definition GetCallingUserId :: "'e server_env_scheme \<Rightarrow> ipc_caller \<Rightarrow> int" where
  "GetCallingUserId E c =
     (if ACCOUNT_ENABLE E
      then (case GetOsAccountLocalIdFromUid E (CallingUid c) of
              None \<Rightarrow> INVALID_USERID | Some userId \<Rightarrow> userId)
      else INVALID_USERID)"

text \<open>\<open>static_cast<int32_t>\<close> of the unsigned token.\<close>

definition caller_tokenId :: "ipc_caller \<Rightarrow> int" where
  "caller_tokenId c = sint (CallingTokenID c)"

section \<open>Tasks and the unloading of the idle service\<close>

definition PostTask ::
    "'e server_env_scheme \<Rightarrow> server_task \<Rightarrow> 'a server_state_scheme \<Rightarrow> bool \<times> 'a server_state_scheme" where
  "PostTask E task s =
     (case handler s of
        None \<Rightarrow> (False, s)
      | Some q \<Rightarrow> if PostTask_ok E task then (True, s\<lparr>handler := Some (q @ [task])\<rparr>) else (False, s))"

definition AddUnloadFontServiceTask ::
    "'e server_env_scheme \<Rightarrow> 'a server_state_scheme \<Rightarrow> 'a server_state_scheme" where
  "AddUnloadFontServiceTask E s =
     (if callingCount s > 0 \<or> isDataMigrationing s \<or> GetClientCount s > 0 then s
      else if handler s \<noteq> None then snd (PostTask E TaskUnload s)
      else s)"

definition RemoveUnloadFontServiceTask :: "'a server_state_scheme \<Rightarrow> 'a server_state_scheme" where
  "RemoveUnloadFontServiceTask s =
     (case handler s of None \<Rightarrow> s | Some q \<Rightarrow> s\<lparr>handler := Some (removeAll TaskUnload q)\<rparr>)"

text \<open>\<open>FontServiceLoadManager::UnloadFontService\<close>, which the unload task calls.\<close>

definition UnloadFontService ::
    "'e server_env_scheme \<Rightarrow> 'a world_scheme \<Rightarrow> int \<Rightarrow> bool \<times> 'a world_scheme" where
  "UnloadFontService E w systemAbilityId =
     (if \<not> samgr_present E then (False, w)
      else (UnloadSystemAbility E systemAbilityId = ERR_OK, emit (UnloadService systemAbilityId) w))"

definition unload_task :: "'e server_env_scheme \<Rightarrow> 'a server_state_scheme \<Rightarrow> 'a server_state_scheme" where
  "unload_task E s =
     (if callingCount s \<noteq> 0 \<or> isDataMigrationing s \<or> GetClientCount s > 0 then s
      else
        let s1 = ClearAllTempFileDir E s;
            s2 = CleanupScopeFontDirs E s1
        in snd (UnloadFontService E s2 FONT_SA_ID))"

text \<open>The callback \<open>OnStart\<close> gives to the registry.\<close>

definition client_died_callback ::
    "'e server_env_scheme \<Rightarrow> 'a server_state_scheme \<Rightarrow> 'a server_state_scheme" where
  "client_died_callback E s =
     (if callingCount s = 0 \<and> \<not> isDataMigrationing s \<and> GetClientCount s = 0
      then AddUnloadFontServiceTask E s else s)"

section \<open>The guard around every call\<close>

definition guard_enter :: "'a server_state_scheme \<Rightarrow> 'a server_state_scheme" where
  "guard_enter s =
     (let s1 = RemoveUnloadFontServiceTask s in s1\<lparr>callingCount := callingCount s1 + 1\<rparr>)"

definition guard_exit ::
    "'e server_env_scheme \<Rightarrow> bool \<Rightarrow> 'a server_state_scheme \<Rightarrow> 'a server_state_scheme" where
  "guard_exit E checkClientCount s =
     (let s1 = s\<lparr>callingCount := callingCount s - 1\<rparr> in
      if callingCount s1 = 0
      then (if \<not> checkClientCount \<or> GetClientCount s1 = 0 then AddUnloadFontServiceTask E s1 else s1)
      else s1)"

definition with_guard ::
    "'e server_env_scheme \<Rightarrow> bool \<Rightarrow> ('a server_state_scheme \<Rightarrow> 'r \<times> 'a server_state_scheme)
       \<Rightarrow> 'a server_state_scheme \<Rightarrow> 'r \<times> 'a server_state_scheme" where
  "with_guard E checkClientCount body s =
     (let (r, s1) = body (guard_enter s) in (r, guard_exit E checkClientCount s1))"

section \<open>User-level calls\<close>

definition InstallFontInner ::
    "'e server_env_scheme \<Rightarrow> ipc_caller \<Rightarrow> int \<Rightarrow> 'a server_state_scheme \<Rightarrow> int \<times> 'a server_state_scheme" where
  "InstallFontInner E c fd s =
     (let ret = CheckPermission E c in
      if ret \<noteq> ERR_OK then (ret, s)
      else if ACCOUNT_ENABLE E then
        (case GetOsAccountLocalIdFromUid E (CallingUid c) of
           None \<Rightarrow> (ERR_INSTALL_FAIL, s)
         | Some userId \<Rightarrow> InstallFont E s fd userId)
      else (ERR_INSTALL_FAIL, s))"

text \<open>The call itself always returns \<open>ERR_OK\<close>; the result is the out parameter.\<close>

definition Server_InstallFont ::
    "'e server_env_scheme \<Rightarrow> ipc_caller \<Rightarrow> int \<Rightarrow> 'a server_state_scheme
       \<Rightarrow> (int \<times> int) \<times> 'a server_state_scheme" where
  "Server_InstallFont E c fd =
     with_guard E False (\<lambda>s. let (outValue, s1) = InstallFontInner E c fd s in ((ERR_OK, outValue), s1))"

definition UninstallFontInner ::
    "'e server_env_scheme \<Rightarrow> ipc_caller \<Rightarrow> string \<Rightarrow> 'a server_state_scheme \<Rightarrow> int \<times> 'a server_state_scheme" where
  "UninstallFontInner E c fontName s =
     (let ret = CheckPermission E c in
      if ret \<noteq> ERR_OK then (ret, s)
      else if ACCOUNT_ENABLE E then
        (case GetOsAccountLocalIdFromUid E (CallingUid c) of
           None \<Rightarrow> (ERR_UNINSTALL_FAIL, s)
         | Some userId \<Rightarrow> UninstallFont E s fontName userId)
      else (ERR_UNINSTALL_FAIL, s))"

definition Server_UninstallFont ::
    "'e server_env_scheme \<Rightarrow> ipc_caller \<Rightarrow> string \<Rightarrow> 'a server_state_scheme
       \<Rightarrow> (int \<times> int) \<times> 'a server_state_scheme" where
  "Server_UninstallFont E c fontName =
     with_guard E False
       (\<lambda>s. let (outValue, s1) = UninstallFontInner E c fontName s in ((ERR_OK, outValue), s1))"

definition InstallFontWithUserIdInner ::
    "'e server_env_scheme \<Rightarrow> ipc_caller \<Rightarrow> int \<Rightarrow> int \<Rightarrow> 'a server_state_scheme
       \<Rightarrow> int \<times> 'a server_state_scheme" where
  "InstallFontWithUserIdInner E c fd userId s =
     (let ret = CheckPermission E c in
      if ret = ERR_OK then (if userId < 0 then (ERR_INVALID_PARAM, s) else InstallFont E s fd userId)
      else (ret, s))"

definition InstallFontWithUserId ::
    "'e server_env_scheme \<Rightarrow> ipc_caller \<Rightarrow> int \<Rightarrow> int \<Rightarrow> 'a server_state_scheme
       \<Rightarrow> int \<times> 'a server_state_scheme" where
  "InstallFontWithUserId E c fd userId = with_guard E False (InstallFontWithUserIdInner E c fd userId)"

definition UninstallFontWithUserIdInner ::
    "'e server_env_scheme \<Rightarrow> ipc_caller \<Rightarrow> string \<Rightarrow> int \<Rightarrow> 'a server_state_scheme
       \<Rightarrow> int \<times> 'a server_state_scheme" where
  "UninstallFontWithUserIdInner E c fontName userId s =
     (let ret = CheckPermission E c in
      if ret = ERR_OK
      then (if userId < 0 then (ERR_INVALID_PARAM, s) else UninstallFont E s fontName userId)
      else (ret, s))"

definition UninstallFontWithUserId ::
    "'e server_env_scheme \<Rightarrow> ipc_caller \<Rightarrow> string \<Rightarrow> int \<Rightarrow> 'a server_state_scheme
       \<Rightarrow> int \<times> 'a server_state_scheme" where
  "UninstallFontWithUserId E c fontName userId =
     with_guard E False (UninstallFontWithUserIdInner E c fontName userId)"

section \<open>Data migration\<close>

definition Server_DataMigrationInner ::
    "'e server_env_scheme \<Rightarrow> ipc_caller \<Rightarrow> bool option \<Rightarrow> 'a server_state_scheme
       \<Rightarrow> int \<times> 'a server_state_scheme" where
  "Server_DataMigrationInner E c callback s =
     (let ret = CheckPermission E c in
      if ret \<noteq> ERR_OK then (ret, s)
      else if handler s = None then (ERR_SYSTEM_ERROR, s)
      else if isDataMigrationing s then (ERR_DATA_MIGRATIONING, s)
      else
        let s1 = s\<lparr>isDataMigrationing := True\<rparr> in
        case PostTask E (TaskMigration callback) s1 of
          (False, s2) \<Rightarrow> (ERR_SYSTEM_ERROR, s2\<lparr>isDataMigrationing := False\<rparr>)
        | (True, s2) \<Rightarrow> (ERR_OK, s2))"

definition Server_DataMigration ::
    "'e server_env_scheme \<Rightarrow> ipc_caller \<Rightarrow> bool option \<Rightarrow> 'a server_state_scheme
       \<Rightarrow> int \<times> 'a server_state_scheme" where
  "Server_DataMigration E c callback = with_guard E False (Server_DataMigrationInner E c callback)"

definition StartDataMigrationTask ::
    "'e server_env_scheme \<Rightarrow> bool option \<Rightarrow> 'a server_state_scheme \<Rightarrow> 'a server_state_scheme" where
  "StartDataMigrationTask E callback s =
     (let s1 = RemoveUnloadFontServiceTask s;
          s2 = DataMigration E s1 callback
      in AddUnloadFontServiceTask E (s2\<lparr>isDataMigrationing := False\<rparr>))"

section \<open>Scope-font calls\<close>

definition OnFontObserverInner ::
    "'e server_env_scheme \<Rightarrow> ipc_caller \<Rightarrow> int option \<Rightarrow> 'a server_state_scheme
       \<Rightarrow> int \<times> 'a server_state_scheme" where
  "OnFontObserverInner E c observer s =
     (let ret = CheckScopeFontPermission E c in
      if ret \<noteq> ERR_OK then (ret, s)
      else RegisterClient E s observer (GetBundleNameByToken E c) (GetCallingUserId E c) (caller_tokenId c))"

definition OnFontObserver ::
    "'e server_env_scheme \<Rightarrow> ipc_caller \<Rightarrow> int option \<Rightarrow> 'a server_state_scheme
       \<Rightarrow> int \<times> 'a server_state_scheme" where
  "OnFontObserver E c observer = with_guard E True (OnFontObserverInner E c observer)"

definition OffFontObserverInner ::
    "'e server_env_scheme \<Rightarrow> ipc_caller \<Rightarrow> 'a server_state_scheme \<Rightarrow> int \<times> 'a server_state_scheme" where
  "OffFontObserverInner E c s =
     (let ret = CheckScopeFontPermission E c in
      if ret \<noteq> ERR_OK then (ret, s)
      else UnregisterClient E (client_died_callback E) s (caller_tokenId c))"

definition OffFontObserver ::
    "'e server_env_scheme \<Rightarrow> ipc_caller \<Rightarrow> 'a server_state_scheme \<Rightarrow> int \<times> 'a server_state_scheme" where
  "OffFontObserver E c = with_guard E True (OffFontObserverInner E c)"

definition InstallScopeFontInner ::
    "'e server_env_scheme \<Rightarrow> ipc_caller \<Rightarrow> int \<Rightarrow> int \<Rightarrow> string \<Rightarrow> 'a server_state_scheme
       \<Rightarrow> int \<times> 'a server_state_scheme" where
  "InstallScopeFontInner E c fd scope_value srcPath s =
     (let outValue = CheckScopeFontPermission E c in
      if outValue \<noteq> ERR_OK then (outValue, s)
      else if scope_value \<noteq> FONT_SCOPE_APP \<and> scope_value \<noteq> FONT_SCOPE_SESSION then (ERR_INVALID_PARAM, s)
      else
        let tokenId = caller_tokenId c; userId = GetCallingUserId E c in
        if userId < 0 then (ERR_SYSTEM_ERROR, s)
        else if scope_value = FONT_SCOPE_APP \<and> \<not> IsClientRegistered s tokenId
        then (ERR_SCOPE_FONT_NOT_REGISTERED, s)
        else
          let bundleName = GetBundleNameByToken E c in
          if bundleName = [] then (ERR_SYSTEM_ERROR, s)
          else InstallScopeFont E s
            \<lparr>si_fd = fd, si_scope = scope_value, si_srcPath = srcPath, si_bundleName = bundleName,
             si_appIdentifier = MakeAppIdentifier scope_value tokenId, si_userId = userId\<rparr>)"

definition Server_InstallScopeFont ::
    "'e server_env_scheme \<Rightarrow> ipc_caller \<Rightarrow> int \<Rightarrow> int \<Rightarrow> string \<Rightarrow> 'a server_state_scheme
       \<Rightarrow> (int \<times> int) \<times> 'a server_state_scheme" where
  "Server_InstallScopeFont E c fd scope_value srcPath =
     with_guard E True
       (\<lambda>s. let (outValue, s1) = InstallScopeFontInner E c fd scope_value srcPath s
            in ((ERR_OK, outValue), s1))"

definition UninstallScopeFontInner ::
    "'e server_env_scheme \<Rightarrow> ipc_caller \<Rightarrow> string \<Rightarrow> 'a server_state_scheme
       \<Rightarrow> int \<times> 'a server_state_scheme" where
  "UninstallScopeFontInner E c srcPath s =
     (let outValue = CheckScopeFontPermission E c in
      if outValue \<noteq> ERR_OK then (outValue, s)
      else
        let userId = GetCallingUserId E c in
        if userId < 0 then (ERR_SYSTEM_ERROR, s)
        else
          let bundleName = GetBundleNameByToken E c in
          if bundleName = [] then (ERR_SYSTEM_ERROR, s)
          else UninstallScopeFont E s srcPath bundleName (caller_tokenId c) userId)"

definition Server_UninstallScopeFont ::
    "'e server_env_scheme \<Rightarrow> ipc_caller \<Rightarrow> string \<Rightarrow> 'a server_state_scheme
       \<Rightarrow> (int \<times> int) \<times> 'a server_state_scheme" where
  "Server_UninstallScopeFont E c srcPath =
     with_guard E True
       (\<lambda>s. let (outValue, s1) = UninstallScopeFontInner E c srcPath s in ((ERR_OK, outValue), s1))"

text \<open>The result code and the out parameter, which keeps its value unless the font is found.\<close>

definition GetFontScopeInner ::
    "'e server_env_scheme \<Rightarrow> ipc_caller \<Rightarrow> string \<Rightarrow> int \<Rightarrow> 'a server_state_scheme
       \<Rightarrow> (int \<times> int) \<times> 'a server_state_scheme" where
  "GetFontScopeInner E c srcPath outValue s =
     (let ret = CheckScopeFontPermission E c in
      if ret \<noteq> ERR_OK then ((ret, outValue), s)
      else
        let userId = GetCallingUserId E c in
        if userId < 0 then ((ERR_SYSTEM_ERROR, outValue), s)
        else
          let bundleName = GetBundleNameByToken E c in
          if bundleName = [] then ((ERR_SYSTEM_ERROR, outValue), s)
          else
            let (scope_value, s1) = GetFontScope E s srcPath bundleName (caller_tokenId c) userId in
            if scope_value < 0 \<or> scope_value > 1 then ((scope_value, outValue), s1)
            else ((ERR_OK, scope_value), s1))"

definition Server_GetFontScope ::
    "'e server_env_scheme \<Rightarrow> ipc_caller \<Rightarrow> string \<Rightarrow> int \<Rightarrow> 'a server_state_scheme
       \<Rightarrow> (int \<times> int) \<times> 'a server_state_scheme" where
  "Server_GetFontScope E c srcPath outValue = with_guard E True (GetFontScopeInner E c srcPath outValue)"

section \<open>Start, stop and system events\<close>

definition ParseUserIdFromReason :: "string \<Rightarrow> int" where
  "ParseUserIdFromReason reasonValue =
     (if reasonValue = [] then INVALID_USERID
      else
        let r = strtol10 (c_str reasonValue) in
        if \<not> st_converted r \<or> st_rest r \<noteq> [] \<or> st_erange r \<or> st_value r < 0 \<or> st_value r > INT32_MAX
        then INVALID_USERID
        else st_value r)"

definition CleanupAllScopeFontsOnBoot ::
    "'e server_env_scheme \<Rightarrow> 'a server_state_scheme \<Rightarrow> 'a server_state_scheme" where
  "CleanupAllScopeFontsOnBoot E s =
     (let s1 = foldl (\<lambda>s' uid. snd (CleanupScopeFontsByUser E s' uid)) s (GetAllCreatedUserIds E);
          s2 = ClearAllTempFileDir E s1
      in CleanupAllScopeFontDirs E s2)"

definition CleanupUserScopeFonts ::
    "'e server_env_scheme \<Rightarrow> 'a server_state_scheme \<Rightarrow> int \<Rightarrow> 'a server_state_scheme" where
  "CleanupUserScopeFonts E s userId = (if userId < 0 then s else snd (CleanupScopeFontsByUser E s userId))"

definition CleanupAppScopeFontsOnStart ::
    "'e server_env_scheme \<Rightarrow> 'a server_state_scheme \<Rightarrow> 'a server_state_scheme" where
  "CleanupAppScopeFontsOnStart E s =
     (let s1 = foldl (\<lambda>s' uid. snd (CleanupAppScopeFontsByUser E s' uid)) s (GetAllCreatedUserIds E)
      in CleanupAppScopeFontDirs E s1)"

definition run_task ::
    "'e server_env_scheme \<Rightarrow> server_task \<Rightarrow> 'a server_state_scheme \<Rightarrow> 'a server_state_scheme" where
  "run_task E task s =
     (case task of
        TaskMigration callback \<Rightarrow> StartDataMigrationTask E callback s
      | TaskUnload \<Rightarrow> unload_task E s
      | TaskCleanupBoot \<Rightarrow> CleanupAllScopeFontsOnBoot E s
      | TaskCleanupUser userId \<Rightarrow> CleanupUserScopeFonts E s userId
      | TaskCleanupApp \<Rightarrow> CleanupAppScopeFontsOnStart E s)"

definition SubscribeCommonEvent ::
    "'e server_env_scheme \<Rightarrow> 'a server_state_scheme \<Rightarrow> 'a server_state_scheme" where
  "SubscribeCommonEvent E s =
     (if subscriber s then s else s\<lparr>subscriber := SubscribeCommonEvent_ok E\<rparr>)"

text \<open>\<open>FontManagerEventSubscriber::OnReceiveEvent\<close> with the callback of \<open>SubscribeCommonEvent\<close>.\<close>

definition OnReceiveEvent ::
    "'e server_env_scheme \<Rightarrow> string \<Rightarrow> int \<Rightarrow> 'a server_state_scheme \<Rightarrow> 'a server_state_scheme" where
  "OnReceiveEvent E action code s =
     (if action = REASON_USER_STOPPING then
        (let userId = code in
         if userId \<ge> 0
         then (if handler s = None then s else snd (PostTask E (TaskCleanupUser userId) s))
         else s)
      else s)"

definition OnStart ::
    "'e server_env_scheme \<Rightarrow> string \<Rightarrow> string \<Rightarrow> 'a server_state_scheme \<Rightarrow> 'a server_state_scheme" where
  "OnStart E reasonName reasonValue s =
     (let s1 = SetClientDiedCallback (s\<lparr>handler := Some []\<rparr>) True;
          s2 = snd (PostTask E
                 (if reasonName = REASON_BOOT_COMPLETED then TaskCleanupBoot
                  else if reasonName = REASON_USER_STOPPING
                  then TaskCleanupUser (ParseUserIdFromReason reasonValue)
                  else TaskCleanupApp) s1);
          s3 = AddUnloadFontServiceTask E s2
      in SubscribeCommonEvent E s3)"

definition OnStop :: "'a server_state_scheme \<Rightarrow> 'a server_state_scheme" where
  "OnStop s = (SetClientDiedCallback s False)\<lparr>subscriber := False\<rparr>"

end
