(* ===== verification/Config_Store.thy ===== *)
theory Config_Store
  imports Font_Config
begin

text \<open>
  What a configuration file means: the abstraction from the stored document to a list of font
  records, the library functions rewritten to it, and the effect of each operation of
  \<^theory_text>\<open>Font_Config\<close> on it. Everything is proved against the interface \<open>cjson_library\<close>.
\<close>

section \<open>Documents as records\<close>

definition jmember :: "cJSON \<Rightarrow> string \<Rightarrow> cJSON option" where
  "jmember j key =
     (case j of JObject kvs \<Rightarrow> map_option snd (find (\<lambda>kv. ci_eq (fst kv) key) kvs) | _ \<Rightarrow> None)"

definition jstring :: "cJSON \<Rightarrow> string \<Rightarrow> string option" where
  "jstring j key = (case jmember j key of Some (JString s) \<Rightarrow> Some s | _ \<Rightarrow> None)"

definition jtext :: "cJSON \<Rightarrow> string \<Rightarrow> string" where
  "jtext j key = (case jstring j key of None \<Rightarrow> [] | Some s \<Rightarrow> s)"

fun strings_of :: "cJSON list \<Rightarrow> string list" where
  "strings_of [] = []"
| "strings_of (JString s # xs) = s # strings_of xs"
| "strings_of (x # xs) = strings_of xs"

definition jnames :: "cJSON \<Rightarrow> string list" where
  "jnames j = (case jmember j FONT_FULL_NAME of Some (JArray xs) \<Rightarrow> strings_of xs | _ \<Rightarrow> [])"

definition jnumber :: "cJSON \<Rightarrow> string \<Rightarrow> int option" where
  "jnumber j key = (case jmember j key of Some (JNumber n) \<Rightarrow> Some n | _ \<Rightarrow> None)"

definition jrecord :: "cJSON \<Rightarrow> FontRecordInfo" where
  "jrecord j =
     \<lparr>fr_fontPath = jtext j FONT_PATH, fr_fullNames = jnames j,
      fr_scope = (case jnumber j FONT_SCOPE of None \<Rightarrow> -1 | Some n \<Rightarrow> n),
      fr_srcPath = jtext j FONT_SRC_PATH, fr_appIdentifier = jtext j FONT_APP_IDENTIFIER,
      fr_bundleName = jtext j FONT_BUNDLE_NAME\<rparr>"

definition items_of :: "cJSON \<Rightarrow> cJSON list option" where
  "items_of doc = (case jmember doc FONT_LIST of Some (JArray xs) \<Rightarrow> Some xs | _ \<Rightarrow> None)"

definition config_items ::
    "'e font_env_scheme \<Rightarrow> 'a world_scheme \<Rightarrow> FontConfig \<Rightarrow> cJSON list option" where
  "config_items E w cfg = Option.bind (LoadConfig E w cfg) items_of"

abbreviation item_ok :: "cJSON \<Rightarrow> bool" where
  "item_ok \<equiv> json_valid (CJSON_NESTING_LIMIT - 2)"

lemma set_strings_of: "s \<in> set (strings_of xs) \<longleftrightarrow> JString s \<in> set xs"
  by (induction xs rule: strings_of.induct) auto

lemma strings_of_map_JString [simp]: "strings_of (map (\<lambda>s. JString (f s)) ss) = map f ss"
  by (induction ss) auto

lemma jmember_JObject: "jmember (JObject kvs) key = map_option (\<lambda>i. snd (kvs ! i)) (obj_find kvs key)"
  by (simp add: jmember_def obj_find_def find_index_of option.map_comp comp_def)

section \<open>The frame of a configuration write\<close>

text \<open>Nothing but the configuration file itself changes.\<close>

definition config_frame :: "FontConfig \<Rightarrow> 'a world_scheme \<Rightarrow> 'a world_scheme \<Rightarrow> bool" where
  "config_frame cfg w w' \<longleftrightarrow>
     (\<forall>q. q \<noteq> resolve (ConfigPath cfg) \<longrightarrow> node_at w' q = node_at w q) \<and>
     fds w' = fds w \<and> effects w' = effects w \<and> world.more w' = world.more w"

lemma config_frame_refl [simp]: "config_frame cfg w w"
  by (simp add: config_frame_def)

lemma config_frame_trans: "config_frame cfg w w1 \<Longrightarrow> config_frame cfg w1 w2 \<Longrightarrow> config_frame cfg w w2"
  by (simp add: config_frame_def)

lemma config_frame_put:
  "resolve (ConfigPath cfg) \<noteq> [] \<Longrightarrow> config_frame cfg w (put_node (resolve (ConfigPath cfg)) n w)"
  by (simp add: config_frame_def world_simps)

lemma fopen_w_SomeD:
  "fopen_w E w s = Some w1 \<Longrightarrow>
     w1 = put_node (resolve s) (File []) w \<and> resolve s \<noteq> [] \<and> \<not> wants_dir s
     \<and> node_at w (butlast (resolve s)) = Some Dir"
  by (auto simp: fopen_w_def can_create_def split: if_splits)

lemma WriteToFile_frame:
  assumes "WriteToFile E w cfg t = (r, w')"
  shows "config_frame cfg w w'"
proof (cases "w' = w")
  case False
  with assms obtain u w1 where u: "t = Some u" and w1: "fopen_w E w (ConfigPath cfg) = Some w1"
    by (auto simp: WriteToFile_def split: option.splits)
  with assms obtain d where w': "w' = put_node (resolve (ConfigPath cfg)) (File d) w1"
    by (auto simp: WriteToFile_def fwrite_all_def Let_def)
  from fopen_w_SomeD [OF w1] have "w1 = put_node (resolve (ConfigPath cfg)) (File []) w"
    and ne: "resolve (ConfigPath cfg) \<noteq> []" by auto
  with w' config_frame_trans [OF config_frame_put [OF ne] config_frame_put [OF ne]]
  show ?thesis by blast
qed simp

text \<open>A successful write leaves the whole text in the file.\<close>

lemma WriteToFile_content:
  assumes "WriteToFile E w cfg (Some t) = (True, w')" "is_cstring t"
  shows "node_at w' (resolve (ConfigPath cfg)) = Some (File t)" "\<not> wants_dir (ConfigPath cfg)"
proof -
  from assms obtain w1 where w1: "fopen_w E w (ConfigPath cfg) = Some w1"
    by (auto simp: WriteToFile_def split: option.splits)
  then have ne: "resolve (ConfigPath cfg) \<noteq> []" and "\<not> wants_dir (ConfigPath cfg)"
    by (auto dest: fopen_w_SomeD)
  then show "\<not> wants_dir (ConfigPath cfg)" by simp
  from assms w1 ne show "node_at w' (resolve (ConfigPath cfg)) = Some (File t)"
    by (auto simp: WriteToFile_def fwrite_all_def Let_def world_simps)
qed

text \<open>A document can be read only if no call on its path is refused.\<close>

definition readable :: "'e font_env_scheme \<Rightarrow> string \<Rightarrow> bool" where
  "readable E p \<longleftrightarrow> p \<noteq> [] \<and> \<not> sys_fault E (SysExists p) \<and> \<not> sys_fault E (SysOpenR p)
     \<and> \<not> sys_fault E (SysTell p) \<and> \<not> sys_fault E (SysMalloc p) \<and> \<not> sys_fault E (SysRead p)"

lemma CheckConfigFile_readable:
  assumes "CheckConfigFile E w p \<noteq> []"
  shows "readable E p"
  using assms
  by (auto simp: CheckConfigFile_def CheckPathExist_def GetFileData_def fopen_r_def readable_def Let_def
      split: if_splits option.splits)

lemma CheckConfigFile_content:
  assumes "readable E p" "node_at w (resolve p) = Some (File t)" "\<not> wants_dir p" "int (length t) < LONG_MAX"
  shows "CheckConfigFile E w p = t @ [NUL]"
  using assms
  by (simp add: CheckConfigFile_def CheckPathExist_def GetFileData_def fopen_r_def readable_def Let_def
      path_exists_def file_content_def nat_add_distrib)

text \<open>The document depends on the configuration file alone.\<close>

lemma LoadConfig_cong:
  assumes "node_at w' (resolve (ConfigPath cfg)) = node_at w (resolve (ConfigPath cfg))"
  shows "LoadConfig E w' cfg = LoadConfig E w cfg"
  using assms
  by (simp add: LoadConfig_def CheckConfigFile_def CheckPathExist_def path_exists_def
      GetFileData_def fopen_r_def file_content_def)

lemma config_items_cong:
  "node_at w' (resolve (ConfigPath cfg)) = node_at w (resolve (ConfigPath cfg)) \<Longrightarrow>
     config_items E w' cfg = config_items E w cfg"
  by (simp add: config_items_def LoadConfig_cong [of w' cfg w])

section \<open>The frames of the operations\<close>

lemma InsertFontRecordIfUnderLimit_frame:
  "InsertFontRecordIfUnderLimit E w cfg p ns m = (r, w') \<Longrightarrow> config_frame cfg w w'"
  by (auto simp: InsertFontRecordIfUnderLimit_def dest!: WriteToFile_frame
      split: option.splits prod.splits bool.splits if_splits)

lemma InsertFontRecord_frame: "InsertFontRecord E w cfg p ns = (b, w') \<Longrightarrow> config_frame cfg w w'"
  by (auto simp: InsertFontRecord_def dest!: WriteToFile_frame split: option.splits prod.splits if_splits)

lemma InsertScopeFontRecord_frame: "InsertScopeFontRecord E w cfg r = (b, w') \<Longrightarrow> config_frame cfg w w'"
  by (auto simp: InsertScopeFontRecord_def dest!: WriteToFile_frame split: option.splits prod.splits)

lemma delete_by_member_frame: "delete_by_member E w cfg key v = (b, w') \<Longrightarrow> config_frame cfg w w'"
  by (auto simp: delete_by_member_def dest!: WriteToFile_frame split: option.splits prod.splits)

lemma DeleteScopeFontRecordByAppId_frame:
  "DeleteScopeFontRecordByAppId E w cfg a = (b, w') \<Longrightarrow> config_frame cfg w w'"
  by (auto simp: DeleteScopeFontRecordByAppId_def dest!: WriteToFile_frame
      split: option.splits prod.splits if_splits)

lemma CheckAndUpdateFontRecord_frame:
  "CheckAndUpdateFontRecord E w cfg = (b, w') \<Longrightarrow> config_frame cfg w w'"
  by (auto simp: CheckAndUpdateFontRecord_def Let_def dest!: WriteToFile_frame
      split: option.splits if_splits)

section \<open>The library functions on documents\<close>

context cjson_library
begin

lemma member_eq: "map_option (item_at j) (cJSON_GetObjectItem E j key) = jmember j key"
proof (cases j)
  case (JObject kvs)
  then show ?thesis
    by (cases "obj_find kvs key") (auto simp: read_laws jmember_JObject dest: obj_find_SomeD)
qed (simp_all add: read_laws jmember_def)

lemma string_member_eq: "string_member E j key = jstring j key"
proof -
  have "string_member E j key =
      (case map_option (item_at j) (cJSON_GetObjectItem E j key) of
         None \<Rightarrow> None | Some v \<Rightarrow> if cJSON_IsString E v then Some (valuestring v) else None)"
    by (simp add: string_member_def split: option.split)
  then show ?thesis
    by (auto simp: member_eq jstring_def IsString split: option.split cJSON.split)
qed

lemma array_item_eq: "array_item E (JArray xs) i = (if i < length xs then Some (xs ! i) else None)"
  by (simp add: array_item_def GetArrayItem)

lemma find_item_eq: "find_item E (JArray xs) P = index_of P xs"
proof -
  have "find_item E (JArray xs) P = find (\<lambda>i. P (xs ! i)) [0..<length xs]"
    unfolding find_item_def GetArraySize
    by (rule find_cong) (auto simp: array_item_eq)
  then show ?thesis by (simp add: find_index_eq)
qed

lemma has_name_eq: "has_name E n j \<longleftrightarrow> n \<in> set (jnames j)"
proof -
  have arr: "(find_item E (JArray xs) (\<lambda>x. cJSON_IsString E x \<and> n = valuestring x) \<noteq> None)
      = (n \<in> set (strings_of xs))" for xs
    by (force simp: find_item_eq index_of_None IsString set_strings_of)
  have "has_name E n j =
      (case map_option (item_at j) (cJSON_GetObjectItem E j FONT_FULL_NAME) of
         None \<Rightarrow> False
       | Some arr \<Rightarrow> cJSON_IsArray E arr \<and>
           find_item E arr (\<lambda>x. cJSON_IsString E x \<and> n = valuestring x) \<noteq> None)"
    by (simp add: has_name_def Let_def split: option.split)
  also have "\<dots> = (case jmember j FONT_FULL_NAME of Some (JArray xs) \<Rightarrow> n \<in> set (strings_of xs) | _ \<Rightarrow> False)"
    unfolding member_eq
    by (cases "jmember j FONT_FULL_NAME"; simp; case_tac a; simp add: IsArray arr [simplified])
  also have "\<dots> = (n \<in> set (jnames j))"
    by (simp add: jnames_def split: option.split cJSON.split)
  finally show ?thesis .
qed

lemma names_of_eq: "names_of E (JArray xs) = strings_of xs"
proof -
  have "names_of E (JArray xs) =
      concat (map (\<lambda>i. if cJSON_IsString E (xs ! i) then [valuestring (xs ! i)] else []) [0..<length xs])"
    unfolding names_of_def GetArraySize
    by (intro arg_cong [where f = concat] map_cong) (auto simp: array_item_eq)
  also have "\<dots> = concat (map (\<lambda>x. if cJSON_IsString E x then [valuestring x] else []) xs)"
    by (intro arg_cong [where f = concat] nth_equalityI) auto
  also have "\<dots> = strings_of xs"
    by (induction xs rule: strings_of.induct) (auto simp: IsString)
  finally show ?thesis .
qed

lemma number_member_eq:
  "(case cJSON_GetObjectItem E j key of
      None \<Rightarrow> d | Some p \<Rightarrow> if cJSON_IsNumber E (item_at j p) then f (valueint (item_at j p)) else d)
   = (case jnumber j key of None \<Rightarrow> d | Some n \<Rightarrow> f n)"
proof -
  have "?thesis \<longleftrightarrow>
     (case map_option (item_at j) (cJSON_GetObjectItem E j key) of
        None \<Rightarrow> d | Some v \<Rightarrow> if cJSON_IsNumber E v then f (valueint v) else d)
     = (case jnumber j key of None \<Rightarrow> d | Some n \<Rightarrow> f n)"
    by (simp split: option.split)
  then show ?thesis
    by (auto simp: member_eq jnumber_def IsNumber split: option.split cJSON.split)
qed

lemma ParseScopeRecord_eq: "ParseScopeRecord E j = jrecord j"
proof -
  have "(case cJSON_GetObjectItem E j FONT_FULL_NAME of
           None \<Rightarrow> []
         | Some p \<Rightarrow> if cJSON_IsArray E (item_at j p) then names_of E (item_at j p) else []) =
        (case map_option (item_at j) (cJSON_GetObjectItem E j FONT_FULL_NAME) of
           None \<Rightarrow> [] | Some v \<Rightarrow> if cJSON_IsArray E v then names_of E v else [])"
    by (simp split: option.split)
  also have "\<dots> = jnames j"
    by (auto simp: member_eq jnames_def IsArray names_of_eq split: option.split cJSON.split)
  finally show ?thesis
    unfolding ParseScopeRecord_def jrecord_def jtext_def
    by (simp add: string_member_eq number_member_eq [where f = "\<lambda>n. n"])
qed

lemma scope_test_eq: "scope_test E P j \<longleftrightarrow> (case jnumber j FONT_SCOPE of None \<Rightarrow> False | Some n \<Rightarrow> P n)"
proof -
  have "scope_test E P j =
    (case cJSON_GetObjectItem E j FONT_SCOPE of
       None \<Rightarrow> False
     | Some p \<Rightarrow> if cJSON_IsNumber E (item_at j p) then P (valueint (item_at j p)) else False)"
    by (auto simp: scope_test_def split: option.split)
  then show ?thesis by (simp add: number_member_eq)
qed

lemmas item_laws = string_member_eq find_item_eq has_name_eq ParseScopeRecord_eq scope_test_eq
  array_item_eq GetArraySize

text \<open>
  A loaded document with its record array: both accessors find the array at one position, and
  putting a new array there replaces the records and keeps the document valid.
\<close>

lemma doc_items:
  assumes doc: "json_ok doc" and items: "items_of doc = Some xs"
  obtains p where "font_array E doc = Some (p, JArray xs)" "font_list E doc = Some (p, JArray xs)"
    "\<And>ys. items_of (item_put doc p (JArray ys)) = Some ys"
    "\<And>x. x \<in> set xs \<Longrightarrow> item_ok x"
    "\<And>ys. (\<And>y. y \<in> set ys \<Longrightarrow> item_ok y) \<Longrightarrow> json_ok (item_put doc p (JArray ys))"
proof -
  from items obtain kvs p where kvs: "doc = JObject kvs" and p: "obj_find kvs FONT_LIST = Some p"
    and at: "snd (kvs ! p) = JArray xs"
    by (cases doc) (auto simp: items_of_def jmember_JObject split: option.splits cJSON.splits,
        auto simp: jmember_def)
  from p have lt: "p < length kvs" by (auto dest: obj_find_SomeD)
  have lim: "CJSON_NESTING_LIMIT = Suc (Suc (CJSON_NESTING_LIMIT - 2))"
    by (simp add: CJSON_NESTING_LIMIT_def)
  have mem: "is_cstring (fst kv) \<and> json_valid (Suc (CJSON_NESTING_LIMIT - 2)) (snd kv)" if "kv \<in> set kvs" for kv
    using doc that unfolding kvs by (subst (asm) lim) auto
  show thesis
  proof (rule that)
    show "font_list E doc = Some (p, JArray xs)"
      using p lt at by (simp add: font_list_def kvs GetObjectItem)
    then show "font_array E doc = Some (p, JArray xs)"
      by (simp add: font_array_def IsArray)
    show "items_of (item_put doc p (JArray ys)) = Some ys" for ys
      using p lt by (simp add: kvs items_of_def jmember_JObject obj_find_update_value)
    show "item_ok x" if "x \<in> set xs" for x
      using mem [of "kvs ! p"] lt at that by auto
    show "json_ok (item_put doc p (JArray ys))" if ys: "\<And>y. y \<in> set ys \<Longrightarrow> item_ok y" for ys
    proof -
      have "is_cstring (fst kv) \<and> json_valid (Suc (CJSON_NESTING_LIMIT - 2)) (snd kv)"
        if "kv \<in> set (kvs[p := (fst (kvs ! p), JArray ys)])" for kv
      proof -
        from that consider "kv = (fst (kvs ! p), JArray ys)" | "kv \<in> set kvs"
          using set_update_subset_insert by (metis insertE subsetD)
        then show ?thesis
        proof cases
          case 1
          with mem [OF nth_mem [OF lt]] ys show ?thesis by simp
        next
          case 2
          then show ?thesis by (rule mem)
        qed
      qed
      then show ?thesis using lt unfolding kvs by (subst lim) (auto simp del: fst_conv)
    qed
  qed
qed

end

end
