(* ===== verification/Config_Ops.thy ===== *)
theory Config_Ops
  imports Config_Store
begin

text \<open>
  The effect of each operation of \<open>FontConfig\<close> on the list of items of the configuration file,
  on every branch. The interface is \<open>cjson_library\<close> at the type of the environment.
\<close>

locale config_library = cjson_library E for E :: "'e font_env_scheme"

section \<open>The items the code writes\<close>

definition user_item :: "string \<Rightarrow> string list \<Rightarrow> cJSON" where
  "user_item fontPath fullNames =
     JObject [(FONT_PATH, JString (c_str fontPath)),
              (FONT_FULL_NAME, JArray (map (\<lambda>n. JString (c_str n)) fullNames))]"

definition text_member :: "string \<Rightarrow> string \<Rightarrow> (string \<times> cJSON) list" where
  "text_member key s = (if s \<noteq> [] then [(key, JString (c_str s))] else [])"

definition scope_item :: "FontRecordInfo \<Rightarrow> cJSON" where
  "scope_item r =
     JObject ([(FONT_PATH, JString (c_str (fr_fontPath r))),
               (FONT_FULL_NAME, JArray (map (\<lambda>n. JString (c_str n)) (fr_fullNames r)))]
       @ (if fr_scope r \<ge> 0 then [(FONT_SCOPE, JNumber (fr_scope r))] else [])
       @ text_member FONT_SRC_PATH (fr_srcPath r)
       @ text_member FONT_APP_IDENTIFIER (fr_appIdentifier r)
       @ text_member FONT_BUNDLE_NAME (fr_bundleName r))"

lemmas key_defs = FONT_PATH_def FONT_FULL_NAME_def FONT_SCOPE_def FONT_SRC_PATH_def
  FONT_APP_IDENTIFIER_def FONT_BUNDLE_NAME_def FONT_VERSION_def FONT_LIST_def

lemma keys_cstring [simp]:
  "is_cstring FONT_PATH" "is_cstring FONT_FULL_NAME" "is_cstring FONT_SCOPE"
  "is_cstring FONT_SRC_PATH" "is_cstring FONT_APP_IDENTIFIER" "is_cstring FONT_BUNDLE_NAME"
  "is_cstring FONT_VERSION" "is_cstring FONT_LIST"
  by (simp_all add: key_defs NUL_def)

text \<open>The keys are told apart by the case-insensitive lookup: their lengths differ.\<close>

lemma ci_eq_lengthI: "length a \<noteq> length b \<Longrightarrow> \<not> ci_eq a b"
  unfolding ci_eq_def by (auto dest: map_eq_imp_length_eq)

lemma keys_distinct [simp]:
  "\<not> ci_eq FONT_PATH FONT_FULL_NAME" "\<not> ci_eq FONT_PATH FONT_SCOPE"
  "\<not> ci_eq FONT_PATH FONT_SRC_PATH" "\<not> ci_eq FONT_PATH FONT_APP_IDENTIFIER"
  "\<not> ci_eq FONT_PATH FONT_BUNDLE_NAME" "\<not> ci_eq FONT_FULL_NAME FONT_PATH"
  "\<not> ci_eq FONT_FULL_NAME FONT_SCOPE" "\<not> ci_eq FONT_FULL_NAME FONT_SRC_PATH"
  "\<not> ci_eq FONT_FULL_NAME FONT_APP_IDENTIFIER" "\<not> ci_eq FONT_FULL_NAME FONT_BUNDLE_NAME"
  "\<not> ci_eq FONT_SCOPE FONT_PATH" "\<not> ci_eq FONT_SCOPE FONT_FULL_NAME"
  "\<not> ci_eq FONT_SCOPE FONT_SRC_PATH" "\<not> ci_eq FONT_SCOPE FONT_APP_IDENTIFIER"
  "\<not> ci_eq FONT_SCOPE FONT_BUNDLE_NAME" "\<not> ci_eq FONT_SRC_PATH FONT_PATH"
  "\<not> ci_eq FONT_SRC_PATH FONT_FULL_NAME" "\<not> ci_eq FONT_SRC_PATH FONT_SCOPE"
  "\<not> ci_eq FONT_SRC_PATH FONT_APP_IDENTIFIER" "\<not> ci_eq FONT_SRC_PATH FONT_BUNDLE_NAME"
  "\<not> ci_eq FONT_APP_IDENTIFIER FONT_PATH" "\<not> ci_eq FONT_APP_IDENTIFIER FONT_FULL_NAME"
  "\<not> ci_eq FONT_APP_IDENTIFIER FONT_SCOPE" "\<not> ci_eq FONT_APP_IDENTIFIER FONT_SRC_PATH"
  "\<not> ci_eq FONT_APP_IDENTIFIER FONT_BUNDLE_NAME" "\<not> ci_eq FONT_BUNDLE_NAME FONT_PATH"
  "\<not> ci_eq FONT_BUNDLE_NAME FONT_FULL_NAME" "\<not> ci_eq FONT_BUNDLE_NAME FONT_SCOPE"
  "\<not> ci_eq FONT_BUNDLE_NAME FONT_SRC_PATH" "\<not> ci_eq FONT_BUNDLE_NAME FONT_APP_IDENTIFIER"
  "\<not> ci_eq FONT_LIST FONT_VERSION" "\<not> ci_eq FONT_VERSION FONT_LIST"
  by (rule ci_eq_lengthI, simp add: key_defs)+

lemma item_ok_user_item: "item_ok (user_item p ns)"
  by (auto simp: user_item_def CJSON_NESTING_LIMIT_def json_valid_JObject json_valid_JArray)

lemma item_ok_scope_item: "int32_range (fr_scope r) \<Longrightarrow> item_ok (scope_item r)"
  by (auto simp: scope_item_def text_member_def CJSON_NESTING_LIMIT_def json_valid_JObject
      json_valid_JArray)

lemma jmember_Cons:
  "jmember (JObject ((k, v) # kvs)) key = (if ci_eq k key then Some v else jmember (JObject kvs) key)"
  by (simp add: jmember_def)

lemma jmember_Nil: "jmember (JObject []) key = None"
  by (simp add: jmember_def)

lemma jmember_append:
  "jmember (JObject (kvs @ kvs')) key =
     (case jmember (JObject kvs) key of None \<Rightarrow> jmember (JObject kvs') key | Some v \<Rightarrow> Some v)"
  by (induction kvs) (auto simp: jmember_Cons jmember_Nil)

lemma jmember_text_member:
  "jmember (JObject (text_member k s)) key = (if s \<noteq> [] \<and> ci_eq k key then Some (JString (c_str s)) else None)"
  by (simp add: text_member_def jmember_Cons jmember_Nil)

lemmas jmember_simps = jmember_Cons jmember_Nil jmember_append jmember_text_member

lemma jstring_user_item:
  "jstring (user_item p ns) FONT_PATH = Some (c_str p)"
  "jstring (user_item p ns) FONT_SRC_PATH = None"
  "jstring (user_item p ns) FONT_APP_IDENTIFIER = None"
  by (simp_all add: user_item_def jstring_def jmember_simps)

lemma jrecord_user_item:
  "jrecord (user_item p ns) = empty_record\<lparr>fr_fontPath := c_str p, fr_fullNames := map c_str ns\<rparr>"
  by (simp add: user_item_def jrecord_def jtext_def jstring_def jnames_def jnumber_def jmember_simps
      empty_record_def)

text \<open>What is written for a record reads back as the record, its texts cut at the first NUL.\<close>

lemma jrecord_scope_item:
  "jrecord (scope_item r) =
     \<lparr>fr_fontPath = c_str (fr_fontPath r), fr_fullNames = map c_str (fr_fullNames r),
      fr_scope = (if fr_scope r \<ge> 0 then fr_scope r else -1),
      fr_srcPath = c_str (fr_srcPath r), fr_appIdentifier = c_str (fr_appIdentifier r),
      fr_bundleName = c_str (fr_bundleName r)\<rparr>"
  by (simp add: scope_item_def jrecord_def jtext_def jstring_def jnames_def jnumber_def jmember_simps)

lemma jstring_scope_item:
  "jstring (scope_item r) FONT_PATH = Some (c_str (fr_fontPath r))"
  "jstring (scope_item r) FONT_SRC_PATH = (if fr_srcPath r = [] then None else Some (c_str (fr_srcPath r)))"
  "jstring (scope_item r) FONT_APP_IDENTIFIER =
     (if fr_appIdentifier r = [] then None else Some (c_str (fr_appIdentifier r)))"
  by (simp_all add: scope_item_def jstring_def jmember_simps)

text \<open>Tests on an item: a text member with a value, a scope with a property.\<close>

definition has_text :: "string \<Rightarrow> string \<Rightarrow> cJSON \<Rightarrow> bool" where
  "has_text key v j \<longleftrightarrow> jstring j key = Some v"

definition has_scope :: "(int \<Rightarrow> bool) \<Rightarrow> cJSON \<Rightarrow> bool" where
  "has_scope P j \<longleftrightarrow> (case jnumber j FONT_SCOPE of None \<Rightarrow> False | Some n \<Rightarrow> P n)"

definition recorded_paths :: "cJSON list \<Rightarrow> string set" where
  "recorded_paths xs = {p. \<exists>x\<in>set xs. has_text FONT_PATH p x}"

section \<open>Loading and writing back\<close>

context config_library
begin

lemma LoadConfig_readable: "LoadConfig E w cfg = Some doc \<Longrightarrow> readable E (ConfigPath cfg) \<and> json_ok doc"
  by (cases "CheckConfigFile E w (ConfigPath cfg) = []")
    (auto simp: LoadConfig_def parse_empty c_str_def dest: CheckConfigFile_readable parse_ok)

lemma write_doc:
  assumes load: "LoadConfig E w cfg = Some doc0" and ok: "json_ok doc"
    and wr: "WriteToFile E w cfg (cJSON_Print E doc) = (True, w')"
  shows "LoadConfig E w' cfg = Some doc"
proof -
  from load have rd: "readable E (ConfigPath cfg)" by (auto dest: LoadConfig_readable)
  from wr obtain t where t: "cJSON_Print E doc = Some t"
    by (auto simp: WriteToFile_def split: option.splits)
  with ok have ct: "is_cstring t" by (rule print_cstring)
  with wr t have "CheckConfigFile E w' (ConfigPath cfg) = t @ [NUL]"
    by (intro CheckConfigFile_content rd) (auto dest: WriteToFile_content print_size)
  with ct print_parse [OF ok t] show ?thesis by (simp add: LoadConfig_def)
qed

lemma font_array_cases:
  "font_array E doc = None \<and> items_of doc = None
   \<or> (\<exists>p xs. font_array E doc = Some (p, JArray xs) \<and> items_of doc = Some xs)"
proof (cases "cJSON_GetObjectItem E doc FONT_LIST")
  case None
  with member_eq [of doc FONT_LIST] show ?thesis
    by (simp add: font_array_def font_list_def items_of_def)
next
  case (Some p)
  with member_eq [of doc FONT_LIST] have "jmember doc FONT_LIST = Some (item_at doc p)" by simp
  with Some show ?thesis
    by (cases "item_at doc p") (auto simp: font_array_def font_list_def items_of_def IsArray)
qed

text \<open>
  The three shapes of a configuration: nothing to read, no array of records, or records. In the
  last case both accessors agree, and a new array can be written over the old one.
\<close>

lemma config_None:
  assumes "config_items E w cfg = None"
  shows "LoadConfig E w cfg = None \<or> (\<exists>doc. LoadConfig E w cfg = Some doc \<and> font_array E doc = None)"
  using assms font_array_cases
  by (cases "LoadConfig E w cfg") (auto simp: config_items_def, metis option.distinct(1))

lemma config_Some:
  assumes "config_items E w cfg = Some xs"
  obtains doc p where "LoadConfig E w cfg = Some doc" "json_ok doc"
    "font_array E doc = Some (p, JArray xs)" "font_list E doc = Some (p, JArray xs)"
    "\<And>x. x \<in> set xs \<Longrightarrow> item_ok x"
    "\<And>ys w'. \<forall>y\<in>set ys. item_ok y \<Longrightarrow>
        WriteToFile E w cfg (cJSON_Print E (item_put doc p (JArray ys))) = (True, w') \<Longrightarrow>
        config_items E w' cfg = Some ys"
proof -
  from assms obtain doc where load: "LoadConfig E w cfg = Some doc" and items: "items_of doc = Some xs"
    by (auto simp: config_items_def bind_eq_Some_conv)
  from load have ok: "json_ok doc" by (auto dest: LoadConfig_readable)
  from ok items obtain p where p: "font_array E doc = Some (p, JArray xs)" "font_list E doc = Some (p, JArray xs)"
    "\<And>ys. items_of (item_put doc p (JArray ys)) = Some ys" "\<And>x. x \<in> set xs \<Longrightarrow> item_ok x"
    "\<And>ys. \<forall>y\<in>set ys. item_ok y \<Longrightarrow> json_ok (item_put doc p (JArray ys))"
    by (rule doc_items) blast
  show thesis
  proof (rule that [OF load ok p(1,2,4)])
    fix ys w'
    assume ys: "\<forall>y\<in>set ys. item_ok y"
      and wr: "WriteToFile E w cfg (cJSON_Print E (item_put doc p (JArray ys))) = (True, w')"
    from write_doc [OF load p(5) [OF ys] wr] show "config_items E w' cfg = Some ys"
      by (simp add: config_items_def p(3))
  qed
qed

lemma config_items_ok: "config_items E w cfg = Some xs \<Longrightarrow> x \<in> set xs \<Longrightarrow> item_ok x"
  by (rule config_Some) auto

section \<open>Construction\<close>

lemma SafeAddString: "SafeAddStringToObject E (JObject kvs) key s = Some j \<Longrightarrow> is_cstring key \<Longrightarrow>
    j = JObject (kvs @ [(key, JString (c_str s))])"
  by (auto simp: SafeAddStringToObject_def bind_eq_Some_conv dest: CreateString AddItemToObject)

lemma SafeAddNumber: "SafeAddNumberToObject E (JObject kvs) key n = Some j \<Longrightarrow> is_cstring key \<Longrightarrow>
    int32_range n \<Longrightarrow> j = JObject (kvs @ [(key, JNumber n)])"
  by (auto simp: SafeAddNumberToObject_def bind_eq_Some_conv dest: CreateNumber AddItemToObject)

lemma add_names_eq: "add_names E (JArray xs) ns = Some j \<Longrightarrow> j = JArray (xs @ map (\<lambda>n. JString (c_str n)) ns)"
proof (induction ns arbitrary: xs)
  case (Cons n ns)
  then obtain it arr where "cJSON_CreateString E n = Some it"
    "cJSON_AddItemToArray E (JArray xs) it = Some arr" "add_names E arr ns = Some j"
    by (auto simp: bind_eq_Some_conv)
  with Cons.IH [of "xs @ [JString (c_str n)]"] show ?case
    by (auto dest!: CreateString AddItemToArray)
qed simp

lemma ConstructCJSON_eq: "ConstructCJSON E p ns = Some j \<Longrightarrow> j = user_item p ns"
  by (auto simp: ConstructCJSON_def user_item_def bind_eq_Some_conv
      dest!: CreateObject CreateArray SafeAddString add_names_eq AddItemToObject)

lemma ConstructScopeCJSON_eq:
  assumes "ConstructScopeCJSON E r = Some j" "int32_range (fr_scope r)"
  shows "j = scope_item r"
proof -
  from assms(1) obtain a b c d where steps:
    "ConstructCJSON E (fr_fontPath r) (fr_fullNames r) = Some a"
    "(if fr_scope r \<ge> 0 then SafeAddNumberToObject E a FONT_SCOPE (fr_scope r) else Some a) = Some b"
    "(if fr_srcPath r \<noteq> [] then SafeAddStringToObject E b FONT_SRC_PATH (fr_srcPath r) else Some b) = Some c"
    "(if fr_appIdentifier r \<noteq> [] then SafeAddStringToObject E c FONT_APP_IDENTIFIER (fr_appIdentifier r)
      else Some c) = Some d"
    "(if fr_bundleName r \<noteq> [] then SafeAddStringToObject E d FONT_BUNDLE_NAME (fr_bundleName r)
      else Some d) = Some j"
    unfolding ConstructScopeCJSON_def bind_eq_Some_conv by blast
  let ?u = "[(FONT_PATH, JString (c_str (fr_fontPath r))),
               (FONT_FULL_NAME, JArray (map (\<lambda>n. JString (c_str n)) (fr_fullNames r)))]"
  let ?s = "if fr_scope r \<ge> 0 then [(FONT_SCOPE, JNumber (fr_scope r))] else []"
  from steps(1) have a: "a = JObject ?u"
    by (auto simp: user_item_def dest: ConstructCJSON_eq)
  with steps(2) assms(2) have b: "b = JObject (?u @ ?s)"
    by (auto split: if_splits dest: SafeAddNumber)
  with steps(3) have c: "c = JObject ((?u @ ?s) @ text_member FONT_SRC_PATH (fr_srcPath r))"
    by (auto simp: text_member_def simp del: append_assoc split: if_splits dest: SafeAddString)
  with steps(4) have d: "d = JObject (((?u @ ?s) @ text_member FONT_SRC_PATH (fr_srcPath r))
      @ text_member FONT_APP_IDENTIFIER (fr_appIdentifier r))"
    by (auto simp: text_member_def simp del: append_assoc split: if_splits dest: SafeAddString)
  with steps(5) show ?thesis
    by (auto simp: scope_item_def text_member_def split: if_splits dest!: SafeAddString)
qed

section \<open>Lookups and listings\<close>

lemma GetInstalledFontsNum_eq:
  "GetInstalledFontsNum E w cfg = (case config_items E w cfg of None \<Rightarrow> 0 | Some xs \<Rightarrow> int (length xs))"
proof (cases "config_items E w cfg")
  case None
  then show ?thesis using config_None [OF None] by (auto simp: GetInstalledFontsNum_def)
next
  case (Some xs)
  then show ?thesis by (rule config_Some) (simp add: GetInstalledFontsNum_def GetArraySize Some)
qed

lemma GetTotalInstalledFontsNum_eq: "GetTotalInstalledFontsNum E w cfg = GetInstalledFontsNum E w cfg"
  by (simp add: GetTotalInstalledFontsNum_def GetInstalledFontsNum_def)

lemma lookup_record_eq:
  "lookup_record E w cfg P =
     (case config_items E w cfg of None \<Rightarrow> None | Some xs \<Rightarrow> map_option jrecord (find P xs))"
proof (cases "config_items E w cfg")
  case None
  then show ?thesis using config_None [OF None] by (auto simp: lookup_record_def)
next
  case (Some xs)
  then show ?thesis
    by (rule config_Some)
      (auto simp: lookup_record_def item_laws Some find_index_of split: option.split dest: index_of_SomeD)
qed

lemma GetFontRecordByUrl_eq:
  "GetFontRecordByUrl E w cfg url =
     (case config_items E w cfg of None \<Rightarrow> None | Some xs \<Rightarrow> map_option jrecord (find (has_text FONT_SRC_PATH url) xs))"
  unfolding GetFontRecordByUrl_def lookup_record_eq has_text_def [abs_def] string_member_eq ..

lemma has_name_fun: "has_name E n = (\<lambda>j. n \<in> set (jnames j))"
  by (simp add: fun_eq_iff has_name_eq)

lemma GetFontRecordByName_eq:
  "GetFontRecordByName E w cfg n =
     (case config_items E w cfg of None \<Rightarrow> None | Some xs \<Rightarrow> map_option jrecord (find (\<lambda>j. n \<in> set (jnames j)) xs))"
  unfolding GetFontRecordByName_def lookup_record_eq has_name_fun ..

lemma GetFontFileByName_eq:
  "GetFontFileByName E w cfg n =
     (case config_items E w cfg of None \<Rightarrow> []
      | Some xs \<Rightarrow> (case find (\<lambda>j. n \<in> set (jnames j)) xs of None \<Rightarrow> [] | Some j \<Rightarrow> jtext j FONT_PATH))"
proof (cases "config_items E w cfg")
  case None
  then show ?thesis using config_None [OF None] by (auto simp: GetFontFileByName_def)
next
  case (Some xs)
  then show ?thesis
    by (rule config_Some)
      (auto simp: GetFontFileByName_def FindFontPathByName_def item_laws Some find_index_of jtext_def
        has_name_fun split: option.split dest: index_of_SomeD)
qed

lemma concat_nth_map:
  "concat (map (\<lambda>i. if i < length xs then f (xs ! i) else []) [0..<length xs]) = concat (map f xs)"
  by (intro arg_cong [where f = concat] nth_equalityI) auto

lemma select_records_eq:
  "select_records E w cfg P =
     (case config_items E w cfg of None \<Rightarrow> [] | Some xs \<Rightarrow> map jrecord (filter P xs))"
proof (cases "config_items E w cfg")
  case None
  then show ?thesis using config_None [OF None] by (auto simp: select_records_def)
next
  case (Some xs)
  have "concat (map (\<lambda>i. case array_item E (JArray xs) i of None \<Rightarrow> []
          | Some item \<Rightarrow> if P item then [ParseScopeRecord E item] else []) [0..<length xs])
      = concat (map (\<lambda>i. if i < length xs then (if P (xs ! i) then [jrecord (xs ! i)] else []) else [])
          [0..<length xs])"
    by (intro arg_cong [where f = concat] map_cong) (auto simp: item_laws)
  also have "\<dots> = concat (map (\<lambda>x. if P x then [jrecord x] else []) xs)"
    by (rule concat_nth_map)
  also have "\<dots> = map jrecord (filter P xs)"
    by (induction xs) auto
  finally show ?thesis
    using Some by (rule_tac config_Some [OF Some]) (simp add: select_records_def GetArraySize Some)
qed

lemma GetFontRecordsByAppId_eq:
  "GetFontRecordsByAppId E w cfg a =
     (case config_items E w cfg of None \<Rightarrow> [] | Some xs \<Rightarrow> map jrecord (filter (has_text FONT_APP_IDENTIFIER a) xs))"
  unfolding GetFontRecordsByAppId_def select_records_eq has_text_def [abs_def] string_member_eq ..

lemma GetScopeFontRecords_eq:
  "GetScopeFontRecords E w cfg =
     (case config_items E w cfg of None \<Rightarrow> [] | Some xs \<Rightarrow> map jrecord (filter (has_scope (\<lambda>v. v \<ge> 0)) xs))"
  unfolding GetScopeFontRecords_def select_records_eq has_scope_def [abs_def] scope_test_eq [abs_def] ..

lemma GetAppScopeFontRecords_eq:
  "GetAppScopeFontRecords E w cfg =
     (case config_items E w cfg of None \<Rightarrow> []
      | Some xs \<Rightarrow> map jrecord (filter (has_scope (\<lambda>v. v = FONT_SCOPE_APP)) xs))"
  unfolding GetAppScopeFontRecords_def select_records_eq has_scope_def [abs_def] scope_test_eq [abs_def] ..

section \<open>Insertions and deletions\<close>

text \<open>
  The two ways an update can end: refused before the file is opened, or with the written list. A
  write that fails half-way leaves the file in an unknown state, and the operation reports failure.
\<close>

lemma find_path:
  "(find_item E (JArray xs) (\<lambda>item. string_member E item FONT_PATH = Some p) \<noteq> None)
     = (p \<in> recorded_paths xs)"
  by (auto simp: item_laws recorded_paths_def has_text_def index_of_None simp del: not_None_eq)

lemma InsertFontRecordIfUnderLimit_eq:
  assumes "InsertFontRecordIfUnderLimit E w cfg p ns m = (r, w')"
  shows "case config_items E w cfg of
       None \<Rightarrow> r = ERR_INSTALL_FAIL \<and> w' = w
     | Some xs \<Rightarrow>
         if p \<in> recorded_paths xs then r = ERR_OK \<and> w' = w
         else if int (length xs) \<ge> m then r = ERR_MAX_FILE_COUNT \<and> w' = w
         else r = ERR_INSTALL_FAIL \<or> r = ERR_OK \<and> config_items E w' cfg = Some (xs @ [user_item p ns])"
proof (cases "config_items E w cfg")
  case None
  then show ?thesis using assms config_None [OF None]
    by (auto simp: InsertFontRecordIfUnderLimit_def)
next
  case (Some xs)
  then show ?thesis
  proof (rule config_Some)
    fix doc q
    assume doc: "LoadConfig E w cfg = Some doc" "font_array E doc = Some (q, JArray xs)"
      and ok: "\<And>x. x \<in> set xs \<Longrightarrow> item_ok x"
      and put: "\<And>ys w'. \<forall>y\<in>set ys. item_ok y \<Longrightarrow>
        WriteToFile E w cfg (cJSON_Print E (item_put doc q (JArray ys))) = (True, w') \<Longrightarrow>
        config_items E w' cfg = Some ys"
    have ys: "\<forall>y\<in>set (xs @ [user_item p ns]). item_ok y"
      using ok item_ok_user_item by auto
    show ?thesis
    proof (cases "p \<in> recorded_paths xs \<or> int (length xs) \<ge> m")
      case True
      with assms show ?thesis
        by (auto simp: InsertFontRecordIfUnderLimit_def doc find_path GetArraySize Some
            simp del: not_None_eq split: if_splits)
    next
      case False
      with assms have "r = ERR_INSTALL_FAIL \<or> r = ERR_OK \<and>
          WriteToFile E w cfg (cJSON_Print E (item_put doc q (JArray (xs @ [user_item p ns])))) = (True, w')"
        by (auto simp: InsertFontRecordIfUnderLimit_def doc find_path GetArraySize
            simp del: not_None_eq split: option.splits prod.splits bool.splits
            dest!: ConstructCJSON_eq AddItemToArray)
      with put [OF ys] False Some show ?thesis by auto
    qed
  qed
qed

lemma InsertFontRecord_eq:
  assumes "InsertFontRecord E w cfg p ns = (b, w')" "config_items E w cfg = Some xs"
  shows "if p \<in> recorded_paths xs then b \<and> w' = w
         else \<not> b \<or> config_items E w' cfg = Some (xs @ [user_item p ns])"
  using assms(2)
proof (rule config_Some)
  fix doc q
  assume doc: "LoadConfig E w cfg = Some doc" "font_list E doc = Some (q, JArray xs)"
    and ok: "\<And>x. x \<in> set xs \<Longrightarrow> item_ok x"
    and put: "\<And>ys w'. \<forall>y\<in>set ys. item_ok y \<Longrightarrow>
      WriteToFile E w cfg (cJSON_Print E (item_put doc q (JArray ys))) = (True, w') \<Longrightarrow>
      config_items E w' cfg = Some ys"
  have ys: "\<forall>y\<in>set (xs @ [user_item p ns]). item_ok y"
    using ok item_ok_user_item by auto
  show ?thesis
  proof (cases "p \<in> recorded_paths xs")
    case True
    with assms show ?thesis
      by (auto simp: InsertFontRecord_def doc find_path simp del: not_None_eq split: if_splits)
  next
    case False
    with assms(1) have "\<not> b \<or>
        WriteToFile E w cfg (cJSON_Print E (item_put doc q (JArray (xs @ [user_item p ns])))) = (True, w')"
      by (auto simp: InsertFontRecord_def doc find_path simp del: not_None_eq
          split: option.splits dest!: ConstructCJSON_eq AddItemToArray)
    with put [OF ys] False show ?thesis by auto
  qed
qed

lemma InsertScopeFontRecord_eq:
  assumes "InsertScopeFontRecord E w cfg r = (True, w')" "config_items E w cfg = Some xs"
    "int32_range (fr_scope r)"
  shows "config_items E w' cfg = Some (xs @ [scope_item r])"
  using assms(2)
proof (rule config_Some)
  fix doc q
  assume doc: "LoadConfig E w cfg = Some doc" "font_list E doc = Some (q, JArray xs)"
    and ok: "\<And>x. x \<in> set xs \<Longrightarrow> item_ok x"
    and put: "\<And>ys w'. \<forall>y\<in>set ys. item_ok y \<Longrightarrow>
      WriteToFile E w cfg (cJSON_Print E (item_put doc q (JArray ys))) = (True, w') \<Longrightarrow>
      config_items E w' cfg = Some ys"
  have ys: "\<forall>y\<in>set (xs @ [scope_item r]). item_ok y"
    using ok item_ok_scope_item [OF assms(3)] by auto
  from assms(1) have
    "WriteToFile E w cfg (cJSON_Print E (item_put doc q (JArray (xs @ [scope_item r])))) = (True, w')"
    by (auto simp: InsertScopeFontRecord_def doc
        split: option.splits dest!: ConstructScopeCJSON_eq [OF _ assms(3)] AddItemToArray)
  with put [OF ys] show ?thesis by auto
qed

lemma delete_by_member_eq:
  assumes "delete_by_member E w cfg key v = (b, w')"
  shows "case config_items E w cfg of
       None \<Rightarrow> \<not> b \<and> w' = w
     | Some xs \<Rightarrow>
         if \<exists>x\<in>set xs. has_text key v x
         then b \<longrightarrow> config_items E w' cfg = Some (remove_first (has_text key v) xs)
         else \<not> b \<and> w' = w"
proof (cases "config_items E w cfg")
  case None
  then show ?thesis using assms config_None [OF None] by (auto simp: delete_by_member_def)
next
  case (Some xs)
  then show ?thesis
  proof (rule config_Some)
    fix doc q
    assume doc: "LoadConfig E w cfg = Some doc" "font_array E doc = Some (q, JArray xs)"
      and ok: "\<And>x. x \<in> set xs \<Longrightarrow> item_ok x"
      and put: "\<And>ys w'. \<forall>y\<in>set ys. item_ok y \<Longrightarrow>
        WriteToFile E w cfg (cJSON_Print E (item_put doc q (JArray ys))) = (True, w') \<Longrightarrow>
        config_items E w' cfg = Some ys"
    have ys: "\<forall>y\<in>set (remove_first (has_text key v) xs). item_ok y"
      using ok set_remove_first_subset by fastforce
    have P: "(\<lambda>item. string_member E item key = Some v) = has_text key v"
      by (simp add: fun_eq_iff has_text_def item_laws)
    show ?thesis
    proof (cases "index_of (has_text key v) xs")
      case None
      with assms Some show ?thesis
        by (auto simp: delete_by_member_def doc P find_item_eq index_of_None)
    next
      case i: (Some i)
      then have "i < length xs" "\<exists>x\<in>set xs. has_text key v x"
        by (auto dest: index_of_SomeD nth_mem)
      moreover from this i assms have
        "b \<longrightarrow> WriteToFile E w cfg (cJSON_Print E
           (item_put doc q (JArray (remove_first (has_text key v) xs)))) = (True, w')"
        by (auto simp: delete_by_member_def doc P find_item_eq DeleteItemFromArray remove_nth_index_of)
      ultimately show ?thesis using put [OF ys] Some by auto
    qed
  qed
qed

lemma delete_matching_prefix:
  "n \<le> length xs \<Longrightarrow>
   foldr (\<lambda>i (arr, changed).
            case array_item E arr i of
              None \<Rightarrow> (arr, changed)
            | Some item \<Rightarrow> if P item then (cJSON_DeleteItemFromArray E arr i, True) else (arr, changed))
     [0..<n] (JArray (take n xs @ ys), c)
   = (JArray (filter (\<lambda>x. \<not> P x) (take n xs) @ ys), c \<or> (\<exists>x\<in>set (take n xs). P x))"
proof (induction n arbitrary: ys c)
  case (Suc n)
  then have tk: "take (Suc n) xs = take n xs @ [xs ! n]" and n: "n < length xs"
    by (auto simp: take_Suc_conv_app_nth)
  have it: "array_item E (JArray (take n xs @ xs ! n # ys)) n = Some (xs ! n)"
    and del: "cJSON_DeleteItemFromArray E (JArray (take n xs @ xs ! n # ys)) n = JArray (take n xs @ ys)"
    using n by (simp_all add: array_item_eq nth_append DeleteItemFromArray remove_nth_def)
  show ?case
    using Suc.IH [of "if P (xs ! n) then ys else xs ! n # ys" "c \<or> P (xs ! n)"] n
    by (auto simp: it del tk)
qed simp

lemma delete_matching_eq:
  "delete_matching E P (JArray xs) = (JArray (filter (\<lambda>x. \<not> P x) xs), \<exists>x\<in>set xs. P x)"
  using delete_matching_prefix [of "length xs" xs P "[]" False]
  by (simp add: delete_matching_def GetArraySize)

lemma DeleteScopeFontRecordByAppId_eq:
  assumes "DeleteScopeFontRecordByAppId E w cfg a = (b, w')"
  shows "case config_items E w cfg of
       None \<Rightarrow> \<not> b \<and> w' = w
     | Some xs \<Rightarrow>
         if \<exists>x\<in>set xs. has_text FONT_APP_IDENTIFIER a x
         then b \<longrightarrow> config_items E w' cfg = Some (filter (\<lambda>x. \<not> has_text FONT_APP_IDENTIFIER a x) xs)
         else \<not> b \<and> w' = w"
proof (cases "config_items E w cfg")
  case None
  then show ?thesis using assms config_None [OF None] by (auto simp: DeleteScopeFontRecordByAppId_def)
next
  case (Some xs)
  have P: "(\<lambda>item. string_member E item FONT_APP_IDENTIFIER = Some a) = has_text FONT_APP_IDENTIFIER a"
    by (simp add: fun_eq_iff has_text_def item_laws)
  from Some show ?thesis
  proof (rule config_Some)
    fix doc q
    assume doc: "LoadConfig E w cfg = Some doc" "font_array E doc = Some (q, JArray xs)"
      and ok: "\<And>x. x \<in> set xs \<Longrightarrow> item_ok x"
      and put: "\<And>ys w'. \<forall>y\<in>set ys. item_ok y \<Longrightarrow>
        WriteToFile E w cfg (cJSON_Print E (item_put doc q (JArray ys))) = (True, w') \<Longrightarrow>
        config_items E w' cfg = Some ys"
    have ys: "\<forall>y\<in>set (filter (\<lambda>x. \<not> has_text FONT_APP_IDENTIFIER a x) xs). item_ok y"
      using ok by auto
    show ?thesis using assms put [OF ys] Some
      by (auto simp: DeleteScopeFontRecordByAppId_def doc P delete_matching_eq split: if_splits)
  qed
qed

end

end
