(* ===== verification/CJSON_Instance.thy ===== *)
theory CJSON_Instance
  imports Config_Ops
begin

text \<open>
  A model of the library interface: a small codec in place of the JSON syntax, and the other
  functions as their documentation has them. It shows that the laws can hold together, and the
  concrete runs of the development use it. The codec writes a value in postfix order; reading it
  back is one pass over the characters with a stack.
\<close>

section \<open>Writing\<close>

definition quoted :: "string \<Rightarrow> string" where
  "quoted s = concat (map (\<lambda>c. [CHR ''.'', c]) s)"

fun encode :: "cJSON \<Rightarrow> string" where
  "encode JNull = ''n''"
| "encode (JBool b) = (if b then ''t'' else ''f'')"
| "encode (JNumber i) = quoted (to_string i) @ ''d''"
| "encode (JString s) = quoted s @ ''s''"
| "encode (JArray xs) = ''('' @ concat (map encode xs) @ '')''"
| "encode (JObject kvs) =
     ''<'' @ concat (map (\<lambda>kv. quoted (fst kv) @ ''k'' @ encode (snd kv) @ '':'') kvs) @ ''>''"

section \<open>Reading\<close>

datatype cell = Mark | Value cJSON | Key string | Pair "string \<times> cJSON"

text \<open>The stack, the text collected so far, and whether the next character belongs to it.\<close>

type_synonym reader = "cell list \<times> string \<times> bool"

fun pop_values :: "cell list \<Rightarrow> cJSON list \<Rightarrow> (cJSON list \<times> cell list) option" where
  "pop_values (Mark # st) acc = Some (acc, st)"
| "pop_values (Value v # st) acc = pop_values st (v # acc)"
| "pop_values _ acc = None"

fun pop_pairs :: "cell list \<Rightarrow> (string \<times> cJSON) list \<Rightarrow> ((string \<times> cJSON) list \<times> cell list) option" where
  "pop_pairs (Mark # st) acc = Some (acc, st)"
| "pop_pairs (Pair p # st) acc = pop_pairs st (p # acc)"
| "pop_pairs _ acc = None"

definition number_of :: "string \<Rightarrow> int" where
  "number_of s = (if s \<noteq> [] \<and> hd s = CHR ''-'' then - int (digits_value (tl s)) else int (digits_value s))"

definition read_char :: "char \<Rightarrow> reader \<Rightarrow> reader option" where
  "read_char c r =
     (case r of (st, buf, q) \<Rightarrow>
        if q then Some (st, buf @ [c], False)
        else if c = CHR ''.'' then Some (st, buf, True)
        else if c = CHR ''n'' then Some (Value JNull # st, buf, False)
        else if c = CHR ''t'' then Some (Value (JBool True) # st, buf, False)
        else if c = CHR ''f'' then Some (Value (JBool False) # st, buf, False)
        else if c = CHR ''d'' then Some (Value (JNumber (number_of buf)) # st, [], False)
        else if c = CHR ''s'' then Some (Value (JString buf) # st, [], False)
        else if c = CHR ''k'' then Some (Key buf # st, [], False)
        else if c = CHR ''('' then Some (Mark # st, buf, False)
        else if c = CHR ''<'' then Some (Mark # st, buf, False)
        else if c = CHR '')'' then
          map_option (\<lambda>(xs, st'). (Value (JArray xs) # st', buf, False)) (pop_values st [])
        else if c = CHR ''>'' then
          map_option (\<lambda>(kvs, st'). (Value (JObject kvs) # st', buf, False)) (pop_pairs st [])
        else if c = CHR '':'' then
          (case st of Value v # Key k # st' \<Rightarrow> Some (Pair (k, v) # st', buf, False) | _ \<Rightarrow> None)
        else None)"

primrec read_all :: "string \<Rightarrow> reader \<Rightarrow> reader option" where
  "read_all [] r = Some r"
| "read_all (c # cs) r = (case read_char c r of None \<Rightarrow> None | Some r' \<Rightarrow> read_all cs r')"

definition decode :: "string \<Rightarrow> cJSON option" where
  "decode t =
     (case read_all t ([], [], False) of
        Some ([Value j], [], False) \<Rightarrow> if json_ok j then Some j else None
      | _ \<Rightarrow> None)"

text \<open>The document the raw literal of \<open>CheckFontConfigPath\<close> stands for.\<close>

definition default_config :: cJSON where
  "default_config = JObject [(FONT_LIST, JArray []), (FONT_VERSION, JString FONT_CONFIG_VERSION_7)]"

definition ref_parse :: "string \<Rightarrow> cJSON option" where
  "ref_parse t = (if t = default_config_text then Some default_config else decode t)"

definition ref_print :: "cJSON \<Rightarrow> string option" where
  "ref_print j = (let t = encode j in if int (length t) < LONG_MAX then Some t else None)"

section \<open>Reading what was written\<close>

lemma read_quoted: "read_all (quoted s @ rest) (st, buf, False) = read_all rest (st, buf @ s, False)"
  by (induction s arbitrary: buf) (auto simp: quoted_def read_char_def)

lemma number_of_to_string: "number_of (to_string i) = i"
proof (cases "i < 0")
  case False
  have "hd (nat_digits (nat i)) \<noteq> CHR ''-''"
    using digit_not_special [OF nat_digits_hd] by blast
  with False show ?thesis by (simp add: number_of_def to_string_def)
qed (simp add: number_of_def to_string_def)

lemma pop_values_rev: "pop_values (map Value xs @ Mark # st) acc = Some (rev xs @ acc, st)"
  by (induction xs arbitrary: acc) auto

lemma pop_pairs_rev: "pop_pairs (map Pair kvs @ Mark # st) acc = Some (rev kvs @ acc, st)"
  by (induction kvs arbitrary: acc) auto

lemma read_values:
  assumes "\<And>x st rest. x \<in> set xs \<Longrightarrow>
      read_all (encode x @ rest) (st, [], False) = read_all rest (Value x # st, [], False)"
  shows "read_all (concat (map encode xs) @ rest) (st, [], False)
      = read_all rest (map Value (rev xs) @ st, [], False)"
  using assms by (induction xs arbitrary: st) auto

lemma read_pairs:
  assumes "\<And>kv st rest. kv \<in> set kvs \<Longrightarrow>
      read_all (encode (snd kv) @ rest) (st, [], False) = read_all rest (Value (snd kv) # st, [], False)"
  shows "read_all (concat (map (\<lambda>kv. quoted (fst kv) @ ''k'' @ encode (snd kv) @ '':'') kvs) @ rest) (st, [], False)
      = read_all rest (map Pair (rev kvs) @ st, [], False)"
  using assms
proof (induction kvs arbitrary: st)
  case (Cons kv kvs)
  then show ?case by (simp add: read_quoted read_char_def)
qed simp

lemma read_encode: "read_all (encode j @ rest) (st, [], False) = read_all rest (Value j # st, [], False)"
proof (induction j arbitrary: st rest)
  case (JArray xs)
  then show ?case using read_values [of xs]
    by (simp add: read_char_def pop_values_rev rev_map)
next
  case (JObject kvs)
  then show ?case
    using read_pairs [of kvs, OF JObject.IH [OF _ snds.intros]]
    by (simp add: read_char_def pop_pairs_rev rev_map)
qed (auto simp: read_char_def read_quoted number_of_to_string)

lemma decode_encode: "json_ok j \<Longrightarrow> decode (encode j) = Some j"
  using read_encode [of j "[]" "[]"] by (simp add: decode_def)

section \<open>Sizes and characters\<close>

lemma length_quoted: "length (quoted s) = 2 * length s"
  by (induction s) (auto simp: quoted_def)

lemma sum_list_bound: "(\<And>x. x \<in> set xs \<Longrightarrow> f x \<le> 2 * g x) \<Longrightarrow> sum_list (map f xs) \<le> 2 * (sum_list (map g xs) :: nat)"
proof (induction xs)
  case (Cons x xs)
  then have "f x \<le> 2 * g x" "sum_list (map f xs) \<le> 2 * sum_list (map g xs)" by auto
  then show ?case by simp
qed simp

lemma length_encode: "length (encode j) \<le> 2 * json_size j"
proof (induction j)
  case (JArray xs)
  then have "sum_list (map (length \<circ> encode) xs) \<le> 2 * sum_list (map json_size xs)"
    by (intro sum_list_bound) simp
  then show ?case by (simp add: length_concat comp_def)
next
  case (JObject kvs)
  have "sum_list (map (\<lambda>kv. length (quoted (fst kv) @ ''k'' @ encode (snd kv) @ '':'')) kvs)
      \<le> 2 * sum_list (map (\<lambda>kv. 2 + length (fst kv) + json_size (snd kv)) kvs)"
  proof (rule sum_list_bound)
    fix kv assume "kv \<in> set kvs"
    from JObject.IH [OF this snds.intros] show "length (quoted (fst kv) @ ''k'' @ encode (snd kv) @ '':'')
        \<le> 2 * (2 + length (fst kv) + json_size (snd kv))"
      by (simp add: length_quoted)
  qed
  then show ?case by (simp add: length_concat comp_def)
qed (auto simp: length_quoted)

lemma is_cstring_concat: "is_cstring (concat ss) \<longleftrightarrow> (\<forall>s\<in>set ss. is_cstring s)"
  by (auto simp: is_cstring_def)

lemma is_cstring_quoted: "is_cstring s \<Longrightarrow> is_cstring (quoted s)"
  by (auto simp: quoted_def is_cstring_def NUL_def)

lemma codec_chars [simp]:
  "CHR ''n'' \<noteq> NUL" "CHR ''t'' \<noteq> NUL" "CHR ''f'' \<noteq> NUL" "CHR ''d'' \<noteq> NUL" "CHR ''s'' \<noteq> NUL"
  "CHR ''k'' \<noteq> NUL" "CHR ''('' \<noteq> NUL" "CHR '')'' \<noteq> NUL" "CHR ''<'' \<noteq> NUL" "CHR ''>'' \<noteq> NUL"
  "CHR '':'' \<noteq> NUL"
  by (simp_all add: NUL_def)

lemma is_cstring_encode: "json_valid d j \<Longrightarrow> is_cstring (encode j)"
proof (induction d j rule: json_valid.induct)
  case (6 d xs)
  then show ?case by (auto simp: is_cstring_concat)
next
  case (8 d kvs)
  then show ?case by (auto simp: is_cstring_concat is_cstring_quoted)
qed (auto simp: is_cstring_quoted)

lemma encode_not_default: "encode j \<noteq> default_config_text"
proof -
  have "hd (quoted s @ c # t) = (if s = [] then c else CHR ''.'')" for s c t
    by (cases s) (auto simp: quoted_def)
  then have "hd (encode j) \<noteq> CHR ''{''"
    by (cases j) auto
  then show ?thesis by (auto simp: default_config_text_def)
qed

lemma default_not_Nil [simp]: "default_config_text \<noteq> []" "[] \<noteq> default_config_text"
  by (simp_all add: default_config_text_def)

lemma decode_ok: "decode t = Some j \<Longrightarrow> json_ok j"
  by (auto simp: decode_def split: option.splits prod.splits list.splits cell.splits if_splits bool.splits)

lemma default_config_ok: "json_ok default_config"
  by (simp add: default_config_def CJSON_NESTING_LIMIT_def json_valid_JObject json_valid_JArray
      FONT_CONFIG_VERSION_7_def NUL_def)

section \<open>The interface at the reference library\<close>

definition ref_api :: cjson_api where
  "ref_api =
     \<lparr>cJSON_Parse = ref_parse,
      cJSON_Print = ref_print,
      cJSON_IsArray = (\<lambda>j. case j of JArray _ \<Rightarrow> True | _ \<Rightarrow> False),
      cJSON_IsString = (\<lambda>j. case j of JString _ \<Rightarrow> True | _ \<Rightarrow> False),
      cJSON_IsNumber = (\<lambda>j. case j of JNumber _ \<Rightarrow> True | _ \<Rightarrow> False),
      cJSON_GetObjectItem = (\<lambda>j key. case j of JObject kvs \<Rightarrow> obj_find kvs key | _ \<Rightarrow> None),
      cJSON_GetArraySize = (\<lambda>j. case j of JArray xs \<Rightarrow> length xs | JObject kvs \<Rightarrow> length kvs | _ \<Rightarrow> 0),
      cJSON_GetArrayItem = (\<lambda>j i. case j of JArray xs \<Rightarrow> if i < length xs then Some i else None | _ \<Rightarrow> None),
      cJSON_CreateString = (\<lambda>s. Some (JString (c_str s))),
      cJSON_CreateNumber = (\<lambda>n. Some (JNumber n)),
      cJSON_CreateArray = Some (JArray []),
      cJSON_CreateObject = Some (JObject []),
      cJSON_AddItemToArray = (\<lambda>j x. case j of JArray xs \<Rightarrow> Some (JArray (xs @ [x])) | _ \<Rightarrow> None),
      cJSON_AddItemToObject =
        (\<lambda>j key x. case j of JObject kvs \<Rightarrow> Some (JObject (kvs @ [(c_str key, x)])) | _ \<Rightarrow> None),
      cJSON_DeleteItemFromArray = (\<lambda>j i. case j of JArray xs \<Rightarrow> JArray (remove_nth i xs) | _ \<Rightarrow> j),
      cJSON_DeleteItemFromObject =
        (\<lambda>j key. case j of
           JObject kvs \<Rightarrow> (case obj_find kvs key of None \<Rightarrow> j | Some i \<Rightarrow> JObject (remove_nth i kvs))
         | _ \<Rightarrow> j),
      cJSON_ReplaceItemInObject =
        (\<lambda>j key x. case j of
           JObject kvs \<Rightarrow> map_option (\<lambda>i. JObject (kvs[i := (c_str key, x)])) (obj_find kvs key)
         | _ \<Rightarrow> None)\<rparr>"

lemma ref_print_small: "json_size j \<le> JSON_MEMORY \<Longrightarrow> ref_print j \<noteq> None"
  using length_encode [of j] by (simp add: ref_print_def Let_def JSON_MEMORY_def LONG_MAX_def)

text \<open>The laws hold for every environment that uses these functions.\<close>

lemma ref_cjson_memory:
  assumes E: "cjson_api.truncate E = ref_api"
  shows "cjson_memory E"
proof -
  from E have f:
    "cJSON_Parse E = cJSON_Parse ref_api" "cJSON_Print E = cJSON_Print ref_api"
    "cJSON_IsArray E = cJSON_IsArray ref_api" "cJSON_IsString E = cJSON_IsString ref_api"
    "cJSON_IsNumber E = cJSON_IsNumber ref_api" "cJSON_GetObjectItem E = cJSON_GetObjectItem ref_api"
    "cJSON_GetArraySize E = cJSON_GetArraySize ref_api" "cJSON_GetArrayItem E = cJSON_GetArrayItem ref_api"
    "cJSON_CreateString E = cJSON_CreateString ref_api" "cJSON_CreateNumber E = cJSON_CreateNumber ref_api"
    "cJSON_CreateArray E = cJSON_CreateArray ref_api" "cJSON_CreateObject E = cJSON_CreateObject ref_api"
    "cJSON_AddItemToArray E = cJSON_AddItemToArray ref_api"
    "cJSON_AddItemToObject E = cJSON_AddItemToObject ref_api"
    "cJSON_DeleteItemFromArray E = cJSON_DeleteItemFromArray ref_api"
    "cJSON_DeleteItemFromObject E = cJSON_DeleteItemFromObject ref_api"
    "cJSON_ReplaceItemInObject E = cJSON_ReplaceItemInObject ref_api"
    by (cases E; simp add: cjson_api.defs ref_api_def)+
  show ?thesis
    by unfold_locales
      (auto simp: f ref_api_def ref_print_def ref_parse_def Let_def decode_encode encode_not_default
        is_cstring_encode decode_ok default_config_ok default_not_Nil
        decode_def [of "[]"] ref_print_small [unfolded ref_print_def Let_def]
        split: if_splits option.splits cJSON.splits)
qed

lemma ref_cjson_library: "cjson_api.truncate E = ref_api \<Longrightarrow> cjson_library E"
  using ref_cjson_memory unfolding cjson_memory_def by blast

interpretation ref_memory: cjson_memory ref_api
  by (rule ref_cjson_memory) (simp add: cjson_api.defs ref_api_def)

end
