(* ===== verification/Frames.thy ===== *)
theory Frames
  imports Font_Manager Config_Ops
begin

text \<open>
  What the operations leave alone. \<open>frame d es w w'\<close>: only nodes at or below the directory \<open>d\<close>
  change, the descriptors and the rest of the state stay, and exactly the notifications \<open>es\<close> are
  sent. Frames compose; every operation of the utilities and of the configuration file has one.
\<close>

named_theorems frame_rules "an operation changes nothing outside a directory"

definition frame :: "path \<Rightarrow> effect list \<Rightarrow> 'a world_scheme \<Rightarrow> 'a world_scheme \<Rightarrow> bool" where
  "frame d es w w' \<longleftrightarrow>
     (\<forall>q. \<not> prefix d q \<longrightarrow> node_at w' q = node_at w q) \<and>
     fds w' = fds w \<and> world.more w' = world.more w \<and> effects w' = effects w @ es"

lemma frame_refl [simp]: "frame d [] w w"
  by (simp add: frame_def)

lemma frame_trans: "frame d es w w1 \<Longrightarrow> frame d es' w1 w2 \<Longrightarrow> frame d (es @ es') w w2"
  by (simp add: frame_def)

lemma frame_trans_silent: "frame d [] w w1 \<Longrightarrow> frame d [] w1 w2 \<Longrightarrow> frame d [] w w2"
  using frame_trans by force

lemma frame_put: "p \<noteq> [] \<Longrightarrow> prefix d p \<Longrightarrow> frame d [] w (put_node p n w)"
  by (auto simp: frame_def world_simps)

lemma frame_drop: "prefix d p \<Longrightarrow> frame d [] w (drop_tree p w)"
  by (auto simp: frame_def world_simps dest: prefix_order.trans)

lemma frame_config: "config_frame cfg w w' \<Longrightarrow> prefix d (resolve (ConfigPath cfg)) \<Longrightarrow> frame d [] w w'"
  by (auto simp: frame_def config_frame_def)

lemma frame_mono: "frame d es w w' \<Longrightarrow> prefix e d \<Longrightarrow> frame e es w w'"
  by (auto simp: frame_def dest: prefix_order.trans)

section \<open>File utilities\<close>

lemma frame_fwrite_all: "resolve p \<noteq> [] \<Longrightarrow> prefix d (resolve p) \<Longrightarrow> frame d [] w (snd (fwrite_all E w p t))"
  by (simp add: fwrite_all_def Let_def frame_put)

lemma frame_fopen_w: "fopen_w E w p = Some w1 \<Longrightarrow> prefix d (resolve p) \<Longrightarrow> frame d [] w w1"
  by (auto dest: fopen_w_SomeD intro: frame_put)

lemma frame_CreateFile:
  assumes "CreateFileWithPermission E w p t = (b, w')" "prefix d (resolve p)"
  shows "frame d [] w w'"
proof (cases "w' = w")
  case False
  with assms(1) obtain w1 where w1: "fopen_w E w p = Some w1"
    and w': "w' = w1 \<or> w' = snd (fwrite_all E w1 p t)"
    by (auto simp: CreateFileWithPermission_def Let_def split: if_splits option.splits)
  have "resolve p \<noteq> []" using fopen_w_SomeD [OF w1] by simp
  with w' have "frame d [] w1 w'" using frame_fwrite_all [OF _ assms(2)] by auto
  with frame_fopen_w [OF w1 assms(2)] show ?thesis by (rule frame_trans_silent)
qed simp

lemma frame_create_directory:
  "create_directory E w p = (b, w') \<Longrightarrow> prefix d (resolve p) \<Longrightarrow> frame d [] w w'"
  by (auto simp: create_directory_def can_create_def intro!: frame_put
      split: if_splits option.splits node.splits)

lemma frame_CreateDir:
  "CreateDirWithPermission E w p = (b, w') \<Longrightarrow> prefix d (resolve p) \<Longrightarrow> frame d [] w w'"
  by (auto simp: CreateDirWithPermission_def dest: frame_create_directory
      split: if_splits prod.splits bool.splits)

lemma frame_ensure_dir [frame_rules]:
  "ensure_dir E w p = (b, w') \<Longrightarrow> prefix d (resolve p) \<Longrightarrow> frame d [] w w'"
  by (auto simp: ensure_dir_def dest: frame_CreateDir split: if_splits)

lemma frame_CheckFontConfigPath:
  "CheckFontConfigPath E w p = (b, w') \<Longrightarrow> prefix d (resolve (p @ FONT_CONFIG_FILE)) \<Longrightarrow> frame d [] w w'"
  by (auto simp: CheckFontConfigPath_def dest: frame_CreateFile split: if_splits)

lemma frame_CheckAndInitScopeFontPath:
  assumes "CheckAndInitScopeFontPath E w p = (b, w')" "prefix d (resolve p)" "prefix d (resolve (p @ TEMP_FILE))"
  shows "frame d [] w w'"
proof -
  obtain b1 w1 where 1: "ensure_dir E w p = (b1, w1)" by fastforce
  obtain b2 w2 where 2: "ensure_dir E w1 (p @ TEMP_FILE) = (b2, w2)" by fastforce
  have "w' = w1 \<or> w' = w2"
    using assms(1) 1 2 by (auto simp: CheckAndInitScopeFontPath_def split: bool.splits prod.splits)
  then show ?thesis
    using frame_ensure_dir [OF 1 assms(2)] frame_ensure_dir [OF 2 assms(3)] frame_trans_silent by blast
qed

lemma frame_CheckAndInitInstallPath:
  assumes "CheckAndInitInstallPath E w p = (b, w')" "prefix d (resolve p)"
    "prefix d (resolve (p @ TEMP_FILE))" "prefix d (resolve (p @ FONT_CONFIG_FILE))"
  shows "frame d [] w w'"
proof -
  obtain b1 w1 where 1: "ensure_dir E w p = (b1, w1)" by fastforce
  obtain b2 w2 where 2: "ensure_dir E w1 (p @ TEMP_FILE) = (b2, w2)" by fastforce
  obtain b3 w3 where 3: "CheckFontConfigPath E w2 p = (b3, w3)" by fastforce
  have "w' = w1 \<or> w' = w2 \<or> w' = w3"
    using assms(1) 1 2 3 by (auto simp: CheckAndInitInstallPath_def split: bool.splits prod.splits)
  then show ?thesis
    using frame_ensure_dir [OF 1 assms(2)] frame_ensure_dir [OF 2 assms(3)]
      frame_CheckFontConfigPath [OF 3 assms(4)] frame_trans_silent by blast
qed

lemma frame_RemoveAll: "prefix d (resolve p) \<Longrightarrow> frame d [] w (snd (RemoveAll E w p))"
  by (simp add: RemoveAll_def remove_all_def frame_drop)

lemma frame_RemoveFile: "prefix d (resolve p) \<Longrightarrow> frame d [] w (snd (RemoveFile E w p))"
  by (simp add: RemoveFile_def frame_RemoveAll)

lemma frame_DeleteDir_root: "prefix d (resolve p) \<Longrightarrow> frame d [] w (DeleteDir E w p True)"
  by (simp add: DeleteDir_def frame_RemoveAll)

lemma frame_rename:
  assumes "rename_file E w a b = (r, w')" "prefix d (resolve a)" "prefix d (resolve b)"
  shows "frame d [] w w'"
proof (cases "w' = w")
  case False
  with assms(1) obtain c where w': "w' = put_node (resolve b) (File c) (drop_tree (resolve a) w)"
    and ne: "resolve b \<noteq> []"
    by (auto simp: rename_file_def can_create_def split: if_splits option.splits)
  show ?thesis unfolding w'
    by (rule frame_trans_silent [OF frame_drop [OF assms(2)] frame_put [OF ne assms(3)]])
qed simp

lemma frame_RenameFile:
  "RenameFile E w a b = (r, w') \<Longrightarrow> prefix d (resolve a) \<Longrightarrow> prefix d (resolve b) \<Longrightarrow> frame d [] w w'"
  by (auto simp: RenameFile_def dest: frame_rename split: if_splits)

lemma frame_CopyFileByFd:
  "CopyFileByFd E w fd p = (b, w') \<Longrightarrow> resolve p \<noteq> [] \<Longrightarrow> prefix d (resolve p) \<Longrightarrow> frame d [] w w'"
  by (auto simp: CopyFileByFd_def Let_def intro: frame_put split: if_splits option.splits prod.splits)

lemma frame_CopyFile:
  assumes "CopyFile E w fd p = (b, w')" "prefix d (resolve p)"
  shows "frame d [] w w'"
proof (cases "fopen_w E w p")
  case (Some w1)
  then have "resolve p \<noteq> []" by (auto dest: fopen_w_SomeD)
  with assms Some have "frame d [] w1 w'"
    by (auto simp: CopyFile_def dest: frame_CopyFileByFd split: if_splits)
  with frame_fopen_w [OF Some assms(2)] show ?thesis by (rule frame_trans_silent)
qed (use assms in \<open>simp add: CopyFile_def\<close>)

section \<open>Names below a directory\<close>

lemma resolve_dir_name: "simple_name n \<Longrightarrow> resolve ((a @ ''/'') @ n) = resolve (a @ ''/'') @ [n]"
  using resolve_append_name [of n a] by (simp add: resolve_append_slash)

lemma resolve_dir_temp: "resolve ((a @ ''/'') @ TEMP_FILE) = resolve (a @ ''/'') @ [''temp'']"
  using resolve_append_name [of "''temp''" a]
  by (simp add: TEMP_FILE_def resolve_append_slash [of "a @ ''/temp''", simplified] resolve_append_slash
      simple_name_def)

lemma resolve_dir_temp_name:
  assumes "simple_name n"
  shows "resolve ((a @ ''/'') @ TEMP_FILE @ n) = resolve (a @ ''/'') @ [''temp'', n]"
proof -
  have eq: "(a @ ''/'') @ TEMP_FILE @ n = (a @ ''/temp'') @ CHR ''/'' # n"
    by (simp add: TEMP_FILE_def)
  have "resolve (a @ ''/temp'') = resolve (a @ ''/'') @ [''temp'']"
    using resolve_append_name [of "''temp''" a] by (simp add: resolve_append_slash simple_name_def)
  then show ?thesis unfolding eq resolve_append_name [OF assms] by simp
qed

lemma simple_name_config [simp]: "simple_name FONT_CONFIG_FILE"
  by (simp add: simple_name_def FONT_CONFIG_FILE_def)

text \<open>The name \<open>CopyFileForInstall\<close> gives to the copy.\<close>

lemma pad_zero_no_slash: "CHR ''/'' \<notin> set (pad_zero n d)"
proof -
  have "CHR ''/'' \<notin> set (nat_digits d)"
    using nat_digits_all_digits digit_not_special by blast
  then show ?thesis by (simp add: pad_zero_def)
qed

lemma GetFileTime_no_slash: "CHR ''/'' \<notin> set (GetFileTime E)"
  by (simp add: GetFileTime_def Let_def pad_zero_no_slash)

definition copy_name :: "'e font_env_scheme \<Rightarrow> string \<Rightarrow> string" where
  "copy_name E fileName = GetFileTime E @ ''_'' @ to_string (int (thread_hash E)) @ ''_'' @ fileName"

lemma simple_copy_name: "CHR ''/'' \<notin> set n \<Longrightarrow> simple_name (copy_name E n)"
  using GetFileTime_no_slash [of E]
  by (auto simp: simple_name_def copy_name_def append_eq_Cons_conv Cons_eq_append_conv)

lemma CopyFileForInstall_alt:
  "CopyFileForInstall E w p n fd =
     (case CopyFile E w fd (p @ TEMP_FILE @ copy_name E n) of
        (False, w1) \<Rightarrow> ([], w1)
      | (True, w1) \<Rightarrow>
          (case RenameFile E w1 (p @ TEMP_FILE @ copy_name E n) (p @ copy_name E n) of
             (False, w2) \<Rightarrow> ([], snd (RemoveFile E w2 (p @ TEMP_FILE @ copy_name E n)))
           | (True, w2) \<Rightarrow> (p @ copy_name E n, w2)))"
  by (simp add: CopyFileForInstall_def copy_name_def Let_def cong: bool.case_cong)

lemma frame_CopyFileForInstall:
  assumes "CopyFileForInstall E w (a @ ''/'') n fd = (r, w')" "CHR ''/'' \<notin> set n"
    "prefix d (resolve (a @ ''/''))"
  shows "frame d [] w w'"
proof -
  let ?p = "a @ ''/''" and ?t = "(a @ ''/'') @ TEMP_FILE @ copy_name E n" and ?q = "(a @ ''/'') @ copy_name E n"
  have t: "prefix d (resolve ?t)"
    using assms(3) resolve_dir_temp_name [OF simple_copy_name [OF assms(2)], of a E]
    by (simp add: prefix_prefix)
  have q: "prefix d (resolve ?q)"
    using assms(3) resolve_dir_name [OF simple_copy_name [OF assms(2)], of a E]
    by (simp add: prefix_prefix)
  obtain b1 w1 where 1: "CopyFile E w fd ?t = (b1, w1)" by fastforce
  obtain b2 w2 where 2: "RenameFile E w1 ?t ?q = (b2, w2)" by fastforce
  have "w' = w1 \<or> w' = w2 \<or> w' = snd (RemoveFile E w2 ?t)"
    using assms(1) 1 2 by (auto simp: CopyFileForInstall_alt split: bool.splits)
  then show ?thesis
    using frame_CopyFile [OF 1 t] frame_RenameFile [OF 2 t q] frame_RemoveFile [OF t, of w2 E]
      frame_trans_silent by blast
qed

end
