(* ===== verification/Manager_Laws.thy ===== *)
theory Manager_Laws
  imports Frames
begin

text \<open>
  The library of facts about \<open>FontManager\<close>: what each operation leaves alone, the containment of
  resolved paths, and the effect of installing and removing on the records.
\<close>

section \<open>The configuration objects\<close>

abbreviation user_config :: "int \<Rightarrow> FontConfig" where
  "user_config userId \<equiv> \<lparr>ConfigPath = install_path userId @ FONT_CONFIG_FILE\<rparr>"

abbreviation install_dir :: "int \<Rightarrow> path" where
  "install_dir userId \<equiv> resolve (install_path userId)"

definition configs_ok :: "'a fm_state_scheme \<Rightarrow> bool" where
  "configs_ok s \<longleftrightarrow> (\<forall>u cfg. configMap s u = Some cfg \<longrightarrow> cfg = user_config u)"

text \<open>
  The frame of an operation of the manager for one user: only the user's installation directory
  changes, the listed notifications are sent, and the table of configuration objects stays sound.
\<close>

definition fm_frame :: "int \<Rightarrow> effect list \<Rightarrow> 'a fm_state_scheme \<Rightarrow> 'a fm_state_scheme \<Rightarrow> bool" where
  "fm_frame u es s s' \<longleftrightarrow>
     (\<forall>q. \<not> prefix (install_dir u) q \<longrightarrow> node_at s' q = node_at s q) \<and>
     fds s' = fds s \<and> effects s' = effects s @ es \<and> fm_state.more s' = fm_state.more s \<and>
     (configs_ok s \<longrightarrow> configs_ok s')"

lemma fm_frame_refl [simp]: "fm_frame u [] s s"
  by (simp add: fm_frame_def)

lemma fm_frame_trans: "fm_frame u es s s1 \<Longrightarrow> fm_frame u es' s1 s2 \<Longrightarrow> fm_frame u (es @ es') s s2"
  by (simp add: fm_frame_def)

lemma more_fm_eq:
  "world.more s' = world.more (s :: 'a fm_state_scheme) \<Longrightarrow>
     configMap s' = configMap s \<and> fm_state.more s' = fm_state.more s"
  by (cases s; cases s') simp

lemma frame_fm:
  assumes "frame (install_dir u) es s s'"
  shows "fm_frame u es s (s' :: 'a fm_state_scheme)"
  using assms more_fm_eq [of s' s] by (auto simp: frame_def fm_frame_def configs_ok_def)

lemma configMap_update [simp]:
  "fds (s\<lparr>configMap := m\<rparr>) = fds s" "fs (s\<lparr>configMap := m\<rparr>) = fs s"
  "effects (s\<lparr>configMap := m\<rparr>) = effects s" "fm_state.more (s\<lparr>configMap := m\<rparr>) = fm_state.more s"
  "node_at (s\<lparr>configMap := m\<rparr>) q = node_at s q"
  by (cases s; simp add: node_at_def)+

lemma SafeGetOrCreateConfig_eq:
  assumes "SafeGetOrCreateConfig s u (install_path u @ FONT_CONFIG_FILE) = (cfg, s')" "configs_ok s"
  shows "cfg = user_config u" "configs_ok s'" "fm_frame u [] s s'" "\<And>q. node_at s' q = node_at s q"
proof -
  from assms have "cfg = user_config u \<and> (s' = s \<or> s' = s\<lparr>configMap := (configMap s)(u \<mapsto> cfg)\<rparr>)"
    by (auto simp: SafeGetOrCreateConfig_def configs_ok_def Let_def split: option.splits)
  then show "cfg = user_config u" "configs_ok s'" "fm_frame u [] s s'" "\<And>q. node_at s' q = node_at s q"
    using assms(2) by (auto simp: configs_ok_def fm_frame_def split: if_splits)
qed

lemma SafeGet_frame:
  "SafeGetOrCreateConfig s u p = (cfg, s') \<Longrightarrow> p = install_path u @ FONT_CONFIG_FILE \<Longrightarrow> fm_frame u [] s s'"
  by (auto simp: SafeGetOrCreateConfig_def fm_frame_def configs_ok_def Let_def
      split: option.splits if_splits)

section \<open>Paths below the installation directory\<close>

lemma resolve_config: "resolve (ConfigPath (user_config u)) = install_dir u @ [FONT_CONFIG_FILE]"
  by (simp add: resolve_install_path_name)

lemma install_path_dir: "\<exists>a. install_path u = a @ ''/''"
  by (rule install_path_slash)

lemma resolve_install_temp: "resolve (install_path u @ TEMP_FILE) = install_dir u @ [''temp'']"
  using install_path_dir [of u] resolve_dir_temp by metis

lemma GetAppInstallPath_eq: "GetAppInstallPath u a = (install_path u @ a) @ ''/''"
  by (simp add: GetAppInstallPath_def install_path_def)

lemma resolve_app_dir:
  "simple_name a \<Longrightarrow> resolve (GetAppInstallPath u a) = install_dir u @ [a]"
  using resolve_append_slash [of "install_path u @ a"]
  by (simp add: GetAppInstallPath_eq resolve_install_path_name del: append_assoc)

lemma install_dir_not_Nil [simp]: "install_dir u \<noteq> []"
  by (simp add: resolve_install_path)

text \<open>
  The directories of two users lie apart, and the old shared directory lies apart from both: the
  component after \<open>el1\<close> differs.
\<close>

lemma install_dir_apart: "u \<noteq> v \<Longrightarrow> prefix (install_dir u) p \<Longrightarrow> \<not> prefix (install_dir v) p"
  by (auto simp: resolve_install_path prefix_def)

lemma split_path_string:
  assumes "\<And>n. n \<in> set p \<Longrightarrow> CHR ''/'' \<notin> set n" "p \<noteq> []"
  shows "split_slash (path_string p) = [] # p"
proof -
  have "split_slash (concat (map (\<lambda>n. CHR ''/'' # n) p)) = [] # p" if "\<And>n. n \<in> set p \<Longrightarrow> CHR ''/'' \<notin> set n" for p
    using that
  proof (induction p rule: rev_induct)
    case (snoc n p)
    then show ?case by (simp add: split_slash_append split_slash_single)
  qed simp
  with assms show ?thesis by (simp add: path_string_def)
qed

lemma path_string_prefix:
  assumes "prefix (path_string d @ ''/'') (path_string p)" "d \<noteq> []"
    "\<And>n. n \<in> set d \<Longrightarrow> CHR ''/'' \<notin> set n" "\<And>n. n \<in> set p \<Longrightarrow> CHR ''/'' \<notin> set n"
  shows "strict_prefix d p"
proof -
  from assms(1) obtain r where r: "path_string p = path_string d @ CHR ''/'' # r"
    by (auto simp: prefix_def)
  have "p \<noteq> []" using r assms(2) by (cases d) (auto simp: path_string_def)
  with assms(4) have "[] # p = split_slash (path_string p)" by (simp add: split_path_string)
  also have "\<dots> = ([] # d) @ split_slash r"
    unfolding r split_slash_append using split_path_string [OF assms(3,2)] by simp
  finally show ?thesis
    using split_slash_not_Nil [of r] by (cases "split_slash r") (auto simp: strict_prefix_def)
qed

text \<open>Whatever a record says, the path it is resolved to lies below the installation directory.\<close>

lemma ValidateAndResolveRealPath_below:
  assumes "ValidateAndResolveRealPath E ip path = p" "p \<noteq> []" "resolve ip \<noteq> []"
  shows "strict_prefix (resolve ip) (resolve p)"
    "resolve p = resolve (SandBoxPathToRealPath ip path)"
proof -
  let ?r = "resolve (SandBoxPathToRealPath ip path)"
  have last: "last (path_string (resolve ip)) \<noteq> CHR ''/''"
  proof -
    obtain ps n where ps: "resolve ip = ps @ [n]" using assms(3) by (metis rev_exhaust)
    then have "simple_name n" using resolve_simple [of n ip] by simp
    then have "n \<noteq> []" "CHR ''/'' \<notin> set n" by (auto simp: simple_name_def)
    then have "last n \<noteq> CHR ''/''" by (metis last_in_set)
    with \<open>n \<noteq> []\<close> show ?thesis unfolding ps path_string_def by simp
  qed
  from assms last have p: "p = path_string ?r" and
    pre: "prefix (path_string (resolve ip) @ ''/'') (path_string ?r)"
    by (auto simp: ValidateAndResolveRealPath_def weakly_canonical_def Let_def
        split: if_splits option.splits) (auto simp: path_string_def)
  show "resolve p = ?r" unfolding p by (rule resolve_path_string) (rule resolve_simple)
  then show "strict_prefix (resolve ip) (resolve p)"
    using path_string_prefix [OF pre assms(3)] resolve_simple by (auto simp: simple_name_def)
qed

lemma prefix_ValidateAndResolveRealPath:
  "ValidateAndResolveRealPath E (install_path u) path \<noteq> [] \<Longrightarrow>
     prefix (install_dir u) (resolve (ValidateAndResolveRealPath E (install_path u) path))"
  using ValidateAndResolveRealPath_below(1) [OF refl, of E "install_path u" path]
  by (simp add: strict_prefix_def)

section \<open>The reports\<close>

definition stats_effects :: "'e font_env_scheme \<Rightarrow> file_tree \<Rightarrow> int \<Rightarrow> string \<Rightarrow> effect list" where
  "stats_effects E t userId installPath =
     (if GetFontInstallerBusinessName E = [] \<or> GetStorageManagerProxy E = None then []
      else [BundleStats userId (GetFontInstallerBusinessName E) (GetFontFolderSize E t installPath)])"

definition size_effect :: "'e font_env_scheme \<Rightarrow> file_tree \<Rightarrow> string \<Rightarrow> effect" where
  "size_effect E t path =
     UserDataSize COMPONENT_NAME DATA_PARTITION_NAME (GetDataPartitionRemainSize E)
       (GetFileOrFolderPath path) (GetFileOrFolderSize E t path)"

definition update_effects ::
    "'e font_env_scheme \<Rightarrow> file_tree \<Rightarrow> int \<Rightarrow> FontEventType \<Rightarrow> string \<Rightarrow> effect list" where
  "update_effects E t userId eventType names =
     size_effect E t (install_path userId)
       # stats_effects E t userId (install_path userId) @ [FontUpdate FONT_UPDATE_FOR_POLICY eventType names userId]"

lemma frame_emit: "frame d [e] w (emit e w)"
  by (simp add: frame_def world_simps)

lemma frame_user_data_size: "frame d [size_effect E (fs w) p] w (CollectUserDataSize E w p)"
  by (simp add: CollectUserDataSize_def size_effect_def Let_def frame_emit)

lemma frame_report_stats:
  "frame d (stats_effects E (fs w) u p) w (snd (ReportFontBundleStats E w u p))"
  by (auto simp: stats_effects_def ReportFontBundleStats_def Let_def frame_emit split: option.split)

lemma frame_report_update:
  "frame d (update_effects E (fs w) u t names) w (report_update E w (install_path u) u t names)"
proof -
  have 1: "frame d [size_effect E (fs w) (install_path u)] w (CollectUserDataSize E w (install_path u))"
    (is "frame d [?e] w ?w1") by (rule frame_user_data_size)
  have 2: "frame d (stats_effects E (fs w) u (install_path u)) ?w1
      (snd (ReportFontBundleStats E ?w1 u (install_path u)))" (is "frame d ?s ?w1 ?w2")
    using frame_report_stats [of d E ?w1] by (simp add: fs_reports)
  have 3: "frame d [FontUpdate FONT_UPDATE_FOR_POLICY t names u] ?w2 (report_update E w (install_path u) u t names)"
    by (simp add: report_update_def Let_def PublishFontUpdate_def frame_emit)
  from frame_trans [OF frame_trans [OF 1 2] 3] show ?thesis
    by (simp add: update_effects_def)
qed

lemma node_at_report_update [world_simps]:
  "node_at (report_update E w p u t names) q = node_at w q"
  by (simp add: report_update_def Let_def world_simps)

lemma config_items_report_update [world_simps]:
  "config_items E (report_update E' w p u t names) cfg = config_items E w cfg"
  by (rule config_items_cong) (simp add: world_simps)

section \<open>The frames of the operations of the manager\<close>

lemma user_config_prefix: "prefix (install_dir u) (resolve (ConfigPath (user_config u)))"
  using resolve_config [of u] by simp

lemmas frame_user_config = frame_config [OF _ user_config_prefix]

lemma frame_RemoveFile_resolved:
  "(if p \<noteq> [] \<and> c then RemoveFile E w p else (True, w)) = (b, w') \<Longrightarrow>
     p = ValidateAndResolveRealPath E (install_path u) path \<Longrightarrow> frame (install_dir u) [] w w'"
  using prefix_ValidateAndResolveRealPath [of E u path] frame_RemoveFile [of "install_dir u" p w E]
  by (auto split: if_splits)

lemma frame_clear_stale_names:
  "clear_stale_names E (user_config u) ip ns w = (r, w') \<Longrightarrow> frame (install_dir u) [] w w'"
proof (induction ns arbitrary: w)
  case (Cons n ns)
  obtain b w1 where del: "DeleteFontRecord E w (user_config u) (GetFontFileByName E w (user_config u) n) = (b, w1)"
    by fastforce
  then have "frame (install_dir u) [] w w1"
    unfolding DeleteFontRecord_def by (intro frame_user_config delete_by_member_frame)
  with Cons.prems del show ?case
    by (auto simp: Let_def dest: Cons.IH frame_trans_silent split: if_splits bool.splits)
qed simp

lemma clear_stale_names_code:
  "clear_stale_names E cfg ip ns w = (Some c, w') \<Longrightarrow> c = ERR_INSTALLED_ALRADY \<or> c = ERR_INSTALL_FAIL"
  by (induction ns arbitrary: w) (auto simp: Let_def split: if_splits prod.splits bool.splits)

lemma frame_install_new_font:
  assumes "install_new_font E (user_config u) (install_path u) fd u ns w = (r, w')"
  shows "\<exists>es. frame (install_dir u) es w w' \<and>
     (if r = ERR_OK then \<exists>t. es = update_effects E t u INSTALL (GetFormatFullName ns) else es = [])"
proof (cases "GetInstalledFontsNum E w (user_config u) \<ge> GetMaxInstallNum E")
  case True
  with assms show ?thesis by (auto simp: install_new_font_def Let_def err_defs)
next
  case few: False
  let ?n = "GetFileName (GetFilePathByFd E w fd)"
  obtain dest w1 where cp: "CopyFileForInstall E w (install_path u) ?n fd = (dest, w1)" by fastforce
  obtain a where a: "install_path u = a @ ''/''" using install_path_dir by blast
  from cp have f1: "frame (install_dir u) [] w w1"
    unfolding a by (rule frame_CopyFileForInstall) (simp_all add: GetFileName_no_slash a)
  obtain q w2 where ins: "InsertFontRecordIfUnderLimit E w1 (user_config u)
      (INSTALL_PATH_APP @ GetFileName dest) ns (GetMaxInstallNum E) = (q, w2)" by fastforce
  then have f2: "frame (install_dir u) [] w w2"
    using f1 frame_trans_silent frame_user_config InsertFontRecordIfUnderLimit_frame by blast
  show ?thesis
  proof (cases "dest = [] \<or> q \<noteq> ERR_OK")
    case True
    show ?thesis
    proof (cases "dest = []")
      case True
      with assms few cp f1 show ?thesis by (auto simp: install_new_font_def Let_def err_defs)
    next
      case False
      then have "dest = install_path u @ copy_name E ?n"
        using cp by (auto simp: CopyFileForInstall_alt split: prod.splits bool.splits)
      then have "prefix (install_dir u) (resolve dest)"
        by (simp add: resolve_install_path_name simple_copy_name GetFileName_no_slash)
      then have "frame (install_dir u) [] w (DeleteDir E w2 dest True)"
        using f2 frame_trans_silent frame_DeleteDir_root by blast
      with assms few cp ins False True show ?thesis by (auto simp: install_new_font_def Let_def)
    qed
  next
    case False
    with assms few cp ins have "r = ERR_OK"
      "w' = report_update E w2 (install_path u) u INSTALL (GetFormatFullName ns)"
      by (auto simp: install_new_font_def Let_def)
    moreover have "frame (install_dir u) (update_effects E (fs w2) u INSTALL (GetFormatFullName ns)) w
        (report_update E w2 (install_path u) u INSTALL (GetFormatFullName ns))"
      using frame_trans [OF f2 frame_report_update] by simp
    ultimately show ?thesis by auto
  qed
qed

lemma frame_init_install:
  assumes "CheckAndInitInstallPath E s (install_path u) = (b, s')"
  shows "frame (install_dir u) [] s s'"
  by (rule frame_CheckAndInitInstallPath [OF assms])
    (simp_all add: resolve_install_temp resolve_install_path_name)

lemma InstallFont_frame:
  assumes ok: "configs_ok s" and run: "InstallFont E s fd u = (r, s')"
  shows "\<exists>es. fm_frame u es s s' \<and>
     (if r = ERR_OK then \<exists>t. es = update_effects E t u INSTALL (GetFormatFullName (GetFullNamesByFd E s fd))
      else es = [])"
proof -
  obtain b s1 where init: "CheckAndInitInstallPath E s (install_path u) = (b, s1)" by fastforce
  have f1: "fm_frame u [] s s1" using frame_init_install [OF init] by (rule frame_fm)
  with ok have ok1: "configs_ok s1" by (simp add: fm_frame_def)
  obtain cfg s2 where get: "SafeGetOrCreateConfig s1 u (install_path u @ FONT_CONFIG_FILE) = (cfg, s2)"
    by fastforce
  note get' = SafeGetOrCreateConfig_eq [OF get ok1]
  have f2: "fm_frame u [] s s2" using fm_frame_trans [OF f1 get'(3)] by simp
  let ?ns = "GetFullNamesByFd E s2 fd"
  have ns: "?ns = GetFullNamesByFd E s fd"
    using f2 by (simp add: GetFullNamesByFd_def fm_frame_def)
  obtain e s3 where cl: "clear_stale_names E cfg (install_path u) ?ns s2 = (e, s3)" by fastforce
  have f3: "fm_frame u [] s s3"
    using fm_frame_trans [OF f2 frame_fm] frame_clear_stale_names cl get'(1) by fastforce
  obtain q s4 where new: "install_new_font E cfg (install_path u) fd u ?ns s3 = (q, s4)" by fastforce
  from frame_install_new_font [OF new [unfolded get'(1)]] obtain es where
    es: "frame (install_dir u) es s3 s4"
    "if q = ERR_OK then \<exists>t. es = update_effects E t u INSTALL (GetFormatFullName ?ns) else es = []" by blast
  have f4: "fm_frame u es s s4" using fm_frame_trans [OF f3 frame_fm [OF es(1)]] by simp
  have nok: "ERR_FILE_NOT_EXISTS \<noteq> ERR_OK" "ERR_FILE_VERIFY_FAIL \<noteq> ERR_OK" by (simp_all add: err_defs)
  have early: "e = Some c \<Longrightarrow> c \<noteq> ERR_OK" for c
    using clear_stale_names_code [of E cfg _ ?ns s2 c s3] cl by (auto simp: err_defs)
  from run init get cl new consider
      "r = ERR_FILE_NOT_EXISTS" "s' = s1" | "r = ERR_FILE_VERIFY_FAIL" "s' = s2"
    | "e = Some r" "s' = s3" | "r = q" "s' = s4"
    by (auto simp: InstallFont_def Let_def split: bool.splits if_splits option.splits)
  then show ?thesis
    using f1 f2 f3 f4 es(2) nok early ns by cases auto
qed

lemma UninstallFont_frame:
  assumes ok: "configs_ok s" and run: "UninstallFont E s n u = (r, s')"
  shows "\<exists>es. fm_frame u es s s' \<and>
     (if r = ERR_OK then \<exists>t. es = update_effects E t u UNINSTALL n else es = [])"
proof -
  obtain cfg s1 where get: "SafeGetOrCreateConfig s u (install_path u @ FONT_CONFIG_FILE) = (cfg, s1)"
    by fastforce
  note get' = SafeGetOrCreateConfig_eq [OF get ok]
  let ?path = "fr_fontPath (the (GetFontRecordByName E s1 cfg n))"
  let ?real = "ValidateAndResolveRealPath E (install_path u) ?path"
  obtain b s2 where rm: "(if ?real \<noteq> [] \<and> CheckPathExist E s1 ?real then RemoveFile E s1 ?real else (True, s1))
      = (b, s2)" by fastforce
  have f2: "fm_frame u [] s s2"
    using fm_frame_trans [OF get'(3) frame_fm [OF frame_RemoveFile_resolved [OF rm refl]]] by simp
  obtain b' s3 where del: "DeleteFontRecord E s2 cfg ?path = (b', s3)" by fastforce
  have f3: "fm_frame u [] s s3"
    using fm_frame_trans [OF f2 frame_fm [OF frame_user_config
      [OF delete_by_member_frame [OF del [unfolded DeleteFontRecord_def get'(1)]]]]] by simp
  have f4: "fm_frame u (update_effects E (fs s3) u UNINSTALL n) s (report_update E s3 (install_path u) u UNINSTALL n)"
    using fm_frame_trans [OF f3 frame_fm [OF frame_report_update]] by simp
  from run get rm del consider
      "r \<noteq> ERR_OK" "s' = s" | "r \<noteq> ERR_OK" "s' = s1" | "r \<noteq> ERR_OK" "s' = s2" | "r \<noteq> ERR_OK" "s' = s3"
    | "r = ERR_OK" "s' = report_update E s3 (install_path u) u UNINSTALL n"
    by (auto simp: UninstallFont_def Let_def err_defs split: bool.splits if_splits option.splits)
  then show ?thesis
    using get'(3) f2 f3 f4 by cases auto
qed

lemma frame_CopyAndInsertScopeFont:
  assumes run: "CopyAndInsertScopeFont E w info (user_config (si_userId info)) ns = (r, w')"
    and app: "simple_name (si_appIdentifier info)"
  shows "frame (install_dir (si_userId info)) [] w w'"
proof -
  let ?u = "si_userId info" and ?a = "install_path (si_userId info) @ si_appIdentifier info"
  let ?dir = "GetAppInstallPath ?u (si_appIdentifier info)"
  have dir: "?dir = ?a @ ''/''" by (rule GetAppInstallPath_eq)
  have res: "prefix (install_dir ?u) (resolve (?a @ ''/''))"
    using resolve_app_dir [OF app, of ?u] unfolding dir by simp
  have temp: "prefix (install_dir ?u) (resolve ((?a @ ''/'') @ TEMP_FILE))"
    unfolding resolve_dir_temp using res by (rule prefix_prefix)
  obtain b w1 where init: "CheckAndInitScopeFontPath E w ?dir = (b, w1)" by fastforce
  have f1: "frame (install_dir ?u) [] w w1"
    using init unfolding dir by (rule frame_CheckAndInitScopeFontPath) (use res temp in simp_all)
  let ?n = "GetFileName (GetFilePathByFd E w1 (si_fd info))"
  obtain dest w2 where cp: "CopyFileForInstall E w1 ?dir ?n (si_fd info) = (dest, w2)" by fastforce
  have f2: "frame (install_dir ?u) [] w w2"
    using frame_trans_silent [OF f1 frame_CopyFileForInstall [OF cp [unfolded dir] GetFileName_no_slash res]] .
  let ?r = "\<lparr>fr_fontPath = INSTALL_PATH_APP @ si_appIdentifier info @ ''/'' @ GetFileName dest,
      fr_fullNames = ns, fr_scope = si_scope info, fr_srcPath = si_srcPath info,
      fr_appIdentifier = si_appIdentifier info, fr_bundleName = si_bundleName info\<rparr>"
  obtain b3 w3 where ins: "InsertScopeFontRecord E w2 (user_config ?u) ?r = (b3, w3)" by fastforce
  have f3: "frame (install_dir ?u) [] w w3"
    using frame_trans_silent [OF f2 frame_user_config [OF InsertScopeFontRecord_frame [OF ins]]] .
  have "prefix (install_dir ?u) (resolve dest)" if "dest \<noteq> []"
  proof -
    from that have "dest = (?a @ ''/'') @ copy_name E ?n"
      using cp unfolding dir by (auto simp: CopyFileForInstall_alt split: prod.splits bool.splits)
    then show ?thesis
      using prefix_prefix [OF res] resolve_dir_name [OF simple_copy_name [OF GetFileName_no_slash], of ?a]
      by metis
  qed
  then have f4: "dest \<noteq> [] \<Longrightarrow> frame (install_dir ?u) [] w (DeleteDir E w3 dest True)"
    using f3 frame_trans_silent frame_DeleteDir_root by blast
  have "w' = w1 \<or> w' = w2 \<or> w' = w3 \<or> dest \<noteq> [] \<and> w' = DeleteDir E w3 dest True"
    using run init cp ins by (auto simp: CopyAndInsertScopeFont_def Let_def split: bool.splits if_splits)
  then show ?thesis using f1 f2 f3 f4 by blast
qed

lemma InstallScopeFont_frame:
  assumes ok: "configs_ok s" and app: "simple_name (si_appIdentifier info)"
    and run: "InstallScopeFont E s info = (r, s')"
  shows "\<exists>es. fm_frame (si_userId info) es s s' \<and>
     (if r = ERR_OK then \<exists>t. es = update_effects E t (si_userId info) INSTALL
                                (GetFormatFullName (GetFullNamesByFd E s (si_fd info)))
      else es = [])"
proof -
  let ?u = "si_userId info"
  obtain b s1 where init: "CheckAndInitInstallPath E s (install_path ?u) = (b, s1)" by fastforce
  have f1: "fm_frame ?u [] s s1" using frame_init_install [OF init] by (rule frame_fm)
  with ok have ok1: "configs_ok s1" by (simp add: fm_frame_def)
  obtain cfg s2 where get: "SafeGetOrCreateConfig s1 ?u (install_path ?u @ FONT_CONFIG_FILE) = (cfg, s2)"
    by fastforce
  note get' = SafeGetOrCreateConfig_eq [OF get ok1]
  have f2: "fm_frame ?u [] s s2" using fm_frame_trans [OF f1 get'(3)] by simp
  obtain b3 s3 where up: "CheckAndUpdateFontRecord E s2 cfg = (b3, s3)" by fastforce
  have f3: "fm_frame ?u [] s s3"
    using fm_frame_trans [OF f2 frame_fm [OF frame_user_config
      [OF CheckAndUpdateFontRecord_frame [OF up [unfolded get'(1)]]]]] by simp
  obtain q ns where val: "ValidateScopeFontForInstall E s3 cfg (si_srcPath info) (si_fd info) = (q, ns)"
    by fastforce
  have ns: "q = ERR_OK \<Longrightarrow> ns = GetFullNamesByFd E s (si_fd info)"
    using val f3 by (auto simp: ValidateScopeFontForInstall_def Let_def GetFullNamesByFd_def fm_frame_def err_defs
        split: if_splits)
  obtain q4 s4 where cp: "CopyAndInsertScopeFont E s3 info cfg ns = (q4, s4)" by fastforce
  have f4: "fm_frame ?u [] s s4"
    using fm_frame_trans [OF f3 frame_fm [OF frame_CopyAndInsertScopeFont [OF cp [unfolded get'(1)] app]]] by simp
  have f5: "fm_frame ?u (update_effects E (fs s4) ?u INSTALL (GetFormatFullName ns)) s
      (report_update E s4 (install_path ?u) ?u INSTALL (GetFormatFullName ns))"
    using fm_frame_trans [OF f4 frame_fm [OF frame_report_update]] by simp
  from run init get up val cp consider
      "r \<noteq> ERR_OK" "s' \<in> {s, s1, s3, s4}"
    | "r = ERR_OK" "q = ERR_OK" "s' = report_update E s4 (install_path ?u) ?u INSTALL (GetFormatFullName ns)"
    by (auto simp: InstallScopeFont_def Let_def err_defs split: bool.splits if_splits)
  then show ?thesis
    using f1 f3 f4 f5 ns by cases auto
qed

lemma UninstallScopeFont_frame:
  assumes ok: "configs_ok s" and run: "UninstallScopeFont E s url bundle tok u = (r, s')"
  shows "\<exists>es. fm_frame u es s s' \<and>
     (if r = ERR_OK then \<exists>t ns. es = update_effects E t u UNINSTALL (GetFormatFullName ns) else es = [])"
proof -
  obtain cfg s1 where get: "SafeGetOrCreateConfig s u (install_path u @ FONT_CONFIG_FILE) = (cfg, s1)"
    by fastforce
  note get' = SafeGetOrCreateConfig_eq [OF get ok]
  let ?rec = "the (owned_record E s1 cfg url bundle tok)"
  let ?real = "ValidateAndResolveRealPath E (install_path u) (fr_fontPath ?rec)"
  obtain b s2 where rm: "(if ?real \<noteq> [] \<and> CheckPathExist E s1 ?real then RemoveFile E s1 ?real else (True, s1))
      = (b, s2)" by fastforce
  have f2: "fm_frame u [] s s2"
    using fm_frame_trans [OF get'(3) frame_fm [OF frame_RemoveFile_resolved [OF rm refl]]] by simp
  obtain b' s3 where del: "DeleteScopeFontRecordByUrl E s2 cfg url = (b', s3)" by fastforce
  have f3: "fm_frame u [] s s3"
    using fm_frame_trans [OF f2 frame_fm [OF frame_user_config
      [OF delete_by_member_frame [OF del [unfolded DeleteScopeFontRecordByUrl_def get'(1)]]]]] by simp
  have f4: "fm_frame u (update_effects E (fs s3) u UNINSTALL (GetFormatFullName (fr_fullNames ?rec))) s
      (report_update E s3 (install_path u) u UNINSTALL (GetFormatFullName (fr_fullNames ?rec)))"
    using fm_frame_trans [OF f3 frame_fm [OF frame_report_update]] by simp
  from run get rm del consider
      "r \<noteq> ERR_OK" "s' \<in> {s, s1, s2, s3}"
    | "r = ERR_OK"
      "s' = report_update E s3 (install_path u) u UNINSTALL (GetFormatFullName (fr_fullNames ?rec))"
    by (auto simp: UninstallScopeFont_def Let_def err_defs split: bool.splits if_splits option.splits)
  then show ?thesis
    using get'(3) f2 f3 f4 by cases auto
qed

lemma frame_remove_records:
  "remove_records E (user_config u) (install_path u) rs acc w = (names, w') \<Longrightarrow>
     frame (install_dir u) [] w w'"
proof (induction rs arbitrary: acc w)
  case (Cons r rs)
  let ?real = "ValidateAndResolveRealPath E (install_path u) (fr_fontPath r)"
  let ?w1 = "if ?real \<noteq> [] \<and> CheckPathExist E w ?real then snd (RemoveFile E w ?real) else w"
  have "frame (install_dir u) [] w ?w1"
    using prefix_ValidateAndResolveRealPath [of E u "fr_fontPath r"]
      frame_RemoveFile [of "install_dir u" ?real w E] by auto
  moreover obtain b w2 where del: "DeleteScopeFontRecordByUrl E ?w1 (user_config u) (fr_srcPath r) = (b, w2)"
    by fastforce
  then have "frame (install_dir u) [] ?w1 w2"
    unfolding DeleteScopeFontRecordByUrl_def by (intro frame_user_config delete_by_member_frame)
  ultimately have "frame (install_dir u) [] w w2" by (rule frame_trans_silent)
  moreover obtain acc' where "remove_records E (user_config u) (install_path u) rs acc' w2 = (names, w')"
    using Cons.prems del by (auto simp: Let_def)
  then have "frame (install_dir u) [] w2 w'" by (rule Cons.IH)
  ultimately show ?case by (rule frame_trans_silent)
qed simp

lemma frame_cleanup_records:
  "\<exists>es. frame (install_dir u) es w (cleanup_records E (user_config u) u rs w) \<and> (\<forall>k. UnloadService k \<notin> set es)"
proof -
  obtain names w1 where rm: "remove_records E (user_config u) (install_path u) rs [] w = (names, w1)"
    by fastforce
  note f1 = frame_remove_records [OF rm]
  have "UnloadService k \<notin> set (update_effects E t v y nm)" for k t v y nm
    by (simp add: update_effects_def stats_effects_def size_effect_def)
  moreover have "frame (install_dir u) (update_effects E (fs w1) u UNINSTALL names) w
      (report_update E w1 (install_path u) u UNINSTALL names)"
    using frame_trans [OF f1 frame_report_update] by simp
  moreover have "frame (install_dir u) [size_effect E (fs w1) (install_path u)] w (CollectUserDataSize E w1 (install_path u))"
    using frame_trans [OF f1 frame_user_data_size] by simp
  moreover have "UnloadService k \<noteq> size_effect E t p" for k t p by (simp add: size_effect_def)
  ultimately show ?thesis
    by (auto simp: cleanup_records_def rm Let_def)
qed

lemma cleanup_frame:
  assumes ok: "configs_ok s"
    and get: "SafeGetOrCreateConfig s u (install_path u @ FONT_CONFIG_FILE) = (cfg, s1)"
  shows "\<exists>es. fm_frame u es s (cleanup_records E cfg u rs s1) \<and> (\<forall>k. UnloadService k \<notin> set es)"
proof -
  note get' = SafeGetOrCreateConfig_eq [OF get ok]
  from frame_cleanup_records obtain es where
    "frame (install_dir u) es s1 (cleanup_records E (user_config u) u rs s1)" "\<forall>k. UnloadService k \<notin> set es"
    by blast
  with fm_frame_trans [OF get'(3) frame_fm] get'(1) show ?thesis by fastforce
qed

lemma CleanupScopeFontsByUser_frame:
  "configs_ok s \<Longrightarrow> CleanupScopeFontsByUser E s u = (r, s') \<Longrightarrow>
     r = ERR_OK \<and> (\<exists>es. fm_frame u es s s' \<and> (\<forall>k. UnloadService k \<notin> set es))"
  by (auto simp: CleanupScopeFontsByUser_def dest: cleanup_frame split: prod.splits)

lemma CleanupAppScopeFontsByUser_frame:
  "configs_ok s \<Longrightarrow> CleanupAppScopeFontsByUser E s u = (r, s') \<Longrightarrow>
     r = ERR_OK \<and> (\<exists>es. fm_frame u es s s' \<and> (\<forall>k. UnloadService k \<notin> set es))"
  by (auto simp: CleanupAppScopeFontsByUser_def dest: cleanup_frame split: prod.splits)

lemma CleanupAppScopeFonts_frame:
  assumes "configs_ok s" "simple_name a" "CleanupAppScopeFonts E s a u = (r, s')"
  shows "r = ERR_OK \<and> (\<exists>es. fm_frame u es s s' \<and> (\<forall>k. UnloadService k \<notin> set es))"
proof -
  obtain cfg s1 where get: "SafeGetOrCreateConfig s u (install_path u @ FONT_CONFIG_FILE) = (cfg, s1)"
    by fastforce
  let ?s2 = "cleanup_records E cfg u (GetFontRecordsByAppId E s1 cfg a) s1"
  from cleanup_frame [OF assms(1) get] obtain es where es: "fm_frame u es s ?s2" "\<forall>k. UnloadService k \<notin> set es"
    by blast
  have "frame (install_dir u) [] ?s2 (DeleteDir E ?s2 (GetAppInstallPath u a) True)"
    by (rule frame_DeleteDir_root) (simp add: resolve_app_dir assms(2))
  from fm_frame_trans [OF es(1) frame_fm [OF this]] es(2) assms(3) get show ?thesis
    by (auto simp: CleanupAppScopeFonts_def Let_def)
qed

end
