(* ===== verification/Config_Update.thy ===== *)
theory Config_Update
  imports Config_Ops
begin

text \<open>
  The version upgrade \<open>CheckAndUpdateFontRecord\<close>: which document it writes, that it touches nothing
  of a record but its names, and when the file is at version 7.0 afterwards.
\<close>

section \<open>Members under removal and replacement\<close>

lemma ci_eq_sym: "ci_eq a b \<longleftrightarrow> ci_eq b a"
  by (auto simp: ci_eq_def)

lemma ci_eq_trans: "ci_eq a b \<Longrightarrow> ci_eq b c \<Longrightarrow> ci_eq a c"
  by (simp add: ci_eq_def)

lemma jmember_remove_other:
  assumes "obj_find kvs key = Some i" "\<not> ci_eq key k"
  shows "jmember (JObject (remove_nth i kvs)) k = jmember (JObject kvs) k"
  using assms(1)
proof (induction kvs arbitrary: i)
  case (Cons kv kvs)
  obtain n v where kv: "kv = (n, v)" by fastforce
  show ?case
  proof (cases "ci_eq n key")
    case True
    then have "\<not> ci_eq n k" using assms(2) ci_eq_sym ci_eq_trans by blast
    with True Cons.prems show ?thesis by (simp add: kv obj_find_def remove_nth_def jmember_Cons)
  next
    case False
    with Cons.prems obtain j where j: "obj_find kvs key = Some j" "i = Suc j"
      by (auto simp: obj_find_def kv)
    with Cons.IH [OF j(1)] show ?thesis by (simp add: kv remove_nth_def jmember_Cons)
  qed
qed (simp add: obj_find_def)

lemma jmember_update_key:
  assumes "obj_find kvs key = Some i"
  shows "jmember (JObject (kvs[i := (key, x)])) k =
    (if ci_eq key k then Some x else jmember (JObject kvs) k)"
  using assms
proof (induction kvs arbitrary: i)
  case (Cons kv kvs)
  obtain n v where kv: "kv = (n, v)" by fastforce
  show ?case
  proof (cases "ci_eq n key")
    case True
    then have "ci_eq n k \<longleftrightarrow> ci_eq key k" using ci_eq_sym ci_eq_trans by blast
    with True Cons.prems show ?thesis by (simp add: kv obj_find_def jmember_Cons)
  next
    case False
    with Cons.prems obtain j where j: "obj_find kvs key = Some j" "i = Suc j"
      by (auto simp: obj_find_def kv)
    have "ci_eq key k \<Longrightarrow> \<not> ci_eq n k" using False ci_eq_sym ci_eq_trans by blast
    with Cons.IH [OF j(1)] j(2) show ?thesis by (auto simp: kv jmember_Cons)
  qed
qed (simp add: obj_find_def)

lemma obj_find_jmember: "obj_find kvs key = None \<longleftrightarrow> jmember (JObject kvs) key = None"
  by (simp add: jmember_JObject)

section \<open>Refreshing the names\<close>

text \<open>\<open>refreshed x y\<close>: the items agree in every member but the list of names.\<close>

definition refreshed :: "cJSON \<Rightarrow> cJSON \<Rightarrow> bool" where
  "refreshed x y \<longleftrightarrow> (\<forall>key. \<not> ci_eq FONT_FULL_NAME key \<longrightarrow> jmember y key = jmember x key)"

lemma refreshed_refl [simp]: "refreshed x x"
  by (simp add: refreshed_def)

text \<open>A document at the current version.\<close>

definition at_version_7 :: "cJSON \<Rightarrow> bool" where
  "at_version_7 doc \<longleftrightarrow> jstring doc FONT_VERSION = Some FONT_CONFIG_VERSION_7"

context config_library
begin

lemma fresh_names_eq:
  "\<exists>ns'. subseq ns' ns \<and> fresh_names E (JArray xs) ns = JArray (xs @ map (\<lambda>n. JString (c_str n)) ns')"
proof (induction ns arbitrary: xs)
  case (Cons n ns)
  show ?case
  proof (cases "Option.bind (cJSON_CreateString E n) (cJSON_AddItemToArray E (JArray xs))")
    case None
    then have "fresh_names E (JArray xs) (n # ns) = fresh_names E (JArray xs) ns"
      by (auto simp: fresh_names_def bind_eq_None_conv split: option.split)
    with Cons [of xs] show ?thesis by (metis list_emb_Cons)
  next
    case (Some arr)
    then have arr: "arr = JArray (xs @ [JString (c_str n)])"
      by (auto simp: bind_eq_Some_conv dest!: CreateString AddItemToArray)
    from Some have "fresh_names E (JArray xs) (n # ns) = fresh_names E arr ns"
      by (auto simp: fresh_names_def bind_eq_Some_conv)
    moreover from Cons [of "xs @ [JString (c_str n)]"] obtain ns' where
      "subseq ns' ns" "fresh_names E arr ns = JArray ((xs @ [JString (c_str n)]) @ map (\<lambda>n. JString (c_str n)) ns')"
      unfolding arr by blast
    ultimately show ?thesis by (intro exI [of _ "n # ns'"]) simp
  qed
qed (auto simp: fresh_names_def)

text \<open>
  What becomes of an item: it stays as it is, or it loses its list of names, or it has a new one at its
  end; all other members are as before.
\<close>

lemma refresh_item_shape:
  assumes "refresh_item E w cfg x \<noteq> x"
  shows "\<exists>kvs kvs1 ks. x = JObject kvs \<and> set kvs1 \<subseteq> set kvs \<and>
     (\<forall>k. \<not> ci_eq FONT_FULL_NAME k \<longrightarrow> jmember (JObject kvs1) k = jmember x k) \<and>
     refresh_item E w cfg x
       \<in> {JObject kvs1, JObject (kvs1 @ [(FONT_FULL_NAME, JArray (map (\<lambda>n. JString (c_str n)) ks))])}"
proof -
  from assms obtain p arr where p: "string_member E x FONT_PATH = Some p" and arr: "cJSON_CreateArray E = Some arr"
    by (auto simp: refresh_item_def Let_def split: option.splits)
  from p obtain kvs where x: "x = JObject kvs"
    by (cases x) (auto simp: string_member_eq jstring_def jmember_def)
  define ns where "ns = fresh_names E (JArray []) (GetFullNamesByPath E w (SandBoxPathToRealPathCfg cfg p))"
  obtain ks where ns: "ns = JArray (map (\<lambda>n. JString (c_str n)) ks)"
    unfolding ns_def using fresh_names_eq [of _ "[]"] by fastforce
  define kvs1 where "kvs1 = (case obj_find kvs FONT_FULL_NAME of None \<Rightarrow> kvs | Some i \<Rightarrow> remove_nth i kvs)"
  have del: "cJSON_DeleteItemFromObject E x FONT_FULL_NAME = JObject kvs1"
    by (simp add: x kvs1_def DeleteItemFromObject split: option.split)
  have run: "refresh_item E w cfg x =
      (case cJSON_AddItemToObject E (JObject kvs1) FONT_FULL_NAME ns of None \<Rightarrow> JObject kvs1 | Some y \<Rightarrow> y)"
    by (simp only: refresh_item_def p arr Let_def del ns_def CreateArray [OF arr] option.case)
  then have "refresh_item E w cfg x \<in> {JObject kvs1, JObject (kvs1 @ [(FONT_FULL_NAME, ns)])}"
    using AddItemToObject [of kvs1 FONT_FULL_NAME ns]
    by (cases "cJSON_AddItemToObject E (JObject kvs1) FONT_FULL_NAME ns") auto
  moreover have "jmember (JObject kvs1) k = jmember x k" if "\<not> ci_eq FONT_FULL_NAME k" for k
    using jmember_remove_other that by (simp add: kvs1_def x split: option.split)
  moreover have "set kvs1 \<subseteq> set kvs"
    by (cases "obj_find kvs FONT_FULL_NAME") (simp_all add: kvs1_def set_remove_nth)
  ultimately show ?thesis unfolding ns using x by blast
qed

lemma refresh_item_ok:
  assumes "item_ok x"
  shows "refreshed x (refresh_item E w cfg x) \<and> item_ok (refresh_item E w cfg x)"
proof (cases "refresh_item E w cfg x = x")
  case False
  from refresh_item_shape [OF this] obtain kvs kvs1 ks where
    x: "x = JObject kvs" "set kvs1 \<subseteq> set kvs" "\<And>k. \<not> ci_eq FONT_FULL_NAME k \<Longrightarrow> jmember (JObject kvs1) k = jmember x k"
    "refresh_item E w cfg x
       \<in> {JObject kvs1, JObject (kvs1 @ [(FONT_FULL_NAME, JArray (map (\<lambda>n. JString (c_str n)) ks))])}" by blast
  from x(1,2) assms have "item_ok (JObject kvs1)"
    "item_ok (JObject (kvs1 @ [(FONT_FULL_NAME, JArray (map (\<lambda>n. JString (c_str n)) ks))]))"
    by (auto simp: json_valid_JObject json_valid_JArray CJSON_NESTING_LIMIT_def)
  with x(3,4) show ?thesis
    by (auto simp: refreshed_def jmember_append jmember_Cons jmember_Nil split: option.split)
qed (use assms in simp)

lemma RefreshFullNames_eq:
  assumes "font_array E doc = Some (p, JArray xs)"
  shows "RefreshFullNames E w cfg doc = item_put doc p (JArray (map (refresh_item E w cfg) xs))"
proof -
  have "foldl (\<lambda>arr i. case cJSON_GetArrayItem E arr i of
            None \<Rightarrow> arr | Some q \<Rightarrow> item_put arr q (refresh_item E w cfg (item_at arr q)))
          (JArray ys) is
      = JArray (foldl (\<lambda>zs i. zs[i := refresh_item E w cfg (zs ! i)]) ys is)"
    if "\<forall>i\<in>set is. i < length ys" for ys "is"
    using that by (induction "is" arbitrary: ys) (auto simp: GetArrayItem)
  then show ?thesis
    using assms by (simp add: RefreshFullNames_def GetArraySize foldl_update_map)
qed

section \<open>The upgrade\<close>

lemma version_cstring [simp]: "is_cstring FONT_CONFIG_VERSION_7"
  by (simp add: FONT_CONFIG_VERSION_7_def NUL_def)

lemma json_ok_member:
  "json_ok (JObject kvs) \<Longrightarrow> json_ok (JObject (kvs @ [(FONT_VERSION, JString FONT_CONFIG_VERSION_7)]))
     \<and> (i < length kvs \<longrightarrow> json_ok (JObject (kvs[i := (FONT_VERSION, JString FONT_CONFIG_VERSION_7)])))"
  by (auto simp: json_valid_JObject CJSON_NESTING_LIMIT_def dest!: set_update_subset_insert [THEN subsetD])

text \<open>
  What the new version member does to a document: the records stay. A replaced member is at
  version 7.0; an appended one counts only when there was no such member before.
\<close>

lemma replace_version:
  assumes "json_ok (JObject kvs)"
    and "cJSON_ReplaceItemInObject E (JObject kvs) FONT_VERSION (JString FONT_CONFIG_VERSION_7) = Some doc"
  shows "json_ok doc" "items_of doc = items_of (JObject kvs)"
    "jmember doc FONT_VERSION = Some (JString FONT_CONFIG_VERSION_7)"
proof -
  from ReplaceItemInObject [OF assms(2)] obtain i where
    i: "obj_find kvs FONT_VERSION = Some i" "doc = JObject (kvs[i := (FONT_VERSION, JString FONT_CONFIG_VERSION_7)])"
    by auto
  then show "json_ok doc" using json_ok_member [OF assms(1)] by (auto dest: obj_find_SomeD)
  show "items_of doc = items_of (JObject kvs)" "jmember doc FONT_VERSION = Some (JString FONT_CONFIG_VERSION_7)"
    using i by (simp_all add: items_of_def jmember_update_key)
qed

lemma append_version:
  assumes "json_ok (JObject kvs)"
    and "SafeAddStringToObject E (JObject kvs) FONT_VERSION FONT_CONFIG_VERSION_7 = Some doc"
  shows "json_ok doc" "items_of doc = items_of (JObject kvs)"
    "jmember doc FONT_VERSION =
       (case jmember (JObject kvs) FONT_VERSION of None \<Rightarrow> Some (JString FONT_CONFIG_VERSION_7) | Some v \<Rightarrow> Some v)"
proof -
  have doc: "doc = JObject (kvs @ [(FONT_VERSION, JString FONT_CONFIG_VERSION_7)])"
    using SafeAddString [OF assms(2)] by simp
  show "json_ok doc" unfolding doc using json_ok_member [OF assms(1)] by blast
  show "items_of doc = items_of (JObject kvs)"
    by (simp add: doc items_of_def jmember_append jmember_Cons jmember_Nil split: option.split)
  show "jmember doc FONT_VERSION =
       (case jmember (JObject kvs) FONT_VERSION of None \<Rightarrow> Some (JString FONT_CONFIG_VERSION_7) | Some v \<Rightarrow> Some v)"
    by (simp add: doc jmember_append jmember_Cons jmember_Nil split: option.split)
qed

lemma items_of_JObject: "items_of doc = Some xs \<Longrightarrow> \<exists>kvs. doc = JObject kvs"
  by (cases doc) (auto simp: items_of_def jmember_def)

text \<open>A file that is at the current version is left as it is.\<close>

lemma CheckAndUpdateFontRecord_current:
  assumes "LoadConfig E w cfg = Some doc" "at_version_7 doc"
  shows "CheckAndUpdateFontRecord E w cfg = (True, w)"
proof -
  have "map_option (item_at doc) (cJSON_GetObjectItem E doc FONT_VERSION) = Some (JString FONT_CONFIG_VERSION_7)"
    using assms(2) unfolding member_eq
    by (auto simp: at_version_7_def jstring_def split: option.splits cJSON.splits)
  then obtain z where "cJSON_GetObjectItem E doc FONT_VERSION = Some z" "item_at doc z = JString FONT_CONFIG_VERSION_7"
    by auto
  with assms(1) show ?thesis by (simp add: CheckAndUpdateFontRecord_def IsString)
qed

text \<open>The document with fresh names: valid, with the records refreshed and the version as it was.\<close>

lemma RefreshFullNames_doc:
  assumes load: "LoadConfig E w cfg = Some doc" and items: "items_of doc = Some xs"
  shows "\<exists>kvs. RefreshFullNames E w cfg doc = JObject kvs \<and> json_ok (JObject kvs) \<and>
    items_of (JObject kvs) = Some (map (refresh_item E w cfg) xs) \<and>
    jmember (JObject kvs) FONT_VERSION = jmember doc FONT_VERSION"
proof -
  let ?doc1 = "RefreshFullNames E w cfg doc"
  from items obtain kvs where doc: "doc = JObject kvs" using items_of_JObject by blast
  from load have ok: "json_ok doc" by (auto dest: LoadConfig_readable)
  from ok items obtain p where p: "font_array E doc = Some (p, JArray xs)"
    "\<And>ys. items_of (item_put doc p (JArray ys)) = Some ys" "\<And>x. x \<in> set xs \<Longrightarrow> item_ok x"
    "\<And>ys. (\<And>y. y \<in> set ys \<Longrightarrow> item_ok y) \<Longrightarrow> json_ok (item_put doc p (JArray ys))"
    by (rule doc_items) blast
  have doc1: "?doc1 = item_put doc p (JArray (map (refresh_item E w cfg) xs))"
    by (rule RefreshFullNames_eq [OF p(1)])
  have ok1: "json_ok ?doc1" and items1: "items_of ?doc1 = Some (map (refresh_item E w cfg) xs)"
    unfolding doc1 using refresh_item_ok [THEN conjunct2, OF p(3)] by (auto intro!: p(4) simp: p(2))
  from items1 obtain kvs1 where kvs1: "?doc1 = JObject kvs1" using items_of_JObject by blast
  have "cJSON_GetObjectItem E doc FONT_LIST = Some p"
    using p(1) by (auto simp: font_array_def font_list_def split: option.splits if_splits)
  then have pos: "obj_find kvs FONT_LIST = Some p" by (simp add: doc GetObjectItem)
  have "jmember ?doc1 FONT_VERSION = jmember doc FONT_VERSION"
  proof -
    from pos have lt: "p < length kvs" by (auto dest: obj_find_SomeD)
    then have find: "obj_find (kvs[p := (fst (kvs ! p), JArray (map (refresh_item E w cfg) xs))]) FONT_VERSION
        = obj_find kvs FONT_VERSION"
      by (rule obj_find_update_value)
    have "obj_find kvs FONT_VERSION \<noteq> Some p"
    proof
      assume "obj_find kvs FONT_VERSION = Some p"
      with pos have "ci_eq FONT_LIST FONT_VERSION"
        using obj_find_SomeD ci_eq_sym ci_eq_trans by metis
      then show False by simp
    qed
    with lt find show ?thesis
      unfolding doc1 unfolding doc item_put_JObject [OF lt] jmember_JObject
      by (cases "obj_find kvs FONT_VERSION") (auto simp: nth_list_update)
  qed
  with kvs1 ok1 items1 show ?thesis by auto
qed

lemma CheckAndUpdateFontRecord_eq:
  assumes run: "CheckAndUpdateFontRecord E w cfg = (True, w')"
    and load: "LoadConfig E w cfg = Some doc" and items: "items_of doc = Some xs"
  shows "\<exists>doc' ys. LoadConfig E w' cfg = Some doc' \<and> items_of doc' = Some ys
      \<and> (if at_version_7 doc then w' = w else ys = map (refresh_item E w cfg) xs)
      \<and> jmember doc' FONT_VERSION =
          (case jmember doc FONT_VERSION of
             None \<Rightarrow> Some (JString FONT_CONFIG_VERSION_7)
           | Some v \<Rightarrow> if v = JNumber VERSION then Some (JString FONT_CONFIG_VERSION_7) else Some v)"
proof (cases "at_version_7 doc")
  case True
  then have "jmember doc FONT_VERSION = Some (JString FONT_CONFIG_VERSION_7)"
    by (auto simp: at_version_7_def jstring_def split: option.splits cJSON.splits)
  with True run load items show ?thesis by (auto simp: CheckAndUpdateFontRecord_current)
next
  case False
  let ?v = "jmember doc FONT_VERSION"
  from RefreshFullNames_doc [OF load items] obtain kvs1 where
    kvs1: "RefreshFullNames E w cfg doc = JObject kvs1" and ok1: "json_ok (JObject kvs1)"
    and items1: "items_of (JObject kvs1) = Some (map (refresh_item E w cfg) xs)"
    and v1: "jmember (JObject kvs1) FONT_VERSION = ?v" by blast
  have mem: "map_option (item_at doc) (cJSON_GetObjectItem E doc FONT_VERSION) = ?v" by (rule member_eq)
  define old where "old \<longleftrightarrow> (case ?v of None \<Rightarrow> False | Some v \<Rightarrow> cJSON_IsNumber E v \<and> valueint v = VERSION)"
  have old_eq: "old \<longleftrightarrow> ?v = Some (JNumber VERSION)"
    by (auto simp: old_def IsNumber split: option.split)
  have new7: "\<not> (case ?v of None \<Rightarrow> False | Some v \<Rightarrow> cJSON_IsString E v \<and> FONT_CONFIG_VERSION_7 = valuestring v)"
    using False by (auto simp: at_version_7_def jstring_def IsString split: option.splits)
  from run obtain doc' where
    doc': "if old then cJSON_ReplaceItemInObject E (JObject kvs1) FONT_VERSION (JString FONT_CONFIG_VERSION_7) = Some doc'
           else SafeAddStringToObject E (JObject kvs1) FONT_VERSION FONT_CONFIG_VERSION_7 = Some doc'"
    and wr: "WriteToFile E w cfg (cJSON_Print E doc') = (True, w')"
    using new7 by (auto simp: CheckAndUpdateFontRecord_def load Let_def mem old_def [symmetric] kvs1
        split: option.splits if_splits dest!: CreateString)
  note ver = replace_version [OF ok1, of doc'] append_version [OF ok1, of doc']
  have load': "LoadConfig E w' cfg = Some doc'"
    using doc' ver(1,4) by (intro write_doc [OF load _ wr]) (auto split: if_splits)
  have items': "items_of doc' = Some (map (refresh_item E w cfg) xs)"
    using doc' ver(2,5) items1 by (auto split: if_splits)
  have "jmember doc' FONT_VERSION = (case ?v of
      None \<Rightarrow> Some (JString FONT_CONFIG_VERSION_7)
    | Some v \<Rightarrow> if v = JNumber VERSION then Some (JString FONT_CONFIG_VERSION_7) else Some v)"
    using ver(3,6) doc' v1 old_eq by (cases old) (auto split: option.split)
  with load' items' False show ?thesis by auto
qed

text \<open>On the records of the file.\<close>

lemma CheckAndUpdateFontRecord_items:
  assumes run: "CheckAndUpdateFontRecord E w cfg = (True, w')" and items: "config_items E w cfg = Some xs"
  shows "\<exists>ys. config_items E w' cfg = Some ys \<and> list_all2 refreshed xs ys"
proof -
  from items obtain doc where doc: "LoadConfig E w cfg = Some doc" "items_of doc = Some xs"
    by (auto simp: config_items_def bind_eq_Some_conv)
  from CheckAndUpdateFontRecord_eq [OF run doc] obtain doc' ys where
    ys: "LoadConfig E w' cfg = Some doc'" "items_of doc' = Some ys"
    "if at_version_7 doc then w' = w else ys = map (refresh_item E w cfg) xs" by blast
  have "list_all2 refreshed xs ys"
  proof (cases "at_version_7 doc")
    case True
    with ys doc have "ys = xs" by simp
    then show ?thesis by (simp add: list_all2_same)
  next
    case False
    with ys(3) show ?thesis
      using refresh_item_ok config_items_ok [OF items] by (auto simp: list_all2_map2 list_all2_same)
  qed
  with ys show ?thesis by (auto simp: config_items_def)
qed

end

end
