(* ===== verification/Manager_Records.thy ===== *)
theory Manager_Records
  imports Manager_Laws Config_Update
begin

text \<open>
  What the operations of the manager do to the records and the files: the laws behind the
  properties of installing, removing, looking up and cleaning up.
\<close>

section \<open>The copied file\<close>

lemma digit_not_letter: "is_digit c \<Longrightarrow> c \<noteq> CHR ''i'' \<and> c \<noteq> CHR ''t''"
  by (auto simp: is_digit_def)

lemma hd_pad_zero: "is_digit (hd (pad_zero n d))"
proof (cases "n - length (nat_digits d)")
  case 0
  then show ?thesis by (simp add: pad_zero_def nat_digits_hd)
next
  case (Suc m)
  then show ?thesis by (simp add: pad_zero_def is_digit_def)
qed

lemma pad_zero_not_Nil [simp]: "pad_zero n d \<noteq> []"
  by (simp add: pad_zero_def)

lemma hd_copy_name: "hd (copy_name E n) \<noteq> CHR ''i'' \<and> hd (copy_name E n) \<noteq> CHR ''t''"
  using digit_not_letter [OF hd_pad_zero]
  by (cases "GetFileTime E = []") (auto simp: copy_name_def GetFileTime_def Let_def split: if_splits)

lemma copy_name_not_config [simp]: "copy_name E n \<noteq> FONT_CONFIG_FILE" "copy_name E n \<noteq> ''temp''"
  using hd_copy_name [of E n] by (auto simp: FONT_CONFIG_FILE_def)

text \<open>
  A successful copy puts the whole font into a new file below the given directory, and leaves every
  other path alone, apart from the temporary file it went through.
\<close>

lemma CopyFileByFd_ok:
  assumes "CopyFileByFd E w fd p = (True, w')"
  shows "\<exists>i. fds w fd = Some i \<and> nat (st_size i) \<le> length (fd_data i) \<and>
    w' = put_node (resolve p) (File (take (nat (st_size i)) (fd_data i))) w"
  using assms by (auto simp: CopyFileByFd_def Let_def dest: send_loop_complete
      split: if_splits option.splits prod.splits)

lemma CopyFileForInstall_ok:
  assumes run: "CopyFileForInstall E w (a @ ''/'') n fd = (dest, w')" and ok: "dest \<noteq> []"
    and n: "CHR ''/'' \<notin> set n"
  shows "dest = (a @ ''/'') @ copy_name E n"
    "\<exists>i. fds w fd = Some i \<and> nat (st_size i) \<le> length (fd_data i) \<and>
       node_at w' (resolve dest) = Some (File (take (nat (st_size i)) (fd_data i)))"
    "\<And>q. q \<noteq> resolve dest \<Longrightarrow> \<not> prefix (resolve (a @ ''/'') @ [''temp'', copy_name E n]) q \<Longrightarrow>
       node_at w' q = node_at w q"
proof -
  let ?t = "(a @ ''/'') @ TEMP_FILE @ copy_name E n"
  have rt: "resolve ?t = resolve (a @ ''/'') @ [''temp'', copy_name E n]"
    by (rule resolve_dir_temp_name [OF simple_copy_name [OF n]])
  have rd: "resolve ((a @ ''/'') @ copy_name E n) = resolve (a @ ''/'') @ [copy_name E n]"
    by (rule resolve_dir_name [OF simple_copy_name [OF n]])
  from run ok obtain w1 where cp: "CopyFile E w fd ?t = (True, w1)"
    and mv: "RenameFile E w1 ?t ((a @ ''/'') @ copy_name E n) = (True, w')"
    and dest: "dest = (a @ ''/'') @ copy_name E n"
    by (auto simp: CopyFileForInstall_alt split: prod.splits bool.splits)
  from cp obtain w0 where w0: "w0 = put_node (resolve ?t) (File []) w" "CopyFileByFd E w0 fd ?t = (True, w1)"
    by (auto simp: CopyFile_def split: option.splits if_splits dest: fopen_w_SomeD)
  from CopyFileByFd_ok [OF w0(2)] obtain i where i: "fds w fd = Some i" "nat (st_size i) \<le> length (fd_data i)"
    and w1: "w1 = put_node (resolve ?t) (File (take (nat (st_size i)) (fd_data i))) w0"
    by (auto simp: w0(1) world_simps)
  have ne: "resolve ?t \<noteq> []" "resolve dest \<noteq> []" unfolding dest rt rd by simp_all
  from mv obtain c where c: "file_content w1 ?t = Some c"
    and w': "w' = put_node (resolve dest) (File c) (drop_tree (resolve ?t) w1)"
    unfolding dest [symmetric] by (auto simp: RenameFile_def rename_file_def split: if_splits option.splits)
  have "c = take (nat (st_size i)) (fd_data i)"
    using c ne(1) by (auto simp: file_content_def w1 w0(1) world_simps split: if_splits)
  with i w' ne show "\<exists>i. fds w fd = Some i \<and> nat (st_size i) \<le> length (fd_data i) \<and>
       node_at w' (resolve dest) = Some (File (take (nat (st_size i)) (fd_data i)))"
    by (auto simp: world_simps)
  show "dest = (a @ ''/'') @ copy_name E n" by (rule dest)
  show "node_at w' q = node_at w q"
    if "q \<noteq> resolve dest" "\<not> prefix (resolve (a @ ''/'') @ [''temp'', copy_name E n]) q" for q
    using that ne unfolding w' w1 w0(1) rt by (auto simp: world_simps)
qed

text \<open>The configuration file is none of those paths.\<close>

lemma CopyFileForInstall_config:
  assumes "CopyFileForInstall E w (a @ ''/'') n fd = (dest, w')" "dest \<noteq> []" "CHR ''/'' \<notin> set n"
    "resolve (a @ ''/'') = install_dir u @ as"
  shows "node_at w' (resolve (ConfigPath (user_config u))) = node_at w (resolve (ConfigPath (user_config u)))"
proof (rule CopyFileForInstall_ok(3) [OF assms(1-3)])
  have rd: "resolve dest = install_dir u @ as @ [copy_name E n]"
    unfolding CopyFileForInstall_ok(1) [OF assms(1-3)]
      resolve_dir_name [OF simple_copy_name [OF assms(3)]] assms(4) by simp
  show "resolve (ConfigPath (user_config u)) \<noteq> resolve dest"
    unfolding resolve_config rd using copy_name_not_config(1) [of E n]
    by (metis append_is_Nil_conv append.left_neutral butlast_snoc last_snoc same_append_eq)
  show "\<not> prefix (resolve (a @ ''/'') @ [''temp'', copy_name E n]) (resolve (ConfigPath (user_config u)))"
    unfolding resolve_config assms(4) by (auto dest: prefix_length_le)
qed

section \<open>Setting up the directories\<close>

text \<open>A configuration that can be read is left as it is.\<close>

lemma ensure_dir_keeps:
  assumes "ensure_dir E w p = (b, w')" "node_at w q \<noteq> None"
  shows "node_at w' q = node_at w q"
  using assms
  by (auto simp: ensure_dir_def CreateDirWithPermission_def create_directory_def can_create_def
      world_simps split: if_splits option.splits prod.splits bool.splits node.splits)

lemma CheckPathExist_cong:
  "node_at w' (resolve p) = node_at w (resolve p) \<Longrightarrow> CheckPathExist E w' p = CheckPathExist E w p"
  by (simp add: CheckPathExist_def path_exists_def)

lemma readable_node:
  "LoadConfig E w cfg = Some doc \<Longrightarrow> cJSON_Parse E [] = None \<Longrightarrow>
     CheckPathExist E w (ConfigPath cfg) \<and> node_at w (resolve (ConfigPath cfg)) \<noteq> None"
  by (auto simp: LoadConfig_def CheckConfigFile_def CheckPathExist_def path_exists_def c_str_def
      split: if_splits option.splits)

text \<open>A record is stale when the file it names is not there.\<close>

definition stale :: "'e font_env_scheme \<Rightarrow> 'a world_scheme \<Rightarrow> string \<Rightarrow> cJSON \<Rightarrow> bool" where
  "stale E w ip x \<longleftrightarrow> (\<exists>p. has_text FONT_PATH p x \<and> \<not> CheckPathExist E w (SandBoxPathToRealPath ip p))"

lemma stale_mono:
  assumes "stale E w' ip x" "\<And>q. node_at w q \<noteq> None \<Longrightarrow> node_at w' q = node_at w q"
  shows "stale E w ip x"
proof -
  have "CheckPathExist E w p \<Longrightarrow> CheckPathExist E w' p" for p
    using assms(2) [of "resolve p"]
    by (auto simp: CheckPathExist_def path_exists_def split: if_splits option.splits)
  with assms(1) show ?thesis by (auto simp: stale_def)
qed

context config_library
begin

lemma CheckAndInitInstallPath_keeps:
  assumes run: "CheckAndInitInstallPath E w p = (b, w')"
    and items: "config_items E w \<lparr>ConfigPath = p @ FONT_CONFIG_FILE\<rparr> = Some xs"
  shows "config_items E w' \<lparr>ConfigPath = p @ FONT_CONFIG_FILE\<rparr> = Some xs"
    "\<And>q. node_at w q \<noteq> None \<Longrightarrow> node_at w' q = node_at w q"
proof -
  let ?cfg = "\<lparr>ConfigPath = p @ FONT_CONFIG_FILE\<rparr>"
  let ?q = "resolve (ConfigPath ?cfg)"
  from items obtain doc where "LoadConfig E w ?cfg = Some doc"
    by (auto simp: config_items_def bind_eq_Some_conv)
  then have ex: "CheckPathExist E w (ConfigPath ?cfg)" and n: "node_at w ?q \<noteq> None"
    using readable_node [OF _ parse_empty] by blast+
  obtain b1 w1 where 1: "ensure_dir E w p = (b1, w1)" by fastforce
  obtain b2 w2 where 2: "ensure_dir E w1 (p @ TEMP_FILE) = (b2, w2)" by fastforce
  have n1: "node_at w1 ?q = node_at w ?q" using ensure_dir_keeps [OF 1 n] .
  with n have n2: "node_at w2 ?q = node_at w ?q" using ensure_dir_keeps [OF 2, of ?q] by simp
  then have "CheckPathExist E w2 (ConfigPath ?cfg)"
    using ex CheckPathExist_cong by metis
  with run 1 2 have "w' = w1 \<or> w' = w2"
    by (auto simp: CheckAndInitInstallPath_def CheckFontConfigPath_def split: bool.splits prod.splits)
  then show all: "\<And>q. node_at w q \<noteq> None \<Longrightarrow> node_at w' q = node_at w q"
    using ensure_dir_keeps [OF 1] ensure_dir_keeps [OF 2] by auto
  show "config_items E w' ?cfg = Some xs"
    unfolding config_items_cong [OF all [OF n]] by (rule items)
qed

section \<open>Freeing the names\<close>

lemma config_items_file:
  assumes "config_items E w cfg = Some xs"
  shows "\<exists>d. node_at w (resolve (ConfigPath cfg)) = Some (File d)"
proof -
  from assms obtain doc where "LoadConfig E w cfg = Some doc"
    by (auto simp: config_items_def bind_eq_Some_conv)
  then have "CheckConfigFile E w (ConfigPath cfg) \<noteq> []"
    by (auto simp: LoadConfig_def parse_empty c_str_def)
  then show ?thesis
    by (auto simp: CheckConfigFile_def GetFileData_def fopen_r_def file_content_def
        split: if_splits option.splits node.splits)
qed

lemma config_exists_cong:
  assumes "config_frame cfg w w'" "config_items E w cfg = Some xs" "config_items E w' cfg = Some ys"
  shows "CheckPathExist E w' p = CheckPathExist E w p"
proof (cases "resolve p = resolve (ConfigPath cfg)")
  case True
  with config_items_file [OF assms(2)] config_items_file [OF assms(3)]
  show ?thesis by (auto simp: CheckPathExist_def path_exists_def)
next
  case False
  with assms(1) show ?thesis by (intro CheckPathExist_cong) (simp add: config_frame_def)
qed

lemma find_jtext:
  "config_items E w cfg = Some xs \<Longrightarrow> GetFontFileByName E w cfg n = p \<Longrightarrow> p \<noteq> [] \<Longrightarrow>
     \<exists>x\<in>set xs. has_text FONT_PATH p x \<and> n \<in> set (jnames x)"
  by (auto simp: GetFontFileByName_eq jtext_def has_text_def find_Some_iff
      split: option.splits)

lemma clear_stale_names_ok:
  assumes "clear_stale_names E cfg ip ns w = (None, w')" "config_items E w cfg = Some xs"
  shows "\<exists>ys. config_items E w' cfg = Some ys \<and> subseq ys xs \<and> (\<forall>x\<in>set xs. x \<in> set ys \<or> stale E w ip x)
    \<and> config_frame cfg w w'"
  using assms
proof (induction ns arbitrary: w xs)
  case (Cons n ns)
  define p where "p = GetFontFileByName E w cfg n"
  show ?case
  proof (cases "p = []")
    case True
    with Cons show ?thesis by (simp add: p_def)
  next
    case False
    with Cons.prems(1) obtain w1 where gone: "\<not> CheckPathExist E w (SandBoxPathToRealPath ip p)"
      and del: "DeleteFontRecord E w cfg p = (True, w1)"
      and rest: "clear_stale_names E cfg ip ns w1 = (None, w')"
      by (auto simp: p_def Let_def split: if_splits prod.splits bool.splits)
    from delete_by_member_eq [OF del [unfolded DeleteFontRecord_def]] Cons.prems(2)
    have w1: "config_items E w1 cfg = Some (remove_first (has_text FONT_PATH p) xs)"
      by (auto split: if_splits)
    have fr: "config_frame cfg w w1"
      using del unfolding DeleteFontRecord_def by (rule delete_by_member_frame)
    from Cons.IH [OF rest w1] obtain ys where ys: "config_items E w' cfg = Some ys"
      "subseq ys (remove_first (has_text FONT_PATH p) xs)"
      "\<forall>x\<in>set (remove_first (has_text FONT_PATH p) xs). x \<in> set ys \<or> stale E w1 ip x"
      "config_frame cfg w1 w'" by blast
    have st: "stale E w1 ip x \<longleftrightarrow> stale E w ip x" for x
      using config_exists_cong [OF fr Cons.prems(2) w1] by (simp add: stale_def)
    have "subseq (remove_first (has_text FONT_PATH p) xs) xs"
      by (induction xs) (auto intro: subseq_Cons')
    with ys(2) have "subseq ys xs" by (rule subseq_order.trans)
    moreover have "x \<in> set ys \<or> stale E w ip x" if "x \<in> set xs" for x
    proof (cases "has_text FONT_PATH p x")
      case True
      with gone show ?thesis by (auto simp: stale_def)
    next
      case False
      with that have "x \<in> set (remove_first (has_text FONT_PATH p) xs)" by (rule remove_first_keeps)
      with ys(3) st show ?thesis by blast
    qed
    ultimately show ?thesis using ys(1) config_frame_trans [OF fr ys(4)] by blast
  qed
qed simp

section \<open>User-level fonts\<close>

lemma GetFileName_dir: "CHR ''/'' \<notin> set n \<Longrightarrow> GetFileName ((a @ ''/'') @ n) = n"
  using GetFileName_append [of n a] by simp

lemma copy_name_no_slash: "CHR ''/'' \<notin> set n \<Longrightarrow> CHR ''/'' \<notin> set (copy_name E n)"
  using simple_copy_name by (auto simp: simple_name_def)

lemma install_new_font_ok:
  assumes run: "install_new_font E (user_config u) (install_path u) fd u ns w = (ERR_OK, w')"
  shows "\<exists>i ys zs. fds w fd = Some i \<and> nat (st_size i) \<le> length (fd_data i) \<and>
     node_at w' (install_dir u @ [copy_name E (GetFileName (GetFilePathByFd E w fd))])
       = Some (File (take (nat (st_size i)) (fd_data i))) \<and>
     config_items E w (user_config u) = Some ys \<and> config_items E w' (user_config u) = Some zs \<and>
     zs = (if INSTALL_PATH_APP @ copy_name E (GetFileName (GetFilePathByFd E w fd)) \<in> recorded_paths ys then ys
           else ys @ [user_item (INSTALL_PATH_APP @ copy_name E (GetFileName (GetFilePathByFd E w fd))) ns]) \<and>
     int (length zs) \<le> GetMaxInstallNum E"
proof -
  let ?n = "GetFileName (GetFilePathByFd E w fd)"
  let ?file = "copy_name E ?n" and ?max = "GetMaxInstallNum E"
  let ?p = "INSTALL_PATH_APP @ ?file"
  obtain a where a: "install_path u = a @ ''/''" using install_path_dir by blast
  obtain dest w1 where cp: "CopyFileForInstall E w (install_path u) ?n fd = (dest, w1)" by fastforce
  obtain q w2 where ins: "InsertFontRecordIfUnderLimit E w1 (user_config u)
      (INSTALL_PATH_APP @ GetFileName dest) ns ?max = (q, w2)" by fastforce
  from run cp ins have few: "GetInstalledFontsNum E w (user_config u) < ?max" and dest: "dest \<noteq> []"
    and q: "q = ERR_OK" and w': "w' = report_update E w2 (install_path u) u INSTALL (GetFormatFullName ns)"
    by (auto simp: install_new_font_def Let_def err_defs split: if_splits)
  note cp' = CopyFileForInstall_ok [OF cp [unfolded a] dest GetFileName_no_slash]
  have name: "GetFileName dest = ?file"
    unfolding cp'(1) by (rule GetFileName_dir) (rule copy_name_no_slash [OF GetFileName_no_slash])
  have rd: "resolve dest = install_dir u @ [?file]"
    unfolding cp'(1) a by (rule resolve_dir_name) (rule simple_copy_name [OF GetFileName_no_slash])
  have same: "config_items E w1 (user_config u) = config_items E w (user_config u)"
    by (rule config_items_cong, rule CopyFileForInstall_config [OF cp [unfolded a] dest GetFileName_no_slash, of u "[]"])
      (simp add: a)
  note law = InsertFontRecordIfUnderLimit_eq [OF ins, unfolded same name q]
  from law obtain ys where ys: "config_items E w (user_config u) = Some ys"
    by (cases "config_items E w (user_config u)") (auto simp: err_defs)
  have len: "int (length ys) < ?max" using few by (simp add: GetInstalledFontsNum_eq ys)
  have zs: "config_items E w' (user_config u) = Some (if ?p \<in> recorded_paths ys then ys else ys @ [user_item ?p ns])"
    using law ys len same unfolding w' config_items_report_update
    by (auto simp: err_defs split: if_splits)
  have "node_at w' (resolve dest) = node_at w1 (resolve dest)"
    using InsertFontRecordIfUnderLimit_frame [OF ins] resolve_config [of u] copy_name_not_config(1) [of E ?n]
    unfolding w' config_frame_def node_at_report_update rd by auto
  with cp'(2) obtain i where "fds w fd = Some i" "nat (st_size i) \<le> length (fd_data i)"
    "node_at w' (install_dir u @ [?file]) = Some (File (take (nat (st_size i)) (fd_data i)))"
    unfolding rd by auto
  with ys zs len show ?thesis by (auto split: if_splits)
qed

text \<open>The stages of a successful installation.\<close>

lemma InstallFont_stages:
  assumes ok: "configs_ok s" and run: "InstallFont E s fd u = (ERR_OK, s')"
  obtains s1 s2 s3 where "CheckAndInitInstallPath E s (install_path u) = (True, s1)"
    "\<And>q. node_at s2 q = node_at s1 q" "fds s2 = fds s" "fds s3 = fds s"
    "clear_stale_names E (user_config u) (install_path u) (GetFullNamesByFd E s fd) s2 = (None, s3)"
    "install_new_font E (user_config u) (install_path u) fd u (GetFullNamesByFd E s fd) s3 = (ERR_OK, s')"
proof -
  obtain b s1 where init: "CheckAndInitInstallPath E s (install_path u) = (b, s1)" by fastforce
  have f1: "fm_frame u [] s s1" using frame_init_install [OF init] by (rule frame_fm)
  with ok have ok1: "configs_ok s1" by (simp add: fm_frame_def)
  obtain cfg s2 where get: "SafeGetOrCreateConfig s1 u (install_path u @ FONT_CONFIG_FILE) = (cfg, s2)"
    by fastforce
  note get' = SafeGetOrCreateConfig_eq [OF get ok1]
  let ?ns = "GetFullNamesByFd E s2 fd"
  obtain e s3 where cl: "clear_stale_names E cfg (install_path u) ?ns s2 = (e, s3)" by fastforce
  have f2: "fm_frame u [] s s2" using fm_frame_trans [OF f1 get'(3)] by simp
  have f3: "fm_frame u [] s s3"
    using fm_frame_trans [OF f2 frame_fm] frame_clear_stale_names cl get'(1) by fastforce
  have fds: "fds s2 = fds s" "fds s3 = fds s" using f2 f3 by (simp_all add: fm_frame_def)
  have ns: "?ns = GetFullNamesByFd E s fd" by (simp add: GetFullNamesByFd_def fds)
  have "e \<noteq> Some ERR_OK"
    using clear_stale_names_code [of E cfg "install_path u" ?ns s2 ERR_OK s3] cl by (auto simp: err_defs)
  then have "b" "e = None" "install_new_font E cfg (install_path u) fd u ?ns s3 = (ERR_OK, s')"
    using run init get cl
    by (auto simp: InstallFont_def Let_def err_defs split: bool.splits if_splits option.splits)
  with that [of s1 s2 s3] show thesis using init get'(1,4) fds cl ns by simp
qed

text \<open>
  A successful installation: the whole font is in a new file, the record of that file is in the
  configuration, at most the permitted number of records is there, and of the records there
  were before only stale ones are gone.
\<close>

lemma InstallFont_ok:
  assumes ok: "configs_ok s" and run: "InstallFont E s fd u = (ERR_OK, s')"
    and fname: "fname = copy_name E (GetFileName (GetFilePathByFd E s fd))"
  shows "\<exists>i ys zs. fds s fd = Some i \<and> nat (st_size i) \<le> length (fd_data i) \<and>
     node_at s' (install_dir u @ [fname]) = Some (File (take (nat (st_size i)) (fd_data i))) \<and>
     config_items E s' (user_config u) = Some zs \<and>
     zs = (if INSTALL_PATH_APP @ fname \<in> recorded_paths ys then ys
           else ys @ [user_item (INSTALL_PATH_APP @ fname) (GetFullNamesByFd E s fd)]) \<and>
     int (length zs) \<le> GetMaxInstallNum E \<and>
     (\<forall>xs. config_items E s (user_config u) = Some xs \<longrightarrow>
        subseq ys xs \<and> (\<forall>x\<in>set xs. x \<in> set ys \<or> stale E s (install_path u) x))"
proof -
  from ok run show ?thesis
  proof (rule InstallFont_stages)
    fix s1 s2 s3
    assume init: "CheckAndInitInstallPath E s (install_path u) = (True, s1)"
      and node2: "\<And>q. node_at s2 q = node_at s1 q" and fds: "fds s2 = fds s" "fds s3 = fds s"
      and cl: "clear_stale_names E (user_config u) (install_path u) (GetFullNamesByFd E s fd) s2 = (None, s3)"
      and new: "install_new_font E (user_config u) (install_path u) fd u (GetFullNamesByFd E s fd) s3 = (ERR_OK, s')"
    have nm: "copy_name E (GetFileName (GetFilePathByFd E s3 fd)) = fname"
      by (simp add: fname GetFilePathByFd_def fds)
    from install_new_font_ok [OF new, unfolded nm fds] obtain i ys zs where
      i: "fds s fd = Some i" "nat (st_size i) \<le> length (fd_data i)"
        "node_at s' (install_dir u @ [fname]) = Some (File (take (nat (st_size i)) (fd_data i)))"
      and ys: "config_items E s3 (user_config u) = Some ys"
      and zs: "config_items E s' (user_config u) = Some zs"
        "zs = (if INSTALL_PATH_APP @ fname \<in> recorded_paths ys then ys
               else ys @ [user_item (INSTALL_PATH_APP @ fname) (GetFullNamesByFd E s fd)])"
        "int (length zs) \<le> GetMaxInstallNum E"
      by blast
    have "subseq ys xs \<and> (\<forall>x\<in>set xs. x \<in> set ys \<or> stale E s (install_path u) x)"
      if xs: "config_items E s (user_config u) = Some xs" for xs
    proof -
      note keep = CheckAndInitInstallPath_keeps [OF init xs]
      have "config_items E s2 (user_config u) = Some xs"
        unfolding config_items_cong [OF node2] by (rule keep(1))
      from clear_stale_names_ok [OF cl this] ys have
        "subseq ys xs" "\<forall>x\<in>set xs. x \<in> set ys \<or> stale E s2 (install_path u) x" by auto
      moreover have "stale E s2 (install_path u) x \<Longrightarrow> stale E s (install_path u) x" for x
        using stale_mono [of E s2 "install_path u" x s] by (simp add: node2 keep(2))
      ultimately show ?thesis by blast
    qed
    with i zs show ?thesis by blast
  qed
qed

end

end
