(* ===== verification/Manager_Scope.thy ===== *)
theory Manager_Scope
  imports Manager_Records
begin

text \<open>
  The laws of removing fonts and of the scope fonts: what is recorded, found, refused and removed.
\<close>

section \<open>Uniqueness of the records\<close>

text \<open>No two records share a text member (a source URL, a path), or a font name.\<close>

definition unique_member :: "string \<Rightarrow> cJSON list \<Rightarrow> bool" where
  "unique_member key xs \<longleftrightarrow> sorted_wrt (\<lambda>x y. jstring x key = None \<or> jstring x key \<noteq> jstring y key) xs"

definition unique_names :: "cJSON list \<Rightarrow> bool" where
  "unique_names xs \<longleftrightarrow> sorted_wrt (\<lambda>x y. list_all (\<lambda>n. n \<notin> set (jnames y)) (jnames x)) xs"

definition named :: "string \<Rightarrow> cJSON \<Rightarrow> bool" where
  "named n x \<longleftrightarrow> n \<in> set (jnames x)"

lemma unique_member_remove:
  "unique_member key xs \<Longrightarrow> \<forall>x\<in>set (remove_first (has_text key v) xs). \<not> has_text key v x"
  by (induction xs) (auto simp: unique_member_def has_text_def)

lemma unique_member_append:
  "unique_member key (xs @ [x]) \<longleftrightarrow>
     unique_member key xs \<and> (\<forall>v. has_text key v x \<longrightarrow> (\<forall>y\<in>set xs. \<not> has_text key v y))"
  by (auto simp: unique_member_def has_text_def sorted_wrt_append) (metis option.exhaust)

lemma unique_names_append:
  "unique_names (xs @ [x]) \<longleftrightarrow> unique_names xs \<and> (\<forall>n\<in>set (jnames x). \<forall>y\<in>set xs. \<not> named n y)"
  by (auto simp: unique_names_def named_def sorted_wrt_append list_all_iff)

lemma sorted_wrt_remove_first: "sorted_wrt P xs \<Longrightarrow> sorted_wrt P (remove_first Q xs)"
proof (induction xs)
  case (Cons x xs)
  then show ?case using set_remove_first_subset [of Q xs] by auto
qed simp

lemma unique_remove_first:
  "unique_member key xs \<Longrightarrow> unique_member key (remove_first Q xs)"
  "unique_names xs \<Longrightarrow> unique_names (remove_first Q xs)"
  by (simp_all add: unique_member_def unique_names_def sorted_wrt_remove_first)

lemma remove_first_unique:
  assumes "unique_member key xs" "x \<in> set xs" "has_text key v x"
  shows "remove_first (has_text key v) xs = filter (\<lambda>y. \<not> has_text key v y) xs"
  using assms(1)
proof (induction xs)
  case (Cons y ys)
  then show ?case
    by (auto simp: unique_member_def has_text_def intro!: filter_True [symmetric])
qed simp

lemma unique_names_other:
  assumes "unique_names xs" "unique_member FONT_PATH xs" "x \<in> set xs" "named n x" "has_text FONT_PATH p x"
  shows "\<forall>y\<in>set (remove_first (has_text FONT_PATH p) xs). \<not> named n y"
  using assms
proof (induction xs)
  case (Cons y ys)
  show ?case
  proof (cases "x = y")
    case True
    with Cons.prems show ?thesis by (auto simp: unique_names_def named_def list_all_iff)
  next
    case False
    with Cons.prems have x: "x \<in> set ys" by simp
    with Cons.prems have "\<not> has_text FONT_PATH p y" "\<not> named n y"
      by (auto simp: unique_names_def unique_member_def named_def has_text_def list_all_iff)
    with Cons x show ?thesis by (auto simp: unique_names_def unique_member_def)
  qed
qed simp

section \<open>Removing a file\<close>

lemma RemoveFile_gone:
  assumes "RemoveFile E w p = (True, w')" "resolve p \<noteq> []"
  shows "\<not> CheckPathExist E w' p"
proof (cases "CheckPathExist E w p")
  case True
  with assms show ?thesis
    by (auto simp: RemoveFile_def RemoveAll_def remove_all_def CheckPathExist_def path_exists_def world_simps
        split: if_splits)
qed (use assms in \<open>simp add: RemoveFile_def\<close>)

text \<open>
  The step both removing operations share: a file below the installation directory is removed, and
  the configuration keeps its records or is lost altogether.
\<close>

lemma remove_below:
  assumes rm: "(if p \<noteq> [] \<and> CheckPathExist E w p then RemoveFile E w p else (True, w)) = (b, w')"
    and p: "p = ValidateAndResolveRealPath E (install_path u) path"
  shows "node_at w' (resolve (ConfigPath (user_config u))) = node_at w (resolve (ConfigPath (user_config u)))
      \<or> node_at w' (resolve (ConfigPath (user_config u))) = None"
    "b \<Longrightarrow> p \<noteq> [] \<Longrightarrow> \<not> CheckPathExist E w' p"
proof -
  show "node_at w' (resolve (ConfigPath (user_config u))) = node_at w (resolve (ConfigPath (user_config u)))
      \<or> node_at w' (resolve (ConfigPath (user_config u))) = None"
    using rm by (auto simp: RemoveFile_def RemoveAll_def remove_all_def world_simps split: if_splits)
  show "\<not> CheckPathExist E w' p" if b: "b" and ne: "p \<noteq> []"
  proof -
    have "resolve p \<noteq> []"
      using ValidateAndResolveRealPath_below(1) [of E "install_path u" path p] p ne by auto
    then show ?thesis
      using rm b ne RemoveFile_gone by (auto split: if_splits)
  qed
qed

text \<open>The record of a scope font that is installed under a file name with full names.\<close>

abbreviation scope_record :: "ScopeFontInstallInfo \<Rightarrow> string \<Rightarrow> string list \<Rightarrow> FontRecordInfo" where
  "scope_record info fname ns \<equiv>
     \<lparr>fr_fontPath = INSTALL_PATH_APP @ si_appIdentifier info @ ''/'' @ fname, fr_fullNames = ns,
      fr_scope = si_scope info, fr_srcPath = si_srcPath info, fr_appIdentifier = si_appIdentifier info,
      fr_bundleName = si_bundleName info\<rparr>"

context config_library
begin

lemma config_items_lost: "node_at w (resolve (ConfigPath cfg)) = None \<Longrightarrow> config_items E w cfg = None"
  using config_items_file [of w cfg] by (cases "config_items E w cfg") auto

lemma delete_True:
  assumes "delete_by_member E w cfg key v = (True, w')"
  shows "\<exists>xs. config_items E w cfg = Some xs \<and> (\<exists>x\<in>set xs. has_text key v x) \<and>
    config_items E w' cfg = Some (remove_first (has_text key v) xs)"
  using delete_by_member_eq [OF assms] by (auto split: option.splits if_splits)

lemma remove_then_delete:
  assumes rm: "(if p \<noteq> [] \<and> CheckPathExist E w p then RemoveFile E w p else (True, w)) = (True, w1)"
    and p: "p = ValidateAndResolveRealPath E (install_path u) path"
    and del: "delete_by_member E w1 (user_config u) key v = (True, w2)"
  shows "\<exists>xs. config_items E w (user_config u) = Some xs \<and> (\<exists>x\<in>set xs. has_text key v x) \<and>
      config_items E w2 (user_config u) = Some (remove_first (has_text key v) xs)"
    "p \<noteq> [] \<Longrightarrow> \<not> CheckPathExist E w2 p"
proof -
  from delete_True [OF del] obtain xs where xs: "config_items E w1 (user_config u) = Some xs"
    "\<exists>x\<in>set xs. has_text key v x" "config_items E w2 (user_config u) = Some (remove_first (has_text key v) xs)"
    by blast
  from xs(1) have "node_at w1 (resolve (ConfigPath (user_config u))) \<noteq> None"
    using config_items_lost by fastforce
  with remove_below(1) [OF rm p]
  have eq: "node_at w1 (resolve (ConfigPath (user_config u))) = node_at w (resolve (ConfigPath (user_config u)))"
    by auto
  have "config_items E w (user_config u) = Some xs"
    using xs(1) unfolding config_items_cong [OF eq] .
  with xs show "\<exists>xs. config_items E w (user_config u) = Some xs \<and> (\<exists>x\<in>set xs. has_text key v x) \<and>
      config_items E w2 (user_config u) = Some (remove_first (has_text key v) xs)" by blast
  show "\<not> CheckPathExist E w2 p" if "p \<noteq> []"
    using remove_below(2) [OF rm p TrueI that]
      config_exists_cong [OF delete_by_member_frame [OF del] xs(1,3), of p] by simp
qed

text \<open>A successful removal of a user-level font.\<close>

lemma UninstallFont_ok:
  assumes ok: "configs_ok s" and run: "UninstallFont E s n u = (ERR_OK, s')"
  shows "\<exists>xs x p. config_items E s (user_config u) = Some xs \<and> find (named n) xs = Some x \<and>
     has_text FONT_PATH p x \<and> p \<noteq> [] \<and> \<not> has_scope (\<lambda>v. v \<ge> 0) x \<and>
     config_items E s' (user_config u) = Some (remove_first (has_text FONT_PATH p) xs) \<and>
     ValidateAndResolveRealPath E (install_path u) p \<noteq> [] \<and>
     \<not> CheckPathExist E s' (ValidateAndResolveRealPath E (install_path u) p)"
proof -
  obtain cfg s1 where get: "SafeGetOrCreateConfig s u (install_path u @ FONT_CONFIG_FILE) = (cfg, s1)"
    by fastforce
  note get' = SafeGetOrCreateConfig_eq [OF get ok]
  have same: "config_items E s1 (user_config u) = config_items E s (user_config u)"
    by (rule config_items_cong, rule get'(4))
  from run get obtain r where r: "GetFontRecordByName E s1 cfg n = Some r"
    and path: "fr_fontPath r \<noteq> []" and sc: "\<not> fr_scope r \<ge> 0"
    by (auto simp: UninstallFont_def Let_def err_defs split: if_splits option.splits)
  let ?p = "ValidateAndResolveRealPath E (install_path u) (fr_fontPath r)"
  from run get r path sc obtain s2 s3 where real: "?p \<noteq> []"
    and rm: "(if ?p \<noteq> [] \<and> CheckPathExist E s1 ?p then RemoveFile E s1 ?p else (True, s1)) = (True, s2)"
    and del: "DeleteFontRecord E s2 cfg (fr_fontPath r) = (True, s3)"
    and s': "s' = report_update E s3 (install_path u) u UNINSTALL n"
    by (auto simp: UninstallFont_def Let_def err_defs split: if_splits option.splits prod.splits bool.splits)
  from r obtain xs x where xs: "config_items E s (user_config u) = Some xs"
    and x: "find (named n) xs = Some x" "r = jrecord x"
    by (auto simp: GetFontRecordByName_eq get'(1) same named_def [abs_def] split: option.splits)
  from path have ptext: "has_text FONT_PATH (fr_fontPath r) x"
    by (auto simp: x(2) jrecord_def jtext_def has_text_def split: option.splits)
  from sc have nsc: "\<not> has_scope (\<lambda>v. v \<ge> 0) x"
    by (auto simp: x(2) jrecord_def has_scope_def split: option.splits)
  note law = remove_then_delete [OF rm refl del [unfolded get'(1) DeleteFontRecord_def]]
  have "\<not> CheckPathExist E s' ?p"
    using law(2) [OF real] CheckPathExist_cong [of s' ?p s3 E] by (simp add: s' node_at_report_update)
  moreover have "config_items E s' (user_config u) = Some (remove_first (has_text FONT_PATH (fr_fontPath r)) xs)"
    using law(1) xs by (simp add: s' config_items_report_update same)
  ultimately show ?thesis using xs x(1) ptext path real nsc by blast
qed

section \<open>Scope fonts\<close>

lemma CopyAndInsertScopeFont_ok:
  assumes run: "CopyAndInsertScopeFont E w info (user_config (si_userId info)) ns = (ERR_OK, w')"
    and app: "simple_name (si_appIdentifier info)" "si_scope info \<in> {FONT_SCOPE_APP, FONT_SCOPE_SESSION}"
    and items: "config_items E w (user_config (si_userId info)) = Some ys"
    and fname: "fname = copy_name E (GetFileName (GetFilePathByFd E w (si_fd info)))"
  shows "\<exists>i. fds w (si_fd info) = Some i \<and> nat (st_size i) \<le> length (fd_data i) \<and>
     node_at w' (install_dir (si_userId info) @ [si_appIdentifier info, fname])
       = Some (File (take (nat (st_size i)) (fd_data i))) \<and>
     config_items E w' (user_config (si_userId info)) = Some (ys @ [scope_item (scope_record info fname ns)])"
proof -
  let ?u = "si_userId info" and ?a = "install_path (si_userId info) @ si_appIdentifier info"
  let ?dir = "GetAppInstallPath ?u (si_appIdentifier info)" and ?cfg = "user_config (si_userId info)"
  have dir: "?dir = ?a @ ''/''" by (rule GetAppInstallPath_eq)
  have rdir: "resolve (?a @ ''/'') = install_dir ?u @ [si_appIdentifier info]"
    using resolve_app_dir [OF app(1), of ?u] unfolding dir .
  from run obtain w1 where init: "CheckAndInitScopeFontPath E w ?dir = (True, w1)"
    by (auto simp: CopyAndInsertScopeFont_def Let_def err_defs split: prod.splits bool.splits)
  obtain b1 v1 where 1: "ensure_dir E w ?dir = (b1, v1)" by fastforce
  obtain b2 v2 where 2: "ensure_dir E v1 (?dir @ TEMP_FILE) = (b2, v2)" by fastforce
  have w1: "w1 = v2"
    using init 1 2 by (auto simp: CheckAndInitScopeFontPath_def split: bool.splits)
  have f1: "frame (install_dir ?u) [] w w1"
    using init unfolding dir by (rule frame_CheckAndInitScopeFontPath) (simp_all only: rdir resolve_dir_temp, simp_all)
  have keep: "node_at w1 q = node_at w q" if "node_at w q \<noteq> None" for q
    using ensure_dir_keeps [OF 1 that] ensure_dir_keeps [OF 2, of q] that w1 by simp
  let ?n = "GetFileName (GetFilePathByFd E w1 (si_fd info))"
  have fds1: "fds w1 = fds w" using f1 by (simp add: frame_def)
  then have fname': "fname = copy_name E ?n" by (simp add: fname GetFilePathByFd_def)
  obtain dest w2 where cp: "CopyFileForInstall E w1 ?dir ?n (si_fd info) = (dest, w2)" by fastforce
  from run init cp obtain w3 where dest: "dest \<noteq> []"
    and ins: "InsertScopeFontRecord E w2 ?cfg (scope_record info (GetFileName dest) ns) = (True, w')"
    by (auto simp: CopyAndInsertScopeFont_def Let_def err_defs split: if_splits prod.splits bool.splits)
  note cp' = CopyFileForInstall_ok [OF cp [unfolded dir] dest GetFileName_no_slash]
  have name: "GetFileName dest = fname"
    unfolding cp'(1) fname' by (rule GetFileName_dir) (rule copy_name_no_slash [OF GetFileName_no_slash])
  have rd: "resolve dest = install_dir ?u @ [si_appIdentifier info, fname]"
    using resolve_dir_name [OF simple_copy_name [OF GetFileName_no_slash], of ?a E] rdir
    unfolding cp'(1) fname' by simp
  have "node_at w2 (resolve (ConfigPath ?cfg)) = node_at w1 (resolve (ConfigPath ?cfg))"
    by (rule CopyFileForInstall_config [OF cp [unfolded dir] dest GetFileName_no_slash rdir])
  also have "\<dots> = node_at w (resolve (ConfigPath ?cfg))"
    using config_items_file [OF items] by (intro keep) auto
  finally have "config_items E w2 ?cfg = Some ys"
    using items config_items_cong by metis
  from InsertScopeFontRecord_eq [OF ins this] app(2)
  have "config_items E w' ?cfg = Some (ys @ [scope_item (scope_record info fname ns)])"
    by (auto simp: name int32_range_def err_defs)
  moreover have "node_at w' (resolve dest) = node_at w2 (resolve dest)"
    using InsertScopeFontRecord_frame [OF ins] resolve_config [of ?u] unfolding config_frame_def rd by auto
  ultimately show ?thesis using cp'(2) unfolding fds1 rd by auto
qed

text \<open>
  A successful installation of a scope font. \<open>ys\<close> are the records after the version check: the old
  ones, with fresh names if the file was upgraded.
\<close>

lemma InstallScopeFont_ok:
  assumes ok: "configs_ok s" and app: "simple_name (si_appIdentifier info)"
    and items: "config_items E s (user_config (si_userId info)) = Some xs"
    and run: "InstallScopeFont E s info = (ERR_OK, s')"
    and fname: "fname = copy_name E (GetFileName (GetFilePathByFd E s (si_fd info)))"
  shows "\<exists>i ys. fds s (si_fd info) = Some i \<and> nat (st_size i) \<le> length (fd_data i) \<and>
     node_at s' (install_dir (si_userId info) @ [si_appIdentifier info, fname])
       = Some (File (take (nat (st_size i)) (fd_data i))) \<and>
     list_all2 refreshed xs ys \<and>
     config_items E s' (user_config (si_userId info))
       = Some (ys @ [scope_item (scope_record info fname (GetFullNamesByFd E s (si_fd info)))]) \<and>
     int (length ys) < GetMaxInstallNum E \<and>
     (\<forall>y\<in>set ys. \<not> has_text FONT_SRC_PATH (si_srcPath info) y \<and>
        (\<forall>n\<in>set (GetFullNamesByFd E s (si_fd info)). \<not> named n y)) \<and>
     si_scope info \<in> {FONT_SCOPE_APP, FONT_SCOPE_SESSION}"
proof -
  let ?u = "si_userId info" and ?cfg = "user_config (si_userId info)"
  obtain b s1 where init: "CheckAndInitInstallPath E s (install_path ?u) = (b, s1)" by fastforce
  have f1: "fm_frame ?u [] s s1" using frame_init_install [OF init] by (rule frame_fm)
  with ok have ok1: "configs_ok s1" by (simp add: fm_frame_def)
  obtain cfg s2 where get: "SafeGetOrCreateConfig s1 ?u (install_path ?u @ FONT_CONFIG_FILE) = (cfg, s2)"
    by fastforce
  note get' = SafeGetOrCreateConfig_eq [OF get ok1]
  obtain b3 s3 where up: "CheckAndUpdateFontRecord E s2 cfg = (b3, s3)" by fastforce
  obtain q ns where val: "ValidateScopeFontForInstall E s3 cfg (si_srcPath info) (si_fd info) = (q, ns)"
    by fastforce
  obtain q4 s4 where cp: "CopyAndInsertScopeFont E s3 info cfg ns = (q4, s4)" by fastforce
  from run init get up val cp have sc: "si_scope info \<in> {FONT_SCOPE_APP, FONT_SCOPE_SESSION}"
    and b3: "b3" and q: "q = ERR_OK" "q4 = ERR_OK"
    and s': "s' = report_update E s4 (install_path ?u) ?u INSTALL (GetFormatFullName ns)"
    by (auto simp: InstallScopeFont_def Let_def err_defs split: bool.splits if_splits)
  have f3: "fm_frame ?u [] s s3"
    using fm_frame_trans [OF fm_frame_trans [OF f1 get'(3)] frame_fm [OF frame_user_config
      [OF CheckAndUpdateFontRecord_frame [OF up [unfolded get'(1)]]]]] by simp
  then have fds: "fds s3 = fds s" by (simp add: fm_frame_def)
  have "config_items E s2 ?cfg = Some xs"
    unfolding config_items_cong [OF get'(4)] by (rule CheckAndInitInstallPath_keeps(1) [OF init items])
  from CheckAndUpdateFontRecord_items [OF _ this] up b3 get'(1) obtain ys where
    ys: "config_items E s3 ?cfg = Some ys" "list_all2 refreshed xs ys" by auto
  have names: "GetFullNamesByFd E s3 (si_fd info) = GetFullNamesByFd E s (si_fd info)"
    by (simp add: GetFullNamesByFd_def fds)
  from val q(1) have ns: "ns = GetFullNamesByFd E s (si_fd info)"
    and fresh: "int (length ys) < GetMaxInstallNum E"
      "\<forall>y\<in>set ys. \<not> has_text FONT_SRC_PATH (si_srcPath info) y \<and> (\<forall>n\<in>set ns. \<not> named n y)"
    by (auto simp: ValidateScopeFontForInstall_def Let_def err_defs get'(1) GetFontRecordByUrl_eq
        GetFontRecordByName_eq GetTotalInstalledFontsNum_eq GetInstalledFontsNum_eq ys(1)
        names find_None_iff list_ex_iff named_def split: if_splits)
  have nm: "fname = copy_name E (GetFileName (GetFilePathByFd E s3 (si_fd info)))"
    by (simp add: fname GetFilePathByFd_def fds)
  from CopyAndInsertScopeFont_ok [OF cp [unfolded q(2) get'(1)] app sc ys(1) nm]
  obtain i where i: "fds s (si_fd info) = Some i" "nat (st_size i) \<le> length (fd_data i)"
    "node_at s4 (install_dir ?u @ [si_appIdentifier info, fname]) = Some (File (take (nat (st_size i)) (fd_data i)))"
    "config_items E s4 ?cfg = Some (ys @ [scope_item (scope_record info fname ns)])"
    unfolding fds by blast
  with ys(2) fresh sc ns show ?thesis
    unfolding s' node_at_report_update config_items_report_update by blast
qed

text \<open>The owner's view of the records.\<close>

lemma owned_record_eq:
  "owned_record E w cfg url bundle tok =
     (case GetFontRecordByUrl E w cfg url of
        None \<Rightarrow> None
      | Some r \<Rightarrow> if fr_bundleName r = bundle \<and> fr_appIdentifier r = MakeAppIdentifier (fr_scope r) tok
                  then Some r else None)"
  by (simp add: owned_record_def split: option.split)

lemma find_last: "(\<forall>x\<in>set xs. \<not> P x) \<Longrightarrow> P y \<Longrightarrow> find P (xs @ [y]) = Some y"
  by (induction xs) auto

text \<open>The owner of a scope font that is recorded last finds it, with its scope; nobody else does.\<close>

lemma recorded_scope:
  assumes items: "config_items E w cfg = Some (ys @ [scope_item r])"
    and fresh: "\<forall>y\<in>set ys. \<not> has_text FONT_SRC_PATH (fr_srcPath r) y"
    and r: "fr_srcPath r \<noteq> []" "is_cstring (fr_srcPath r)" "is_cstring (fr_bundleName r)"
      "fr_scope r \<in> {FONT_SCOPE_APP, FONT_SCOPE_SESSION}" "fr_appIdentifier r = MakeAppIdentifier (fr_scope r) tok"
  shows "owned_record E w cfg (fr_srcPath r) bundle tok' =
     (if bundle = fr_bundleName r \<and> tok' = tok
      then Some (r\<lparr>fr_fontPath := c_str (fr_fontPath r), fr_fullNames := map c_str (fr_fullNames r)\<rparr>) else None)"
proof -
  have "has_text FONT_SRC_PATH (fr_srcPath r) (scope_item r)"
    using r(1,2) by (simp add: has_text_def jstring_scope_item)
  with fresh have "find (has_text FONT_SRC_PATH (fr_srcPath r)) (ys @ [scope_item r]) = Some (scope_item r)"
    by (intro find_last) auto
  moreover have "is_cstring (fr_appIdentifier r)"
    unfolding r(5) MakeAppIdentifier_def by (simp add: path_defs NUL_def)
  moreover have "0 \<le> fr_scope r" using r(4) by (auto simp: err_defs)
  moreover have "MakeAppIdentifier (fr_scope r) tok = MakeAppIdentifier (fr_scope r) tok' \<longleftrightarrow> tok = tok'"
    using MakeAppIdentifier_inj [OF r(4) r(4)] by simp
  ultimately show ?thesis
    using r by (auto simp: owned_record_eq GetFontRecordByUrl_eq items jrecord_scope_item)
qed

lemma GetFontScope_eq:
  assumes "configs_ok s"
  shows "fst (GetFontScope E s url bundle tok u) =
     (case owned_record E s (user_config u) url bundle tok of
        None \<Rightarrow> ERR_SCOPE_FONT_NOT_FOUND | Some r \<Rightarrow> fr_scope r)"
proof -
  obtain cfg s1 where get: "SafeGetOrCreateConfig s u (install_path u @ FONT_CONFIG_FILE) = (cfg, s1)"
    by fastforce
  note get' = SafeGetOrCreateConfig_eq [OF get assms]
  have "owned_record E s1 (user_config u) url bundle tok = owned_record E s (user_config u) url bundle tok"
    unfolding owned_record_eq GetFontRecordByUrl_eq config_items_cong [OF get'(4)] ..
  then show ?thesis by (simp add: GetFontScope_def get get'(1) split: option.split)
qed

text \<open>Removing a scope font: refused to everybody but the owner, and then the record is gone.\<close>

lemma UninstallScopeFont_refused:
  assumes ok: "configs_ok s" and no: "owned_record E s (user_config u) url bundle tok = None"
  shows "fst (UninstallScopeFont E s url bundle tok u) = ERR_SCOPE_FONT_NOT_FOUND"
    "\<And>q. node_at (snd (UninstallScopeFont E s url bundle tok u)) q = node_at s q"
    "effects (snd (UninstallScopeFont E s url bundle tok u)) = effects s"
proof -
  obtain cfg s1 where get: "SafeGetOrCreateConfig s u (install_path u @ FONT_CONFIG_FILE) = (cfg, s1)"
    by fastforce
  note get' = SafeGetOrCreateConfig_eq [OF get ok]
  have "owned_record E s1 (user_config u) url bundle tok = owned_record E s (user_config u) url bundle tok"
    unfolding owned_record_eq GetFontRecordByUrl_eq config_items_cong [OF get'(4)] ..
  then have "UninstallScopeFont E s url bundle tok u = (ERR_SCOPE_FONT_NOT_FOUND, if url = [] then s else s1)"
    using no by (simp add: UninstallScopeFont_def get get'(1))
  then show "fst (UninstallScopeFont E s url bundle tok u) = ERR_SCOPE_FONT_NOT_FOUND"
    "\<And>q. node_at (snd (UninstallScopeFont E s url bundle tok u)) q = node_at s q"
    "effects (snd (UninstallScopeFont E s url bundle tok u)) = effects s"
    using get'(3,4) by (auto simp: fm_frame_def)
qed

lemma UninstallScopeFont_ok:
  assumes ok: "configs_ok s" and run: "UninstallScopeFont E s url bundle tok u = (ERR_OK, s')"
  shows "\<exists>xs r. config_items E s (user_config u) = Some xs \<and>
     owned_record E s (user_config u) url bundle tok = Some r \<and>
     config_items E s' (user_config u) = Some (remove_first (has_text FONT_SRC_PATH url) xs) \<and>
     (ValidateAndResolveRealPath E (install_path u) (fr_fontPath r) \<noteq> [] \<longrightarrow>
        \<not> CheckPathExist E s' (ValidateAndResolveRealPath E (install_path u) (fr_fontPath r)))"
proof -
  obtain cfg s1 where get: "SafeGetOrCreateConfig s u (install_path u @ FONT_CONFIG_FILE) = (cfg, s1)"
    by fastforce
  note get' = SafeGetOrCreateConfig_eq [OF get ok]
  have same: "config_items E s1 (user_config u) = config_items E s (user_config u)"
    by (rule config_items_cong, rule get'(4))
  have own: "owned_record E s1 (user_config u) url bundle tok = owned_record E s (user_config u) url bundle tok"
    unfolding owned_record_eq GetFontRecordByUrl_eq same ..
  from run get obtain r where r: "owned_record E s1 cfg url bundle tok = Some r"
    by (auto simp: UninstallScopeFont_def Let_def err_defs split: if_splits option.splits)
  let ?p = "ValidateAndResolveRealPath E (install_path u) (fr_fontPath r)"
  from run get r obtain s2 s3 where
    rm: "(if ?p \<noteq> [] \<and> CheckPathExist E s1 ?p then RemoveFile E s1 ?p else (True, s1)) = (True, s2)"
    and del: "DeleteScopeFontRecordByUrl E s2 cfg url = (True, s3)"
    and s': "s' = report_update E s3 (install_path u) u UNINSTALL (GetFormatFullName (fr_fullNames r))"
    by (auto simp: UninstallScopeFont_def Let_def err_defs split: if_splits option.splits prod.splits bool.splits)
  note law = remove_then_delete [OF rm refl del [unfolded get'(1) DeleteScopeFontRecordByUrl_def]]
  have "?p \<noteq> [] \<Longrightarrow> \<not> CheckPathExist E s' ?p"
    using law(2) CheckPathExist_cong [of s' ?p s3 E] by (simp add: s' node_at_report_update)
  then show ?thesis
    using law(1) r own by (auto simp: s' config_items_report_update same get'(1))
qed

end

end
