(* ===== verification/Manager_Cleanup.thy ===== *)
theory Manager_Cleanup
  imports Manager_Scope
begin

text \<open>
  The clean-up loops. They pass over every failure, so their effect is stated for a disk that can be
  written and for memory that suffices (\<open>cjson_memory\<close>): then exactly the selected records go.
\<close>

locale config_memory = cjson_memory E for E :: "'e font_env_scheme"

sublocale config_memory \<subseteq> config_library
  by unfold_locales

section \<open>When a write succeeds\<close>

definition disk_ok :: "'e font_env_scheme \<Rightarrow> 'a world_scheme \<Rightarrow> FontConfig \<Rightarrow> bool" where
  "disk_ok E w cfg \<longleftrightarrow>
     \<not> sys_fault E (SysOpenW (ConfigPath cfg)) \<and> (\<forall>n. n \<le> fwrite_count E (ConfigPath cfg) n) \<and>
     node_at w (butlast (resolve (ConfigPath cfg))) = Some Dir"

definition config_size :: "'e font_env_scheme \<Rightarrow> 'a world_scheme \<Rightarrow> FontConfig \<Rightarrow> nat" where
  "config_size E w cfg = (case LoadConfig E w cfg of None \<Rightarrow> 0 | Some doc \<Rightarrow> json_size doc)"

lemma sum_list_update_le:
  "i < length xs \<Longrightarrow> f y \<le> f (xs ! i) \<Longrightarrow> sum_list (map f (xs[i := y])) \<le> (sum_list (map f xs) :: nat)"
proof (induction xs arbitrary: i)
  case (Cons x xs)
  then show ?case by (cases i) auto
qed simp

lemma sum_list_remove_first: "sum_list (map f (remove_first P xs)) \<le> (sum_list (map f xs) :: nat)"
  by (induction xs) auto

lemma json_size_put:
  assumes "item_at doc p = JArray xs" "sum_list (map json_size ys) \<le> sum_list (map json_size xs)"
    "\<exists>kvs. doc = JObject kvs \<and> p < length kvs"
  shows "json_size (item_put doc p (JArray ys)) \<le> json_size doc"
proof -
  from assms(3) obtain kvs where kvs: "doc = JObject kvs" "p < length kvs" by blast
  with assms(1) have "snd (kvs ! p) = JArray xs" by simp
  with assms(2) kvs(2) show ?thesis
    unfolding kvs(1) item_put_JObject [OF kvs(2)] json_size.simps
    by (intro add_mono sum_list_update_le) auto
qed

lemma disk_ok_frame: "disk_ok E w cfg \<Longrightarrow> config_frame cfg w w' \<Longrightarrow> resolve (ConfigPath cfg) \<noteq> [] \<Longrightarrow> disk_ok E w' cfg"
  by (auto simp: disk_ok_def config_frame_def) (metis append_butlast_last_id not_Cons_self2 append_self_conv)

lemma fwrite_all_full: "(\<And>n. n \<le> fwrite_count E p n) \<Longrightarrow> fst (fwrite_all E w p t) = length t"
  by (simp add: fwrite_all_def Let_def min_absorb2)

text \<open>
  Removing what a record is resolved to leaves the installation directory and its configuration
  file alone, unless the record names that very file.
\<close>

lemma remove_resolved_keeps:
  assumes p: "p = ValidateAndResolveRealPath E (install_path u) path"
    and safe: "resolve p \<noteq> install_dir u @ [FONT_CONFIG_FILE]"
    and q: "q \<in> {install_dir u, install_dir u @ [FONT_CONFIG_FILE]}"
  shows "node_at (if p \<noteq> [] \<and> CheckPathExist E w p then snd (RemoveFile E w p) else w) q = node_at w q"
proof (cases "p = []")
  case False
  have "\<not> prefix (resolve p) q"
  proof
    assume pre: "prefix (resolve p) q"
    from ValidateAndResolveRealPath_below(1) [OF p [symmetric] False] obtain r where
      r: "resolve p = install_dir u @ r" "r \<noteq> []" by (auto simp: strict_prefix_def prefix_def)
    with pre q have "q = install_dir u @ [FONT_CONFIG_FILE]" "prefix r [FONT_CONFIG_FILE]"
      by (auto dest: prefix_length_le)
    with r safe show False by (auto simp: prefix_Cons)
  qed
  then show ?thesis by (auto simp: RemoveFile_def RemoveAll_def remove_all_def world_simps)
qed simp

context config_memory
begin

lemma write_progress:
  assumes load: "LoadConfig E w cfg = Some doc0" and disk: "disk_ok E w cfg"
    and doc: "json_ok doc" "json_size doc \<le> JSON_MEMORY"
  shows "\<exists>w'. WriteToFile E w cfg (cJSON_Print E doc) = (True, w')"
proof -
  from print_mem [OF doc(2)] obtain t where t: "cJSON_Print E doc = Some t" by blast
  from load have "CheckConfigFile E w (ConfigPath cfg) \<noteq> []"
    by (auto simp: LoadConfig_def parse_empty c_str_def)
  then obtain d where "node_at w (resolve (ConfigPath cfg)) = Some (File d)" "\<not> wants_dir (ConfigPath cfg)"
    by (auto simp: CheckConfigFile_def GetFileData_def fopen_r_def file_content_def
        split: if_splits option.splits node.splits)
  then have "fopen_w E w (ConfigPath cfg) = Some (put_node (resolve (ConfigPath cfg)) (File []) w)"
    using disk by (cases "resolve (ConfigPath cfg) = []")
      (auto simp: fopen_w_def can_create_def disk_ok_def node_at_Nil)
  then obtain w1 where "fopen_w E w (ConfigPath cfg) = Some w1" by blast
  moreover have "fst (fwrite_all E w1 (ConfigPath cfg) (c_str t)) = length (c_str t)"
    using disk by (intro fwrite_all_full) (simp add: disk_ok_def)
  ultimately show ?thesis by (simp add: WriteToFile_def t split_beta)
qed

lemma delete_progress:
  assumes items: "config_items E w cfg = Some xs" and x: "\<exists>x\<in>set xs. has_text key v x"
    and disk: "disk_ok E w cfg" "config_size E w cfg \<le> JSON_MEMORY"
  shows "\<exists>w'. delete_by_member E w cfg key v = (True, w') \<and> config_size E w' cfg \<le> config_size E w cfg \<and>
    disk_ok E w' cfg \<and> config_items E w' cfg = Some (remove_first (has_text key v) xs)"
proof -
  from items obtain doc where load: "LoadConfig E w cfg = Some doc" and it: "items_of doc = Some xs"
    by (auto simp: config_items_def bind_eq_Some_conv)
  from load have ok: "json_ok doc" by (auto dest: LoadConfig_readable)
  from ok it obtain p where p: "font_array E doc = Some (p, JArray xs)" "\<And>x. x \<in> set xs \<Longrightarrow> item_ok x"
    "\<And>ys. (\<And>y. y \<in> set ys \<Longrightarrow> item_ok y) \<Longrightarrow> json_ok (item_put doc p (JArray ys))"
    by (rule doc_items) blast
  let ?ys = "remove_first (has_text key v) xs"
  let ?doc = "item_put doc p (JArray ?ys)"
  have ok': "json_ok ?doc"
    using p(2) set_remove_first_subset [of "has_text key v" xs] by (intro p(3)) blast
  have at: "item_at doc p = JArray xs" and pos: "cJSON_GetObjectItem E doc FONT_LIST = Some p"
    using p(1) by (auto simp: font_array_def font_list_def split: option.splits if_splits)
  have obj: "\<exists>kvs. doc = JObject kvs \<and> p < length kvs"
    using pos by (cases doc) (auto simp: read_laws dest: obj_find_SomeD)
  have size: "json_size ?doc \<le> json_size doc"
    by (rule json_size_put [OF at sum_list_remove_first obj])
  with disk load have "json_size ?doc \<le> JSON_MEMORY" by (simp add: config_size_def)
  from write_progress [OF load disk(1) ok' this] obtain w' where
    wr: "WriteToFile E w cfg (cJSON_Print E ?doc) = (True, w')" by blast
  have P: "(\<lambda>item. string_member E item key = Some v) = has_text key v"
    by (simp add: fun_eq_iff has_text_def item_laws)
  from x obtain i where i: "index_of (has_text key v) xs = Some i"
    using index_of_ex by metis
  then have "i < length xs" by (auto dest: index_of_SomeD)
  with i wr have "delete_by_member E w cfg key v = (True, w')"
    by (simp add: delete_by_member_def load p(1) P find_item_eq DeleteItemFromArray remove_nth_index_of)
  moreover have "config_size E w' cfg \<le> config_size E w cfg"
    using size by (simp add: config_size_def load write_doc [OF load ok' wr])
  moreover have "resolve (ConfigPath cfg) \<noteq> []"
    using config_items_file [OF items] by (auto simp: node_at_Nil)
  then have "disk_ok E w' cfg" using disk_ok_frame [OF disk(1) WriteToFile_frame [OF wr]] by simp
  ultimately show ?thesis using delete_True by (metis items option.inject)
qed

section \<open>The loop\<close>

lemma remove_records_ok:
  assumes "remove_records E (user_config u) (install_path u) (map jrecord rs) acc w = (names, w')"
    "config_items E w (user_config u) = Some ys" "unique_member FONT_SRC_PATH ys"
    "\<forall>x\<in>set rs. jstring x FONT_SRC_PATH \<noteq> None"
    "\<forall>x\<in>set rs. resolve (ValidateAndResolveRealPath E (install_path u) (jtext x FONT_PATH))
       \<noteq> install_dir u @ [FONT_CONFIG_FILE]"
    "disk_ok E w (user_config u)" "config_size E w (user_config u) \<le> JSON_MEMORY"
  shows "config_items E w' (user_config u) =
    Some (filter (\<lambda>y. \<forall>x\<in>set rs. jstring y FONT_SRC_PATH \<noteq> jstring x FONT_SRC_PATH) ys)"
  using assms
proof (induction rs arbitrary: acc w ys)
  case (Cons x rs)
  let ?cfg = "user_config u"
  let ?p = "ValidateAndResolveRealPath E (install_path u) (jtext x FONT_PATH)"
  let ?w1 = "if ?p \<noteq> [] \<and> CheckPathExist E w ?p then snd (RemoveFile E w ?p) else w"
  obtain url where url: "jstring x FONT_SRC_PATH = Some url" using Cons.prems(4) by auto
  have src: "fr_srcPath (jrecord x) = url" "fr_fontPath (jrecord x) = jtext x FONT_PATH"
    by (simp_all add: jrecord_def jtext_def url)
  have keep: "node_at ?w1 q = node_at w q" if q: "q \<in> {install_dir u, install_dir u @ [FONT_CONFIG_FILE]}" for q
    by (rule remove_resolved_keeps [OF refl _ q]) (use Cons.prems(5) in simp)
  have n1: "node_at ?w1 (resolve (ConfigPath ?cfg)) = node_at w (resolve (ConfigPath ?cfg))"
    unfolding resolve_config by (rule keep) simp
  have items1: "config_items E ?w1 ?cfg = Some ys"
    using Cons.prems(2) unfolding config_items_cong [OF n1] .
  have "node_at ?w1 (install_dir u) = node_at w (install_dir u)" by (rule keep) simp
  then have disk1: "disk_ok E ?w1 ?cfg"
    using Cons.prems(6) unfolding disk_ok_def resolve_config butlast_snoc by simp
  have size1: "config_size E ?w1 ?cfg \<le> JSON_MEMORY"
    using Cons.prems(7) unfolding config_size_def LoadConfig_cong [OF n1] .
  obtain b w2 where del: "DeleteScopeFontRecordByUrl E ?w1 ?cfg url = (b, w2)" by fastforce
  have w2: "config_items E w2 ?cfg = Some (filter (\<lambda>y. jstring y FONT_SRC_PATH \<noteq> Some url) ys)
      \<and> disk_ok E w2 ?cfg \<and> config_size E w2 ?cfg \<le> JSON_MEMORY"
  proof (cases "\<exists>y\<in>set ys. has_text FONT_SRC_PATH url y")
    case True
    then obtain y where y: "y \<in> set ys" "has_text FONT_SRC_PATH url y" by blast
    from delete_progress [OF items1 True disk1 size1] del size1 show ?thesis
      using remove_first_unique [OF Cons.prems(3) y]
      by (auto simp: DeleteScopeFontRecordByUrl_def has_text_def)
  next
    case False
    then have "w2 = ?w1"
      using delete_by_member_eq [OF del [unfolded DeleteScopeFontRecordByUrl_def]] items1 by auto
    moreover have "filter (\<lambda>y. jstring y FONT_SRC_PATH \<noteq> Some url) ys = ys"
      using False by (auto simp: has_text_def)
    ultimately show ?thesis using items1 disk1 size1 by simp
  qed
  obtain acc' where rest: "remove_records E ?cfg (install_path u) (map jrecord rs) acc' w2 = (names, w')"
    using Cons.prems(1) del by (auto simp: Let_def src)
  have uq: "unique_member FONT_SRC_PATH (filter (\<lambda>y. jstring y FONT_SRC_PATH \<noteq> Some url) ys)"
    using Cons.prems(3) by (simp add: unique_member_def sorted_wrt_filter)
  from Cons.IH [OF rest conjunct1 [OF w2] uq] Cons.prems(4,5) w2 show ?case
    by (simp add: url filter_filter conj_commute cong: conj_cong)
qed simp

lemma unique_filter:
  assumes "unique_member key xs" "\<forall>x\<in>set xs. P x \<longrightarrow> jstring x key \<noteq> None"
  shows "filter (\<lambda>y. \<forall>x\<in>set (filter P xs). jstring y key \<noteq> jstring x key) xs = filter (\<lambda>y. \<not> P y) xs"
proof (rule filter_cong [OF refl])
  fix y assume y: "y \<in> set xs"
  have diff: "jstring y key \<noteq> jstring x key" if x: "x \<in> set xs" "P x" "x \<noteq> y" for x
  proof -
    from x(1) y x(3) obtain i j where "i < length xs" "j < length xs" "xs ! i = x" "xs ! j = y" "i \<noteq> j"
      by (metis in_set_conv_nth)
    with assms(1) have "jstring x key = None \<or> jstring y key = None \<or> jstring x key \<noteq> jstring y key"
      unfolding unique_member_def sorted_wrt_iff_nth_less by (metis linorder_neqE_nat)
    with assms(2) x show ?thesis by auto
  qed
  show "(\<forall>x\<in>set (filter P xs). jstring y key \<noteq> jstring x key) = (\<not> P y)"
    using diff y by auto
qed

text \<open>
  A clean-up removes exactly the records it selects, when each has a source URL of its own and none
  of them names the configuration file.
\<close>

lemma cleanup_records_ok:
  assumes items: "config_items E w (user_config u) = Some xs"
    and uq: "unique_member FONT_SRC_PATH xs"
    and sel: "\<forall>x\<in>set xs. P x \<longrightarrow> jstring x FONT_SRC_PATH \<noteq> None \<and>
       resolve (ValidateAndResolveRealPath E (install_path u) (jtext x FONT_PATH))
         \<noteq> install_dir u @ [FONT_CONFIG_FILE]"
    and disk: "disk_ok E w (user_config u)" "config_size E w (user_config u) \<le> JSON_MEMORY"
  shows "config_items E (cleanup_records E (user_config u) u (map jrecord (filter P xs)) w) (user_config u)
    = Some (filter (\<lambda>x. \<not> P x) xs)"
proof -
  obtain names w1 where rm: "remove_records E (user_config u) (install_path u) (map jrecord (filter P xs)) [] w
      = (names, w1)" by fastforce
  have "config_items E w1 (user_config u) = Some (filter (\<lambda>x. \<not> P x) xs)"
    using remove_records_ok [OF rm items uq _ _ disk] sel unique_filter [OF uq, of P] by auto
  moreover have "config_items E (CollectUserDataSize E w1 (install_path u)) (user_config u)
      = config_items E w1 (user_config u)"
    by (rule config_items_cong) (simp add: world_simps)
  ultimately show ?thesis
    by (simp add: cleanup_records_def rm Let_def config_items_report_update)
qed

lemma cleanup_get:
  assumes "SafeGetOrCreateConfig s u (install_path u @ FONT_CONFIG_FILE) = (cfg, s1)" "configs_ok s"
    "disk_ok E s (user_config u)" "config_size E s (user_config u) \<le> JSON_MEMORY"
    "config_items E s (user_config u) = Some xs"
  shows "cfg = user_config u" "disk_ok E s1 (user_config u)" "config_size E s1 (user_config u) \<le> JSON_MEMORY"
    "config_items E s1 (user_config u) = Some xs"
proof -
  note get' = SafeGetOrCreateConfig_eq [OF assms(1,2)]
  show "cfg = user_config u" by (rule get'(1))
  show "disk_ok E s1 (user_config u)" using assms(3) get'(4) by (simp add: disk_ok_def)
  show "config_size E s1 (user_config u) \<le> JSON_MEMORY"
    using assms(4) unfolding config_size_def LoadConfig_cong [OF get'(4)] .
  show "config_items E s1 (user_config u) = Some xs"
    using assms(5) unfolding config_items_cong [OF get'(4)] .
qed

text \<open>The three clean-up operations: they differ in the records they select.\<close>

lemma cleanup_selected:
  assumes "configs_ok s" "disk_ok E s (user_config u)" "config_size E s (user_config u) \<le> JSON_MEMORY"
    "config_items E s (user_config u) = Some xs" "unique_member FONT_SRC_PATH xs"
    "\<forall>x\<in>set xs. P x \<longrightarrow> jstring x FONT_SRC_PATH \<noteq> None \<and>
       resolve (ValidateAndResolveRealPath E (install_path u) (jtext x FONT_PATH)) \<noteq> install_dir u @ [FONT_CONFIG_FILE]"
    "SafeGetOrCreateConfig s u (install_path u @ FONT_CONFIG_FILE) = (cfg, s1)"
  shows "config_items E (cleanup_records E cfg u (map jrecord (filter P xs)) s1) (user_config u)
    = Some (filter (\<lambda>x. \<not> P x) xs)" "cfg = user_config u" "config_items E s1 (user_config u) = Some xs"
  using cleanup_get [OF assms(7,1-4)] cleanup_records_ok [OF _ assms(5,6)] by simp_all

lemma CleanupScopeFontsByUser_ok:
  assumes "configs_ok s" "disk_ok E s (user_config u)" "config_size E s (user_config u) \<le> JSON_MEMORY"
    "config_items E s (user_config u) = Some xs" "unique_member FONT_SRC_PATH xs"
    "\<forall>x\<in>set xs. has_scope (\<lambda>v. v \<ge> 0) x \<longrightarrow> jstring x FONT_SRC_PATH \<noteq> None \<and>
       resolve (ValidateAndResolveRealPath E (install_path u) (jtext x FONT_PATH)) \<noteq> install_dir u @ [FONT_CONFIG_FILE]"
  shows "config_items E (snd (CleanupScopeFontsByUser E s u)) (user_config u)
    = Some (filter (\<lambda>x. \<not> has_scope (\<lambda>v. v \<ge> 0) x) xs)"
  using cleanup_selected [OF assms]
  by (auto simp: CleanupScopeFontsByUser_def GetScopeFontRecords_eq split: prod.split)

lemma CleanupAppScopeFontsByUser_ok:
  assumes "configs_ok s" "disk_ok E s (user_config u)" "config_size E s (user_config u) \<le> JSON_MEMORY"
    "config_items E s (user_config u) = Some xs" "unique_member FONT_SRC_PATH xs"
    "\<forall>x\<in>set xs. has_scope (\<lambda>v. v = FONT_SCOPE_APP) x \<longrightarrow> jstring x FONT_SRC_PATH \<noteq> None \<and>
       resolve (ValidateAndResolveRealPath E (install_path u) (jtext x FONT_PATH)) \<noteq> install_dir u @ [FONT_CONFIG_FILE]"
  shows "config_items E (snd (CleanupAppScopeFontsByUser E s u)) (user_config u)
    = Some (filter (\<lambda>x. \<not> has_scope (\<lambda>v. v = FONT_SCOPE_APP) x) xs)"
  using cleanup_selected [OF assms]
  by (auto simp: CleanupAppScopeFontsByUser_def GetAppScopeFontRecords_eq split: prod.split)

lemma CleanupAppScopeFonts_ok:
  fixes s :: "'a fm_state_scheme"
  assumes "configs_ok s" "disk_ok E s (user_config u)" "config_size E s (user_config u) \<le> JSON_MEMORY"
    "config_items E s (user_config u) = Some xs" "unique_member FONT_SRC_PATH xs"
    "\<forall>x\<in>set xs. has_text FONT_APP_IDENTIFIER a x \<longrightarrow> jstring x FONT_SRC_PATH \<noteq> None \<and>
       resolve (ValidateAndResolveRealPath E (install_path u) (jtext x FONT_PATH)) \<noteq> install_dir u @ [FONT_CONFIG_FILE]"
    and a: "simple_name a" "a \<noteq> FONT_CONFIG_FILE"
  shows "config_items E (snd (CleanupAppScopeFonts E s a u)) (user_config u)
    = Some (filter (\<lambda>x. \<not> has_text FONT_APP_IDENTIFIER a x) xs)"
proof -
  obtain cfg s1 where get: "SafeGetOrCreateConfig s u (install_path u @ FONT_CONFIG_FILE) = (cfg, s1)" by fastforce
  note sel = cleanup_selected [OF assms(1-6) get]
  have "node_at (DeleteDir E w (GetAppInstallPath u a) True) (resolve (ConfigPath (user_config u)))
      = node_at w (resolve (ConfigPath (user_config u)))" for w :: "'a fm_state_scheme"
    unfolding resolve_config using a by (simp add: DeleteDir_def RemoveAll_def remove_all_def resolve_app_dir world_simps)
  from config_items_cong [OF this, of E] sel show ?thesis
    by (simp add: CleanupAppScopeFonts_def get Let_def GetFontRecordsByAppId_eq)
qed

end

end
