(* ===== verification/Reference_World.thy ===== *)
theory Reference_World
  imports Font_Server CJSON_Instance Manager_Cleanup
begin

text \<open>
  One concrete environment and a few concrete states, for the runs that show that the properties
  can be used: the JSON library of \<open>CJSON_Instance\<close>, no refused call, one user (100) whose
  directories are there, two open fonts and one application.
\<close>

definition ref_folder_size :: "file_tree \<Rightarrow> string \<Rightarrow> nat" where
  "ref_folder_size t d =
     sum_list (map (\<lambda>(p, n). case n of File c \<Rightarrow> if prefix (resolve d) p then length c else 0 | Dir \<Rightarrow> 0) t)"

definition ref_dir_files :: "file_tree \<Rightarrow> string \<Rightarrow> string list" where
  "ref_dir_files t d =
     map (\<lambda>(p, n). path_string p) (filter (\<lambda>(p, n). n \<noteq> Dir \<and> prefix (resolve d) p) t)"

definition ref_env :: server_env where
  "ref_env =
     \<lparr>cJSON_Parse = ref_parse, cJSON_Print = ref_print,
      cJSON_IsArray = cJSON_IsArray ref_api, cJSON_IsString = cJSON_IsString ref_api,
      cJSON_IsNumber = cJSON_IsNumber ref_api, cJSON_GetObjectItem = cJSON_GetObjectItem ref_api,
      cJSON_GetArraySize = cJSON_GetArraySize ref_api, cJSON_GetArrayItem = cJSON_GetArrayItem ref_api,
      cJSON_CreateString = cJSON_CreateString ref_api, cJSON_CreateNumber = cJSON_CreateNumber ref_api,
      cJSON_CreateArray = cJSON_CreateArray ref_api, cJSON_CreateObject = cJSON_CreateObject ref_api,
      cJSON_AddItemToArray = cJSON_AddItemToArray ref_api,
      cJSON_AddItemToObject = cJSON_AddItemToObject ref_api,
      cJSON_DeleteItemFromArray = cJSON_DeleteItemFromArray ref_api,
      cJSON_DeleteItemFromObject = cJSON_DeleteItemFromObject ref_api,
      cJSON_ReplaceItemInObject = cJSON_ReplaceItemInObject ref_api,
      sys_fault = (\<lambda>c. False), fwrite_count = (\<lambda>p n. n), sendfile_script = (\<lambda>fd. [SfIntr, SfSent 2]),
      GetFontFullName = (\<lambda>d. if d = ''abc'' then [''Abc''] else if d = ''xyz'' then [''Xyz''] else []),
      GetIntParameter = (\<lambda>key d. d), GetParameter = (\<lambda>key d. ''com.font.installer''),
      ACCOUNT_ENABLE = True, created_accounts = [100],
      local_time = \<lparr>tm_year = 125, tm_mon = 0, tm_mday = 2, tm_hour = 3, tm_min = 4, tm_sec = 5\<rparr>,
      thread_hash = 7, fileno = (\<lambda>p. 9), heart_beats = 1,
      GetFolderSize = ref_folder_size, GetDirFiles = ref_dir_files,
      IsEmptyFolder = (\<lambda>t d. ref_dir_files t d = []),
      data_statfs = Some (4096, 1024), samgr_present = True, storage_remote_present = True,
      storage_iface_ok = True, SetExtBundleStats = (\<lambda>u b n. 0), PublishCommonEventAsUser = (\<lambda>t n u. True),
      recipient_alloc = True, AddDeathRecipient = (\<lambda>b. True),
      VerifyAccessToken = (\<lambda>t p. True), GetHapTokenInfo = (\<lambda>t. Some ''com.app''),
      GetOsAccountLocalIdFromUid = (\<lambda>uid. Some 100), PostTask_ok = (\<lambda>t. True),
      SubscribeCommonEvent_ok = True, UnloadSystemAbility = (\<lambda>i. 0)\<rparr>"

lemma ref_env_memory: "config_memory ref_env"
  unfolding config_memory_def
  by (rule ref_cjson_memory) (simp add: ref_env_def ref_api_def cjson_api.defs)

lemma ref_env_library: "config_library ref_env"
  unfolding config_library_def
  by (rule ref_cjson_library) (simp add: ref_env_def ref_api_def cjson_api.defs)

interpretation ref_config: config_library ref_env
  by (rule ref_env_library)

interpretation ref_store: config_memory ref_env
  by (rule ref_env_memory)

definition ref_dir :: path where
  "ref_dir = [''data'', ''service'', ''el1'', ''100'', ''for-all-app'', ''fonts'']"

text \<open>The directories of the user, a configuration file with a given text, and some font files.\<close>

definition ref_tree :: "string \<Rightarrow> file_tree \<Rightarrow> file_tree" where
  "ref_tree conf fonts =
     [(ref_dir, Dir), (ref_dir @ [''temp''], Dir), (ref_dir @ [FONT_CONFIG_FILE], File conf)] @ fonts"

definition ref_state :: "string \<Rightarrow> file_tree \<Rightarrow> server_state" where
  "ref_state conf fonts =
     \<lparr>fs = ref_tree conf fonts,
      fds = (\<lambda>_. None)(3 \<mapsto> \<lparr>fd_path = ''/storage/a.ttf'', st_size = 3, fd_data = ''abc''\<rparr>,
                      4 \<mapsto> \<lparr>fd_path = ''/storage/x.ttf'', st_size = 3, fd_data = ''xyz''\<rparr>),
      effects = [], configMap = (\<lambda>_. None), dm_isDataMigrationing = False, dm_callback = None,
      dm_userIds = [], clients = [], userClients = (\<lambda>_. {}), death_links = [], clientDiedCallback = False,
      callingCount = 0, isDataMigrationing = False, handler = Some [], subscriber = False\<rparr>"

abbreviation ref_fresh :: server_state where
  "ref_fresh \<equiv> ref_state default_config_text []"

definition ref_caller :: ipc_caller where
  "ref_caller = \<lparr>CallingTokenID = 5, CallingUid = 20000\<rparr>"

lemma ref_state_configs: "configs_ok (ref_state conf fonts)"
  by (simp add: configs_ok_def ref_state_def)

section \<open>Evaluating the environment\<close>

lemma ref_env_simps [simp]:
  "sys_fault ref_env c = False" "fwrite_count ref_env q n = n" "sendfile_script ref_env fd = [SfIntr, SfSent 2]"
  "GetFontFullName ref_env d = (if d = ''abc'' then [''Abc''] else if d = ''xyz'' then [''Xyz''] else [])"
  "GetIntParameter ref_env key i = i" "ACCOUNT_ENABLE ref_env" "created_accounts ref_env = [100]"
  "cJSON_Parse ref_env = ref_parse" "cJSON_Print ref_env = ref_print"
  "VerifyAccessToken ref_env tk pm" "GetHapTokenInfo ref_env tk = Some ''com.app''"
  "GetOsAccountLocalIdFromUid ref_env i = Some 100" "PostTask_ok ref_env task"
  "samgr_present ref_env" "recipient_alloc ref_env" "AddDeathRecipient ref_env i"
  "fileno ref_env q = 9" "GetDirFiles ref_env = ref_dir_files"
  "IsEmptyFolder ref_env = (\<lambda>t d. ref_dir_files t d = [])"
  by (simp_all add: ref_env_def)

lemma ref_CheckPathExist: "CheckPathExist ref_env w p \<longleftrightarrow> p \<noteq> [] \<and> path_exists w p"
  by (simp add: CheckPathExist_def)

text \<open>The path of the user's directory, written out.\<close>

lemma to_string_100: "to_string 100 = ''100''"
  by code_simp

lemma install_path_100: "install_path 100 = ''/data/service/el1/100/for-all-app/fonts/''"
  by (simp add: install_path_def path_defs to_string_100)

lemma allowed_100 [simp]:
  "\<not> forbidden_path (install_path 100)" "\<not> forbidden_path (install_path 100 @ TEMP_FILE)"
  "\<not> forbidden_path (install_path 100 @ FONT_CONFIG_FILE)"
  by (simp_all add: forbidden_path_def install_path_100 path_defs sublist_code)

lemma not_dir_100 [simp]: "\<not> wants_dir (install_path 100 @ FONT_CONFIG_FILE)"
  by (simp add: wants_dir_def FONT_CONFIG_FILE_def)

lemma install_dir_100: "install_dir 100 = ref_dir"
  by (simp add: resolve_install_path to_string_100 ref_dir_def)

lemma ref_node_at:
  "node_at (ref_state conf fonts) q =
     (if q = [] \<or> q = ref_dir \<or> q = ref_dir @ [''temp''] then Some Dir
      else if q = ref_dir @ [FONT_CONFIG_FILE] then Some (File conf) else map_of fonts q)"
  by (simp add: node_at_def ref_state_def ref_tree_def FONT_CONFIG_FILE_def)

lemma ref_resolve [simp]:
  "resolve (install_path 100) = ref_dir"
  "resolve (install_path 100 @ FONT_CONFIG_FILE) = ref_dir @ [FONT_CONFIG_FILE]"
  "resolve (install_path 100 @ TEMP_FILE) = ref_dir @ [''temp'']"
  using resolve_install_path_name [OF simple_name_config, of 100] resolve_install_temp [of 100]
  by (simp_all add: install_dir_100)

lemma ref_dir_not_Nil [simp]: "ref_dir \<noteq> []" "ref_dir @ xs \<noteq> []" "install_path 100 \<noteq> []"
  by (simp_all add: ref_dir_def install_path_100)

lemma config_not_temp [simp]: "FONT_CONFIG_FILE \<noteq> ''temp''" "''temp'' \<noteq> FONT_CONFIG_FILE"
  by (simp_all add: FONT_CONFIG_FILE_def)

lemma ref_path_exists:
  "CheckPathExist ref_env (ref_state conf fonts) (install_path 100)"
  "CheckPathExist ref_env (ref_state conf fonts) (install_path 100 @ TEMP_FILE)"
  "CheckPathExist ref_env (ref_state conf fonts) (install_path 100 @ FONT_CONFIG_FILE)"
  by (simp_all add: ref_CheckPathExist path_exists_def ref_node_at)

text \<open>The configuration that a text stands for.\<close>

lemma ref_load:
  assumes "is_cstring conf" "int (length conf) < LONG_MAX"
  shows "LoadConfig ref_env (ref_state conf fonts) (user_config 100) = ref_parse conf"
proof -
  have "CheckConfigFile ref_env (ref_state conf fonts) (ConfigPath (user_config 100)) = conf @ [NUL]"
    using assms(2) by (intro CheckConfigFile_content) (simp_all add: readable_def ref_node_at)
  with assms(1) show ?thesis by (simp add: LoadConfig_def)
qed

lemma ref_items_encode:
  assumes "json_ok doc" "json_size doc \<le> JSON_MEMORY"
  shows "LoadConfig ref_env (ref_state (encode doc) fonts) (user_config 100) = Some doc"
proof -
  have "int (length (encode doc)) < LONG_MAX"
    using length_encode [of doc] assms(2) by (simp add: JSON_MEMORY_def LONG_MAX_def)
  then show ?thesis
    using assms(1) by (simp add: ref_load is_cstring_encode ref_parse_def encode_not_default decode_encode)
qed

lemma default_config_text_cstring [simp]: "is_cstring default_config_text" "length default_config_text = 56"
  by (simp_all add: default_config_text_def NUL_def)

lemma ref_fresh_load: "LoadConfig ref_env ref_fresh (user_config 100) = Some default_config"
  by (subst ref_load) (simp_all add: ref_parse_def LONG_MAX_def)

lemma ref_fresh_items: "config_items ref_env ref_fresh (user_config 100) = Some []"
  by (simp add: config_items_def ref_fresh_load default_config_def items_of_def jmember_def)

end
