(* ===== verification/Manager_Progress.thy ===== *)
theory Manager_Progress
  imports Manager_Cleanup
begin

text \<open>
  When the operations of the manager succeed: nothing is refused, the directories are there, the
  configuration can be read, and the new or the old font is what it should be.
\<close>

definition ready :: "'e font_env_scheme \<Rightarrow> 'a fm_state_scheme \<Rightarrow> int \<Rightarrow> bool" where
  "ready E s u \<longleftrightarrow>
     (\<forall>c. \<not> sys_fault E c) \<and> (\<forall>p n. n \<le> fwrite_count E p n) \<and>
     node_at s (install_dir u) = Some Dir \<and> node_at s (install_dir u @ [''temp'']) = Some Dir \<and>
     configs_ok s \<and> config_items E s (user_config u) \<noteq> None"

text \<open>A descriptor that can be copied: its size is sound and the kernel makes progress.\<close>

definition copyable :: "'e font_env_scheme \<Rightarrow> 'a world_scheme \<Rightarrow> int \<Rightarrow> fd_info \<Rightarrow> bool" where
  "copyable E w fd i \<longleftrightarrow>
     fds w fd = Some i \<and> 0 \<le> fd \<and> 0 \<le> st_size i \<and> st_size i \<le> MAX_FONT_FILE_SIZE \<and>
     nat (st_size i) \<le> length (fd_data i) \<and>
     (\<forall>a\<in>set (sendfile_script E fd). a = SfIntr \<or> (\<exists>n>0. a = SfSent n))"

lemma wants_dir_name: "simple_name n \<Longrightarrow> \<not> wants_dir (a @ n)"
  unfolding wants_dir_def simple_name_def by (metis last_appendR last_in_set)

lemma CopyFileForInstall_progress:
  assumes faults: "\<forall>c. \<not> sys_fault E c" and fd: "copyable E w fd i" and n: "CHR ''/'' \<notin> set n"
    and dirs: "node_at w (resolve (a @ ''/'')) = Some Dir" "node_at w (resolve (a @ ''/'') @ [''temp'']) = Some Dir"
    and free: "node_at w (resolve (a @ ''/'') @ [copy_name E n]) \<noteq> Some Dir"
      "node_at w (resolve (a @ ''/'') @ [''temp'', copy_name E n]) \<noteq> Some Dir"
  shows "fst (CopyFileForInstall E w (a @ ''/'') n fd) = (a @ ''/'') @ copy_name E n"
proof -
  let ?d = "resolve (a @ ''/'')" and ?t = "(a @ ''/'') @ TEMP_FILE @ copy_name E n"
    and ?q = "(a @ ''/'') @ copy_name E n"
  note sn = simple_copy_name [OF n, of E]
  have rt: "resolve ?t = ?d @ [''temp'', copy_name E n]" by (rule resolve_dir_temp_name [OF sn])
  have rq: "resolve ?q = ?d @ [copy_name E n]" by (rule resolve_dir_name [OF sn])
  have wd: "\<not> wants_dir ?t" "\<not> wants_dir ?q"
    using wants_dir_name [OF sn, of "(a @ ''/'') @ TEMP_FILE"] wants_dir_name [OF sn, of "a @ ''/''"] by simp_all
  have bl: "butlast (?d @ [''temp'', copy_name E n]) = ?d @ [''temp'']"
    by (simp add: butlast_append)
  have op: "fopen_w E w ?t = Some (put_node (resolve ?t) (File []) w)" (is "_ = Some ?w1")
    unfolding fopen_w_def can_create_def rt bl using faults wd(1) dirs(2) free(2) by simp
  have loop: "send_loop (sendfile_script E fd) (length (fd_data i)) (nat (st_size i)) 0 = (True, nat (st_size i))"
    using fd by (intro send_loop_progress) (auto simp: copyable_def)
  have cp: "CopyFile E w fd ?t = (True, put_node (resolve ?t) (File (take (nat (st_size i)) (fd_data i))) ?w1)"
    (is "_ = (True, ?w2)")
    using fd faults unfolding CopyFile_def op
    by (simp add: CopyFileByFd_def copyable_def loop world_simps split del: if_split)
  have ne: "resolve ?t \<noteq> []" unfolding rt by simp
  have content: "file_content ?w2 ?t = Some (take (nat (st_size i)) (fd_data i))"
    using ne wd(1) by (simp add: file_content_def world_simps)
  have diff: "?d \<noteq> resolve ?t" "?d @ [copy_name E n] \<noteq> resolve ?t"
    unfolding rt by simp_all
  have "can_create ?w2 ?q" unfolding can_create_def rq using dirs(1) ne diff by (simp add: world_simps)
  moreover have "node_at ?w2 (resolve ?q) \<noteq> Some Dir" unfolding rq using free(1) ne diff by (simp add: world_simps)
  moreover have "CheckPathExist E ?w2 ?t"
    using faults ne wd(1) by (simp add: CheckPathExist_def path_exists_def world_simps)
  ultimately have "fst (RenameFile E ?w2 ?t ?q)"
    using faults wd(2) content by (simp add: RenameFile_def rename_file_def)
  then obtain w3 where "RenameFile E ?w2 ?t ?q = (True, w3)" by (cases "RenameFile E ?w2 ?t ?q") simp
  then show ?thesis unfolding CopyFileForInstall_alt cp by simp
qed

lemma existing_dir: "ensure_dir E w p = (True, w)" if "node_at w (resolve p) = Some Dir" "p \<noteq> []" "\<forall>c. \<not> sys_fault E c"
  using that by (simp add: ensure_dir_def CheckPathExist_def path_exists_def)

lemma ex_fst: "\<exists>s'. p = (r, s') \<and> Q s' \<Longrightarrow> fst p = r"
  by auto

lemma install_path_not_Nil [simp]: "install_path u \<noteq> []"
  by (simp add: install_path_def path_defs)

context config_memory
begin

lemma config_ready:
  assumes "config_items E s cfg \<noteq> None"
  shows "CheckPathExist E s (ConfigPath cfg)"
proof -
  from assms obtain doc where "LoadConfig E s cfg = Some doc"
    by (auto simp: config_items_def bind_eq_Some_conv)
  then show ?thesis using readable_node [OF _ parse_empty] by blast
qed

lemma ready_init:
  assumes "ready E s u"
  shows "CheckAndInitInstallPath E s (install_path u) = (True, s)"
proof -
  from assms have "ensure_dir E s (install_path u) = (True, s)"
    "ensure_dir E s (install_path u @ TEMP_FILE) = (True, s)"
    using existing_dir [of s "install_path u" E] existing_dir [of s "install_path u @ TEMP_FILE" E]
    by (simp_all add: ready_def resolve_install_temp)
  moreover from assms have "CheckPathExist E s (install_path u @ FONT_CONFIG_FILE)"
    using config_ready [of s "user_config u"] by (simp add: ready_def)
  ultimately show ?thesis by (simp add: CheckAndInitInstallPath_def CheckFontConfigPath_def)
qed

lemma ready_disk:
  assumes "ready E s u"
  shows "disk_ok E s (user_config u)"
  using assms unfolding disk_ok_def ready_def resolve_config butlast_snoc by simp

text \<open>A record more makes the document larger by the record.\<close>

lemma put_size:
  assumes doc: "LoadConfig E w cfg = Some doc" and p: "font_list E doc = Some (p, JArray xs)"
  shows "json_size (item_put doc p (JArray (xs @ [y]))) = config_size E w cfg + json_size y"
proof -
  have at: "item_at doc p = JArray xs" and pos: "cJSON_GetObjectItem E doc FONT_LIST = Some p"
    using p by (auto simp: font_list_def)
  from pos obtain kvs where kvs: "doc = JObject kvs" "p < length kvs"
    by (cases doc) (auto simp: read_laws dest: obj_find_SomeD)
  with at have v: "snd (kvs ! p) = JArray xs" by simp
  have upd: "sum_list (map f (kvs[p := z])) + f (kvs ! p) = sum_list (map f kvs) + (f z :: nat)" for f z
    using kvs(2)
  proof (induction kvs arbitrary: p)
    case (Cons k ks)
    then show ?case by (cases p) auto
  qed simp
  have "json_size (item_put doc p (JArray (xs @ [y]))) = json_size doc + json_size y"
    using upd [of "\<lambda>kv. 2 + length (fst kv) + json_size (snd kv)" "(fst (kvs ! p), JArray (xs @ [y]))"]
    unfolding kvs(1) item_put_JObject [OF kvs(2)] by (simp add: v)
  with doc show ?thesis by (simp add: config_size_def)
qed

lemma put_progress:
  assumes items: "config_items E w cfg = Some xs" and disk: "disk_ok E w cfg" and y: "item_ok y"
    and size: "config_size E w cfg + json_size y \<le> JSON_MEMORY"
    and doc: "LoadConfig E w cfg = Some doc" and p: "font_list E doc = Some (p, JArray xs)"
  shows "\<exists>w'. WriteToFile E w cfg (cJSON_Print E (item_put doc p (JArray (xs @ [y])))) = (True, w') \<and>
     config_size E w' cfg = config_size E w cfg + json_size y"
proof -
  from doc items have it: "items_of doc = Some xs" by (simp add: config_items_def)
  from doc have ok: "json_ok doc" by (auto dest: LoadConfig_readable)
  from ok it obtain p' where p': "font_list E doc = Some (p', JArray xs)" "\<And>x. x \<in> set xs \<Longrightarrow> item_ok x"
    "\<And>ys. (\<And>y. y \<in> set ys \<Longrightarrow> item_ok y) \<Longrightarrow> json_ok (item_put doc p' (JArray ys))"
    by (rule doc_items) blast
  with p have pp: "p' = p" by simp
  have ok': "json_ok (item_put doc p (JArray (xs @ [y])))"
    using p'(2) y unfolding pp [symmetric] by (intro p'(3)) auto
  note sz = put_size [OF doc p]
  with size have "json_size (item_put doc p (JArray (xs @ [y]))) \<le> JSON_MEMORY" by simp
  from write_progress [OF doc disk ok' this] obtain w' where
    wr: "WriteToFile E w cfg (cJSON_Print E (item_put doc p (JArray (xs @ [y])))) = (True, w')" ..
  have "config_size E w' cfg = config_size E w cfg + json_size y"
    unfolding sz [symmetric] by (simp add: config_size_def write_doc [OF doc ok' wr])
  with wr show ?thesis by blast
qed

section \<open>Construction and insertion\<close>

lemma SafeAdd_progress:
  "\<exists>kvs'. SafeAddStringToObject E (JObject kvs) key s = Some (JObject kvs')"
  "\<exists>kvs'. SafeAddNumberToObject E (JObject kvs) key i = Some (JObject kvs')"
proof -
  obtain j where j: "cJSON_CreateString E s = Some j" using CreateString_mem by blast
  obtain o1 where o1: "cJSON_AddItemToObject E (JObject kvs) key j = Some o1" using AddItemToObject_mem by blast
  with j show "\<exists>kvs'. SafeAddStringToObject E (JObject kvs) key s = Some (JObject kvs')"
    using AddItemToObject [OF o1] by (auto simp: SafeAddStringToObject_def)
  obtain k where k: "cJSON_CreateNumber E i = Some k" using CreateNumber_mem by blast
  obtain o2 where o2: "cJSON_AddItemToObject E (JObject kvs) key k = Some o2" using AddItemToObject_mem by blast
  with k show "\<exists>kvs'. SafeAddNumberToObject E (JObject kvs) key i = Some (JObject kvs')"
    using AddItemToObject [OF o2] by (auto simp: SafeAddNumberToObject_def)
qed

lemma add_names_progress: "\<exists>ys. add_names E (JArray xs) ns = Some (JArray ys)"
proof (induction ns arbitrary: xs)
  case (Cons n ns)
  obtain j where j: "cJSON_CreateString E n = Some j" using CreateString_mem by blast
  obtain a where a: "cJSON_AddItemToArray E (JArray xs) j = Some a" using AddItemToArray_mem by blast
  with j Cons.IH [of "xs @ [j]"] AddItemToArray [OF a] show ?case by simp
qed simp

lemma ConstructCJSON_progress: "\<exists>kvs. ConstructCJSON E p ns = Some (JObject kvs)"
proof -
  obtain ob where ob: "cJSON_CreateObject E = Some ob" using CreateObject_mem by blast
  obtain ar where ar: "cJSON_CreateArray E = Some ar" using CreateArray_mem by blast
  obtain kvs where kvs: "SafeAddStringToObject E (JObject []) FONT_PATH p = Some (JObject kvs)"
    using SafeAdd_progress by blast
  obtain ys where ys: "add_names E (JArray []) ns = Some (JArray ys)" using add_names_progress by blast
  obtain o2 where o2: "cJSON_AddItemToObject E (JObject kvs) FONT_FULL_NAME (JArray ys) = Some o2"
    using AddItemToObject_mem by blast
  show ?thesis
    using CreateObject [OF ob] CreateArray [OF ar] AddItemToObject [OF o2] ob ar kvs ys o2
    by (simp add: ConstructCJSON_def)
qed

lemma if_progress:
  "\<exists>k. x = Some (JObject k) \<Longrightarrow> \<exists>k. (if b then x else Some (JObject k0)) = Some (JObject k)"
  by auto

lemma ConstructScopeCJSON_progress: "\<exists>j. ConstructScopeCJSON E r = Some j"
proof -
  obtain k0 where k0: "ConstructCJSON E (fr_fontPath r) (fr_fullNames r) = Some (JObject k0)"
    using ConstructCJSON_progress by blast
  obtain k1 where k1: "(if fr_scope r \<ge> 0 then SafeAddNumberToObject E (JObject k0) FONT_SCOPE (fr_scope r)
      else Some (JObject k0)) = Some (JObject k1)" using if_progress [OF SafeAdd_progress(2)] by blast
  obtain k2 where k2: "(if fr_srcPath r \<noteq> [] then SafeAddStringToObject E (JObject k1) FONT_SRC_PATH (fr_srcPath r)
      else Some (JObject k1)) = Some (JObject k2)" using if_progress [OF SafeAdd_progress(1)] by blast
  obtain k3 where k3: "(if fr_appIdentifier r \<noteq> [] then SafeAddStringToObject E (JObject k2) FONT_APP_IDENTIFIER
      (fr_appIdentifier r) else Some (JObject k2)) = Some (JObject k3)"
    using if_progress [OF SafeAdd_progress(1)] by blast
  obtain k4 where k4: "(if fr_bundleName r \<noteq> [] then SafeAddStringToObject E (JObject k3) FONT_BUNDLE_NAME
      (fr_bundleName r) else Some (JObject k3)) = Some (JObject k4)"
    using if_progress [OF SafeAdd_progress(1)] by blast
  show ?thesis unfolding ConstructScopeCJSON_def k0 bind.bind_lunit k1 k2 k3 k4 by simp
qed

text \<open>The upgrade succeeds when the new document fits: the version member takes 14 characters.\<close>

lemma CheckAndUpdateFontRecord_succeeds:
  assumes load: "LoadConfig E w cfg = Some doc" and items: "items_of doc = Some xs" and disk: "disk_ok E w cfg"
    and room: "json_size (RefreshFullNames E w cfg doc) + 14 \<le> JSON_MEMORY"
  shows "fst (CheckAndUpdateFontRecord E w cfg)"
proof -
  from RefreshFullNames_doc [OF load items] obtain kvs where
    kvs: "RefreshFullNames E w cfg doc = JObject kvs" and ok: "json_ok (JObject kvs)"
    and same: "jmember (JObject kvs) FONT_VERSION = jmember doc FONT_VERSION" by blast
  let ?new = "JString FONT_CONFIG_VERSION_7"
  have size: "2 + length (fst kv) + json_size (snd kv) = 14" if "kv = (FONT_VERSION, ?new)" for kv
    using that by (simp add: FONT_VERSION_def FONT_CONFIG_VERSION_7_def)
  have wr: "fst (WriteToFile E w cfg (cJSON_Print E d))" if "json_ok d" "json_size d \<le> json_size (JObject kvs) + 14" for d
    using write_progress [OF load disk that(1)] that(2) room unfolding kvs by fastforce
  obtain j where j: "cJSON_CreateString E FONT_CONFIG_VERSION_7 = Some j" using CreateString_mem by blast
  then have jn: "j = ?new" using CreateString [OF j] by (simp add: version_cstring)
  obtain a where a: "SafeAddStringToObject E (JObject kvs) FONT_VERSION FONT_CONFIG_VERSION_7 = Some (JObject a)"
    using SafeAdd_progress(1) by blast
  have "a = kvs @ [(FONT_VERSION, ?new)]" using SafeAddString [OF a] by (simp add: version_cstring)
  then have "json_size (JObject a) \<le> json_size (JObject kvs) + 14"
    by (simp add: FONT_VERSION_def FONT_CONFIG_VERSION_7_def)
  with append_version(1) [OF ok a] have wa: "fst (WriteToFile E w cfg (cJSON_Print E (JObject a)))" by (rule wr)
  have wb: "\<exists>d. cJSON_ReplaceItemInObject E (JObject kvs) FONT_VERSION j = Some d \<and>
      fst (WriteToFile E w cfg (cJSON_Print E d))" if "jmember doc FONT_VERSION \<noteq> None"
  proof -
    from that same have "obj_find kvs FONT_VERSION \<noteq> None" using obj_find_jmember by metis
    then obtain d where d: "cJSON_ReplaceItemInObject E (JObject kvs) FONT_VERSION j = Some d"
      using ReplaceItemInObject_mem by blast
    from ReplaceItemInObject [OF this] obtain i where
      i: "obj_find kvs FONT_VERSION = Some i" "d = JObject (kvs[i := (FONT_VERSION, ?new)])" by (auto simp: jn)
    have "sum_list (map f (kvs[i := z])) \<le> sum_list (map f kvs) + (f z :: nat)" for f z
    proof (induction kvs arbitrary: i)
      case (Cons k ks)
      from Cons [of "i - 1"] show ?case by (cases i) auto
    qed simp
    from this [of "\<lambda>kv. 2 + length (fst kv) + json_size (snd kv)" "(FONT_VERSION, ?new)"] i(2)
    have "json_size d \<le> json_size (JObject kvs) + 14" by (simp only: json_size.simps size)
    with wr [of d] replace_version(1) [OF ok d [unfolded jn]] d show ?thesis by blast
  qed
  have mem: "map_option (item_at doc) (cJSON_GetObjectItem E doc FONT_VERSION) = jmember doc FONT_VERSION" by (rule member_eq)
  from wa wb show ?thesis
    by (auto simp: CheckAndUpdateFontRecord_def load Let_def mem kvs j a split: option.splits)
qed

lemma InsertFontRecordIfUnderLimit_progress:
  assumes items: "config_items E w cfg = Some xs" and disk: "disk_ok E w cfg"
    and size: "config_size E w cfg + json_size (user_item p ns) \<le> JSON_MEMORY" and few: "int (length xs) < m"
  shows "\<exists>w'. InsertFontRecordIfUnderLimit E w cfg p ns m = (ERR_OK, w') \<and>
     config_size E w' cfg \<le> config_size E w cfg + json_size (user_item p ns)"
  using items
proof (rule config_Some)
  fix doc q
  assume doc: "LoadConfig E w cfg = Some doc" "font_array E doc = Some (q, JArray xs)"
    "font_list E doc = Some (q, JArray xs)"
  obtain j where j: "ConstructCJSON E p ns = Some j" using ConstructCJSON_progress by blast
  obtain a where a: "cJSON_AddItemToArray E (JArray xs) j = Some a" using AddItemToArray_mem by blast
  have eq: "j = user_item p ns" "a = JArray (xs @ [user_item p ns])"
    using ConstructCJSON_eq [OF j] AddItemToArray [OF a] by simp_all
  obtain w' where "WriteToFile E w cfg (cJSON_Print E (item_put doc q a)) = (True, w')"
    "config_size E w' cfg = config_size E w cfg + json_size (user_item p ns)"
    using put_progress [OF items disk item_ok_user_item size doc(1,3)] unfolding eq by blast
  then show ?thesis
    using few j a by (auto simp: InsertFontRecordIfUnderLimit_def doc GetArraySize)
qed

lemma InsertScopeFontRecord_progress:
  assumes items: "config_items E w cfg = Some xs" and disk: "disk_ok E w cfg" and sc: "int32_range (fr_scope r)"
    and size: "config_size E w cfg + json_size (scope_item r) \<le> JSON_MEMORY"
  shows "fst (InsertScopeFontRecord E w cfg r)"
  using items
proof (rule config_Some)
  fix doc q
  assume doc: "LoadConfig E w cfg = Some doc" "font_list E doc = Some (q, JArray xs)"
  obtain j where j: "ConstructScopeCJSON E r = Some j" using ConstructScopeCJSON_progress by blast
  obtain a where a: "cJSON_AddItemToArray E (JArray xs) j = Some a" using AddItemToArray_mem by blast
  have eq: "j = scope_item r" "a = JArray (xs @ [scope_item r])"
    using ConstructScopeCJSON_eq [OF j sc] AddItemToArray [OF a] by simp_all
  obtain w' where "WriteToFile E w cfg (cJSON_Print E (item_put doc q a)) = (True, w')"
    using put_progress [OF items disk item_ok_scope_item [OF sc] size doc] unfolding eq by blast
  then show ?thesis using j a by (simp add: InsertScopeFontRecord_def doc)
qed

section \<open>Installing\<close>

lemma clear_stale_names_none:
  assumes "config_items E w cfg = Some xs" "\<forall>n\<in>set ns. \<forall>x\<in>set xs. \<not> named n x"
  shows "clear_stale_names E cfg ip ns w = (None, w)"
  using assms(2)
proof (induction ns)
  case (Cons n ns)
  then have "find (\<lambda>j. n \<in> set (jnames j)) xs = None"
    by (auto simp: find_None_iff named_def)
  with Cons show ?case by (simp add: GetFontFileByName_eq assms(1))
qed simp

lemma copyable_names: "copyable E w fd i \<Longrightarrow> \<forall>c. \<not> sys_fault E c \<Longrightarrow> GetFullNamesByFd E w fd = GetFontFullName E (fd_data i)"
  by (simp add: copyable_def GetFullNamesByFd_def)

lemma after_copy:
  assumes rdy: "ready E s u" and cp: "CopyFileForInstall E (s :: 'a fm_state_scheme) (a @ ''/'') n fd = (dest, w1)"
    and ok: "dest \<noteq> []" and n: "CHR ''/'' \<notin> set n"
    and dir: "resolve (a @ ''/'') = install_dir u @ as"
  shows "config_items E w1 (user_config u) = config_items E s (user_config u)"
    "config_size E w1 (user_config u) = config_size E s (user_config u)" "disk_ok E w1 (user_config u)"
proof -
  note node = CopyFileForInstall_config [OF cp ok n dir]
  show "config_items E w1 (user_config u) = config_items E s (user_config u)"
    by (rule config_items_cong [OF node])
  show "config_size E w1 (user_config u) = config_size E s (user_config u)"
    unfolding config_size_def LoadConfig_cong [OF node] ..
  have "node_at w1 (install_dir u) = node_at s (install_dir u)"
  proof (rule CopyFileForInstall_ok(3) [OF cp ok n])
    have "resolve dest = install_dir u @ as @ [copy_name E n]"
      unfolding CopyFileForInstall_ok(1) [OF cp ok n] resolve_dir_name [OF simple_copy_name [OF n]] dir by simp
    then show "install_dir u \<noteq> resolve dest" by (metis append_is_Nil_conv not_Cons_self2 self_append_conv)
    show "\<not> prefix (resolve (a @ ''/'') @ [''temp'', copy_name E n]) (install_dir u)"
      unfolding dir by (auto dest: prefix_length_le)
  qed
  with rdy show "disk_ok E w1 (user_config u)"
    unfolding disk_ok_def ready_def resolve_config butlast_snoc by simp
qed

text \<open>The second half of an installation: what it writes besides the font and its record, and how much.\<close>

lemma install_new_font_succeeds:
  fixes s :: "'a fm_state_scheme"
  assumes rdy: "ready E s u" and fd: "copyable E s fd i"
    and items: "config_items E s (user_config u) = Some xs"
    and few: "int (length xs) < GetMaxInstallNum E"
    and fname: "fname = copy_name E (GetFileName (GetFilePathByFd E s fd))"
    and free: "node_at s (install_dir u @ [fname]) \<noteq> Some Dir"
      "node_at s (install_dir u @ [''temp'', fname]) \<noteq> Some Dir"
    and size: "config_size E s (user_config u) + json_size (user_item (INSTALL_PATH_APP @ fname) ns) \<le> JSON_MEMORY"
  shows "\<exists>s'. install_new_font E (user_config u) (install_path u) fd u ns s = (ERR_OK, s') \<and>
     config_size E s' (user_config u)
       \<le> config_size E s (user_config u) + json_size (user_item (INSTALL_PATH_APP @ fname) ns) \<and>
     (\<forall>q. q \<noteq> install_dir u @ [FONT_CONFIG_FILE] \<longrightarrow> q \<noteq> install_dir u @ [fname] \<longrightarrow>
        \<not> prefix (install_dir u @ [''temp'', fname]) q \<longrightarrow> node_at s' q = node_at s q)"
proof -
  let ?n = "GetFileName (GetFilePathByFd E s fd)" and ?cfg = "user_config u"
  from rdy have faults: "\<forall>c. \<not> sys_fault E c" by (simp add: ready_def)
  obtain a where a: "install_path u = a @ ''/''" using install_path_dir by blast
  have dest: "fst (CopyFileForInstall E s (install_path u) ?n fd) = install_path u @ fname"
    unfolding fname a
    by (rule CopyFileForInstall_progress [OF faults fd GetFileName_no_slash])
      (use rdy free in \<open>simp_all add: ready_def fname flip: a\<close>)
  then obtain w1 where cp: "CopyFileForInstall E s (install_path u) ?n fd = (install_path u @ fname, w1)"
    by (cases "CopyFileForInstall E s (install_path u) ?n fd") simp
  have ne: "install_path u @ fname \<noteq> []" by simp
  note cp' = CopyFileForInstall_ok [OF cp [unfolded a] ne [unfolded a] GetFileName_no_slash]
  have dir: "resolve (a @ ''/'') = install_dir u @ []" by (simp add: a)
  note aft = after_copy [OF rdy cp [unfolded a] ne [unfolded a] GetFileName_no_slash dir]
  have dest_name: "GetFileName (install_path u @ fname) = fname"
    unfolding a fname by (rule GetFileName_dir) (rule copy_name_no_slash [OF GetFileName_no_slash])
  obtain w2 where ins: "InsertFontRecordIfUnderLimit E w1 ?cfg (INSTALL_PATH_APP @ fname) ns
      (GetMaxInstallNum E) = (ERR_OK, w2)"
    and size2: "config_size E w2 ?cfg \<le> config_size E s ?cfg + json_size (user_item (INSTALL_PATH_APP @ fname) ns)"
    using InsertFontRecordIfUnderLimit_progress [where w = w1 and xs = xs] aft items size few by metis
  let ?s' = "report_update E w2 (install_path u) u INSTALL (GetFormatFullName ns)"
  have run: "install_new_font E ?cfg (install_path u) fd u ns s = (ERR_OK, ?s')"
    using few cp ins ne dest_name
    by (simp add: install_new_font_def Let_def GetInstalledFontsNum_eq items)
  have "config_size E ?s' ?cfg = config_size E w2 ?cfg"
    unfolding config_size_def by (subst LoadConfig_cong [of ?s' ?cfg w2]) (simp_all add: node_at_report_update)
  moreover have "node_at ?s' q = node_at s q"
    if "q \<noteq> install_dir u @ [FONT_CONFIG_FILE]" "q \<noteq> install_dir u @ [fname]"
      "\<not> prefix (install_dir u @ [''temp'', fname]) q" for q
  proof -
    have rd: "resolve ((a @ ''/'') @ fname) = install_dir u @ [fname]"
      unfolding fname a by (rule resolve_dir_name) (rule simple_copy_name [OF GetFileName_no_slash])
    have "node_at w1 q = node_at s q"
      using that by (intro cp'(3)) (simp_all only: rd dir append_Nil2 flip: fname, simp_all)
    with InsertFontRecordIfUnderLimit_frame [OF ins] that(1) show ?thesis
      unfolding config_frame_def resolve_config node_at_report_update by simp
  qed
  ultimately show ?thesis using run size2 by auto
qed

lemma InstallFont_progress:
  fixes u :: int
  assumes rdy: "ready E s u" and fd: "copyable E s fd i"
    and items: "config_items E s (user_config u) = Some xs"
    and names: "GetFontFullName E (fd_data i) = ns" "ns \<noteq> []" "\<forall>n\<in>set ns. \<forall>x\<in>set xs. \<not> named n x"
    and few: "int (length xs) < GetMaxInstallNum E"
    and fname: "fname = copy_name E (GetFileName (GetFilePathByFd E s fd))"
    and free: "node_at s (install_dir u @ [fname]) \<noteq> Some Dir"
      "node_at s (install_dir u @ [''temp'', fname]) \<noteq> Some Dir"
    and size: "config_size E s (user_config u) + json_size (user_item (INSTALL_PATH_APP @ fname) ns) \<le> JSON_MEMORY"
  shows "\<exists>s'. InstallFont E s fd u = (ERR_OK, s') \<and>
     config_size E s' (user_config u)
       \<le> config_size E s (user_config u) + json_size (user_item (INSTALL_PATH_APP @ fname) ns) \<and>
     (\<forall>q. q \<noteq> install_dir u @ [FONT_CONFIG_FILE] \<longrightarrow> q \<noteq> install_dir u @ [fname] \<longrightarrow>
        \<not> prefix (install_dir u @ [''temp'', fname]) q \<longrightarrow> node_at s' q = node_at s q)"
proof -
  let ?cfg = "user_config u"
  from rdy have faults: "\<forall>c. \<not> sys_fault E c" and ok: "configs_ok s" by (auto simp: ready_def)
  obtain cfg s2 where get: "SafeGetOrCreateConfig s u (install_path u @ FONT_CONFIG_FILE) = (cfg, s2)"
    by fastforce
  note get' = SafeGetOrCreateConfig_eq [OF get ok]
  have fds2: "fds s2 = fds s" using get'(3) by (simp add: fm_frame_def)
  have rdy2: "ready E s2 u"
    using rdy get'(2,4) config_items_cong [OF get'(4), of E] by (simp add: ready_def)
  have items2: "config_items E s2 ?cfg = Some xs" unfolding config_items_cong [OF get'(4)] by (rule items)
  have fd2: "copyable E s2 fd i" using fd by (simp add: copyable_def fds2)
  have nm: "GetFullNamesByFd E s2 fd = ns" using copyable_names [OF fd2 faults] names(1) by simp
  have path: "GetFilePathByFd E s2 fd = GetFilePathByFd E s fd" by (simp add: GetFilePathByFd_def fds2)
  have eq: "config_size E s2 ?cfg = config_size E s ?cfg"
    unfolding config_size_def LoadConfig_cong [OF get'(4)] ..
  have "InstallFont E s fd u = install_new_font E ?cfg (install_path u) fd u ns s2"
    using clear_stale_names_none [OF items2 names(3)] names(2)
    by (simp add: InstallFont_def Let_def ready_init [OF rdy] get nm get'(1))
  then show ?thesis
    using install_new_font_succeeds [OF rdy2 fd2 items2 few, of fname ns] fname free size get'(4) eq path by auto
qed

lemmas InstallFont_succeeds = InstallFont_progress [THEN ex_fst]

end

end
