(* ===== verification/Manager_Removal.thy ===== *)
theory Manager_Removal
  imports Manager_Progress
begin

text \<open>
  When removing fonts and installing scope fonts succeed, under the conditions of
  \<open>Manager_Progress\<close>.
\<close>

section \<open>Removing\<close>

lemma remove_resolved_succeeds:
  assumes "\<forall>c. \<not> sys_fault E c"
  shows "(if c then RemoveFile E w p else (True, w)) = (True, if c then snd (RemoveFile E w p) else w)"
  using assms by (simp add: RemoveFile_def RemoveAll_def remove_all_def)

context config_memory
begin

text \<open>The common part of both removals: the file goes, then the first record with the given text.\<close>

lemma remove_record_progress:
  assumes rdy: "ready E s u" and items: "config_items E s (user_config u) = Some xs"
    and x: "\<exists>x\<in>set xs. has_text key v x"
    and p: "p = ValidateAndResolveRealPath E (install_path u) path"
    and safe: "resolve p \<noteq> install_dir u @ [FONT_CONFIG_FILE]"
    and size: "config_size E s (user_config u) \<le> JSON_MEMORY"
  shows "fst (delete_by_member E (if p \<noteq> [] \<and> CheckPathExist E s p then snd (RemoveFile E s p) else s)
    (user_config u) key v)"
proof -
  let ?w = "if p \<noteq> [] \<and> CheckPathExist E s p then snd (RemoveFile E s p) else s" and ?cfg = "user_config u"
  note keep = remove_resolved_keeps [OF p safe, of _ s]
  have n1: "node_at ?w (resolve (ConfigPath ?cfg)) = node_at s (resolve (ConfigPath ?cfg))"
    unfolding resolve_config by (rule keep) simp
  have "disk_ok E ?w ?cfg"
    using ready_disk [OF rdy] keep [of "install_dir u"] unfolding disk_ok_def resolve_config butlast_snoc by simp
  moreover have "config_items E ?w ?cfg = Some xs" using items unfolding config_items_cong [OF n1] .
  moreover have "config_size E ?w ?cfg \<le> JSON_MEMORY"
    using size unfolding config_size_def LoadConfig_cong [OF n1] .
  ultimately show ?thesis using delete_progress [OF _ x] by fastforce
qed

lemma ready_get:
  assumes "ready E s u" "SafeGetOrCreateConfig s u (install_path u @ FONT_CONFIG_FILE) = (cfg, s1)"
  shows "cfg = user_config u" "ready E s1 u" "config_items E s1 (user_config u) = config_items E s (user_config u)"
    "config_size E s1 (user_config u) = config_size E s (user_config u)" "\<And>q. node_at s1 q = node_at s q"
    "fds s1 = fds s" "LoadConfig E s1 (user_config u) = LoadConfig E s (user_config u)"
proof -
  from assms(1) have ok: "configs_ok s" by (simp add: ready_def)
  note get' = SafeGetOrCreateConfig_eq [OF assms(2) ok]
  show "cfg = user_config u" "\<And>q. node_at s1 q = node_at s q" by (rule get')+
  show items: "config_items E s1 (user_config u) = config_items E s (user_config u)"
    by (rule config_items_cong [OF get'(4)])
  show "LoadConfig E s1 (user_config u) = LoadConfig E s (user_config u)"
    by (rule LoadConfig_cong [OF get'(4)])
  then show "config_size E s1 (user_config u) = config_size E s (user_config u)" by (simp add: config_size_def)
  show "fds s1 = fds s" using get'(3) by (simp add: fm_frame_def)
  show "ready E s1 u" using assms(1) get'(2,4) items by (simp add: ready_def)
qed

lemma UninstallFont_succeeds:
  assumes rdy: "ready E s u" and items: "config_items E s (user_config u) = Some xs"
    and x: "find (named n) xs = Some x" "has_text FONT_PATH p x" "p \<noteq> []" "\<not> has_scope (\<lambda>v. v \<ge> 0) x"
    and n: "n \<noteq> []" and real: "ValidateAndResolveRealPath E (install_path u) p \<noteq> []"
    and safe: "resolve (ValidateAndResolveRealPath E (install_path u) p) \<noteq> install_dir u @ [FONT_CONFIG_FILE]"
    and size: "config_size E s (user_config u) \<le> JSON_MEMORY"
  shows "fst (UninstallFont E s n u) = ERR_OK"
proof -
  obtain cfg s1 where get: "SafeGetOrCreateConfig s u (install_path u @ FONT_CONFIG_FILE) = (cfg, s1)" by fastforce
  note g = ready_get [OF rdy get]
  let ?p = "ValidateAndResolveRealPath E (install_path u) p"
  have r: "GetFontRecordByName E s1 cfg n = Some (jrecord x)"
    using items x(1) by (simp add: GetFontRecordByName_eq g(1,3) named_def [abs_def])
  have rp: "fr_fontPath (jrecord x) = p" "\<not> fr_scope (jrecord x) \<ge> 0"
    using x(2,4) by (auto simp: jrecord_def jtext_def has_text_def has_scope_def split: option.splits)
  have ex: "\<exists>y\<in>set xs. has_text FONT_PATH p y" using x by (auto simp: find_Some_iff)
  let ?s2 = "if ?p \<noteq> [] \<and> CheckPathExist E s1 ?p then snd (RemoveFile E s1 ?p) else s1"
  have "fst (delete_by_member E ?s2 (user_config u) FONT_PATH p)"
    using remove_record_progress [OF g(2) _ ex refl safe] items size by (simp add: g(3,4))
  then obtain s3 where "DeleteFontRecord E ?s2 (user_config u) p = (True, s3)"
    by (cases "DeleteFontRecord E ?s2 (user_config u) p") (simp add: DeleteFontRecord_def)
  then show ?thesis
    using rdy remove_resolved_succeeds [of E "CheckPathExist E s1 ?p" s1 ?p]
    by (simp add: UninstallFont_def Let_def n get g(1) r [unfolded g(1)] rp x(3) real ready_def)
qed

lemma UninstallScopeFont_succeeds:
  assumes rdy: "ready E s u" and own: "owned_record E s (user_config u) url bundle tok = Some r"
    and url: "url \<noteq> []"
    and safe: "resolve (ValidateAndResolveRealPath E (install_path u) (fr_fontPath r))
      \<noteq> install_dir u @ [FONT_CONFIG_FILE]"
    and size: "config_size E s (user_config u) \<le> JSON_MEMORY"
  shows "fst (UninstallScopeFont E s url bundle tok u) = ERR_OK"
proof -
  obtain cfg s1 where get: "SafeGetOrCreateConfig s u (install_path u @ FONT_CONFIG_FILE) = (cfg, s1)" by fastforce
  note g = ready_get [OF rdy get]
  let ?p = "ValidateAndResolveRealPath E (install_path u) (fr_fontPath r)"
  have own1: "owned_record E s1 (user_config u) url bundle tok = Some r"
    using own by (simp add: owned_record_eq GetFontRecordByUrl_eq g(3))
  from own obtain xs where xs: "config_items E s (user_config u) = Some xs" "\<exists>y\<in>set xs. has_text FONT_SRC_PATH url y"
    by (auto simp: owned_record_eq GetFontRecordByUrl_eq find_Some_iff split: option.splits if_splits)
      (metis nth_mem)
  let ?s2 = "if ?p \<noteq> [] \<and> CheckPathExist E s1 ?p then snd (RemoveFile E s1 ?p) else s1"
  have "fst (delete_by_member E ?s2 (user_config u) FONT_SRC_PATH url)"
    using remove_record_progress [OF g(2) _ xs(2) refl safe] xs(1) size by (simp add: g(3,4))
  then obtain s3 where "DeleteScopeFontRecordByUrl E ?s2 (user_config u) url = (True, s3)"
    by (cases "DeleteScopeFontRecordByUrl E ?s2 (user_config u) url") (simp add: DeleteScopeFontRecordByUrl_def)
  then show ?thesis
    using rdy remove_resolved_succeeds [of E "?p \<noteq> [] \<and> CheckPathExist E s1 ?p" s1 ?p]
    by (simp add: UninstallScopeFont_def Let_def url get g(1) own1 ready_def)
qed

end

section \<open>Installing a scope font\<close>

lemma not_forbidden: "p \<noteq> [] \<Longrightarrow> CHR ''.'' \<notin> set p \<Longrightarrow> \<not> forbidden_path p"
  by (auto simp: forbidden_path_def sublist_def)

lemma ensure_dir_progress:
  assumes "\<forall>c. \<not> sys_fault E c" "node_at w (resolve p) = None \<or> node_at w (resolve p) = Some Dir"
    "can_create w p" "p \<noteq> []" "CHR ''.'' \<notin> set p"
  shows "\<exists>w'. ensure_dir E w p = (True, w') \<and> fds w' = fds w \<and>
    (\<forall>q. node_at w' q = (if q = resolve p then Some Dir else node_at w q))"
proof (cases "node_at w (resolve p)")
  case None
  have "resolve p \<noteq> []" using assms(3) by (simp add: can_create_def)
  with None assms show ?thesis
    by (simp add: ensure_dir_def CheckPathExist_def path_exists_def CreateDirWithPermission_def not_forbidden
        create_directory_def world_simps)
next
  case (Some n)
  with assms have "n = Dir" by simp
  with Some assms show ?thesis by (auto simp: ensure_dir_def CheckPathExist_def path_exists_def)
qed

text \<open>The directory of an application is made when it is not there.\<close>

definition app_dir_free :: "'a world_scheme \<Rightarrow> int \<Rightarrow> string \<Rightarrow> string \<Rightarrow> bool" where
  "app_dir_free w u app f \<longleftrightarrow>
     node_at w (install_dir u @ [app]) \<in> {None, Some Dir} \<and>
     node_at w (install_dir u @ [app, ''temp'']) \<in> {None, Some Dir} \<and>
     node_at w (install_dir u @ [app, f]) \<noteq> Some Dir \<and>
     node_at w (install_dir u @ [app, ''temp'', f]) \<noteq> Some Dir"

lemma to_string_no_dot: "CHR ''.'' \<notin> set (to_string i)"
  by (auto simp: to_string_def is_digit_def dest: nat_digits_all_digits split: if_splits)

lemma install_path_no_dot: "CHR ''.'' \<notin> set (install_path u)"
  by (simp add: install_path_def path_defs to_string_no_dot)

lemma scope_dirs_progress:
  assumes faults: "\<forall>c. \<not> sys_fault E c" and app: "simple_name app" "CHR ''.'' \<notin> set app"
    and root: "node_at w (install_dir u) = Some Dir" and free: "app_dir_free w u app f"
  shows "\<exists>w'. CheckAndInitScopeFontPath E w (GetAppInstallPath u app) = (True, w') \<and> fds w' = fds w \<and>
    node_at w' (install_dir u @ [app]) = Some Dir \<and> node_at w' (install_dir u @ [app, ''temp'']) = Some Dir \<and>
    (\<forall>q. q \<noteq> install_dir u @ [app] \<longrightarrow> q \<noteq> install_dir u @ [app, ''temp''] \<longrightarrow> node_at w' q = node_at w q)"
proof -
  let ?d = "GetAppInstallPath u app"
  have rd: "resolve ?d = install_dir u @ [app]" by (rule resolve_app_dir [OF app(1)])
  have rt: "resolve (?d @ TEMP_FILE) = install_dir u @ [app, ''temp'']"
    using resolve_dir_temp [of "install_path u @ app"] rd unfolding GetAppInstallPath_eq by simp
  have dots: "CHR ''.'' \<notin> set ?d" "CHR ''.'' \<notin> set (?d @ TEMP_FILE)"
    using app(2) install_path_no_dot by (simp_all add: GetAppInstallPath_eq TEMP_FILE_def)
  have ne: "?d \<noteq> []" "?d @ TEMP_FILE \<noteq> []" by (simp_all add: GetAppInstallPath_eq)
  have "can_create w ?d" using root unfolding can_create_def rd by simp
  from ensure_dir_progress [OF faults _ this ne(1) dots(1)] free obtain w1 where
    1: "ensure_dir E w ?d = (True, w1)" "fds w1 = fds w"
      "\<forall>q. node_at w1 q = (if q = install_dir u @ [app] then Some Dir else node_at w q)"
    unfolding rd by (auto simp: app_dir_free_def)
  have "can_create w1 (?d @ TEMP_FILE)"
    using 1(3) unfolding can_create_def rt by (simp add: butlast_append)
  from ensure_dir_progress [OF faults _ this ne(2) dots(2)] 1(3) free obtain w2 where
    2: "ensure_dir E w1 (?d @ TEMP_FILE) = (True, w2)" "fds w2 = fds w1"
      "\<forall>q. node_at w2 q = (if q = install_dir u @ [app, ''temp''] then Some Dir else node_at w1 q)"
    unfolding rt by (auto simp: app_dir_free_def)
  from 1 2 show ?thesis by (simp add: CheckAndInitScopeFontPath_def)
qed

context config_memory
begin

lemma CopyAndInsertScopeFont_progress:
  fixes s :: "'a fm_state_scheme" and info :: ScopeFontInstallInfo
  defines "u \<equiv> si_userId info"
  assumes rdy: "ready E s u" and fd: "copyable E s (si_fd info) i"
    and items: "config_items E s (user_config u) = Some xs"
    and app: "simple_name (si_appIdentifier info)" "CHR ''.'' \<notin> set (si_appIdentifier info)"
    and sc: "si_scope info \<in> {FONT_SCOPE_APP, FONT_SCOPE_SESSION}"
    and fname: "fname = copy_name E (GetFileName (GetFilePathByFd E s (si_fd info)))"
    and free: "app_dir_free s u (si_appIdentifier info) fname"
    and size: "config_size E s (user_config u) + json_size (scope_item (scope_record info fname ns)) \<le> JSON_MEMORY"
  shows "fst (CopyAndInsertScopeFont E s info (user_config u) ns) = ERR_OK"
proof -
  let ?app = "si_appIdentifier info" and ?cfg = "user_config u"
  let ?n = "GetFileName (GetFilePathByFd E s (si_fd info))" and ?a = "install_path u @ si_appIdentifier info"
  from rdy have faults: "\<forall>c. \<not> sys_fault E c" and root: "node_at s (install_dir u) = Some Dir" by (auto simp: ready_def)
  obtain w1 where init: "CheckAndInitScopeFontPath E s (GetAppInstallPath u ?app) = (True, w1)" and fds: "fds w1 = fds s"
    and dirs: "node_at w1 (install_dir u @ [?app]) = Some Dir" "node_at w1 (install_dir u @ [?app, ''temp'']) = Some Dir"
    and other: "\<And>q. q \<noteq> install_dir u @ [?app] \<Longrightarrow> q \<noteq> install_dir u @ [?app, ''temp''] \<Longrightarrow> node_at w1 q = node_at s q"
    using scope_dirs_progress [OF faults app root free] by blast
  have dir: "GetAppInstallPath u ?app = ?a @ ''/''" by (rule GetAppInstallPath_eq)
  have rdir: "resolve (?a @ ''/'') = install_dir u @ [?app]" using resolve_app_dir [OF app(1), of u] unfolding dir .
  have fname1: "fname = copy_name E (GetFileName (GetFilePathByFd E w1 (si_fd info)))"
    by (simp add: fname GetFilePathByFd_def fds)
  have nodef: "fname \<noteq> ''temp''" by (simp add: fname)
  have "fst (CopyFileForInstall E w1 (?a @ ''/'') ?n (si_fd info)) = (?a @ ''/'') @ fname"
    unfolding fname
  proof (rule CopyFileForInstall_progress [OF faults _ GetFileName_no_slash])
    show "copyable E w1 (si_fd info) i" using fd by (simp add: copyable_def fds)
    show "node_at w1 (resolve (?a @ ''/'')) = Some Dir" "node_at w1 (resolve (?a @ ''/'') @ [''temp'']) = Some Dir"
      unfolding rdir using dirs by simp_all
    show "node_at w1 (resolve (?a @ ''/'') @ [copy_name E ?n]) \<noteq> Some Dir"
      "node_at w1 (resolve (?a @ ''/'') @ [''temp'', copy_name E ?n]) \<noteq> Some Dir"
      unfolding rdir fname [symmetric] using other [of "install_dir u @ [?app, fname]"]
        other [of "install_dir u @ [?app, ''temp'', fname]"] free nodef by (simp_all add: app_dir_free_def)
  qed
  then obtain w2 where cp: "CopyFileForInstall E w1 (?a @ ''/'') ?n (si_fd info) = ((?a @ ''/'') @ fname, w2)"
    by (cases "CopyFileForInstall E w1 (?a @ ''/'') ?n (si_fd info)") simp
  have noconf: "?app \<noteq> FONT_CONFIG_FILE" using app(2) by (auto simp: FONT_CONFIG_FILE_def)
  have conf: "node_at w1 (resolve (ConfigPath ?cfg)) = node_at s (resolve (ConfigPath ?cfg))"
    "node_at w1 (install_dir u) = node_at s (install_dir u)"
    unfolding resolve_config using dirs root other [of "install_dir u"] other [of "install_dir u @ [FONT_CONFIG_FILE]"]
      noconf by simp_all
  have items1: "config_items E w1 ?cfg = Some xs" using items unfolding config_items_cong [OF conf(1)] .
  have size1: "config_size E w1 ?cfg = config_size E s ?cfg" unfolding config_size_def LoadConfig_cong [OF conf(1)] ..
  note aft = CopyFileForInstall_config [OF cp _ GetFileName_no_slash rdir]
  have items2: "config_items E w2 ?cfg = Some xs" and size2: "config_size E w2 ?cfg = config_size E s ?cfg"
    using items1 size1 config_items_cong [OF aft, of E] LoadConfig_cong [OF aft, of E] by (simp_all add: config_size_def)
  have "node_at w2 (install_dir u) = Some Dir"
  proof -
    have ne: "(?a @ ''/'') @ fname \<noteq> []" by simp
    have "node_at w2 (install_dir u) = node_at w1 (install_dir u)"
    proof (rule CopyFileForInstall_ok(3) [OF cp ne GetFileName_no_slash])
      have "resolve ((?a @ ''/'') @ fname) = install_dir u @ [?app, fname]"
        using resolve_dir_name [OF simple_copy_name [OF GetFileName_no_slash], of ?a] rdir unfolding fname by simp
      then show "install_dir u \<noteq> resolve ((?a @ ''/'') @ fname)" by simp
      show "\<not> prefix (resolve (?a @ ''/'') @ [''temp'', copy_name E ?n]) (install_dir u)"
        unfolding rdir by (auto dest: prefix_length_le)
    qed
    with conf(2) root show ?thesis by simp
  qed
  then have disk2: "disk_ok E w2 ?cfg"
    using ready_disk [OF rdy] unfolding disk_ok_def resolve_config butlast_snoc by simp
  have "int32_range (fr_scope (scope_record info fname ns))" using sc by (auto simp: int32_range_def err_defs)
  from InsertScopeFontRecord_progress [OF items2 disk2 this] size size2 obtain w3 where
    ins: "InsertScopeFontRecord E w2 ?cfg (scope_record info fname ns) = (True, w3)"
    by (cases "InsertScopeFontRecord E w2 ?cfg (scope_record info fname ns)") simp
  have name: "GetFileName ((?a @ ''/'') @ fname) = fname"
    unfolding fname by (rule GetFileName_dir) (rule copy_name_no_slash [OF GetFileName_no_slash])
  have "GetFilePathByFd E w1 (si_fd info) = GetFilePathByFd E s (si_fd info)"
    by (simp add: GetFilePathByFd_def fds)
  then show ?thesis
    using init cp ins name unfolding CopyAndInsertScopeFont_def Let_def u_def [symmetric] dir
    by (simp del: append_assoc)
qed

lemma InstallScopeFont_succeeds:
  fixes s :: "'a fm_state_scheme" and info :: ScopeFontInstallInfo
  defines "u \<equiv> si_userId info"
  assumes rdy: "ready E s u" and fd: "copyable E s (si_fd info) i"
    and doc: "LoadConfig E s (user_config u) = Some doc" "at_version_7 doc" "items_of doc = Some xs"
    and app: "simple_name (si_appIdentifier info)" "CHR ''.'' \<notin> set (si_appIdentifier info)"
    and sc: "si_scope info \<in> {FONT_SCOPE_APP, FONT_SCOPE_SESSION}"
    and names: "GetFontFullName E (fd_data i) = ns" "ns \<noteq> []"
    and fresh: "\<forall>x\<in>set xs. \<not> has_text FONT_SRC_PATH (si_srcPath info) x \<and> (\<forall>n\<in>set ns. \<not> named n x)"
    and few: "int (length xs) < GetMaxInstallNum E"
    and fname: "fname = copy_name E (GetFileName (GetFilePathByFd E s (si_fd info)))"
    and free: "app_dir_free s u (si_appIdentifier info) fname"
    and size: "config_size E s (user_config u) + json_size (scope_item (scope_record info fname ns)) \<le> JSON_MEMORY"
  shows "fst (InstallScopeFont E s info) = ERR_OK"
proof -
  obtain cfg s1 where get: "SafeGetOrCreateConfig s u (install_path u @ FONT_CONFIG_FILE) = (cfg, s1)" by fastforce
  note g = ready_get [OF rdy get]
  from rdy have faults: "\<forall>c. \<not> sys_fault E c" by (simp add: ready_def)
  have items: "config_items E s1 (user_config u) = Some xs" using doc unfolding g(3) by (simp add: config_items_def)
  have up: "CheckAndUpdateFontRecord E s1 (user_config u) = (True, s1)"
    by (rule CheckAndUpdateFontRecord_current) (use doc g(7) in simp_all)
  have fd1: "copyable E s1 (si_fd info) i" using fd by (simp add: copyable_def g(6))
  have val: "ValidateScopeFontForInstall E s1 (user_config u) (si_srcPath info) (si_fd info) = (ERR_OK, ns)"
    using fresh few names copyable_names [OF fd1 faults]
    by (auto simp: ValidateScopeFontForInstall_def Let_def GetFontRecordByUrl_eq GetFontRecordByName_eq items
        GetTotalInstalledFontsNum_eq GetInstalledFontsNum_eq list_ex_iff named_def find_Some_iff)
  have path: "GetFilePathByFd E s1 (si_fd info) = GetFilePathByFd E s (si_fd info)" by (simp add: GetFilePathByFd_def g(6))
  have "fst (CopyAndInsertScopeFont E s1 info (user_config u) ns) = ERR_OK"
    unfolding u_def
    by (rule CopyAndInsertScopeFont_progress [where i = i and xs = xs and fname = fname])
      (use g(2,4,5) fd1 items app sc fname path free size in \<open>simp_all add: u_def app_dir_free_def\<close>)
  then show ?thesis
    using sc get up val g(1) by (auto simp: InstallScopeFont_def Let_def u_def [symmetric] ready_init [OF rdy]
        split: prod.split)
qed

end

end
