(* ===== verification/Reference_Runs.thy ===== *)
theory Reference_Runs
  imports Reference_World Manager_Removal
begin

text \<open>
  Runs of the manager in the environment of \<open>Reference_World\<close>, on a configuration file with given
  records: they show that the conditions of the laws can hold together.
\<close>

section \<open>A configuration with given records\<close>

definition ref_doc :: "cJSON list \<Rightarrow> cJSON" where
  "ref_doc xs = JObject [(FONT_LIST, JArray xs), (FONT_VERSION, JString FONT_CONFIG_VERSION_7)]"

definition ref_saved :: "cJSON list \<Rightarrow> file_tree \<Rightarrow> server_state" where
  "ref_saved xs fonts = ref_state (encode (ref_doc xs)) fonts"

definition ref_records :: "cJSON list \<Rightarrow> bool" where
  "ref_records xs \<longleftrightarrow> (\<forall>x\<in>set xs. item_ok x) \<and> json_size (ref_doc xs) \<le> 100000"

lemma ref_doc_ok: "\<forall>x\<in>set xs. item_ok x \<Longrightarrow> json_ok (ref_doc xs)"
  by (simp add: ref_doc_def CJSON_NESTING_LIMIT_def eval_nat_numeral)

lemma ref_doc_items [simp]: "items_of (ref_doc xs) = Some xs" "at_version_7 (ref_doc xs)"
  by (simp_all add: ref_doc_def items_of_def at_version_7_def jstring_def jmember_simps)

lemma ref_saved_load:
  assumes "ref_records xs"
  shows "LoadConfig ref_env (ref_saved xs fonts) (user_config 100) = Some (ref_doc xs)"
  using assms unfolding ref_saved_def
  by (intro ref_items_encode ref_doc_ok) (simp_all add: ref_records_def JSON_MEMORY_def)

lemma ref_saved_items:
  "ref_records xs \<Longrightarrow> config_items ref_env (ref_saved xs fonts) (user_config 100) = Some xs"
  by (simp add: config_items_def ref_saved_load)

lemma ref_saved_size:
  "ref_records xs \<Longrightarrow> config_size ref_env (ref_saved xs fonts) (user_config 100) \<le> 100000"
  by (simp add: config_size_def ref_saved_load ref_records_def)

lemma ref_ready:
  assumes "config_items ref_env (ref_state conf fonts) (user_config 100) \<noteq> None"
  shows "ready ref_env (ref_state conf fonts) 100"
  using assms by (simp add: ready_def ref_state_configs ref_node_at install_dir_100)

lemma ref_saved_ready: "ref_records xs \<Longrightarrow> ready ref_env (ref_saved xs fonts) 100"
  using ref_saved_items [of xs fonts] by (simp add: ref_saved_def ref_ready)

lemma ref_saved_configs [simp]: "configs_ok (ref_saved xs fonts)" "configs_ok ref_fresh"
  by (simp_all add: ref_saved_def ref_state_configs)

section \<open>The fonts that are open\<close>

lemma ref_copyable:
  "copyable ref_env (ref_state conf fonts) 3 \<lparr>fd_path = ''/storage/a.ttf'', st_size = 3, fd_data = ''abc''\<rparr>"
  by (simp add: copyable_def ref_state_def MAX_FONT_FILE_SIZE_def)

lemma ref_path: "GetFilePathByFd ref_env (ref_state conf fonts) 3 = ''/storage/a.ttf''"
  by (simp add: GetFilePathByFd_def ref_state_def PATH_MAX_def is_cstring_def NUL_def)

lemma ref_names: "GetFullNamesByFd ref_env (ref_state conf fonts) 3 = [''Abc'']"
  by (simp add: GetFullNamesByFd_def ref_state_def MAX_FONT_FILE_SIZE_def)

lemma ref_base: "GetFileName ''/storage/a.ttf'' = ''a.ttf''"
  using GetFileName_append [of "''a.ttf''" "''/storage''"] by simp

definition ref_copy :: string where
  "ref_copy = copy_name ref_env ''a.ttf''"

lemma ref_copy_not [simp]: "ref_copy \<noteq> ''temp''" "ref_copy \<noteq> FONT_CONFIG_FILE" "FONT_CONFIG_FILE \<noteq> ref_copy"
  "''temp'' \<noteq> ref_copy"
  using copy_name_not_config [of ref_env "''a.ttf''"] unfolding ref_copy_def by metis+

lemma ref_max: "GetMaxInstallNum ref_env = DEFAULT_MAX_INSTALL_NUM"
  by (simp add: GetMaxInstallNum_def)

lemma ref_copy_length: "length ref_copy = 23"
proof -
  have "to_string 7 = ''7''" by code_simp
  moreover have "GetFileTime ref_env = ''20250102-030405''" by code_simp
  ultimately show ?thesis by (simp add: ref_copy_def copy_name_def ref_env_def)
qed

section \<open>How large the records are\<close>

lemma length_c_str: "length (c_str s) \<le> length s"
  by (simp add: c_str_def length_takeWhile_le)

lemma sum_c_str: "sum_list (map (\<lambda>n. 2 + length (c_str n)) ns) \<le> sum_list (map (\<lambda>n. 2 + length n) ns)"
  using length_c_str by (intro sum_list_mono) simp

lemma user_item_size: "json_size (user_item p ns) \<le> 50 + length p + sum_list (map (\<lambda>n. 2 + length n) ns)"
  using length_c_str [of p] sum_c_str [of ns]
  by (simp add: user_item_def FONT_PATH_def FONT_FULL_NAME_def comp_def)

lemma text_member_size:
  "sum_list (map (\<lambda>kv. 2 + length (fst kv) + json_size (snd kv)) (text_member key v)) \<le> 4 + length key + length v"
  using length_c_str [of v] by (simp add: text_member_def)

lemma install_path_app_length: "length INSTALL_PATH_APP = 43"
  by (simp add: INSTALL_PATH_APP_def)

lemma ref_fresh_size: "config_size ref_env ref_fresh (user_config 100) \<le> 100"
  by (simp add: config_size_def ref_fresh_load default_config_def FONT_LIST_def FONT_VERSION_def
      FONT_CONFIG_VERSION_7_def)

lemma ref_doc_size: "json_size (ref_doc xs) = 26 + sum_list (map json_size xs)"
  by (simp add: ref_doc_def FONT_LIST_def FONT_VERSION_def FONT_CONFIG_VERSION_7_def)

section \<open>Installing\<close>

abbreviation ref_fd :: fd_info where
  "ref_fd \<equiv> \<lparr>fd_path = ''/storage/a.ttf'', st_size = 3, fd_data = ''abc''\<rparr>"

text \<open>The conditions under which an installation succeeds, one by one.\<close>

lemma ref_install_conditions:
  shows "ready ref_env ref_fresh 100" "copyable ref_env ref_fresh 3 ref_fd"
    "config_items ref_env ref_fresh (user_config 100) = Some []" "GetFontFullName ref_env (fd_data ref_fd) = [''Abc'']"
    "[''Abc''] \<noteq> []" "\<forall>n\<in>set [''Abc'']. \<forall>x\<in>set []. \<not> named n x" "int (length []) < GetMaxInstallNum ref_env"
    "ref_copy = copy_name ref_env (GetFileName (GetFilePathByFd ref_env ref_fresh 3))"
    "node_at ref_fresh (install_dir 100 @ [ref_copy]) \<noteq> Some Dir"
    "node_at ref_fresh (install_dir 100 @ [''temp'', ref_copy]) \<noteq> Some Dir"
    "config_size ref_env ref_fresh (user_config 100) + json_size (user_item (INSTALL_PATH_APP @ ref_copy) [''Abc''])
       \<le> JSON_MEMORY"
  using user_item_size [of "INSTALL_PATH_APP @ ref_copy" "[''Abc'']"] ref_fresh_size
  by (simp_all add: ref_ready ref_fresh_items ref_copyable ref_max DEFAULT_MAX_INSTALL_NUM_def ref_path ref_base
      ref_node_at install_dir_100 ref_copy_length install_path_app_length JSON_MEMORY_def flip: ref_copy_def)

lemma ref_install: "\<exists>s'. InstallFont ref_env ref_fresh 3 100 = (ERR_OK, s')"
  using config_memory.InstallFont_succeeds [OF ref_env_memory ref_install_conditions]
  by (cases "InstallFont ref_env ref_fresh 3 100") simp

section \<open>A user's font that is installed\<close>

definition ref_font :: cJSON where
  "ref_font = user_item (INSTALL_PATH_APP @ ''a.ttf'') [''Abc'']"

definition ref_font_file :: file_tree where
  "ref_font_file = [(ref_dir @ [''a.ttf''], File ''abc'')]"

lemma ref_font_records: "ref_records [ref_font]"
  using user_item_size [of "INSTALL_PATH_APP @ ''a.ttf''" "[''Abc'']"]
  by (simp add: ref_records_def ref_font_def item_ok_user_item ref_doc_size install_path_app_length)

lemma ref_font_text [simp]: "has_text FONT_PATH p ref_font \<longleftrightarrow> p = INSTALL_PATH_APP @ ''a.ttf''" "jnames ref_font = [''Abc'']"
  "\<not> has_scope P ref_font" "jstring ref_font FONT_SRC_PATH = None"
proof -
  have ct: "is_cstring (INSTALL_PATH_APP @ ''a.ttf'')" "is_cstring ''Abc''"
    by (simp_all add: INSTALL_PATH_APP_def NUL_def)
  then show "has_text FONT_PATH p ref_font \<longleftrightarrow> p = INSTALL_PATH_APP @ ''a.ttf''"
    by (auto simp: has_text_def ref_font_def jstring_user_item)
  show "jnames ref_font = [''Abc'']"
    using jrecord_user_item [of "INSTALL_PATH_APP @ ''a.ttf''" "[''Abc'']"] ct
    by (simp add: jrecord_def ref_font_def empty_record_def)
  show "\<not> has_scope P ref_font" "jstring ref_font FONT_SRC_PATH = None"
    by (simp_all add: has_scope_def ref_font_def user_item_def jnumber_def jstring_def jmember_simps)
qed

lemma ref_resolve_path:
  assumes "simple_name f" "CHR 0x5C \<notin> set f"
  shows "ValidateAndResolveRealPath ref_env (install_path 100) (INSTALL_PATH_APP @ f) = path_string (ref_dir @ [f])"
proof -
  obtain a where a: "INSTALL_PATH_APP = a @ ''/''" by (simp add: INSTALL_PATH_APP_def)
  have name: "GetFileName (INSTALL_PATH_APP @ f) = f"
    using assms(1) GetFileName_append [of f a] by (simp add: a simple_name_def)
  have real: "SandBoxPathToRealPath (install_path 100) (INSTALL_PATH_APP @ f) = install_path 100 @ f"
    by (simp add: SandBoxPathToRealPath_def)
  have "resolve (install_path 100 @ f) = ref_dir @ [f]"
    using resolve_install_path_name [OF assms(1), of 100] by (simp add: install_dir_100)
  moreover have "last (path_string ref_dir) \<noteq> CHR ''/''" "path_string ref_dir \<noteq> []"
    by (simp_all add: path_string_def ref_dir_def)
  moreover have "path_string (ref_dir @ [f]) = path_string ref_dir @ CHR ''/'' # f"
    by (simp add: path_string_def)
  ultimately show ?thesis
    using assms by (auto simp: ValidateAndResolveRealPath_def weakly_canonical_def name real Let_def simple_name_def)
qed

lemma ref_font_path:
  "ValidateAndResolveRealPath ref_env (install_path 100) (INSTALL_PATH_APP @ ''a.ttf'') = path_string (ref_dir @ [''a.ttf''])"
  by (rule ref_resolve_path) (simp_all add: simple_name_def)

lemma resolve_ref_dir: "simple_name f \<Longrightarrow> resolve (path_string (ref_dir @ [f])) = ref_dir @ [f]"
  by (rule resolve_path_string) (auto simp: ref_dir_def simple_name_def)

lemma ref_uninstall_conditions:
  shows "ready ref_env (ref_saved [ref_font] ref_font_file) 100"
    "config_items ref_env (ref_saved [ref_font] ref_font_file) (user_config 100) = Some [ref_font]"
    "find (named ''Abc'') [ref_font] = Some ref_font" "has_text FONT_PATH (INSTALL_PATH_APP @ ''a.ttf'') ref_font"
    "INSTALL_PATH_APP @ ''a.ttf'' \<noteq> []" "\<not> has_scope (\<lambda>v. v \<ge> 0) ref_font" "''Abc'' \<noteq> []"
    "ValidateAndResolveRealPath ref_env (install_path 100) (INSTALL_PATH_APP @ ''a.ttf'') \<noteq> []"
    "resolve (ValidateAndResolveRealPath ref_env (install_path 100) (INSTALL_PATH_APP @ ''a.ttf''))
       \<noteq> install_dir 100 @ [FONT_CONFIG_FILE]"
    "config_size ref_env (ref_saved [ref_font] ref_font_file) (user_config 100) \<le> JSON_MEMORY"
proof -
  show "resolve (ValidateAndResolveRealPath ref_env (install_path 100) (INSTALL_PATH_APP @ ''a.ttf''))
       \<noteq> install_dir 100 @ [FONT_CONFIG_FILE]"
    using resolve_ref_dir [of "''a.ttf''"]
    by (simp add: ref_font_path install_dir_100 simple_name_def FONT_CONFIG_FILE_def)
qed (use ref_saved_size [OF ref_font_records, of ref_font_file] in
    \<open>simp_all add: ref_saved_ready ref_saved_items ref_font_records named_def ref_font_path path_string_def
       JSON_MEMORY_def\<close>)

lemma ref_uninstall: "\<exists>s'. UninstallFont ref_env (ref_saved [ref_font] ref_font_file) ''Abc'' 100 = (ERR_OK, s')"
  using config_memory.UninstallFont_succeeds [OF ref_env_memory ref_uninstall_conditions]
  by (cases "UninstallFont ref_env (ref_saved [ref_font] ref_font_file) ''Abc'' 100") simp

section \<open>Scope fonts\<close>

definition ref_info :: ScopeFontInstallInfo where
  "ref_info = \<lparr>si_fd = 3, si_scope = FONT_SCOPE_SESSION, si_srcPath = ''/storage/a.ttf'', si_bundleName = ''com.app'',
     si_appIdentifier = MakeAppIdentifier FONT_SCOPE_SESSION 5, si_userId = 100\<rparr>"

definition ref_scope_font :: cJSON where
  "ref_scope_font = scope_item (scope_record ref_info ''f.ttf'' [''Abc''])"

lemma ref_app: "MakeAppIdentifier FONT_SCOPE_SESSION 5 = SESSION_FONT_DIR_PREFIX @ ''5''"
proof -
  have "to_string 5 = ''5''" by code_simp
  then show ?thesis by (simp add: MakeAppIdentifier_def err_defs)
qed

lemma scope_item_size:
  "json_size (scope_item r) \<le> 150 + length (fr_fontPath r) + sum_list (map (\<lambda>n. 2 + length n) (fr_fullNames r))
     + length (to_string (fr_scope r)) + length (fr_srcPath r) + length (fr_appIdentifier r) + length (fr_bundleName r)"
  using length_c_str [of "fr_fontPath r"] sum_c_str [of "fr_fullNames r"] text_member_size [of FONT_SRC_PATH "fr_srcPath r"]
    text_member_size [of FONT_APP_IDENTIFIER "fr_appIdentifier r"] text_member_size [of FONT_BUNDLE_NAME "fr_bundleName r"]
  by (simp add: scope_item_def FONT_PATH_def FONT_FULL_NAME_def FONT_SCOPE_def FONT_SRC_PATH_def FONT_APP_IDENTIFIER_def
      FONT_BUNDLE_NAME_def comp_def)

lemma session_prefix_length: "length SESSION_FONT_DIR_PREFIX \<le> 30"
  by (simp add: path_defs)

lemma ref_scope_size:
  "length f \<le> 30 \<Longrightarrow> json_size (scope_item (scope_record ref_info f [''Abc''])) \<le> 500"
proof -
  have "length (to_string FONT_SCOPE_SESSION) = 1" by code_simp
  then show "length f \<le> 30 \<Longrightarrow> ?thesis"
    using scope_item_size [of "scope_record ref_info f [''Abc'']"] session_prefix_length install_path_app_length
    by (simp add: ref_info_def ref_app)
qed

lemma ref_scope_range: "int32_range (si_scope ref_info)" "int32_range FONT_SCOPE_SESSION"
  by (simp_all add: ref_info_def int32_range_def err_defs)

lemma ref_scope_records: "ref_records [ref_scope_font]"
  using ref_scope_size [of "''f.ttf''"] ref_scope_range
  by (simp add: ref_records_def ref_scope_font_def ref_doc_size item_ok_scope_item)

lemma ref_simple_app: "simple_name (si_appIdentifier ref_info)" "CHR ''.'' \<notin> set (si_appIdentifier ref_info)"
  by (simp_all add: ref_info_def simple_name_MakeAppIdentifier) (simp add: ref_app path_defs)

lemma ref_no_records: "ref_records []"
  by (simp add: ref_records_def ref_doc_size)

lemma ref_info_simps [simp]: "si_fd ref_info = 3" "si_userId ref_info = 100" "si_scope ref_info = FONT_SCOPE_SESSION"
  by (simp_all add: ref_info_def)

lemma ref_install_scope_conditions:
  shows "ready ref_env (ref_saved [] []) (si_userId ref_info)" "copyable ref_env (ref_saved [] []) (si_fd ref_info) ref_fd"
    "LoadConfig ref_env (ref_saved [] []) (user_config (si_userId ref_info)) = Some (ref_doc [])"
    "at_version_7 (ref_doc [])" "items_of (ref_doc []) = Some []"
    "simple_name (si_appIdentifier ref_info)" "CHR ''.'' \<notin> set (si_appIdentifier ref_info)"
    "si_scope ref_info \<in> {FONT_SCOPE_APP, FONT_SCOPE_SESSION}" "GetFontFullName ref_env (fd_data ref_fd) = [''Abc'']"
    "[''Abc''] \<noteq> []"
    "\<forall>x\<in>set []. \<not> has_text FONT_SRC_PATH (si_srcPath ref_info) x \<and> (\<forall>n\<in>set [''Abc'']. \<not> named n x)"
    "int (length []) < GetMaxInstallNum ref_env"
    "ref_copy = copy_name ref_env (GetFileName (GetFilePathByFd ref_env (ref_saved [] []) (si_fd ref_info)))"
    "app_dir_free (ref_saved [] []) (si_userId ref_info) (si_appIdentifier ref_info) ref_copy"
    "config_size ref_env (ref_saved [] []) (user_config (si_userId ref_info))
       + json_size (scope_item (scope_record ref_info ref_copy [''Abc''])) \<le> JSON_MEMORY"
proof -
  show "app_dir_free (ref_saved [] []) (si_userId ref_info) (si_appIdentifier ref_info) ref_copy"
    using ref_simple_app(2)
    by (auto simp: app_dir_free_def ref_saved_def ref_node_at install_dir_100 FONT_CONFIG_FILE_def
        ref_info_def ref_app path_defs)
  show "copyable ref_env (ref_saved [] []) (si_fd ref_info) ref_fd"
    using ref_copyable by (simp add: ref_saved_def)
  show "ref_copy = copy_name ref_env (GetFileName (GetFilePathByFd ref_env (ref_saved [] []) (si_fd ref_info)))"
    by (simp add: ref_saved_def ref_path ref_base ref_copy_def)
  show "config_size ref_env (ref_saved [] []) (user_config (si_userId ref_info))
       + json_size (scope_item (scope_record ref_info ref_copy [''Abc''])) \<le> JSON_MEMORY"
    using ref_saved_size [OF ref_no_records, of "[]"] ref_scope_size [of ref_copy]
    by (simp add: ref_copy_length JSON_MEMORY_def ref_info_def)
qed (simp_all add: ref_saved_ready ref_saved_load ref_no_records ref_simple_app ref_max DEFAULT_MAX_INSTALL_NUM_def)

lemma ref_install_scope: "\<exists>s'. InstallScopeFont ref_env (ref_saved [] []) ref_info = (ERR_OK, s')"
  using config_memory.InstallScopeFont_succeeds [OF ref_env_memory ref_install_scope_conditions]
  by (cases "InstallScopeFont ref_env (ref_saved [] []) ref_info") simp

text \<open>The font of the session, installed: its record and its owner.\<close>

lemma ref_scope_items:
  "config_items ref_env (ref_saved [ref_scope_font] fonts) (user_config 100) = Some [ref_scope_font]"
  by (rule ref_saved_items [OF ref_scope_records])

lemma ref_owned:
  "owned_record ref_env (ref_saved [ref_scope_font] fonts) (user_config 100) ''/storage/a.ttf'' ''com.app'' tok =
     (if tok = 5 then Some ((scope_record ref_info ''f.ttf'' [''Abc''])
          \<lparr>fr_fontPath := c_str (fr_fontPath (scope_record ref_info ''f.ttf'' [''Abc''])),
            fr_fullNames := map c_str [''Abc'']\<rparr>) else None)"
proof -
  let ?r = "scope_record ref_info ''f.ttf'' [''Abc'']"
  have "config_items ref_env (ref_saved [ref_scope_font] fonts) (user_config 100) = Some ([] @ [scope_item ?r])"
    using ref_scope_items [of fonts] by (simp add: ref_scope_font_def)
  from config_library.recorded_scope [OF ref_env_library this, of 5 "''com.app''" tok] show ?thesis
    by (simp add: ref_info_def is_cstring_def NUL_def)
qed

lemma ref_scope_text:
  "jtext ref_scope_font FONT_PATH = INSTALL_PATH_APP @ si_appIdentifier ref_info @ ''/f.ttf''"
  "jstring ref_scope_font FONT_SRC_PATH = Some ''/storage/a.ttf''"
  "jstring ref_scope_font FONT_APP_IDENTIFIER = Some (si_appIdentifier ref_info)"
  "jnumber ref_scope_font FONT_SCOPE = Some FONT_SCOPE_SESSION" "jnames ref_scope_font = [''Abc'']"
proof -
  let ?r = "scope_record ref_info ''f.ttf'' [''Abc'']"
  have ct: "is_cstring (INSTALL_PATH_APP @ si_appIdentifier ref_info @ ''/f.ttf'')" "is_cstring ''/storage/a.ttf''"
    "is_cstring (si_appIdentifier ref_info)" "is_cstring ''Abc''"
    by (simp_all add: path_defs NUL_def ref_info_def ref_app)
  show "jtext ref_scope_font FONT_PATH = INSTALL_PATH_APP @ si_appIdentifier ref_info @ ''/f.ttf''"
    using ct(1) by (simp add: jtext_def ref_scope_font_def jstring_scope_item)
  show "jstring ref_scope_font FONT_SRC_PATH = Some ''/storage/a.ttf''"
    using ct(2) by (simp add: ref_scope_font_def jstring_scope_item) (simp add: ref_info_def)
  show "jstring ref_scope_font FONT_APP_IDENTIFIER = Some (si_appIdentifier ref_info)"
    using ct(3) ref_simple_app(1) by (simp add: ref_scope_font_def jstring_scope_item simple_name_def)
  show "jnames ref_scope_font = [''Abc'']"
    using jrecord_scope_item [of ?r] ct(4) by (simp add: jrecord_def ref_scope_font_def)
  show "jnumber ref_scope_font FONT_SCOPE = Some FONT_SCOPE_SESSION"
    by (simp add: ref_scope_font_def scope_item_def jnumber_def jmember_simps ref_info_def err_defs)
qed

text \<open>A font in the directory of an application is never the configuration file.\<close>

lemma scope_real_path:
  assumes "simple_name a" "simple_name f"
    "ValidateAndResolveRealPath E (install_path u) (INSTALL_PATH_APP @ a @ ''/'' @ f) \<noteq> []"
  shows "resolve (ValidateAndResolveRealPath E (install_path u) (INSTALL_PATH_APP @ a @ ''/'' @ f)) = install_dir u @ [a, f]"
proof -
  have "SandBoxPathToRealPath (install_path u) (INSTALL_PATH_APP @ a @ ''/'' @ f) = (install_path u @ a) @ ''/'' @ f"
    by (simp add: SandBoxPathToRealPath_def)
  moreover have "resolve ((install_path u @ a) @ ''/'' @ f) = install_dir u @ [a, f]"
    using resolve_append_name [of f "install_path u @ a"] resolve_install_path_name [OF assms(1), of u] assms(2) by simp
  ultimately show ?thesis
    using ValidateAndResolveRealPath_below(2) [of E "install_path u" "INSTALL_PATH_APP @ a @ ''/'' @ f"] assms(3) by simp
qed

lemma scope_path_safe:
  assumes "simple_name a" "simple_name f"
  shows "resolve (ValidateAndResolveRealPath E (install_path u) (INSTALL_PATH_APP @ a @ ''/'' @ f))
    \<noteq> install_dir u @ [FONT_CONFIG_FILE]"
proof (cases "ValidateAndResolveRealPath E (install_path u) (INSTALL_PATH_APP @ a @ ''/'' @ f) = []")
  case False
  from scope_real_path [OF assms False] show ?thesis by simp
qed (simp add: resolve_def)

lemma ref_scope_safe:
  "resolve (ValidateAndResolveRealPath ref_env (install_path 100) (jtext ref_scope_font FONT_PATH))
     \<noteq> install_dir 100 @ [FONT_CONFIG_FILE]"
  using scope_path_safe [OF ref_simple_app(1), of "''f.ttf''" ref_env 100]
  by (simp add: ref_scope_text(1) simple_name_def)

lemma ref_uninstall_scope_conditions:
  shows "ready ref_env (ref_saved [ref_scope_font] []) 100"
    "\<exists>r. owned_record ref_env (ref_saved [ref_scope_font] []) (user_config 100) ''/storage/a.ttf'' ''com.app'' 5 = Some r \<and>
       resolve (ValidateAndResolveRealPath ref_env (install_path 100) (fr_fontPath r)) \<noteq> install_dir 100 @ [FONT_CONFIG_FILE]"
    "''/storage/a.ttf'' \<noteq> []"
    "config_size ref_env (ref_saved [ref_scope_font] []) (user_config 100) \<le> JSON_MEMORY"
proof -
  have "is_cstring (INSTALL_PATH_APP @ si_appIdentifier ref_info @ ''/f.ttf'')"
    by (simp add: path_defs NUL_def ref_info_def ref_app)
  then have path: "c_str (fr_fontPath (scope_record ref_info ''f.ttf'' [''Abc''])) = jtext ref_scope_font FONT_PATH"
    by (simp add: ref_scope_text(1))
  show "\<exists>r. owned_record ref_env (ref_saved [ref_scope_font] []) (user_config 100) ''/storage/a.ttf'' ''com.app'' 5 = Some r \<and>
       resolve (ValidateAndResolveRealPath ref_env (install_path 100) (fr_fontPath r)) \<noteq> install_dir 100 @ [FONT_CONFIG_FILE]"
    using ref_owned [of "[]" 5] ref_scope_safe path by simp
qed (use ref_saved_size [OF ref_scope_records, of "[]"] in \<open>simp_all add: ref_saved_ready ref_scope_records JSON_MEMORY_def\<close>)

lemma ref_uninstall_scope:
  "\<exists>s'. UninstallScopeFont ref_env (ref_saved [ref_scope_font] []) ''/storage/a.ttf'' ''com.app'' 5 100 = (ERR_OK, s')"
proof -
  note c = ref_uninstall_scope_conditions
  from c(2) obtain r where
    "owned_record ref_env (ref_saved [ref_scope_font] []) (user_config 100) ''/storage/a.ttf'' ''com.app'' 5 = Some r"
    "resolve (ValidateAndResolveRealPath ref_env (install_path 100) (fr_fontPath r)) \<noteq> install_dir 100 @ [FONT_CONFIG_FILE]"
    by blast
  from config_memory.UninstallScopeFont_succeeds [OF ref_env_memory c(1) this(1) c(3) this(2) c(4)] show ?thesis
    by (cases "UninstallScopeFont ref_env (ref_saved [ref_scope_font] []) ''/storage/a.ttf'' ''com.app'' 5 100") simp
qed

end
