(* ===== verification/Manager_Store.thy ===== *)
theory Manager_Store
  imports Manager_Scope
begin

text \<open>
  The invariant of a user's records under the operations that install and remove: every record
  names a file, no two records name the same one, and no two share a full name.
\<close>

definition store_ok :: "cJSON list \<Rightarrow> bool" where
  "store_ok xs \<longleftrightarrow>
     unique_names xs \<and> unique_member FONT_PATH xs \<and> (\<forall>x\<in>set xs. \<exists>p. p \<noteq> [] \<and> has_text FONT_PATH p x)"

lemma store_ok_empty [simp]: "store_ok []"
  by (simp add: store_ok_def unique_names_def unique_member_def)

lemma store_ok_remove: "store_ok xs \<Longrightarrow> store_ok (remove_first P xs)"
  using set_remove_first_subset [of P xs] by (auto simp: store_ok_def unique_remove_first)

lemma store_ok_append:
  assumes "store_ok xs" "\<forall>n\<in>set (map c_str ns). \<forall>x\<in>set xs. \<not> named n x" "p \<notin> recorded_paths xs"
    "is_cstring p" "p \<noteq> []"
  shows "store_ok (xs @ [user_item p ns])"
proof -
  have "jnames (user_item p ns) = map c_str ns"
    using jrecord_user_item [of p ns] by (simp add: jrecord_def empty_record_def)
  moreover have "has_text FONT_PATH v (user_item p ns) \<longleftrightarrow> v = p" for v
    using assms(4) by (auto simp: has_text_def jstring_user_item)
  ultimately show ?thesis
    using assms by (auto simp: store_ok_def unique_names_append unique_member_append recorded_paths_def)
qed

text \<open>A record found by a name is the only one with the name, and goes with its file name.\<close>

lemma store_ok_find:
  assumes "store_ok xs" "find (named n) xs = Some x" "has_text FONT_PATH p x"
  shows "\<forall>y\<in>set (remove_first (has_text FONT_PATH p) xs). \<not> named n y"
  using unique_names_other [of xs x n p] assms by (auto simp: store_ok_def find_Some_iff)

text \<open>The name of an installed file is a C string, as the path it comes from is one.\<close>

lemma pad_zero_cstring: "is_cstring (pad_zero n d)"
proof -
  have "NUL \<notin> set (nat_digits d)" by (auto simp: is_digit_def NUL_def dest: nat_digits_all_digits)
  then show ?thesis by (simp add: pad_zero_def is_cstring_def NUL_def)
qed

lemma is_cstring_copy_name: "is_cstring (copy_name E (GetFileName (GetFilePathByFd E' w fd)))"
proof -
  have "is_cstring (GetFileDirectory p @ GetFileName p) \<Longrightarrow> is_cstring (GetFileName p)" for p by simp
  then have "is_cstring (GetFileName (GetFilePathByFd E' w fd))"
    unfolding GetFileDirectory_GetFileName by (simp add: GetFilePathByFd_def split: option.split)
  then show ?thesis
    by (simp add: copy_name_def GetFileTime_def Let_def pad_zero_cstring NUL_def)
qed

context config_library
begin

lemma clear_stale_names_free:
  assumes "clear_stale_names E cfg ip ns w = (None, w')" "config_items E w cfg = Some xs" "store_ok xs"
  shows "\<exists>ys. config_items E w' cfg = Some ys \<and> store_ok ys \<and> subseq ys xs \<and> (\<forall>n\<in>set ns. \<forall>y\<in>set ys. \<not> named n y)"
  using assms
proof (induction ns arbitrary: w xs)
  case (Cons n ns)
  have path: "GetFontFileByName E w cfg n =
      (case find (named n) xs of None \<Rightarrow> [] | Some x \<Rightarrow> jtext x FONT_PATH)"
    by (simp add: GetFontFileByName_eq Cons.prems(2) named_def [abs_def])
  show ?case
  proof (cases "find (named n) xs")
    case None
    with Cons.prems(1) path have "clear_stale_names E cfg ip ns w = (None, w')" by simp
    from Cons.IH [OF this Cons.prems(2,3)] obtain ys where ys: "config_items E w' cfg = Some ys" "store_ok ys"
      "subseq ys xs" "\<forall>n\<in>set ns. \<forall>y\<in>set ys. \<not> named n y" by blast
    moreover from None ys(3) have "\<forall>y\<in>set ys. \<not> named n y"
      by (auto simp: find_None_iff dest: list_emb_set)
    ultimately show ?thesis by auto
  next
    case (Some x)
    then have "x \<in> set xs" by (auto simp: find_Some_iff)
    with Cons.prems(3) obtain p where p: "p \<noteq> []" "has_text FONT_PATH p x" by (auto simp: store_ok_def)
    then have "GetFontFileByName E w cfg n = p" by (simp add: path Some jtext_def has_text_def)
    with Cons.prems(1) p(1) obtain w1 where del: "DeleteFontRecord E w cfg p = (True, w1)"
      and rest: "clear_stale_names E cfg ip ns w1 = (None, w')"
      by (auto simp: Let_def split: if_splits prod.splits bool.splits)
    from delete_by_member_eq [OF del [unfolded DeleteFontRecord_def]] Cons.prems(2)
    have w1: "config_items E w1 cfg = Some (remove_first (has_text FONT_PATH p) xs)"
      by (auto split: if_splits)
    from Cons.IH [OF rest w1 store_ok_remove [OF Cons.prems(3)]] obtain ys where
      ys: "config_items E w' cfg = Some ys" "store_ok ys" "subseq ys (remove_first (has_text FONT_PATH p) xs)"
      "\<forall>n\<in>set ns. \<forall>y\<in>set ys. \<not> named n y" by blast
    have "subseq (remove_first (has_text FONT_PATH p) xs) xs"
      by (induction xs) (auto intro: subseq_Cons')
    with ys(3) have "subseq ys xs" by (rule subseq_order.trans)
    moreover have "\<forall>y\<in>set ys. \<not> named n y"
      using store_ok_find [OF Cons.prems(3) Some p(2)] ys(3) by (auto dest: list_emb_set)
    ultimately show ?thesis using ys by auto
  qed
qed simp

lemma InstallFont_store:
  assumes ok: "configs_ok s" and run: "InstallFont E s fd u = (ERR_OK, s')"
    and items: "config_items E s (user_config u) = Some xs" "store_ok xs"
    and names: "\<forall>n\<in>set (GetFullNamesByFd E s fd). is_cstring n"
  shows "\<exists>zs. config_items E s' (user_config u) = Some zs \<and> store_ok zs"
  using ok run
proof (rule InstallFont_stages)
  fix s1 s2 s3
  assume init: "CheckAndInitInstallPath E s (install_path u) = (True, s1)"
    and node2: "\<And>q. node_at s2 q = node_at s1 q" and fds: "fds s2 = fds s" "fds s3 = fds s"
    and cl: "clear_stale_names E (user_config u) (install_path u) (GetFullNamesByFd E s fd) s2 = (None, s3)"
    and new: "install_new_font E (user_config u) (install_path u) fd u (GetFullNamesByFd E s fd) s3 = (ERR_OK, s')"
  let ?f = "copy_name E (GetFileName (GetFilePathByFd E s fd))"
  have "config_items E s2 (user_config u) = Some xs"
    unfolding config_items_cong [OF node2] by (rule CheckAndInitInstallPath_keeps(1) [OF init items(1)])
  from clear_stale_names_free [OF cl this items(2)] obtain ys where
    ys: "config_items E s3 (user_config u) = Some ys" "store_ok ys"
      "\<forall>n\<in>set (GetFullNamesByFd E s fd). \<forall>y\<in>set ys. \<not> named n y" by blast
  have path: "GetFilePathByFd E s3 fd = GetFilePathByFd E s fd" by (simp add: GetFilePathByFd_def fds)
  from install_new_font_ok [OF new, unfolded path] ys(1) have
    "config_items E s' (user_config u) = Some (if INSTALL_PATH_APP @ ?f \<in> recorded_paths ys then ys
       else ys @ [user_item (INSTALL_PATH_APP @ ?f) (GetFullNamesByFd E s fd)])" by auto
  moreover have "store_ok (ys @ [user_item (INSTALL_PATH_APP @ ?f) (GetFullNamesByFd E s fd)])"
    if "INSTALL_PATH_APP @ ?f \<notin> recorded_paths ys"
  proof (rule store_ok_append [OF ys(2) _ that])
    show "\<forall>n\<in>set (map c_str (GetFullNamesByFd E s fd)). \<forall>x\<in>set ys. \<not> named n x"
      using ys(3) names by auto
    show "INSTALL_PATH_APP @ ?f \<noteq> []" by (simp add: path_defs)
    show "is_cstring (INSTALL_PATH_APP @ ?f)" by (simp add: path_defs NUL_def is_cstring_copy_name)
  qed
  ultimately show ?thesis using ys(2) by auto
qed

text \<open>After a user-level font is removed by a name, nothing has the name any more.\<close>

lemma UninstallFont_store:
  assumes ok: "configs_ok s" and run: "UninstallFont E s n u = (ERR_OK, s')"
    and items: "config_items E s (user_config u) = Some xs" "store_ok xs"
  shows "\<exists>zs. config_items E s' (user_config u) = Some zs \<and> store_ok zs \<and> (\<forall>z\<in>set zs. \<not> named n z)"
proof -
  from UninstallFont_ok [OF ok run] items(1) obtain x p where
    "find (named n) xs = Some x" "has_text FONT_PATH p x"
    "config_items E s' (user_config u) = Some (remove_first (has_text FONT_PATH p) xs)" by auto
  with store_ok_find [OF items(2)] store_ok_remove [OF items(2)] show ?thesis by blast
qed

end

end
