(* ===== verification/Manager_Properties.thy ===== *)
theory Manager_Properties
  imports Reference_Runs Manager_Store
begin

text \<open>
  What the font manager promises for a user's own fonts (\<open>font_manager.cpp\<close>): installing and
  removing them, with a run of the manager under the properties that have conditions.
\<close>

section \<open>Installing\<close>

text \<open>
  C1: a successful \<open>InstallFont\<close> leaves the whole font in a new file of the user's directory and a
  record of it at the end of the configuration (unless one with the path is there), keeps the limit
  on the records, and drops of the old records only such as have lost their file.
\<close>

theorem install_effect:
  assumes "config_library E" "configs_ok s" "InstallFont E s fd u = (ERR_OK, s')"
    "config_items E s (user_config u) = Some xs"
    "fname = copy_name E (GetFileName (GetFilePathByFd E s fd))"
  shows "\<exists>i ys zs. fds s fd = Some i \<and> nat (st_size i) \<le> length (fd_data i) \<and>
     node_at s' (install_dir u @ [fname]) = Some (File (take (nat (st_size i)) (fd_data i))) \<and>
     subseq ys xs \<and> (\<forall>x\<in>set xs. x \<in> set ys \<or> stale E s (install_path u) x) \<and>
     zs = (if INSTALL_PATH_APP @ fname \<in> recorded_paths ys then ys
           else ys @ [user_item (INSTALL_PATH_APP @ fname) (GetFullNamesByFd E s fd)]) \<and>
     config_items E s' (user_config u) = Some zs \<and> int (length zs) \<le> GetMaxInstallNum E"
  using config_library.InstallFont_ok [OF assms(1-3,5)] assms(4) by blast

theorem install_effect_witness:
  "\<exists>s'. InstallFont ref_env ref_fresh 3 100 = (ERR_OK, s') \<and>
     node_at s' (install_dir 100 @ [ref_copy]) = Some (File ''abc'') \<and>
     config_items ref_env s' (user_config 100) = Some [user_item (INSTALL_PATH_APP @ ref_copy) [''Abc'']]"
proof -
  from ref_install obtain s' where run: "InstallFont ref_env ref_fresh 3 100 = (ERR_OK, s')" by blast
  have "fds ref_fresh 3 = Some ref_fd" by (simp add: ref_state_def)
  with run install_effect [OF ref_env_library ref_saved_configs(2) run ref_fresh_items ref_install_conditions(8)]
  show ?thesis by (auto simp: ref_names recorded_paths_def dest!: list_emb_Nil2)
qed

text \<open>
  C3: \<open>InstallFont\<close> succeeds whenever it can: the user's directories and configuration are there, no
  system call is refused, the descriptor can be copied, the font has names and none of them is
  recorded, the limit is not reached, no directory is in the way and the JSON fits into memory.
\<close>

theorem install_succeeds:
  fixes u :: int
  assumes "config_memory E" "ready E s u" "copyable E s fd i" "config_items E s (user_config u) = Some xs"
    "GetFontFullName E (fd_data i) = ns" "ns \<noteq> []" "\<forall>n\<in>set ns. \<forall>x\<in>set xs. \<not> named n x"
    "int (length xs) < GetMaxInstallNum E" "fname = copy_name E (GetFileName (GetFilePathByFd E s fd))"
    "node_at s (install_dir u @ [fname]) \<noteq> Some Dir" "node_at s (install_dir u @ [''temp'', fname]) \<noteq> Some Dir"
    "config_size E s (user_config u) + json_size (user_item (INSTALL_PATH_APP @ fname) ns) \<le> JSON_MEMORY"
  shows "fst (InstallFont E s fd u) = ERR_OK"
  using assms(2-) by (rule config_memory.InstallFont_succeeds [OF assms(1)])

theorem install_succeeds_witness: "fst (InstallFont ref_env ref_fresh 3 100) = ERR_OK"
  by (rule install_succeeds [OF ref_env_memory ref_install_conditions])



text \<open>
  \<open>InstallFont\<close> notifies exactly when it succeeds: the size report, the storage statistics and
  the font update with the names of the font, in this order; every error leaves no notification.
\<close>

lemma install_notifies:
  assumes "configs_ok s" "InstallFont E s fd u = (r, s')"
  obtains t where "effects s' = effects s @ (if r = ERR_OK
    then update_effects E t u INSTALL (GetFormatFullName (GetFullNamesByFd E s fd)) else [])"
  using InstallFont_frame [OF assms] by (cases "r = ERR_OK") (auto simp: fm_frame_def)

section \<open>Removing\<close>



text \<open>
  C6: \<open>UninstallFont\<close> succeeds whenever it can: the name is recorded by a font that is not a scope
  font and resolves to a path below the directory other than the configuration file, no system call
  is refused and the JSON fits into memory.
\<close>

theorem uninstall_succeeds:
  assumes "config_memory E" "ready E s u" "config_items E s (user_config u) = Some xs"
    "find (named n) xs = Some x" "has_text FONT_PATH p x" "p \<noteq> []" "\<not> has_scope (\<lambda>v. v \<ge> 0) x" "n \<noteq> []"
    "ValidateAndResolveRealPath E (install_path u) p \<noteq> []"
    "resolve (ValidateAndResolveRealPath E (install_path u) p) \<noteq> install_dir u @ [FONT_CONFIG_FILE]"
    "config_size E s (user_config u) \<le> JSON_MEMORY"
  shows "fst (UninstallFont E s n u) = ERR_OK"
  using assms(2-) by (rule config_memory.UninstallFont_succeeds [OF assms(1)])

theorem uninstall_succeeds_witness:
  "fst (UninstallFont ref_env (ref_saved [ref_font] ref_font_file) ''Abc'' 100) = ERR_OK"
  by (rule uninstall_succeeds [OF ref_env_memory ref_uninstall_conditions])

text \<open>
  After a successful \<open>UninstallFont\<close> from a sound store, the store is sound and no font with the
  removed name is left in it.
\<close>

lemma uninstall_frees_name:
  assumes "config_library E" "configs_ok s" "UninstallFont E s n u = (ERR_OK, s')"
    "config_items E s (user_config u) = Some xs" "store_ok xs"
  shows "\<exists>zs. config_items E s' (user_config u) = Some zs \<and> store_ok zs \<and> filter (named n) zs = []"
  using config_library.UninstallFont_store [OF assms] by (auto simp: filter_empty_conv)

text \<open>
  An application's font cannot be removed as a user's font: if the first record with the name has a
  scope, \<open>UninstallFont\<close> reports that the font is not there, changes no file and tells nobody.
\<close>

lemma uninstall_refuses_scope_font:
  assumes "config_library E" "configs_ok s" "config_items E s (user_config u) = Some xs"
    "find (named n) xs = Some x" "has_scope (\<lambda>v. v \<ge> 0) x"
  shows "fst (UninstallFont E s n u) = ERR_UNINSTALL_FILE_NOT_EXISTS \<and>
    (\<forall>q. node_at (snd (UninstallFont E s n u)) q = node_at s q) \<and>
    effects (snd (UninstallFont E s n u)) = effects s"
proof -
  obtain cfg s1 where get: "SafeGetOrCreateConfig s u (install_path u @ FONT_CONFIG_FILE) = (cfg, s1)" by fastforce
  note g = SafeGetOrCreateConfig_eq [OF get assms(2)]
  have "GetFontRecordByName E s1 cfg n = Some (jrecord x)"
    using assms(3,4) by (simp add: config_library.GetFontRecordByName_eq [OF assms(1)] g(1) named_def [abs_def]
        config_items_cong [OF g(4)])
  moreover have "fr_scope (jrecord x) \<ge> 0"
    using assms(5) by (auto simp: jrecord_def has_scope_def split: option.splits)
  ultimately have "UninstallFont E s n u = (ERR_UNINSTALL_FILE_NOT_EXISTS, if n = [] then s else s1)"
    using get by (simp add: UninstallFont_def Let_def)
  then show ?thesis using g(3,4) by (simp add: fm_frame_def)
qed

end
