(* ===== verification/Scope_Properties.thy ===== *)
theory Scope_Properties
  imports Reference_Runs Manager_Store
begin

text \<open>
  What the font manager promises for the fonts of one application or one session: who owns them, who
  can see and remove them, and what the clean-up after a process, a user or a restart removes.
\<close>

section \<open>Owners\<close>

text \<open>
  The directory name that \<open>MakeAppIdentifier\<close> gives to an application or a session determines the
  scope and the token it was made for, so two owners never share one; and it is one path component.
\<close>

lemma app_identifier_injective:
  assumes "a \<in> {FONT_SCOPE_APP, FONT_SCOPE_SESSION}" "b \<in> {FONT_SCOPE_APP, FONT_SCOPE_SESSION}"
  shows "(MakeAppIdentifier a t = MakeAppIdentifier b v \<longleftrightarrow> a = b \<and> t = v) \<and> simple_name (MakeAppIdentifier a t)"
  using MakeAppIdentifier_inj [OF assms] simple_name_MakeAppIdentifier by simp

section \<open>Installing\<close>

text \<open>
  C8: a successful \<open>InstallScopeFont\<close> leaves the whole font in the directory of the application and a
  record of it, with its scope and owner, at the end of the configuration; the old records are
  there in their order (with fresh names if the file was upgraded), and none of them had the URL or
  one of the names.
\<close>

theorem scope_install_effect:
  assumes "config_library E" "configs_ok s" "simple_name (si_appIdentifier info)"
    "config_items E s (user_config (si_userId info)) = Some xs" "InstallScopeFont E s info = (ERR_OK, s')"
    "fname = copy_name E (GetFileName (GetFilePathByFd E s (si_fd info)))"
  shows "\<exists>i ys. fds s (si_fd info) = Some i \<and> nat (st_size i) \<le> length (fd_data i) \<and>
     node_at s' (install_dir (si_userId info) @ [si_appIdentifier info, fname])
       = Some (File (take (nat (st_size i)) (fd_data i))) \<and>
     list_all2 refreshed xs ys \<and>
     config_items E s' (user_config (si_userId info))
       = Some (ys @ [scope_item (scope_record info fname (GetFullNamesByFd E s (si_fd info)))]) \<and>
     int (length ys) < GetMaxInstallNum E \<and>
     (\<forall>y\<in>set ys. \<not> has_text FONT_SRC_PATH (si_srcPath info) y \<and>
        (\<forall>n\<in>set (GetFullNamesByFd E s (si_fd info)). \<not> named n y)) \<and>
     si_scope info \<in> {FONT_SCOPE_APP, FONT_SCOPE_SESSION}"
  by (rule config_library.InstallScopeFont_ok [OF assms])

lemma ref_saved_empty: "config_items ref_env (ref_saved [] fonts) (user_config (si_userId ref_info)) = Some []"
  by (simp add: ref_saved_items ref_no_records)

theorem scope_install_effect_witness:
  "\<exists>s'. InstallScopeFont ref_env (ref_saved [] []) ref_info = (ERR_OK, s') \<and>
     node_at s' (install_dir 100 @ [si_appIdentifier ref_info, ref_copy]) = Some (File ''abc'') \<and>
     config_items ref_env s' (user_config 100) = Some [scope_item (scope_record ref_info ref_copy [''Abc''])]"
proof -
  from ref_install_scope obtain s' where run: "InstallScopeFont ref_env (ref_saved [] []) ref_info = (ERR_OK, s')"
    by blast
  have "fds (ref_saved [] []) 3 = Some ref_fd" "GetFullNamesByFd ref_env (ref_saved [] []) 3 = [''Abc'']"
    by (simp_all add: ref_saved_def ref_names) (simp add: ref_state_def)
  with run scope_install_effect [OF ref_env_library ref_saved_configs(1) ref_simple_app(1) ref_saved_empty run
      ref_install_scope_conditions(13)]
  show ?thesis by auto
qed

text \<open>
  C10: \<open>InstallScopeFont\<close> succeeds whenever it can: the directories are there and the file is at version
  7.0, no system call is refused, the descriptor can be copied, the font has names, neither the URL
  nor a name is recorded, the limit is not reached and the JSON fits into memory.
\<close>

theorem scope_install_succeeds:
  fixes info :: ScopeFontInstallInfo
  assumes "config_memory E" "ready E s (si_userId info)" "copyable E s (si_fd info) i"
    "LoadConfig E s (user_config (si_userId info)) = Some doc" "at_version_7 doc" "items_of doc = Some xs"
    "simple_name (si_appIdentifier info)" "CHR ''.'' \<notin> set (si_appIdentifier info)"
    "si_scope info \<in> {FONT_SCOPE_APP, FONT_SCOPE_SESSION}"
    "GetFontFullName E (fd_data i) = ns" "ns \<noteq> []"
    "\<forall>x\<in>set xs. \<not> has_text FONT_SRC_PATH (si_srcPath info) x \<and> (\<forall>n\<in>set ns. \<not> named n x)"
    "int (length xs) < GetMaxInstallNum E"
    "fname = copy_name E (GetFileName (GetFilePathByFd E s (si_fd info)))"
    "app_dir_free s (si_userId info) (si_appIdentifier info) fname"
    "config_size E s (user_config (si_userId info)) + json_size (scope_item (scope_record info fname ns)) \<le> JSON_MEMORY"
  shows "fst (InstallScopeFont E s info) = ERR_OK"
  using assms(2-) by (rule config_memory.InstallScopeFont_succeeds [OF assms(1)])

theorem scope_install_succeeds_witness: "fst (InstallScopeFont ref_env (ref_saved [] []) ref_info) = ERR_OK"
  by (rule scope_install_succeeds [OF ref_env_memory ref_install_scope_conditions])



section \<open>Removing\<close>

text \<open>
  C12: \<open>UninstallScopeFont\<close> is refused to everybody who does not own a font with the URL: the code is
  ``not found'', no file changes and nobody is told.
\<close>

lemma scope_uninstall_refused:
  assumes "config_library E" "configs_ok s" "owned_record E s (user_config u) url bundle tok = None"
  shows "fst (UninstallScopeFont E s url bundle tok u) = ERR_SCOPE_FONT_NOT_FOUND \<and>
    (\<forall>q. node_at (snd (UninstallScopeFont E s url bundle tok u)) q = node_at s q) \<and>
    effects (snd (UninstallScopeFont E s url bundle tok u)) = effects s"
  using config_library.UninstallScopeFont_refused [OF assms] by blast




text \<open>
  C13: \<open>UninstallScopeFont\<close> succeeds for the owner whenever it can: no system call is refused, the record
  does not name the configuration file and the JSON fits into memory.
\<close>

lemma scope_uninstall_succeeds:
  assumes "config_memory E" "ready E s u" "owned_record E s (user_config u) url bundle tok = Some r" "url \<noteq> []"
    "resolve (ValidateAndResolveRealPath E (install_path u) (fr_fontPath r)) \<noteq> install_dir u @ [FONT_CONFIG_FILE]"
    "config_size E s (user_config u) \<le> JSON_MEMORY"
  shows "fst (UninstallScopeFont E s url bundle tok u) = ERR_OK"
  using assms(2-) by (rule config_memory.UninstallScopeFont_succeeds [OF assms(1)])

section \<open>Clean-up\<close>

text \<open>
  When a user is removed or stopped, \<open>CleanupScopeFontsByUser\<close> removes exactly the fonts with a
  scope from the user's configuration and keeps the user's own, provided every scope font has a
  source URL that no other record has, none names the configuration file, and the disk can be written.
\<close>

lemma cleanup_user_effect:
  assumes "config_memory E" "configs_ok s" "disk_ok E s (user_config u)"
    "config_size E s (user_config u) \<le> JSON_MEMORY"
    "config_items E s (user_config u) = Some xs" "unique_member FONT_SRC_PATH xs"
    "\<forall>x\<in>set xs. has_scope (\<lambda>v. v \<ge> 0) x \<longrightarrow> jstring x FONT_SRC_PATH \<noteq> None \<and>
       resolve (ValidateAndResolveRealPath E (install_path u) (jtext x FONT_PATH)) \<noteq> install_dir u @ [FONT_CONFIG_FILE]"
  shows "config_items E (snd (CleanupScopeFontsByUser E s u)) (user_config u)
    = Some (filter (\<lambda>x. \<not> has_scope (\<lambda>v. v \<ge> 0) x) xs)"
  using assms(2-) by (rule config_memory.CleanupScopeFontsByUser_ok [OF assms(1)])

text \<open>The configuration of the runs: the user's font before the session's.\<close>

lemma ref_mixed:
  shows "configs_ok (ref_saved [ref_font, ref_scope_font] fonts)"
    "disk_ok ref_env (ref_saved [ref_font, ref_scope_font] fonts) (user_config 100)"
    "config_size ref_env (ref_saved [ref_font, ref_scope_font] fonts) (user_config 100) \<le> JSON_MEMORY"
    "config_items ref_env (ref_saved [ref_font, ref_scope_font] fonts) (user_config 100) = Some [ref_font, ref_scope_font]"
    "unique_member FONT_SRC_PATH [ref_font, ref_scope_font]"
proof -
  have rec: "ref_records [ref_font, ref_scope_font]"
    using user_item_size [of "INSTALL_PATH_APP @ ''a.ttf''" "[''Abc'']"] ref_scope_size [of "''f.ttf''", folded ref_scope_font_def]
      ref_font_records ref_scope_records
    by (simp add: ref_records_def ref_doc_size install_path_app_length flip: ref_font_def)
  show "disk_ok ref_env (ref_saved [ref_font, ref_scope_font] fonts) (user_config 100)"
    by (rule config_memory.ready_disk [OF ref_env_memory ref_saved_ready [OF rec]])
  show "config_size ref_env (ref_saved [ref_font, ref_scope_font] fonts) (user_config 100) \<le> JSON_MEMORY"
    using ref_saved_size [OF rec, of fonts] by (simp add: JSON_MEMORY_def)
  show "config_items ref_env (ref_saved [ref_font, ref_scope_font] fonts) (user_config 100) = Some [ref_font, ref_scope_font]"
    by (rule ref_saved_items [OF rec])
qed (simp_all add: unique_member_def)

lemma ref_scope_number: "has_scope P ref_scope_font \<longleftrightarrow> P FONT_SCOPE_SESSION"
  unfolding has_scope_def ref_scope_text(4) by simp

text \<open>
  When the process of an application dies, \<open>CleanupAppScopeFonts\<close> removes exactly the records with
  its identifier from the configuration and keeps all others, under the same conditions.
\<close>

lemma cleanup_app_effect:
  fixes s :: "'a fm_state_scheme"
  assumes "config_memory E" "configs_ok s" "disk_ok E s (user_config u)"
    "config_size E s (user_config u) \<le> JSON_MEMORY"
    "config_items E s (user_config u) = Some xs" "unique_member FONT_SRC_PATH xs"
    "\<forall>x\<in>set xs. has_text FONT_APP_IDENTIFIER a x \<longrightarrow> jstring x FONT_SRC_PATH \<noteq> None \<and>
       resolve (ValidateAndResolveRealPath E (install_path u) (jtext x FONT_PATH)) \<noteq> install_dir u @ [FONT_CONFIG_FILE]"
    "simple_name a" "a \<noteq> FONT_CONFIG_FILE"
  shows "config_items E (snd (CleanupAppScopeFonts E s a u)) (user_config u)
    = Some (filter (\<lambda>x. \<not> has_text FONT_APP_IDENTIFIER a x) xs)"
  using assms(2-) by (rule config_memory.CleanupAppScopeFonts_ok [OF assms(1)])

end
