(* ===== verification/Config_Properties.thy ===== *)
theory Config_Properties
  imports Reference_Runs
begin

text \<open>
  What the configuration file promises (\<open>font_config.cpp\<close>): records survive being written and read,
  every operation has its effect on the list of records on every branch, and what the version
  upgrade does to an old file.
\<close>

section \<open>Records\<close>

text \<open>
  C31: the round trip of a record through the file format: what \<open>ConstructScopeCJSON\<close> builds,
  \<open>ParseScopeRecord\<close> reads back, for every record of C strings whose scope is an int32 that is not
  negative, or -1 for a user's font.
\<close>

theorem record_round_trip:
  assumes "config_library E" "ConstructScopeCJSON E r = Some j" "int32_range (fr_scope r)" "fr_scope r \<ge> -1"
    "is_cstring (fr_fontPath r)" "list_all is_cstring (fr_fullNames r)" "is_cstring (fr_srcPath r)"
    "is_cstring (fr_appIdentifier r)" "is_cstring (fr_bundleName r)"
  shows "ParseScopeRecord E j = r"
proof -
  have "map c_str (fr_fullNames r) = fr_fullNames r"
    using assms(6) by (auto simp: list_all_iff intro: map_idI)
  then show ?thesis
    using assms(4-9) unfolding cjson_library.ParseScopeRecord_eq [OF assms(1) [unfolded config_library_def]]
      config_library.ConstructScopeCJSON_eq [OF assms(1-3)] jrecord_scope_item
    by simp
qed

theorem record_round_trip_witness:
  "\<exists>j. ConstructScopeCJSON ref_env (scope_record ref_info ''f.ttf'' [''Abc'']) = Some j \<and>
     ParseScopeRecord ref_env j = scope_record ref_info ''f.ttf'' [''Abc'']"
proof -
  obtain j where j: "ConstructScopeCJSON ref_env (scope_record ref_info ''f.ttf'' [''Abc'']) = Some j"
    using config_memory.ConstructScopeCJSON_progress [OF ref_env_memory] by blast
  from record_round_trip [OF ref_env_library j] j show ?thesis
    using ref_scope_range by (simp add: FONT_SCOPE_SESSION_def path_defs NUL_def ref_app) (simp add: ref_info_def NUL_def ref_app path_defs)
qed

section \<open>Operations on the list of records\<close>

text \<open>
  \<open>InsertFontRecordIfUnderLimit\<close> on every branch: without a readable array it fails and writes
  nothing; a recorded path is success without a change; a full list is refused without a change; and
  otherwise either the write failed, or the new record is appended to the list.
\<close>

lemma insert_under_limit:
  assumes "config_library E" "InsertFontRecordIfUnderLimit E w cfg p ns m = (r, w')"
  shows "case config_items E w cfg of
       None \<Rightarrow> r = ERR_INSTALL_FAIL \<and> w' = w
     | Some xs \<Rightarrow>
         if p \<in> recorded_paths xs then r = ERR_OK \<and> w' = w
         else if int (length xs) \<ge> m then r = ERR_MAX_FILE_COUNT \<and> w' = w
         else r = ERR_INSTALL_FAIL \<or> r = ERR_OK \<and> config_items E w' cfg = Some (xs @ [user_item p ns])"
  by (rule config_library.InsertFontRecordIfUnderLimit_eq [OF assms])

text \<open>
  C32: the lookups refine searches in the abstract list of records: the first record with the URL, the
  first with the name, the path of the first with the name, the number of records, and the listings by
  application and by scope in file order.
\<close>

theorem lookups_refine_list:
  assumes "config_library E" "config_items E w cfg = Some xs"
  shows "GetFontRecordByUrl E w cfg url = map_option jrecord (find (has_text FONT_SRC_PATH url) xs) \<and>
    GetFontRecordByName E w cfg n = map_option jrecord (find (named n) xs) \<and>
    GetFontFileByName E w cfg n = (case find (named n) xs of None \<Rightarrow> [] | Some x \<Rightarrow> jtext x FONT_PATH) \<and>
    GetInstalledFontsNum E w cfg = int (length xs) \<and> GetTotalInstalledFontsNum E w cfg = int (length xs) \<and>
    GetFontRecordsByAppId E w cfg a = map jrecord (filter (has_text FONT_APP_IDENTIFIER a) xs) \<and>
    GetScopeFontRecords E w cfg = map jrecord (filter (has_scope (\<lambda>v. v \<ge> 0)) xs) \<and>
    GetAppScopeFontRecords E w cfg = map jrecord (filter (has_scope (\<lambda>v. v = FONT_SCOPE_APP)) xs)"
proof -
  note lib = assms(1)
  show ?thesis
    by (simp add: assms(2) named_def [abs_def] config_library.GetFontRecordByUrl_eq [OF lib]
        config_library.GetFontRecordByName_eq [OF lib] config_library.GetFontFileByName_eq [OF lib]
        config_library.GetInstalledFontsNum_eq [OF lib] config_library.GetTotalInstalledFontsNum_eq [OF lib]
        config_library.GetFontRecordsByAppId_eq [OF lib] config_library.GetScopeFontRecords_eq [OF lib]
        config_library.GetAppScopeFontRecords_eq [OF lib])
qed

theorem lookups_refine_list_witness:
  "GetFontRecordByName ref_env (ref_saved [ref_font] []) (user_config 100) ''Abc'' = Some (jrecord ref_font) \<and>
     GetFontRecordByName ref_env (ref_saved [ref_font] []) (user_config 100) ''Xyz'' = None \<and>
     GetInstalledFontsNum ref_env (ref_saved [ref_font] []) (user_config 100) = 1"
  using lookups_refine_list [OF ref_env_library ref_saved_items [OF ref_font_records], where n = "''Abc''"]
    lookups_refine_list [OF ref_env_library ref_saved_items [OF ref_font_records], where n = "''Xyz''"]
  by (simp add: named_def)

text \<open>
  C33: \<open>DeleteScopeFontRecordByAppId\<close>, whose loop deletes from the last index down while it goes, is the
  filter of the list: if it reports success, the records of the application are gone and the others
  are there in their order; if there was none it fails and writes nothing.
\<close>

lemma delete_by_app_is_filter:
  assumes "config_library E" "DeleteScopeFontRecordByAppId E w cfg a = (b, w')" "config_items E w cfg = Some xs"
  shows "if filter (has_text FONT_APP_IDENTIFIER a) xs = [] then \<not> b \<and> w' = w
    else (if b then config_items E w' cfg = Some (filter (\<lambda>x. \<not> has_text FONT_APP_IDENTIFIER a x) xs) else True)"
  using config_library.DeleteScopeFontRecordByAppId_eq [OF assms(1,2)] assms(3)
  by (auto simp: filter_empty_conv)

section \<open>The version upgrade\<close>

text \<open>
  C34: a successful \<open>CheckAndUpdateFontRecord\<close> keeps every record in its place with every member but the
  list of names, leaves a file at version 7.0 as it is, and the file is then at version 7.0 unless it
  has a member \<open>version\<close> that is neither the number 1 nor the text 7.0.
\<close>

theorem upgrade_keeps_records:
  assumes "config_library E" "CheckAndUpdateFontRecord E w cfg = (True, w')"
    "LoadConfig E w cfg = Some doc" "items_of doc = Some xs"
  shows "\<exists>doc' ys. LoadConfig E w' cfg = Some doc' \<and> items_of doc' = Some ys \<and> list_all2 refreshed xs ys \<and>
     (if at_version_7 doc then w' = w
      else (at_version_7 doc' \<longleftrightarrow> jmember doc FONT_VERSION \<in> {None, Some (JNumber VERSION)}))"
proof -
  have items: "config_items E w cfg = Some xs" using assms(3,4) by (simp add: config_items_def)
  from config_library.CheckAndUpdateFontRecord_eq [OF assms] obtain doc' ys where
    doc': "LoadConfig E w' cfg = Some doc'" "items_of doc' = Some ys" "at_version_7 doc \<Longrightarrow> w' = w"
    "\<not> at_version_7 doc \<Longrightarrow> at_version_7 doc' \<longleftrightarrow> jmember doc FONT_VERSION \<in> {None, Some (JNumber VERSION)}"
    unfolding at_version_7_def jstring_def by (auto split: if_splits option.splits cJSON.splits)
  with config_library.CheckAndUpdateFontRecord_items [OF assms(1,2) items] show ?thesis
    by (auto simp: config_items_def)
qed

theorem upgrade_keeps_records_witness:
  "CheckAndUpdateFontRecord ref_env (ref_saved [ref_font] []) (user_config 100) = (True, ref_saved [ref_font] []) \<and>
     (\<exists>doc' ys. LoadConfig ref_env (ref_saved [ref_font] []) (user_config 100) = Some doc' \<and> items_of doc' = Some ys \<and>
        list_all2 refreshed [ref_font] ys)"
proof -
  note load = ref_saved_load [OF ref_font_records, of "[]"]
  have run: "CheckAndUpdateFontRecord ref_env (ref_saved [ref_font] []) (user_config 100) = (True, ref_saved [ref_font] [])"
    by (rule config_library.CheckAndUpdateFontRecord_current [OF ref_env_library load]) simp
  from upgrade_keeps_records [OF ref_env_library run load] run show ?thesis by auto
qed

text \<open>
  A file whose member \<open>version\<close> is neither the number 1 nor the text 7.0 is never upgraded: the
  new member is appended behind the old one, which the lookup finds first, so after every successful
  \<open>CheckAndUpdateFontRecord\<close> the file still is not at version 7.0 and the next call does it all again.
\<close>

lemma upgrade_never_reached:
  assumes "config_library E" "CheckAndUpdateFontRecord E w cfg = (True, w')"
    "LoadConfig E w cfg = Some doc" "items_of doc = Some xs"
    "jmember doc FONT_VERSION = Some v" "v \<noteq> JNumber VERSION" "v \<noteq> JString FONT_CONFIG_VERSION_7"
  shows "\<exists>doc'. LoadConfig E w' cfg = Some doc' \<and> \<not> at_version_7 doc' \<and> jmember doc' FONT_VERSION = Some v"
  using config_library.CheckAndUpdateFontRecord_eq [OF assms(1-4)] assms(3,5-7)
  by (fastforce simp: at_version_7_def jstring_def split: if_splits cJSON.splits option.splits)

text \<open>A file with the version number 2 and no records: the upgrade runs through, in vain.\<close>

definition ref_version_2 :: cJSON where
  "ref_version_2 = JObject [(FONT_LIST, JArray []), (FONT_VERSION, JNumber 2)]"

lemma ref_version_2_simps:
  shows "LoadConfig ref_env (ref_state (encode ref_version_2) []) (user_config 100) = Some ref_version_2"
    "items_of ref_version_2 = Some []" "jmember ref_version_2 FONT_VERSION = Some (JNumber 2)"
    "JNumber 2 \<noteq> JNumber VERSION" "JNumber 2 \<noteq> JString FONT_CONFIG_VERSION_7" "json_size ref_version_2 \<le> 100"
proof -
  have "to_string 2 = ''2''" by code_simp
  then show size: "json_size ref_version_2 \<le> 100" by (simp add: ref_version_2_def FONT_LIST_def FONT_VERSION_def)
  have "int32_range 2" by (simp add: int32_range_def)
  then have "json_ok ref_version_2" by (simp add: ref_version_2_def CJSON_NESTING_LIMIT_def eval_nat_numeral)
  then show "LoadConfig ref_env (ref_state (encode ref_version_2) []) (user_config 100) = Some ref_version_2"
    using size by (intro ref_items_encode) (simp_all add: JSON_MEMORY_def)
qed (simp_all add: ref_version_2_def items_of_def jmember_simps VERSION_def)

lemma ref_version_2_run:
  "\<exists>w'. CheckAndUpdateFontRecord ref_env (ref_state (encode ref_version_2) []) (user_config 100) = (True, w')"
proof -
  let ?w = "ref_state (encode ref_version_2) []"
  have lib: "cjson_library ref_env" using ref_env_library by (simp add: config_library_def)
  have items: "config_items ref_env ?w (user_config 100) \<noteq> None"
    by (simp add: config_items_def ref_version_2_simps)
  have "font_array ref_env ref_version_2 = Some (0, JArray [])"
    using cjson_library.GetObjectItem [OF lib] cjson_library.IsArray [OF lib]
    by (simp add: font_array_def font_list_def ref_version_2_def obj_find_def item_at_def)
  from config_library.RefreshFullNames_eq [OF ref_env_library this]
  have "RefreshFullNames ref_env ?w (user_config 100) ref_version_2 = ref_version_2"
    by (simp add: ref_version_2_def item_put_def)
  then have "fst (CheckAndUpdateFontRecord ref_env ?w (user_config 100))"
    using ref_version_2_simps(6) config_memory.ready_disk [OF ref_env_memory ref_ready [OF items]]
    by (intro config_memory.CheckAndUpdateFontRecord_succeeds [OF ref_env_memory ref_version_2_simps(1,2)])
      (simp_all add: JSON_MEMORY_def)
  then show ?thesis by (cases "CheckAndUpdateFontRecord ref_env ?w (user_config 100)") simp
qed

lemma upgrade_runs_in_vain:
  "\<exists>w' doc'. CheckAndUpdateFontRecord ref_env (ref_state (encode ref_version_2) []) (user_config 100) = (True, w') \<and>
     LoadConfig ref_env w' (user_config 100) = Some doc' \<and> \<not> at_version_7 doc'"
proof -
  from ref_version_2_run obtain w' where
    run: "CheckAndUpdateFontRecord ref_env (ref_state (encode ref_version_2) []) (user_config 100) = (True, w')" by blast
  from upgrade_never_reached [OF ref_env_library run ref_version_2_simps(1-5)] run show ?thesis by blast
qed

end
