(* ===== verification/Sweep_Laws.thy ===== *)
theory Sweep_Laws
  imports Manager_Laws
begin

text \<open>
  The sweeps over the per-application directories (\<open>CleanupAllScopeFontDirs\<close> and
  \<open>CleanupAppScopeFontDirs\<close> of \<open>font_manager_utils.cpp\<close>): on a well-formed file tree and with no
  refused call they remove exactly the directories they look for, with everything below.
\<close>

section \<open>Well-formed trees\<close>

definition tree_ok :: "'a world_scheme \<Rightarrow> bool" where
  "tree_ok w \<longleftrightarrow> distinct (map fst (fs w)) \<and>
     (\<forall>(q, n)\<in>set (fs w). q \<noteq> [] \<and> simple_name (last q) \<and> node_at w (butlast q) = Some Dir)"

lemma tree_ok_drop:
  assumes "tree_ok w" "p \<noteq> []"
  shows "tree_ok (drop_tree p w)"
proof -
  have "distinct (map fst (filter f xs))" if "distinct (map fst xs)" for f and xs :: file_tree
    using that by (induction xs) auto
  moreover have "\<not> prefix p q \<Longrightarrow> \<not> prefix p (butlast q)" for q
    by (metis append_butlast_last_id butlast.simps(1) prefix_append prefix_order.trans)
  ultimately show ?thesis
    using assms by (fastforce simp: tree_ok_def drop_tree_def node_at_drop_tree [unfolded drop_tree_def])
qed

lemma node_at_entry: "tree_ok w \<Longrightarrow> q \<noteq> [] \<Longrightarrow> node_at w q = Some n \<longleftrightarrow> (q, n) \<in> set (fs w)"
  by (simp add: tree_ok_def node_at_def)

lemma node_at_parent:
  assumes "tree_ok w" "node_at w (p @ [d]) = Some n"
  shows "node_at w p = Some Dir" "simple_name d"
  using assms node_at_entry [OF assms(1), of "p @ [d]" n] by (auto simp: tree_ok_def)

lemma tree_ok_absent:
  assumes ok: "tree_ok w" and "prefix p q" "node_at w p = None"
  shows "node_at w q = None"
  using assms(2,3)
proof (induction q rule: rev_induct)
  case (snoc d q)
  show ?case
  proof (cases "p = q @ [d]")
    case False
    with snoc have "node_at w q = None" by (metis prefix_snoc)
    then show ?thesis using node_at_parent(1) [OF ok, of q d] by fastforce
  qed (use snoc in simp)
qed simp

lemma dir_entries_iff: "tree_ok w \<Longrightarrow> (d, n) \<in> set (dir_entries w p) \<longleftrightarrow> node_at w (p @ [d]) = Some n"
  using node_at_entry [of w "p @ [d]" n] by (force simp: dir_entries_def image_iff)

lemma matching_dirs_iff:
  "tree_ok w \<Longrightarrow> s \<in> set (matching_dirs w P ip) \<longleftrightarrow> (\<exists>d. s = ip @ d \<and> P d \<and> node_at w (resolve ip @ [d]) = Some Dir)"
  by (auto simp: matching_dirs_def dir_entries_iff)

section \<open>Cleared subtrees\<close>

definition cleared :: "path set \<Rightarrow> 'a world_scheme \<Rightarrow> 'a world_scheme \<Rightarrow> bool" where
  "cleared S w w' \<longleftrightarrow> (\<forall>q. node_at w' q = (if \<exists>p\<in>S. prefix p q then None else node_at w q))"

lemma cleared_empty [simp]: "cleared {} w w"
  by (simp add: cleared_def)

lemma cleared_trans: "cleared S w w1 \<Longrightarrow> cleared T w1 w2 \<Longrightarrow> cleared (S \<union> T) w w2"
  by (auto simp: cleared_def)

lemma DeleteDir_cleared:
  assumes "tree_ok w" "\<forall>c. \<not> sys_fault E c" "resolve p \<noteq> []" "\<not> wants_dir p" "p \<noteq> []"
  shows "cleared {resolve p} w (DeleteDir E w p True) \<and> tree_ok (DeleteDir E w p True)"
proof (cases "node_at w (resolve p)")
  case None
  with assms show ?thesis
    using tree_ok_absent [OF assms(1) _ None]
    by (auto simp: DeleteDir_def CheckPathExist_def path_exists_def cleared_def)
next
  case (Some n)
  then have "DeleteDir E w p True = drop_tree (resolve p) w"
    using assms by (simp add: DeleteDir_def CheckPathExist_def path_exists_def RemoveAll_def remove_all_def split: node.split)
  with assms(1,3) show ?thesis
    by (auto simp: cleared_def node_at_drop_tree tree_ok_drop)
qed

lemma foldl_DeleteDir_cleared:
  assumes "\<forall>c. \<not> sys_fault E c"
  shows "tree_ok w \<Longrightarrow> (\<forall>p\<in>set ps. resolve p \<noteq> [] \<and> \<not> wants_dir p \<and> p \<noteq> []) \<Longrightarrow>
    cleared (resolve ` set ps) w (foldl (\<lambda>w1 p. DeleteDir E w1 p True) w ps) \<and>
    tree_ok (foldl (\<lambda>w1 p. DeleteDir E w1 p True) w ps)"
proof (induction ps arbitrary: w)
  case (Cons p ps)
  then have 1: "cleared {resolve p} w (DeleteDir E w p True)" "tree_ok (DeleteDir E w p True)"
    using DeleteDir_cleared [OF Cons.prems(1) assms, of p] by simp_all
  from Cons.IH [OF 1(2)] Cons.prems(2) cleared_trans [OF 1(1)] show ?case by simp
qed simp

section \<open>The sweep over the users\<close>

definition sweep_user ::
    "'e font_env_scheme \<Rightarrow> (string \<Rightarrow> bool) \<Rightarrow> 'a world_scheme \<Rightarrow> int \<Rightarrow> 'a world_scheme" where
  "sweep_user E P w userId =
     (if \<not> CheckPathExist E w (install_path userId) then w
      else foldl (\<lambda>w2 dirPath. DeleteDir E w2 dirPath True) w (matching_dirs w P (install_path userId)))"

definition swept :: "(string \<Rightarrow> bool) \<Rightarrow> 'a world_scheme \<Rightarrow> int set \<Rightarrow> path set" where
  "swept P w us = {install_dir u @ [d] | u d. u \<in> us \<and> P d \<and> node_at w (install_dir u @ [d]) = Some Dir}"

lemma sweep_user_cleared:
  assumes ok: "tree_ok w" and faults: "\<forall>c. \<not> sys_fault E c"
  shows "cleared (swept P w {u}) w (sweep_user E P w u) \<and> tree_ok (sweep_user E P w u)"
proof (cases "CheckPathExist E w (install_path u)")
  case False
  then have "node_at w (install_dir u) \<noteq> Some Dir"
    using faults install_path_slash [of u] by (auto simp: CheckPathExist_def path_exists_def)
  then have "swept P w {u} = {}" using node_at_parent(1) [OF ok] by (auto simp: swept_def)
  with False ok show ?thesis by (simp add: sweep_user_def)
next
  case True
  have name: "simple_name d" if "node_at w (install_dir u @ [d]) = Some Dir" for d
    using node_at_parent(2) [OF ok that] .
  have iff: "s \<in> set (matching_dirs w P (install_path u)) \<longleftrightarrow>
      (\<exists>d. s = install_path u @ d \<and> P d \<and> node_at w (install_dir u @ [d]) = Some Dir)" for s
    by (rule matching_dirs_iff [OF ok])
  have "resolve ` set (matching_dirs w P (install_path u)) = swept P w {u}"
  proof (intro equalityI subsetI)
    fix q assume "q \<in> swept P w {u}"
    then obtain d where d: "q = install_dir u @ [d]" "P d" "node_at w (install_dir u @ [d]) = Some Dir"
      by (auto simp: swept_def)
    then have "q = resolve (install_path u @ d)" by (simp add: resolve_install_path_name name)
    moreover from d have "install_path u @ d \<in> set (matching_dirs w P (install_path u))" using iff by blast
    ultimately show "q \<in> resolve ` set (matching_dirs w P (install_path u))" by blast
  qed (auto simp: swept_def iff resolve_install_path_name name)
  moreover have "\<forall>p\<in>set (matching_dirs w P (install_path u)). resolve p \<noteq> [] \<and> \<not> wants_dir p \<and> p \<noteq> []"
  proof
    fix p assume "p \<in> set (matching_dirs w P (install_path u))"
    then obtain d where p: "p = install_path u @ d" and d: "simple_name d" using iff name by blast
    then show "resolve p \<noteq> [] \<and> \<not> wants_dir p \<and> p \<noteq> []"
      by (auto simp: resolve_install_path_name wants_dir_def simple_name_def dest: last_in_set)
  qed
  ultimately show ?thesis
    using foldl_DeleteDir_cleared [OF faults ok, of "matching_dirs w P (install_path u)"] True
    unfolding sweep_user_def by simp
qed

lemma foldl_sweep_cleared:
  assumes faults: "\<forall>c. \<not> sys_fault E c"
  shows "tree_ok w \<Longrightarrow> cleared (swept P w (set us)) w (foldl (sweep_user E P) w us) \<and> tree_ok (foldl (sweep_user E P) w us)"
proof (induction us arbitrary: w)
  case Nil
  have "swept P w {} = {}" by (simp add: swept_def)
  with Nil show ?case by simp
next
  case (Cons u us)
  let ?w1 = "sweep_user E P w u"
  have 1: "cleared (swept P w {u}) w ?w1" "tree_ok ?w1"
    using sweep_user_cleared [OF Cons.prems faults] by blast+
  from Cons.IH [OF 1(2)] have 2: "cleared (swept P w {u} \<union> swept P ?w1 (set us)) w (foldl (sweep_user E P) w (u # us))"
    "tree_ok (foldl (sweep_user E P) w (u # us))"
    using cleared_trans [OF 1(1)] by simp_all
  have "(\<exists>p\<in>swept P w {u} \<union> swept P ?w1 (set us). prefix p q) \<longleftrightarrow> (\<exists>p\<in>swept P w (set (u # us)). prefix p q)" for q
  proof
    assume "\<exists>p\<in>swept P w {u} \<union> swept P ?w1 (set us). prefix p q"
    then show "\<exists>p\<in>swept P w (set (u # us)). prefix p q"
      using 1(1) by (auto simp: swept_def cleared_def split: if_splits)
  next
    assume "\<exists>p\<in>swept P w (set (u # us)). prefix p q"
    then obtain v d where p: "v \<in> insert u (set us)" "P d" "node_at w (install_dir v @ [d]) = Some Dir"
      "prefix (install_dir v @ [d]) q" by (auto simp: swept_def)
    show "\<exists>p\<in>swept P w {u} \<union> swept P ?w1 (set us). prefix p q"
    proof (cases "v = u \<or> node_at ?w1 (install_dir v @ [d]) = Some Dir")
      case True
      with p show ?thesis by (auto simp: swept_def)
    next
      case False
      with 1(1) p(3) obtain p' where "p' \<in> swept P w {u}" "prefix p' (install_dir v @ [d])"
        unfolding cleared_def by metis
      with p(4) show ?thesis using prefix_order.trans by blast
    qed
  qed
  with 2 show ?case unfolding cleared_def by presburger
qed

lemma CleanupAllScopeFontDirs_sweep:
  "CleanupAllScopeFontDirs E w = foldl (sweep_user E app_or_session_dir) w (GetAllCreatedUserIds E)"
  by (simp add: CleanupAllScopeFontDirs_def sweep_user_def [abs_def] Let_def)

lemma CleanupAppScopeFontDirs_sweep:
  "CleanupAppScopeFontDirs E w = foldl (sweep_user E (prefix APP_FONT_DIR_PREFIX)) w (GetAllCreatedUserIds E)"
  by (simp add: CleanupAppScopeFontDirs_def sweep_user_def [abs_def] Let_def)

end
