(* ===== verification/Utility_Properties.thy ===== *)
theory Utility_Properties
  imports Reference_Runs Sweep_Laws
begin

text \<open>
  What the utilities promise (\<open>font_manager_utils.cpp\<close> and the path checks of \<open>font_manager.cpp\<close>):
  complete copies, resolved paths that stay in the user's directory, users that do not touch each
  other, sweeps that remove what they look for and nothing else.
\<close>

section \<open>Copies\<close>

text \<open>
  C36: the \<open>sendfile\<close> loop of \<open>CopyFileByFd\<close> reports success only when every byte was sent, and it does
  succeed, with any mixture of interruptions and short writes, when the source has the bytes \<open>fstat\<close>
  promises and every call that is not interrupted makes progress.
\<close>

theorem copy_loop_complete:
  "(fst (send_loop as avail fileSize 0) \<longrightarrow> snd (send_loop as avail fileSize 0) = fileSize \<and> fileSize \<le> avail) \<and>
   (fileSize \<le> avail \<and> (\<forall>a\<in>set as. a = SfIntr \<or> (\<exists>n>0. a = SfSent n)) \<longrightarrow>
      send_loop as avail fileSize 0 = (True, fileSize))"
  using send_loop_complete [of as avail fileSize "snd (send_loop as avail fileSize 0)"]
    send_loop_progress [of fileSize avail as 0]
  by (cases "send_loop as avail fileSize 0") auto

theorem copy_loop_complete_witness:
  "send_loop [SfSent 2, SfIntr, SfSent 9, SfSent 1] 12 12 0 = (True, 12) \<and>
     \<not> fst (send_loop [SfSent 2, SfFail] 12 12 0)"
  using copy_loop_complete [of "[SfSent 2, SfIntr, SfSent 9, SfSent 1]" 12 12]
    copy_loop_complete [of "[SfSent 2, SfFail]" 12 12] by simp

text \<open>
  A successful \<open>CopyFile\<close> leaves in the target exactly the bytes \<open>fstat\<close> promises, changes no other
  path, and was asked for a size between 0 and 1 GB.
\<close>

lemma copy_file_effect:
  assumes "CopyFile E w fd p = (True, w')"
  shows "\<exists>i. fds w fd = Some i \<and> 0 \<le> st_size i \<and> st_size i \<le> 1024 * 1024 * 1024 \<and>
    nat (st_size i) \<le> length (fd_data i) \<and>
    (\<forall>q. node_at w' q = (if q = resolve p then Some (File (take (nat (st_size i)) (fd_data i))) else node_at w q))"
proof -
  from assms obtain w1 where 1: "fopen_w E w p = Some w1" and 2: "CopyFileByFd E w1 fd p = (True, w')"
    by (auto simp: CopyFile_def split: option.splits if_splits)
  from fopen_w_SomeD [OF 1] have w1: "w1 = put_node (resolve p) (File []) w" "resolve p \<noteq> []" by simp_all
  from CopyFileByFd_ok [OF 2] obtain i where i: "fds w fd = Some i" "nat (st_size i) \<le> length (fd_data i)"
    "w' = put_node (resolve p) (File (take (nat (st_size i)) (fd_data i))) w1"
    by (auto simp: w1 world_simps)
  with 2 have "0 \<le> st_size i \<and> st_size i \<le> 1024 * 1024 * 1024"
    by (auto simp: CopyFileByFd_def MAX_FONT_FILE_SIZE_def w1 world_simps split: if_splits)
  with i w1 show ?thesis by (auto simp: world_simps)
qed

section \<open>Paths\<close>

text \<open>
  C18: whatever path a record holds, \<open>ValidateAndResolveRealPath\<close> gives either nothing or a path strictly
  below the user's directory, the one the record names: no record makes the manager leave it.
\<close>

theorem resolved_path_contained:
  assumes "ValidateAndResolveRealPath E (install_path u) path \<noteq> []"
  shows "strict_prefix (install_dir u) (resolve (ValidateAndResolveRealPath E (install_path u) path)) \<and>
    resolve (ValidateAndResolveRealPath E (install_path u) path) = resolve (SandBoxPathToRealPath (install_path u) path)"
  using ValidateAndResolveRealPath_below [OF refl assms] by simp

theorem resolved_path_contained_witness:
  "strict_prefix (install_dir 100) (resolve (ValidateAndResolveRealPath ref_env (install_path 100) (INSTALL_PATH_APP @ ''a.ttf'')))"
  by (rule resolved_path_contained [THEN conjunct1]) (simp add: ref_font_path path_string_def)

text \<open>
  The operations of the manager for one user leave everything below the directory of every other
  user as it is, whether they succeed or fail.
\<close>

lemma other_users_untouched:
  assumes "configs_ok s" "u \<noteq> v" "prefix (install_dir v) q" "simple_name a" "simple_name (si_appIdentifier info)"
    "si_userId info = u"
  shows "node_at (snd (InstallFont E s fd u)) q = node_at s q \<and> node_at (snd (UninstallFont E s n u)) q = node_at s q \<and>
    node_at (snd (InstallScopeFont E s info)) q = node_at s q \<and>
    node_at (snd (UninstallScopeFont E s url bundle tok u)) q = node_at s q \<and>
    node_at (snd (CleanupAppScopeFonts E s a u)) q = node_at s q \<and>
    node_at (snd (CleanupScopeFontsByUser E s u)) q = node_at s q \<and>
    node_at (snd (CleanupAppScopeFontsByUser E s u)) q = node_at s q"
proof -
  have out: "\<not> prefix (install_dir u) q" using install_dir_apart assms(2,3) by blast
  have keep: "fm_frame u es s s' \<Longrightarrow> node_at s' q = node_at s q" for es s'
    using out by (simp add: fm_frame_def)
  note ok = assms(1)
  show ?thesis
    using InstallFont_frame [OF ok prod.collapse [symmetric], where E = E and fd = fd and u = u]
      UninstallFont_frame [OF ok prod.collapse [symmetric], where E = E and n = n and u = u]
      InstallScopeFont_frame [OF ok assms(5) prod.collapse [symmetric], where E = E, unfolded assms(6)]
      UninstallScopeFont_frame [OF ok prod.collapse [symmetric], where E = E and u = u]
      CleanupAppScopeFonts_frame [OF ok assms(4) prod.collapse [symmetric], where E = E and u = u]
      CleanupScopeFontsByUser_frame [OF ok prod.collapse [symmetric], where E = E and u = u]
      CleanupAppScopeFontsByUser_frame [OF ok prod.collapse [symmetric], where E = E and u = u] keep
    by (intro conjI) blast+
qed

section \<open>Sweeps\<close>

text \<open>
  On a well-formed tree and with no refused call, \<open>CleanupAllScopeFontDirs\<close> (after a user is removed)
  and \<open>CleanupAppScopeFontDirs\<close> (at the start of the service) remove from the directories of the
  created users exactly the directories of applications and sessions, or of applications only, with
  everything below them, and nothing else.
\<close>

lemma sweep_exact:
  assumes "tree_ok w" "\<forall>c. \<not> sys_fault E c"
  shows "node_at (CleanupAllScopeFontDirs E w) q =
      (if \<exists>u\<in>set (GetAllCreatedUserIds E). \<exists>d. app_or_session_dir d \<and> node_at w (install_dir u @ [d]) = Some Dir \<and>
            prefix (install_dir u @ [d]) q then None else node_at w q) \<and>
    node_at (CleanupAppScopeFontDirs E w) q =
      (if \<exists>u\<in>set (GetAllCreatedUserIds E). \<exists>d. prefix APP_FONT_DIR_PREFIX d \<and> node_at w (install_dir u @ [d]) = Some Dir \<and>
            prefix (install_dir u @ [d]) q then None else node_at w q)"
proof -
  have "(\<exists>p\<in>swept P w us. prefix p q) \<longleftrightarrow>
      (\<exists>u\<in>us. \<exists>d. P d \<and> node_at w (install_dir u @ [d]) = Some Dir \<and> prefix (install_dir u @ [d]) q)" for P us
    by (auto simp: swept_def)
  with foldl_sweep_cleared [OF assms(2,1)] show ?thesis
    unfolding CleanupAllScopeFontDirs_sweep CleanupAppScopeFontDirs_sweep cleared_def by presburger
qed

end
