(* ===== verification/Registry_Laws.thy ===== *)
theory Registry_Laws
  imports Client_Registry Manager_Laws
begin

text \<open>
  The laws of \<open>FontClientRegistry\<close>: its two tables and the death links agree, a registration is
  refused exactly when it must be, and a client that goes takes its entry along and nothing else.
  The callback that \<open>OnStart\<close> gives to the registry is an interface: the locale
  \<open>died_listener\<close> says what the registry relies on.
\<close>

section \<open>What an operation of the manager leaves of the registry\<close>

lemma more_registry:
  "fm_state.more s' = fm_state.more (s :: 'a registry_state_scheme) \<Longrightarrow>
     clients s' = clients s \<and> userClients s' = userClients s \<and> death_links s' = death_links s \<and>
     clientDiedCallback s' = clientDiedCallback s \<and> dm_isDataMigrationing s' = dm_isDataMigrationing s \<and>
     dm_userIds s' = dm_userIds s \<and> dm_callback s' = dm_callback s \<and>
     registry_state.more s' = registry_state.more s"
  by (cases s; cases s') simp

lemma truncate_registry:
  "registry_state.truncate s' = registry_state.truncate (s :: 'a registry_state_scheme) \<Longrightarrow>
     clients s' = clients s \<and> userClients s' = userClients s \<and> death_links s' = death_links s \<and>
     clientDiedCallback s' = clientDiedCallback s \<and> dm_isDataMigrationing s' = dm_isDataMigrationing s \<and>
     configMap s' = configMap s \<and> fs s' = fs s \<and> fds s' = fds s \<and> effects s' = effects s"
  by (cases s; cases s') (simp add: registry_state.truncate_def)

lemma BuildAppIdentifier_eq:
  "sc \<in> {FONT_SCOPE_APP, FONT_SCOPE_SESSION} \<Longrightarrow> BuildAppIdentifier sc t = MakeAppIdentifier sc t"
  by (auto simp: BuildAppIdentifier_def MakeAppIdentifier_def err_defs)

lemma simple_name_BuildAppIdentifier [simp]: "simple_name (BuildAppIdentifier sc t)"
  by (simp add: simple_name_def BuildAppIdentifier_def path_defs)

section \<open>The invariant\<close>

definition registry_ok :: "'a registry_state_scheme \<Rightarrow> bool" where
  "registry_ok s \<longleftrightarrow>
     distinct (map fst (clients s)) \<and>
     (\<forall>t i. map_of (clients s) t = Some i \<longrightarrow>
        ci_tokenId i = t \<and> ci_appIdentifier i = BuildAppIdentifier FONT_SCOPE_APP t \<and> ci_binder i \<noteq> None) \<and>
     (\<forall>u t. t \<in> userClients s u \<longleftrightarrow> (\<exists>i. map_of (clients s) t = Some i \<and> ci_userId i = u)) \<and>
     (\<forall>u. int (card (userClients s u)) \<le> MAX_SCOPE_FONT_APP_NUM)"

text \<open>
  The death links are those of the clients, but for the tokens whose binder is dying: the
  framework has taken their links off before it calls the recipients.
\<close>

definition links_ok :: "int set \<Rightarrow> 'a registry_state_scheme \<Rightarrow> bool" where
  "links_ok dying s \<longleftrightarrow>
     (\<forall>b t. (b, t) \<in> set (death_links s) \<longleftrightarrow>
        (\<exists>i. map_of (clients s) t = Some i \<and> ci_binder i = Some b \<and> t \<notin> dying))"

lemma registry_ok_cong:
  "clients s' = clients s \<Longrightarrow> userClients s' = userClients s \<Longrightarrow> registry_ok s' = registry_ok s"
  by (simp add: registry_ok_def)

lemma links_ok_cong:
  "clients s' = clients s \<Longrightarrow> death_links s' = death_links s \<Longrightarrow> links_ok d s' = links_ok d s"
  by (simp add: links_ok_def)

lemma userClients_finite: "registry_ok s \<Longrightarrow> finite (userClients s u)"
proof -
  assume "registry_ok s"
  then have "userClients s u \<subseteq> dom (map_of (clients s))" by (auto simp: registry_ok_def)
  then show ?thesis by (rule finite_subset) (simp add: finite_dom_map_of)
qed

lemma registry_empty:
  "clients s = [] \<Longrightarrow> userClients s = (\<lambda>_. {}) \<Longrightarrow> registry_ok s"
  by (simp add: registry_ok_def MAX_SCOPE_FONT_APP_NUM_def)

section \<open>Registration\<close>

text \<open>Every way a registration can end, in the order of the source's checks.\<close>

lemma RegisterClient_cases:
  "RegisterClient E s b bn u t =
     (if IsClientRegistered s t then (ERR_SCOPE_FONT_REPEATED_REGISTER, s)
      else if int (card (userClients s u)) \<ge> MAX_SCOPE_FONT_APP_NUM
      then (ERR_SCOPE_FONT_EXCEED_REGISTER_LIMIT, s)
      else if b = None \<or> \<not> recipient_alloc E \<or> \<not> AddDeathRecipient E (the b) then (ERR_SYSTEM_ERROR, s)
      else (ERR_OK,
            s\<lparr>death_links := (the b, t) # death_links s,
              clients := AList.update t \<lparr>ci_binder = b, ci_bundleName = bn, ci_userId = u, ci_tokenId = t,
                ci_appIdentifier = BuildAppIdentifier FONT_SCOPE_APP t\<rparr> (clients s),
              userClients := (userClients s)(u := insert t (userClients s u))\<rparr>))"
  by (simp add: RegisterClient_def IsClientRegistered_def Let_def split: option.split)

lemma RegisterClient_error: "RegisterClient E s b bn u t = (r, s') \<Longrightarrow> r \<noteq> ERR_OK \<Longrightarrow> s' = s"
  by (auto simp: RegisterClient_cases split: if_splits)

lemma RegisterClient_ok:
  assumes "registry_ok s" "links_ok {} s" "RegisterClient E s b bn u t = (r, s')"
  shows "registry_ok s'" "links_ok {} s'"
proof -
  have "registry_ok s' \<and> links_ok {} s'"
  proof (cases "r = ERR_OK")
    case False
    with assms RegisterClient_error [OF assms(3)] show ?thesis by simp
  next
    case True
    have codes: "ERR_SCOPE_FONT_REPEATED_REGISTER \<noteq> ERR_OK" "ERR_SCOPE_FONT_EXCEED_REGISTER_LIMIT \<noteq> ERR_OK"
      "ERR_SYSTEM_ERROR \<noteq> ERR_OK" by (simp_all add: err_defs)
    from True assms(3) codes obtain b' where b: "b = Some b'" and free: "map_of (clients s) t = None"
      and few: "int (card (userClients s u)) < MAX_SCOPE_FONT_APP_NUM"
      and s': "s' = s\<lparr>death_links := (b', t) # death_links s,
              clients := AList.update t \<lparr>ci_binder = b, ci_bundleName = bn, ci_userId = u, ci_tokenId = t,
                ci_appIdentifier = BuildAppIdentifier FONT_SCOPE_APP t\<rparr> (clients s),
              userClients := (userClients s)(u := insert t (userClients s u))\<rparr>"
      by (auto simp: RegisterClient_cases IsClientRegistered_def split: if_splits)
    have fin: "finite (userClients s u)" by (rule userClients_finite) (rule assms(1))
    have new: "t \<notin> userClients s u'" for u' using assms(1) free by (auto simp: registry_ok_def)
    have "registry_ok s'"
      using assms(1) free few fin new unfolding registry_ok_def s'
      by (auto simp: update_conv' distinct_update b)
    moreover have "links_ok {} s'"
      using assms(2) free unfolding links_ok_def s' by (auto simp: update_conv' b)
    ultimately show ?thesis ..
  qed
  then show "registry_ok s'" "links_ok {} s'" by blast+
qed

section \<open>A client goes\<close>

lemma erase_client_simps [simp]:
  "map_of (clients (erase_client s t u)) t' = (if t' = t then None else map_of (clients s) t')"
  "clients (erase_client s t u) = AList.delete t (clients s)"
  "death_links (erase_client s t u) = death_links s" "configMap (erase_client s t u) = configMap s"
  "fs (erase_client s t u) = fs s" "effects (erase_client s t u) = effects s"
  "fds (erase_client s t u) = fds s" "clientDiedCallback (erase_client s t u) = clientDiedCallback s"
  "dm_isDataMigrationing (erase_client s t u) = dm_isDataMigrationing s"
  by (simp_all add: erase_client_def delete_conv')

lemma erase_client_ok:
  assumes "registry_ok s" "map_of (clients s) t = Some i"
  shows "registry_ok (erase_client s t (ci_userId i))"
proof -
  have "card (userClients s u - {t}) \<le> card (userClients s u)" for u
    by (rule card_mono) (use userClients_finite [OF assms(1)] in auto)
  then have card: "int (card (userClients s u - {t})) \<le> MAX_SCOPE_FONT_APP_NUM" for u
    using assms(1) unfolding registry_ok_def by (meson of_nat_mono order_trans)
  have "card (userClients (erase_client s t (ci_userId i)) u) = card (userClients s u - (if u = ci_userId i then {t} else {}))"
    for u by (simp add: erase_client_def)
  moreover have "int (card (userClients s u)) \<le> MAX_SCOPE_FONT_APP_NUM" for u
    using assms(1) by (simp add: registry_ok_def)
  ultimately have "int (card (userClients (erase_client s t (ci_userId i)) u)) \<le> MAX_SCOPE_FONT_APP_NUM" for u
    using card by (cases "u = ci_userId i") simp_all
  then show ?thesis
    using assms unfolding registry_ok_def
    by (auto simp: erase_client_def delete_conv' distinct_delete simp del: map_of_eq_Some_iff)
qed

lemma cleanup_client_frame:
  assumes "configs_ok s" "ci_appIdentifier i = BuildAppIdentifier FONT_SCOPE_APP t"
  shows "\<exists>es. fm_frame (ci_userId i) es s (cleanup_client E s i) \<and> (\<forall>k. UnloadService k \<notin> set es)"
proof (cases "ci_userId i \<ge> 0")
  case True
  obtain r s' where run: "CleanupAppScopeFonts E s (ci_appIdentifier i) (ci_userId i) = (r, s')" by fastforce
  have "simple_name (ci_appIdentifier i)" by (simp add: assms(2))
  from CleanupAppScopeFonts_frame [OF assms(1) this run] True run show ?thesis
    by (auto simp: cleanup_client_def assms(2) BuildAppIdentifier_def path_defs)
qed (auto simp: cleanup_client_def intro: exI [of _ "[]"])

text \<open>
  Both ways a client goes: the tables lose its entry and nothing else, the files change only below
  the directory of its user, and the service is not unloaded.
\<close>

definition client_gone :: "int \<Rightarrow> 'a registry_state_scheme \<Rightarrow> 'a registry_state_scheme \<Rightarrow> bool" where
  "client_gone t s s' \<longleftrightarrow>
     clients s' = AList.delete t (clients s) \<and> registry_ok s' \<and> configs_ok s' \<and>
     clientDiedCallback s' = clientDiedCallback s \<and>
     dm_isDataMigrationing s' = dm_isDataMigrationing s \<and>
     (\<exists>es. effects s' = effects s @ es \<and> (\<forall>k. UnloadService k \<notin> set es)) \<and>
     (\<forall>q. (\<forall>i. map_of (clients s) t = Some i \<longrightarrow> \<not> prefix (install_dir (ci_userId i)) q) \<longrightarrow>
          node_at s' q = node_at s q)"

text \<open>What the registry relies on: the callback leaves everything below the service alone.\<close>

locale died_listener =
  fixes callback :: "'a registry_state_scheme \<Rightarrow> 'a registry_state_scheme"
  assumes callback_keeps: "registry_state.truncate (callback s) = registry_state.truncate s"
begin

lemma notify_keeps: "registry_state.truncate (NotifyClientDied callback s) = registry_state.truncate s"
  by (simp add: NotifyClientDied_def callback_keeps)

lemmas notify_fields = truncate_registry [OF notify_keeps]

lemma leave_gone:
  assumes ok: "registry_ok s" "configs_ok s" and i: "map_of (clients s) t = Some i"
  shows "client_gone t s (NotifyClientDied callback (cleanup_client E (erase_client s t (ci_userId i)) i))"
    and "death_links (NotifyClientDied callback (cleanup_client E (erase_client s t (ci_userId i)) i)) =
         death_links s"
proof -
  let ?e = "erase_client s t (ci_userId i)"
  have app: "ci_appIdentifier i = BuildAppIdentifier FONT_SCOPE_APP t"
    using ok(1) i by (simp add: registry_ok_def)
  have conf: "configs_ok ?e" using ok(2) by (simp add: configs_ok_def)
  from cleanup_client_frame [OF conf app] obtain es where
    fr: "fm_frame (ci_userId i) es ?e (cleanup_client E ?e i)" and un: "\<forall>k. UnloadService k \<notin> set es" by blast
  then have more: "fm_state.more (cleanup_client E ?e i) = fm_state.more ?e" by (simp add: fm_frame_def)
  note m = more_registry [OF more] and n = notify_fields [of "cleanup_client E ?e i"]
  have reg: "registry_ok (NotifyClientDied callback (cleanup_client E ?e i))"
    using registry_ok_cong [of "NotifyClientDied callback (cleanup_client E ?e i)" ?e] m n
      erase_client_ok [OF ok(1) i] by simp
  have node: "node_at (NotifyClientDied callback (cleanup_client E ?e i)) q = node_at s q"
    if "\<not> prefix (install_dir (ci_userId i)) q" for q
  proof -
    have "node_at (NotifyClientDied callback (cleanup_client E ?e i)) q = node_at (cleanup_client E ?e i) q"
      using n by (intro node_at_cong_fs) simp
    also have "\<dots> = node_at ?e q" using that fr by (simp add: fm_frame_def)
    also have "\<dots> = node_at s q" by (intro node_at_cong_fs) simp
    finally show ?thesis .
  qed
  have e: "effects (NotifyClientDied callback (cleanup_client E ?e i)) = effects s @ es"
    using fr n by (simp add: fm_frame_def)
  have c: "configs_ok (NotifyClientDied callback (cleanup_client E ?e i))"
  proof -
    have "configs_ok (cleanup_client E ?e i)" using fr conf by (simp add: fm_frame_def)
    moreover have "configMap (NotifyClientDied callback (cleanup_client E ?e i)) = configMap (cleanup_client E ?e i)"
      using n by blast
    ultimately show ?thesis by (simp only: configs_ok_def)
  qed
  have "clients (NotifyClientDied callback (cleanup_client E ?e i)) = AList.delete t (clients s)"
    "clientDiedCallback (NotifyClientDied callback (cleanup_client E ?e i)) = clientDiedCallback s"
    "dm_isDataMigrationing (NotifyClientDied callback (cleanup_client E ?e i)) = dm_isDataMigrationing s"
    using m n by simp_all
  moreover have "\<exists>es. effects (NotifyClientDied callback (cleanup_client E ?e i)) = effects s @ es \<and>
      (\<forall>k. UnloadService k \<notin> set es)" using e un by blast
  moreover have "\<forall>q. (\<forall>i. map_of (clients s) t = Some i \<longrightarrow> \<not> prefix (install_dir (ci_userId i)) q) \<longrightarrow>
      node_at (NotifyClientDied callback (cleanup_client E ?e i)) q = node_at s q" using node i by blast
  ultimately show "client_gone t s (NotifyClientDied callback (cleanup_client E ?e i))"
    unfolding client_gone_def using reg c by blast
  show "death_links (NotifyClientDied callback (cleanup_client E ?e i)) = death_links s"
    using m n by simp
qed

lemma OnClientDied_gone:
  assumes "registry_ok s" "configs_ok s"
  shows "client_gone t s (OnClientDied E callback s t)" "death_links (OnClientDied E callback s t) = death_links s"
proof -
  have "client_gone t s (OnClientDied E callback s t) \<and> death_links (OnClientDied E callback s t) = death_links s"
  proof (cases "map_of (clients s) t")
    case None
    then have "AList.delete t (clients s) = clients s"
      by (simp add: delete_id map_of_eq_None_iff)
    with None assms show ?thesis
      by (auto simp: OnClientDied_def client_gone_def intro: exI [of _ "[]"])
  next
    case (Some i)
    with leave_gone [OF assms Some, of E] show ?thesis by (simp add: OnClientDied_def Let_def)
  qed
  then show "client_gone t s (OnClientDied E callback s t)"
    "death_links (OnClientDied E callback s t) = death_links s" by blast+
qed

lemma UnregisterClient_refused:
  "map_of (clients s) t = None \<Longrightarrow> UnregisterClient E callback s t = (ERR_SCOPE_FONT_NOT_REGISTERED, s)"
  by (simp add: UnregisterClient_def)

lemma UnregisterClient_gone:
  assumes ok: "registry_ok s" "configs_ok s" and i: "map_of (clients s) t = Some i"
    and b: "ci_binder i = Some b" and run: "UnregisterClient E callback s t = (r, s')"
  shows "r = ERR_OK" "client_gone t s s'" "death_links s' = removeAll (b, t) (death_links s)"
proof -
  let ?s1 = "s\<lparr>death_links := removeAll (b, t) (death_links s)\<rparr>"
  have ok1: "registry_ok ?s1" "configs_ok ?s1" "map_of (clients ?s1) t = Some i"
    using ok i registry_ok_cong [of ?s1 s] by (simp_all add: configs_ok_def)
  have s': "r = ERR_OK" "s' = NotifyClientDied callback (cleanup_client E (erase_client ?s1 t (ci_userId i)) i)"
    using run i b by (simp_all add: UnregisterClient_def Let_def)
  from s' show "r = ERR_OK" by simp
  from leave_gone [OF ok1, of E] show "client_gone t s s'"
    by (simp add: client_gone_def s'(2) node_at_def)
  from leave_gone(2) [OF ok1, of E] show "death_links s' = removeAll (b, t) (death_links s)"
    by (simp add: s'(2))
qed

lemma UnregisterClient_ok:
  assumes ok: "registry_ok s" "configs_ok s" "links_ok {} s" and run: "UnregisterClient E callback s t = (r, s')"
  shows "registry_ok s'" "configs_ok s'" "links_ok {} s'"
proof -
  have "registry_ok s' \<and> configs_ok s' \<and> links_ok {} s'"
  proof (cases "map_of (clients s) t")
    case None
    with UnregisterClient_refused [OF None, of E] run ok show ?thesis by simp
  next
    case (Some i)
    then obtain b where b: "ci_binder i = Some b" using ok(1) unfolding registry_ok_def by blast
    note g = UnregisterClient_gone [OF ok(1,2) Some b run]
    have "links_ok {} s'"
      using ok(3) g(2) Some b unfolding links_ok_def g(3) by (auto simp: client_gone_def delete_conv')
    with g(2) show ?thesis by (simp add: client_gone_def)
  qed
  then show "registry_ok s'" "configs_ok s'" "links_ok {} s'" by blast+
qed

section \<open>A binder dies\<close>

lemma foldl_OnClientDied:
  assumes "registry_ok s" "configs_ok s"
  shows "map_of (clients (foldl (OnClientDied E callback) s ts)) t =
           (if t \<in> set ts then None else map_of (clients s) t)
       \<and> registry_ok (foldl (OnClientDied E callback) s ts) \<and> configs_ok (foldl (OnClientDied E callback) s ts)
       \<and> death_links (foldl (OnClientDied E callback) s ts) = death_links s
       \<and> clientDiedCallback (foldl (OnClientDied E callback) s ts) = clientDiedCallback s
       \<and> dm_isDataMigrationing (foldl (OnClientDied E callback) s ts) = dm_isDataMigrationing s
       \<and> (\<exists>es. effects (foldl (OnClientDied E callback) s ts) = effects s @ es \<and> (\<forall>k. UnloadService k \<notin> set es))"
  using assms
proof (induction ts arbitrary: s)
  case (Cons t' ts)
  note g = OnClientDied_gone [OF Cons.prems, where t = t' and E = E]
  from g(1) have g': "registry_ok (OnClientDied E callback s t')" "configs_ok (OnClientDied E callback s t')"
    "clients (OnClientDied E callback s t') = AList.delete t' (clients s)"
    "clientDiedCallback (OnClientDied E callback s t') = clientDiedCallback s"
    "dm_isDataMigrationing (OnClientDied E callback s t') = dm_isDataMigrationing s"
    by (simp_all add: client_gone_def)
  from g(1) obtain es where es: "effects (OnClientDied E callback s t') = effects s @ es"
    "\<forall>k. UnloadService k \<notin> set es" by (auto simp: client_gone_def)
  from Cons.IH [OF g'(1,2)] g(2) g'(3-5) es show ?case
    by (auto simp: delete_conv')
qed (auto intro: exI [of _ "[]"])

lemma OnRemoteDied_ok:
  assumes ok: "registry_ok s" "configs_ok s" "links_ok {} s"
  shows "registry_ok (OnRemoteDied E callback s b)" "configs_ok (OnRemoteDied E callback s b)"
    "links_ok {} (OnRemoteDied E callback s b)"
    "map_of (clients (OnRemoteDied E callback s b)) t =
       (case map_of (clients s) t of None \<Rightarrow> None
        | Some i \<Rightarrow> if ci_binder i = Some b then None else Some i)"
    "\<exists>es. effects (OnRemoteDied E callback s b) = effects s @ es \<and> (\<forall>k. UnloadService k \<notin> set es)"
    "dm_isDataMigrationing (OnRemoteDied E callback s b) = dm_isDataMigrationing s"
    "clientDiedCallback (OnRemoteDied E callback s b) = clientDiedCallback s"
proof -
  let ?s1 = "s\<lparr>death_links := filter (\<lambda>(b', t). b' \<noteq> b) (death_links s)\<rparr>"
  let ?ts = "map snd (filter (\<lambda>(b', t). b' = b) (death_links s))"
  have ok1: "registry_ok ?s1" "configs_ok ?s1"
    using ok registry_ok_cong [of ?s1 s] by (simp_all add: configs_ok_def)
  note f = foldl_OnClientDied [OF ok1, of E ?ts]
  have ts: "t \<in> set ?ts \<longleftrightarrow> (\<exists>i. map_of (clients s) t = Some i \<and> ci_binder i = Some b)" for t
    using ok(3) by (force simp: links_ok_def)
  show "registry_ok (OnRemoteDied E callback s b)" "configs_ok (OnRemoteDied E callback s b)"
    "\<exists>es. effects (OnRemoteDied E callback s b) = effects s @ es \<and> (\<forall>k. UnloadService k \<notin> set es)"
    "dm_isDataMigrationing (OnRemoteDied E callback s b) = dm_isDataMigrationing s"
    "clientDiedCallback (OnRemoteDied E callback s b) = clientDiedCallback s"
    using f unfolding OnRemoteDied_def by simp_all
  have cl: "map_of (clients (OnRemoteDied E callback s b)) t =
       (case map_of (clients s) t of None \<Rightarrow> None
        | Some i \<Rightarrow> if ci_binder i = Some b then None else Some i)" for t
    using f ts [of t] unfolding OnRemoteDied_def by (auto split: option.split)
  then show "map_of (clients (OnRemoteDied E callback s b)) t =
       (case map_of (clients s) t of None \<Rightarrow> None
        | Some i \<Rightarrow> if ci_binder i = Some b then None else Some i)" .
  have "death_links (OnRemoteDied E callback s b) = death_links ?s1"
    using f unfolding OnRemoteDied_def by simp
  then show "links_ok {} (OnRemoteDied E callback s b)"
    using ok(3) unfolding links_ok_def by (auto simp: cl split: option.splits if_splits)
qed

end

end
