(* ===== verification/Migration_Laws.thy ===== *)
theory Migration_Laws
  imports Data_Migration Manager_Records
begin

text \<open>
  The laws of \<open>DataMigrationManager\<close>: no file of the old directory is lost on the way to the
  users' directories, the progress reports are in range and few, and a migration leaves the rest
  of the state alone and ends with one result.
\<close>

section \<open>Progress\<close>

lemma progress_percentage_exact:
  assumes "i < count" "count * 101 < 2 ^ 64"
  shows "progress_percentage i count = (i * MAX_TRIGGER_COUNT + count div 2) div count"
proof (cases "i = 0")
  case False
  have "i * 100 + count div 2 < 2 ^ 64" using assms by linarith
  moreover have "(i * 100 + count div 2) div count < 101"
    using assms by (intro less_mult_imp_div_less) linarith
  ultimately show ?thesis
    using False by (simp add: progress_percentage_def MAX_TRIGGER_COUNT_def)
next
  case True
  have "count div 2 div count = 0" using assms(1) by (intro div_less) simp
  with True show ?thesis by (simp add: progress_percentage_def)
qed

lemma time_remaining_range: "1 \<le> time_remaining folderSize idsize \<and> time_remaining folderSize idsize < 2 ^ 32"
  by (simp add: time_remaining_def Let_def)

lemma time_remaining_exact:
  assumes "0 < idsize" "folderSize < UINT64_MAX div idsize"
  shows "(folderSize * idsize) mod 2 ^ 64 = folderSize * idsize"
proof -
  have "folderSize * idsize \<le> (UINT64_MAX div idsize) * idsize" using assms(2) by simp
  also have "\<dots> \<le> UINT64_MAX" by (rule div_times_less_eq_dividend)
  finally show ?thesis by (simp add: UINT64_MAX_def)
qed

text \<open>The trigger a file belongs to is the nearest hundredth; no two files share one.\<close>

definition trigger :: "nat \<Rightarrow> nat \<Rightarrow> nat" where
  "trigger n i = (2 * i * MAX_TRIGGER_COUNT + n) div (2 * n)"

lemma trigger_le: "i < n \<Longrightarrow> trigger n i \<le> MAX_TRIGGER_COUNT"
proof -
  assume "i < n"
  then have "2 * i * 100 + n < 101 * (2 * n)" by linarith
  then have "(2 * i * 100 + n) div (2 * n) < 101" using less_mult_imp_div_less by blast
  then show ?thesis by (simp add: trigger_def MAX_TRIGGER_COUNT_def)
qed

lemma trigger_inj:
  assumes "n > MAX_TRIGGER_COUNT"
  shows "inj_on (trigger n) {i. IsShouldUpdateProgress i n}"
proof (rule inj_onI)
  fix i j
  assume ij: "i \<in> {i. IsShouldUpdateProgress i n}" "j \<in> {i. IsShouldUpdateProgress i n}"
    and eq: "trigger n i = trigger n j"
  have near: "2 * \<bar>int (k * 100) - int (trigger n k * n)\<bar> < 100" if "IsShouldUpdateProgress k n" for k
    using that assms unfolding IsShouldUpdateProgress_def Let_def MAX_TRIGGER_COUNT_def trigger_def
    by (simp split: if_splits)
  from near [of i] near [of j] ij have "2 * \<bar>int (i * 100) - int (trigger n i * n)\<bar> < 100"
    "2 * \<bar>int (j * 100) - int (trigger n i * n)\<bar> < 100" unfolding eq by simp_all
  moreover have "a = b" if "2 * \<bar>a * 100 - t\<bar> < 100" "2 * \<bar>b * 100 - t\<bar> < 100" for a b t :: int
  proof -
    from that have "a * 100 - t < 50" "t - a * 100 < 50" "b * 100 - t < 50" "t - b * 100 < 50"
      by (simp_all add: abs_if split: if_splits)
    then have "a < b + 1" "b < a + 1" by linarith+
    then show "a = b" by simp
  qed
  ultimately have "int i = int j" unfolding of_nat_mult of_nat_numeral by blast
  then show "i = j" by simp
qed

section \<open>One file for one user\<close>

lemma to_string_not_public [simp]: "to_string u \<noteq> ''public''" "''public'' \<noteq> to_string u"
proof -
  have "CHR ''p'' \<notin> set (to_string u)"
    by (auto simp: to_string_def is_digit_def dest: nat_digits_all_digits split: if_splits)
  then show "to_string u \<noteq> ''public''" "''public'' \<noteq> to_string u"
    by (metis list.set_intros(1))+
qed

lemma resolve_old_dir: "resolve INSTALL_PATH_APP = [''data'', ''service'', ''el1'', ''public'', ''for-all-app'', ''fonts'']"
  by (simp add: resolve_def path_defs)

lemma old_dir_apart: "prefix (resolve INSTALL_PATH_APP) p \<Longrightarrow> \<not> prefix (install_dir u) p"
  by (auto simp: resolve_old_dir resolve_install_path prefix_def)

abbreviation migrated :: "string \<Rightarrow> int \<Rightarrow> path" where
  "migrated src u \<equiv> install_dir u @ [GetFileName src]"

abbreviation migrating :: "string \<Rightarrow> int \<Rightarrow> path" where
  "migrating src u \<equiv> install_dir u @ [''temp'', GetFileName src]"

lemma node_at_fd [world_simps]:
  "node_at (open_fd fd p c w) q = node_at w q" "node_at (close_fd fd w) q = node_at w q"
  by (simp_all add: node_at_def open_fd_def close_fd_def)

lemma more_fd [world_simps]:
  "world.more (open_fd fd p c w) = world.more w" "world.more (close_fd fd w) = world.more w"
  "effects (open_fd fd p c w) = effects w" "effects (close_fd fd w) = effects w"
  by (cases w; simp add: open_fd_def close_fd_def)+

lemma install_path_append: "INSTALL_PATH_PREFIX @ to_string u @ INSTALL_PATH_SUFFIX @ xs = install_path u @ xs"
  by (simp add: install_path_def)

text \<open>
  What one copy may change: the file in the user's directory, which then has the content of the
  source, and the temporary file.
\<close>

definition copied :: "string \<Rightarrow> int list \<Rightarrow> 'a world_scheme \<Rightarrow> 'a world_scheme \<Rightarrow> bool" where
  "copied src us w w' \<longleftrightarrow>
     world.more w' = world.more w \<and> effects w' = effects w \<and>
     (\<forall>q. node_at w' q = node_at w q
        \<or> (\<exists>u\<in>set us. q = migrated src u \<and> (\<exists>c. file_content w src = Some c \<and> node_at w' q = Some (File c)))
        \<or> (\<exists>u\<in>set us. prefix (migrating src u) q))"

lemma copied_refl [simp]: "copied src us w w"
  by (simp add: copied_def)

lemma CopyFile_frame_ok:
  assumes "CopyFile E w fd p = (b, w')"
  shows "frame (resolve p) [] w w'"
    "b \<Longrightarrow> \<exists>i. fds w fd = Some i \<and> node_at w' (resolve p) = Some (File (take (nat (st_size i)) (fd_data i)))"
proof -
  show "frame (resolve p) [] w w'" using frame_CopyFile [OF assms] by simp
  assume b
  with assms obtain w1 where w1: "fopen_w E w p = Some w1" "CopyFileByFd E w1 fd p = (True, w')"
    by (auto simp: CopyFile_def split: option.splits if_splits)
  from fopen_w_SomeD [OF w1(1)] have "resolve p \<noteq> []" "fds w1 fd = fds w fd" by (auto simp: world_simps)
  with CopyFileByFd_ok [OF w1(2)]
  show "\<exists>i. fds w fd = Some i \<and> node_at w' (resolve p) = Some (File (take (nat (st_size i)) (fd_data i)))"
    by (auto simp: world_simps)
qed

lemma CopyFileForDataMigration_copied:
  assumes run: "CopyFileForDataMigration E w src u = (r, w')" and n: "simple_name (GetFileName src)"
  shows "copied src [u] w w'" "r = ERR_OK \<Longrightarrow> node_at w' (migrated src u) \<noteq> None"
proof -
  let ?t = "install_path u @ TEMP_FILE @ GetFileName src" and ?d = "install_path u @ GetFileName src"
  obtain a where a: "install_path u = a @ ''/''" using install_path_dir by blast
  have rt: "resolve ?t = migrating src u" using resolve_dir_temp_name [OF n, of a] by (simp add: a)
  have rd: "resolve ?d = migrated src u" by (rule resolve_install_path_name [OF n])
  have ne: "ERR_OPEN_SRC_FILE \<noteq> ERR_OK" "ERR_COPY_FILE \<noteq> ERR_OK" "ERR_RENAME_FILE \<noteq> ERR_OK"
    by (simp_all add: err_defs)
  have "copied src [u] w w' \<and> (r = ERR_OK \<longrightarrow> node_at w' (migrated src u) \<noteq> None)"
  proof (cases "CheckPathExist E w ?d")
    case True
    then have "node_at w (resolve ?d) \<noteq> None"
      by (auto simp: CheckPathExist_def path_exists_def split: if_splits option.splits)
    with True run show ?thesis
      unfolding rd by (auto simp: CopyFileForDataMigration_def Let_def install_path_append)
  next
    case new: False
    show ?thesis
    proof (cases "fopen_r E w src = None \<or> fileno E src < 0")
      case True
      then have "w' = w" "r = ERR_OPEN_SRC_FILE"
        using run new by (auto simp: CopyFileForDataMigration_def Let_def install_path_append
            split: option.splits)
      with ne show ?thesis by simp
    next
      case False
      then obtain c where c: "fopen_r E w src = Some c" "\<not> fileno E src < 0" by auto
      then have fc: "file_content w src = Some c" by (auto simp: fopen_r_def split: if_splits)
      let ?fd = "fileno E src"
      let ?w1 = "open_fd ?fd src c w"
      obtain b w2 where cp: "CopyFile E ?w1 ?fd ?t = (b, w2)" by fastforce
      note cp' = CopyFile_frame_ok [OF cp, unfolded rt]
      have f2: "\<not> prefix (migrating src u) q \<Longrightarrow> node_at w2 q = node_at w q" "world.more w2 = world.more w"
        "effects w2 = effects w" for q
        using cp'(1) by (simp_all add: frame_def world_simps)
      obtain b3 w3 where mv: "RenameFile E w2 ?t ?d = (b3, w3)" by fastforce
      show ?thesis
      proof (cases "b \<and> b3")
        case True
        then have w': "r = ERR_OK" "w' = close_fd ?fd w3"
          using run new c cp mv by (auto simp: CopyFileForDataMigration_def Let_def install_path_append)
        from cp'(2) True have t2: "node_at w2 (migrating src u) = Some (File c)"
          by (auto simp: open_fd_def)
        from mv True obtain c' where c': "file_content w2 ?t = Some c'"
          and w3: "w3 = put_node (migrated src u) (File c') (drop_tree (migrating src u) w2)"
          by (auto simp: RenameFile_def rename_file_def rt rd split: if_splits option.splits)
        have "c' = c" using c' t2 by (auto simp: file_content_def rt split: if_splits)
        with w3 have "node_at w' q = node_at w q \<or> q = migrated src u \<and> node_at w' q = Some (File c) \<or>
            prefix (migrating src u) q" for q
          using f2(1) [of q] by (auto simp: w'(2) world_simps)
        moreover have "node_at w' (migrated src u) \<noteq> None" by (simp add: w'(2) w3 world_simps)
        moreover have "world.more w' = world.more w" "effects w' = effects w"
          using f2 by (simp_all add: w'(2) w3 world_simps)
        ultimately show ?thesis using fc by (auto simp: copied_def)
      next
        case False
        then have "r \<noteq> ERR_OK" and "w' = close_fd ?fd w2 \<or> w' = close_fd ?fd (snd (RemoveFile E w3 ?t)) \<and> w3 = w2"
          using run new c cp mv ne
          by (auto simp: CopyFileForDataMigration_def Let_def install_path_append RenameFile_def
              rename_file_def split: bool.splits if_splits option.splits)
        moreover have "frame (migrating src u) [] w2 (snd (RemoveFile E w2 ?t))"
          by (rule frame_RemoveFile) (simp add: rt)
        ultimately have "copied src [u] w w'"
          using f2 by (auto simp: copied_def frame_def world_simps)
        with \<open>r \<noteq> ERR_OK\<close> show ?thesis by simp
      qed
    qed
  qed
  then show "copied src [u] w w'" "r = ERR_OK \<Longrightarrow> node_at w' (migrated src u) \<noteq> None" by blast+
qed

section \<open>One file for all users\<close>

lemma copied_source:
  assumes "copied src us w w'" "\<And>u. \<not> prefix (install_dir u) (resolve src)"
  shows "node_at w' (resolve src) = node_at w (resolve src)" "file_content w' src = file_content w src"
proof -
  have "prefix (install_dir u) (migrated src u)" "prefix (migrating src u) q \<Longrightarrow> prefix (install_dir u) q" for u q
    by (auto simp: prefix_def)
  with assms show "node_at w' (resolve src) = node_at w (resolve src)"
    unfolding copied_def by metis
  then show "file_content w' src = file_content w src" by (simp add: file_content_def)
qed

lemma copied_trans:
  assumes "copied src us w w1" "copied src us' w1 w'" "file_content w1 src = file_content w src"
  shows "copied src (us @ us') w w'"
  unfolding copied_def
proof (intro conjI allI)
  show "world.more w' = world.more w" "effects w' = effects w" using assms by (simp_all add: copied_def)
  fix q
  from assms(2) consider "node_at w' q = node_at w1 q"
    | u c where "u \<in> set us'" "q = migrated src u" "file_content w src = Some c" "node_at w' q = Some (File c)"
    | u where "u \<in> set us'" "prefix (migrating src u) q"
    unfolding copied_def assms(3) by blast
  then show "node_at w' q = node_at w q \<or> (\<exists>u\<in>set (us @ us'). q = migrated src u \<and>
      (\<exists>c. file_content w src = Some c \<and> node_at w' q = Some (File c))) \<or>
      (\<exists>u\<in>set (us @ us'). prefix (migrating src u) q)"
  proof cases
    case 1
    with assms(1) show ?thesis unfolding copied_def by auto
  qed auto
qed

lemma copied_keeps:
  assumes "copied src us w w'" "node_at w (migrated src u) \<noteq> None"
  shows "node_at w' (migrated src u) \<noteq> None"
proof -
  have "\<not> prefix (migrating src v) (migrated src u)" for v
    by (auto simp: resolve_install_path prefix_def)
  with assms show ?thesis unfolding copied_def by (metis option.distinct(1))
qed

lemma copy_for_users_copied:
  assumes "copy_for_users E src us w = (r, w')" "simple_name (GetFileName src)"
    "\<And>u. \<not> prefix (install_dir u) (resolve src)"
  shows "copied src us w w' \<and> (r = ERR_OK \<longrightarrow> (\<forall>u\<in>set us. node_at w' (migrated src u) \<noteq> None))"
  using assms(1)
proof (induction us arbitrary: w)
  case (Cons u us)
  obtain r1 w1 where one: "CopyFileForDataMigration E w src u = (r1, w1)" by fastforce
  note c1 = CopyFileForDataMigration_copied [OF one assms(2)]
  show ?case
  proof (cases "r1 = ERR_OK")
    case True
    with Cons.prems one have "copy_for_users E src us w1 = (r, w')" by simp
    note ih = Cons.IH [OF this]
    from ih copied_trans [OF c1(1) _ copied_source(2) [OF c1(1) assms(3)]] have "copied src (u # us) w w'"
      by fastforce
    moreover have "node_at w' (migrated src u) \<noteq> None"
      using ih copied_keeps c1(2) [OF True] by blast
    ultimately show ?thesis using ih by simp
  next
    case False
    with Cons.prems one have "r = r1" "w' = w1" by simp_all
    with False copied_trans [OF c1(1) copied_refl copied_source(2) [OF c1(1) assms(3)], of us] show ?thesis
      by simp
  qed
qed simp

text \<open>
  The whole task for one file: unless it succeeds the source stays; when it succeeds every user
  has the file, with the content of the source unless there was such a file before.
\<close>

lemma StartOneFileCopyTask_ok:
  assumes run: "StartOneFileCopyTask E s src = (r, s')" and n: "simple_name (GetFileName src)"
    and apart: "\<And>u. \<not> prefix (install_dir u) (resolve src)"
  shows "\<exists>s1. copied src (dm_userIds s) s s1 \<and> (s' = s1 \<or> r = ERR_OK \<and> s' = drop_tree (resolve src) s1)
      \<and> (r = ERR_OK \<longrightarrow> (\<forall>u\<in>set (dm_userIds s). node_at s1 (migrated src u) \<noteq> None))"
proof -
  obtain r1 s1 where cp: "copy_for_users E src (dm_userIds s) s = (r1, s1)" by fastforce
  note c1 = copy_for_users_copied [OF cp n apart]
  show ?thesis
  proof (cases "r1 = ERR_OK")
    case True
    obtain b s2 where rm: "RemoveFile E s1 src = (b, s2)" by fastforce
    then have "s2 = s1 \<or> b \<and> s2 = drop_tree (resolve src) s1"
      by (auto simp: RemoveFile_def RemoveAll_def remove_all_def split: if_splits)
    with run cp True rm c1 show ?thesis
      by (intro exI [of _ s1]) (auto simp: StartOneFileCopyTask_def err_defs split: bool.splits)
  next
    case False
    with run cp c1 show ?thesis by (auto simp: StartOneFileCopyTask_def)
  qed
qed

text \<open>A file of the old directory is safe: it is still there, or every user has a file of its name.\<close>

definition file_safe :: "int list \<Rightarrow> 'a world_scheme \<Rightarrow> 'a world_scheme \<Rightarrow> string \<Rightarrow> bool" where
  "file_safe us w w' src \<longleftrightarrow>
     node_at w' (resolve src) = node_at w (resolve src) \<or>
     (\<forall>u\<in>set us. node_at w' (migrated src u) \<noteq> None \<and>
        (node_at w (migrated src u) = None \<longrightarrow>
           (\<exists>c. file_content w src = Some c \<and> node_at w' (migrated src u) = Some (File c))))"

text \<open>The files of the old directory: simple names, all different, no file below another.\<close>

definition sources :: "string list \<Rightarrow> bool" where
  "sources paths \<longleftrightarrow>
     distinct (map GetFileName paths) \<and>
     (\<forall>p\<in>set paths. simple_name (GetFileName p) \<and> (\<forall>u. \<not> prefix (install_dir u) (resolve p)) \<and>
        (\<forall>u. \<not> prefix (resolve p) (install_dir u)) \<and>
        (\<forall>p'\<in>set paths. prefix (resolve p) (resolve p') \<longrightarrow> p = p'))"

lemma prefix_below: "prefix d q \<Longrightarrow> prefix e q \<Longrightarrow> \<not> prefix d e \<Longrightarrow> prefix e d"
  using prefix_same_cases by blast

text \<open>What the task for another file leaves of the names of a file.\<close>

lemma copied_other:
  assumes "copied src us w w'" "GetFileName p \<noteq> GetFileName src"
  shows "node_at w' (migrated p u) = node_at w (migrated p u)"
proof -
  have "migrated p u \<noteq> migrated src v" "\<not> prefix (migrating src v) (migrated p u)" for v
    using assms(2) by (auto simp: resolve_install_path prefix_def)
  with assms(1) show ?thesis unfolding copied_def by metis
qed

lemma copied_outside:
  assumes "copied src us w w'" "\<And>u. \<not> prefix (install_dir u) q"
  shows "node_at w' q = node_at w q"
proof -
  have "prefix (install_dir u) (migrated src u)" "prefix (migrating src u) q \<Longrightarrow> prefix (install_dir u) q" for u
    by (auto simp: prefix_def)
  with assms show ?thesis unfolding copied_def by metis
qed

lemma drop_source:
  assumes "\<forall>u. \<not> prefix (install_dir u) (resolve p)" "\<forall>u. \<not> prefix (resolve p) (install_dir u)"
  shows "node_at (drop_tree (resolve p) w) (migrated p' u) = node_at w (migrated p' u)"
proof -
  have "\<not> prefix (resolve p) (migrated p' u)"
    using assms prefix_below [of "resolve p" "migrated p' u" "install_dir u"] by (auto simp: prefix_def)
  then show ?thesis by (simp add: world_simps)
qed

lemma StartOneFileCopyTask_safe:
  assumes run: "StartOneFileCopyTask E s src = (r, s')" and src: "sources (src # paths)"
  shows "file_safe (dm_userIds s) s s' src"
    and "\<And>q. (\<And>u. \<not> prefix (install_dir u) q) \<Longrightarrow> \<not> prefix (resolve src) q \<Longrightarrow> node_at s' q = node_at s q"
    and "\<And>p u. GetFileName p \<noteq> GetFileName src \<Longrightarrow> node_at s' (migrated p u) = node_at s (migrated p u)"
    and "world.more s' = world.more s" "effects s' = effects s"
    and "r = ERR_OK \<Longrightarrow> \<forall>u\<in>set (dm_userIds s). node_at s' (migrated src u) \<noteq> None"
proof -
  from src have n: "simple_name (GetFileName src)" and apart: "\<And>u. \<not> prefix (install_dir u) (resolve src)"
    and down: "\<And>u. \<not> prefix (resolve src) (install_dir u)" by (simp_all add: sources_def)
  from StartOneFileCopyTask_ok [OF run n apart] obtain s1 where
    cp: "copied src (dm_userIds s) s s1" and s': "s' = s1 \<or> r = ERR_OK \<and> s' = drop_tree (resolve src) s1"
    and ok: "r = ERR_OK \<longrightarrow> (\<forall>u\<in>set (dm_userIds s). node_at s1 (migrated src u) \<noteq> None)" by blast
  note drop = drop_source [of src] and source = copied_source [OF cp apart]
  have mig: "node_at s' (migrated p u) = node_at s1 (migrated p u)" for p u
    using s' drop apart down by metis
  show "r = ERR_OK \<Longrightarrow> \<forall>u\<in>set (dm_userIds s). node_at s' (migrated src u) \<noteq> None"
    using ok mig by simp
  show "GetFileName p \<noteq> GetFileName src \<Longrightarrow> node_at s' (migrated p u) = node_at s (migrated p u)" for p u
    using mig copied_other [OF cp] by simp
  show "world.more s' = world.more s" "effects s' = effects s"
    using s' cp by (auto simp: copied_def world_simps)
  show "node_at s' q = node_at s q" if "\<And>u. \<not> prefix (install_dir u) q" "\<not> prefix (resolve src) q" for q
    using copied_outside [OF cp that(1)] s' that(2) by (auto simp: world_simps)
  show "file_safe (dm_userIds s) s s' src"
  proof (cases "s' = s1")
    case True
    with source show ?thesis by (simp add: file_safe_def)
  next
    case False
    with s' ok have all: "\<forall>u\<in>set (dm_userIds s). node_at s1 (migrated src u) \<noteq> None" by blast
    have "\<not> prefix (migrating src v) (migrated src u)" for u v
      by (auto simp: resolve_install_path prefix_def)
    with cp have "node_at s1 (migrated src u) = node_at s (migrated src u) \<or>
        (\<exists>c. file_content s src = Some c \<and> node_at s1 (migrated src u) = Some (File c))" for u
      unfolding copied_def by metis
    with all show ?thesis unfolding file_safe_def mig by metis
  qed
qed

section \<open>All files\<close>

lemma EventDataProgress_same [simp]:
  "node_at (EventDataProgress E s i n k) q = node_at s q"
  "fm_state.more (EventDataProgress E s i n k) = fm_state.more s"
  "configMap (EventDataProgress E s i n k) = configMap s"
  "dm_userIds (EventDataProgress E s i n k) = dm_userIds s"
  by (cases s; auto simp: EventDataProgress_def RefreshEventData_def world_simps)
    (cases s; simp add: EventDataProgress_def RefreshEventData_def emit_def)+

lemma EventDataProgress_effects:
  "\<exists>es. effects (EventDataProgress E s i n k) = effects s @ es \<and> (\<forall>j. UnloadService j \<notin> set es)"
  by (simp add: EventDataProgress_def RefreshEventData_def world_simps)

lemma more_dm:
  "world.more s' = world.more (s :: 'a dm_state_scheme) \<Longrightarrow>
     dm_userIds s' = dm_userIds s \<and> configMap s' = configMap s \<and> fm_state.more s' = fm_state.more s"
  by (cases s; cases s') simp

lemma migrate_files_safe:
  assumes "migrate_files E i n paths s = (r, s')" "sources paths"
  shows "(\<forall>p\<in>set paths. file_safe (dm_userIds s) s s' p)
     \<and> (r = ERR_OK \<longrightarrow> (\<forall>p\<in>set paths. \<forall>u\<in>set (dm_userIds s). node_at s' (migrated p u) \<noteq> None))
     \<and> (\<forall>p u. GetFileName p \<notin> GetFileName ` set paths \<longrightarrow> node_at s' (migrated p u) = node_at s (migrated p u))
     \<and> (\<forall>q. (\<forall>u. \<not> prefix (install_dir u) q) \<longrightarrow> (\<forall>p\<in>set paths. \<not> prefix (resolve p) q) \<longrightarrow>
           node_at s' q = node_at s q)"
  using assms
proof (induction paths arbitrary: i s)
  case (Cons p ps)
  let ?s1 = "if IsShouldUpdateProgress i n then EventDataProgress E s i n (length (dm_userIds s)) else s"
  have same: "node_at ?s1 q = node_at s q" "dm_userIds ?s1 = dm_userIds s" for q by simp_all
  have content: "file_content ?s1 q = file_content s q" for q by (simp add: file_content_def)
  obtain r2 s2 where one: "StartOneFileCopyTask E ?s1 p = (r2, s2)" by fastforce
  note safe = StartOneFileCopyTask_safe [OF one Cons.prems(2), unfolded same]
  have safe1: "file_safe (dm_userIds s) s s2 p"
    using safe(1) by (simp add: file_safe_def same content)
  from Cons.prems(2) have ps: "sources ps" by (auto simp: sources_def)
  from Cons.prems(2) have p: "GetFileName p \<notin> GetFileName ` set ps" "\<forall>u. \<not> prefix (install_dir u) (resolve p)"
    "\<forall>p'\<in>set ps. \<not> prefix (resolve p') (resolve p) \<and> \<not> prefix (resolve p) (resolve p')"
    by (auto simp: sources_def)
  have src: "p' \<in> set ps \<Longrightarrow> \<not> prefix (install_dir u) (resolve p')" for p' u
    using ps by (simp add: sources_def)
  show ?case
  proof (cases "r2 = ERR_OK")
    case True
    then have rest: "migrate_files E (Suc i) n ps s2 = (r, s')" using Cons.prems(1) one by (simp add: Let_def)
    note ih = Cons.IH [OF rest ps]
    have users: "dm_userIds s2 = dm_userIds s" using more_dm [OF safe(4)] same(2) by simp
    have "file_safe (dm_userIds s) s s' p"
      using safe1 ih p unfolding file_safe_def users by simp
    moreover have "file_safe (dm_userIds s) s s' p'" if p': "p' \<in> set ps" for p'
    proof -
      from ih p' users have "file_safe (dm_userIds s) s2 s' p'" by simp
      moreover have "node_at s2 (resolve p') = node_at s (resolve p')"
        by (rule safe(2)) (use src p' p(3) in auto)
      moreover have "node_at s2 (migrated p' u) = node_at s (migrated p' u)" for u
        by (rule safe(3)) (use p(1) p' in \<open>metis imageI\<close>)
      ultimately show ?thesis by (simp add: file_safe_def file_content_def)
    qed
    moreover have "r = ERR_OK \<Longrightarrow> u \<in> set (dm_userIds s) \<Longrightarrow> node_at s' (migrated p u) \<noteq> None" for u
      using safe(6) [OF True] ih p(1) by simp
    moreover have "node_at s' (migrated q u) = node_at s (migrated q u)"
      if "GetFileName q \<notin> GetFileName ` set (p # ps)" for q u
      using that ih safe(3) [of q u] by simp
    moreover have "node_at s' q = node_at s q"
      if "\<forall>u. \<not> prefix (install_dir u) q" "\<forall>x\<in>set (p # ps). \<not> prefix (resolve x) q" for q
      using that ih safe(2) [of q] by simp
    ultimately show ?thesis using ih users by simp
  next
    case False
    then have s': "r = r2" "s' = s2" using Cons.prems(1) one by (simp_all add: Let_def)
    have "file_safe (dm_userIds s) s s2 p'" if "p' \<in> set ps" for p'
    proof -
      have "node_at s2 (resolve p') = node_at s (resolve p')"
        by (rule safe(2)) (use src that p(3) in auto)
      then show ?thesis by (simp add: file_safe_def)
    qed
    with safe1 False safe(2,3) show ?thesis by (simp add: s')
  qed
qed (simp add: file_safe_def)

section \<open>What a migration leaves alone\<close>

text \<open>
  Nothing but files and notifications, and the service is not unloaded: the part of the state
  above the world stays as it is.
\<close>

definition quiet :: "'a world_scheme \<Rightarrow> 'a world_scheme \<Rightarrow> bool" where
  "quiet w w' \<longleftrightarrow> world.more w' = world.more w \<and>
     (\<exists>es. effects w' = effects w @ es \<and> (\<forall>k. UnloadService k \<notin> set es))"

lemma quiet_refl [simp]: "quiet w w"
  by (simp add: quiet_def)

lemma quiet_trans: "quiet w w1 \<Longrightarrow> quiet w1 w' \<Longrightarrow> quiet w w'"
  by (auto simp: quiet_def)

lemma frame_quiet: "frame d es w w' \<Longrightarrow> \<forall>k. UnloadService k \<notin> set es \<Longrightarrow> quiet w w'"
  by (auto simp: frame_def quiet_def)

lemma frame_silent_quiet: "frame d [] w w' \<Longrightarrow> quiet w w'"
  by (erule frame_quiet) simp

lemma quiet_emit: "\<forall>k. e \<noteq> UnloadService k \<Longrightarrow> quiet w (emit e w)"
  by (auto simp: quiet_def world_simps)

lemma quiet_foldl: "(\<And>w x. quiet w (f w x)) \<Longrightarrow> quiet w (foldl f w xs)"
  by (induction xs arbitrary: w) (auto intro: quiet_trans)

lemma quiet_funpow: "(\<And>w. quiet w (f w)) \<Longrightarrow> quiet w ((f ^^ n) w)"
  by (induction n) (auto intro: quiet_trans)

lemma quiet_RefreshEventData: "\<forall>k. e \<noteq> UnloadService k \<Longrightarrow> quiet s (RefreshEventData s e)"
  by (simp add: RefreshEventData_def quiet_emit)

lemma quiet_DeleteDir: "quiet w (DeleteDir E w p True)"
  by (rule frame_silent_quiet [OF frame_DeleteDir_root [of "[]"]]) simp

lemma quiet_ensure_dir: "ensure_dir E w p = (b, w') \<Longrightarrow> quiet w w'"
  by (rule frame_silent_quiet [OF frame_ensure_dir [of E w p b w' "[]"]]) simp_all

lemma quiet_init_temp_dirs: "init_temp_dirs E us w = (b, w') \<Longrightarrow> quiet w w'"
  by (induction us arbitrary: w)
    (auto split: prod.splits bool.splits dest: quiet_ensure_dir intro: quiet_trans)

lemma quiet_RemoveFile: "RemoveFile E w p = (b, w') \<Longrightarrow> quiet w w'"
  using frame_silent_quiet [OF frame_RemoveFile [of "[]" p w E]] by simp

lemma quiet_RenameFile: "RenameFile E w a b = (r, w') \<Longrightarrow> quiet w w'"
  by (rule frame_silent_quiet [OF frame_RenameFile [of E w a b r w' "[]"]]) simp_all

lemma quiet_CopyFile: "CopyFile E w fd p = (b, w') \<Longrightarrow> quiet w w'"
  by (rule frame_silent_quiet [OF CopyFile_frame_ok(1)])

lemma quiet_fd [simp]:
  "quiet w (open_fd f p c w') \<longleftrightarrow> quiet w w'" "quiet w (close_fd f w') \<longleftrightarrow> quiet w w'"
  by (simp_all add: quiet_def world_simps)

lemma quiet_open: "quiet (open_fd f p c w) w' \<longleftrightarrow> quiet w w'"
  by (simp add: quiet_def world_simps)

lemma quiet_remove: "quiet w w' \<Longrightarrow> quiet w (snd (RemoveFile E w' p))"
  using quiet_RemoveFile [of E w' p] quiet_trans by (metis prod.collapse)

lemma quiet_CopyFileForDataMigration: "CopyFileForDataMigration E w src u = (r, w') \<Longrightarrow> quiet w w'"
  unfolding CopyFileForDataMigration_def Let_def
  by (auto split: if_splits option.splits prod.splits bool.splits
      dest!: quiet_CopyFile quiet_RenameFile simp: quiet_open intro!: quiet_remove intro: quiet_trans)

lemma quiet_copy_for_users: "copy_for_users E src us w = (r, w') \<Longrightarrow> quiet w w'"
  by (induction us arbitrary: w)
    (auto split: prod.splits if_splits dest: quiet_CopyFileForDataMigration intro: quiet_trans)

lemma quiet_StartOneFileCopyTask: "StartOneFileCopyTask E s src = (r, s') \<Longrightarrow> quiet s s'"
  by (auto simp: StartOneFileCopyTask_def split: prod.splits if_splits bool.splits
      dest!: quiet_copy_for_users quiet_RemoveFile intro: quiet_trans)

lemma quiet_migrate_files: "migrate_files E i n paths s = (r, s') \<Longrightarrow> quiet s s'"
proof (induction paths arbitrary: i s)
  case (Cons p ps)
  let ?s1 = "if IsShouldUpdateProgress i n then EventDataProgress E s i n (length (dm_userIds s)) else s"
  have "quiet s ?s1" by (simp add: EventDataProgress_def quiet_RefreshEventData)
  moreover obtain r2 s2 where one: "StartOneFileCopyTask E ?s1 p = (r2, s2)" by fastforce
  then have "quiet ?s1 s2" by (rule quiet_StartOneFileCopyTask)
  ultimately have "quiet s s2" by (rule quiet_trans)
  with Cons one show ?case by (auto simp: Let_def split: if_splits intro: quiet_trans)
qed simp

text \<open>
  A migration that is under way refuses another. One that runs ends with the flag and the callback
  cleared, and with the result to a callback that listens and the system event as the last two
  notifications; it unloads nothing and touches nothing of the state above its own.
\<close>

lemma quiet_dm: "quiet s (s' :: 'a dm_state_scheme) \<Longrightarrow>
    configMap s' = configMap s \<and> dm_isDataMigrationing s' = dm_isDataMigrationing s \<and>
    dm_callback s' = dm_callback s \<and> dm_userIds s' = dm_userIds s \<and> dm_state.more s' = dm_state.more s \<and>
    (\<exists>es. effects s' = effects s @ es \<and> (\<forall>k. UnloadService k \<notin> set es))"
  unfolding quiet_def by (cases s; cases s') simp

lemma dm_update [simp]:
  "effects (s\<lparr>dm_userIds := us\<rparr>) = effects s" "effects (s\<lparr>dm_isDataMigrationing := b, dm_callback := c\<rparr>) = effects s"
  "effects (s\<lparr>dm_isDataMigrationing := b\<rparr>) = effects s" "effects (s\<lparr>dm_callback := c\<rparr>) = effects s"
  by (cases s; simp)+

lemma InitDataMigrationEnv_quiet:
  "InitDataMigrationEnv E s = (r, s') \<Longrightarrow> quiet (s\<lparr>dm_userIds := GetAllCreatedUserIds E\<rparr>) s'"
  unfolding InitDataMigrationEnv_def InitDataMigrationTempDir_def Let_def
  by (auto split: if_splits prod.splits bool.splits intro: quiet_DeleteDir
      dest!: quiet_init_temp_dirs intro: quiet_trans [OF quiet_DeleteDir])

lemma DataMigrationInner_quiet:
  assumes "DataMigrationInner E s = (r, s')"
  shows "quiet (s\<lparr>dm_userIds := GetAllCreatedUserIds E\<rparr>) s'"
proof -
  obtain r1 s1 where init: "InitDataMigrationEnv E s = (r1, s1)" by fastforce
  note q1 = InitDataMigrationEnv_quiet [OF init]
  have "quiet s1 (StartHeartBeatTask E s1)"
    unfolding StartHeartBeatTask_def EventDataHeartBeat_def
    by (rule quiet_funpow) (simp add: quiet_RefreshEventData)
  moreover obtain r2 s2 where "StartDataMigration E (StartHeartBeatTask E s1) = (r2, s2)" by fastforce
  then have run: "StartDataMigration E (StartHeartBeatTask E s1) = (r2, s2)"
    and "quiet (StartHeartBeatTask E s1) s2"
    by (simp_all add: StartDataMigration_def Let_def quiet_migrate_files)
  ultimately have "quiet s1 s2" by (blast intro: quiet_trans)
  then show ?thesis
    using assms init q1 run by (auto simp: DataMigrationInner_def split: if_splits intro: quiet_trans)
qed

lemma DataMigration_busy: "dm_isDataMigrationing s \<Longrightarrow> DataMigration E s cb = s"
  by (simp add: DataMigration_def)

lemma quiet_CheckAndUpdateFontRecord: "quiet w (snd (CheckAndUpdateFontRecord E w cfg))"
  using frame_silent_quiet [OF frame_config [OF CheckAndUpdateFontRecord_frame, of E w cfg _ _ "[]"]]
  by (metis Nil_prefix prod.collapse)

lemma quiet_ReportFontBundleStats: "quiet w (snd (ReportFontBundleStats E w u p))"
  by (rule frame_quiet [OF frame_report_stats [of "[]"]]) (simp add: stats_effects_def)

lemma CollectDataMigrationState_emit:
  "\<exists>a b c d e f. CollectDataMigrationState E w us r = emit (MigrationState a b c d e f r) w"
  unfolding CollectDataMigrationState_def Let_def by (cases "us = []") (simp_all, blast+)

lemma DataMigration_done:
  assumes idle: "\<not> dm_isDataMigrationing s"
  shows "\<exists>r m es. effects (DataMigration E s cb) =
        effects s @ es @ (if cb = Some True then [EventResult r] else []) @ [m]
      \<and> (\<exists>a b c d e f. m = MigrationState a b c d e f r) \<and> (\<forall>k. UnloadService k \<notin> set es)"
    and "\<not> dm_isDataMigrationing (DataMigration E s cb)" "dm_callback (DataMigration E s cb) = None"
    "configMap (DataMigration E s cb) = configMap s"
    "dm_state.more (DataMigration E s cb) = dm_state.more s"
proof -
  let ?s1 = "s\<lparr>dm_isDataMigrationing := True, dm_callback := cb\<rparr>"
  obtain r s2 where run: "DataMigrationInner E ?s1 = (r, s2)" by fastforce
  note q2 = DataMigrationInner_quiet [OF run]
  let ?s3 = "CheckAndUpdateAllFontRecord E s2"
  have q3: "quiet s2 ?s3"
    unfolding CheckAndUpdateAllFontRecord_def by (rule quiet_foldl) (rule quiet_CheckAndUpdateFontRecord)
  let ?s4 = "if r = ERR_OK then foldl (\<lambda>s' userId. snd (ReportFontBundleStats E s' userId (install_path userId)))
      ?s3 (dm_userIds ?s3) else ?s3"
  have q4: "quiet ?s3 ?s4" by (auto intro!: quiet_foldl quiet_ReportFontBundleStats)
  note q = quiet_dm [OF quiet_trans [OF quiet_trans [OF q2 q3] q4]]
  let ?s5 = "EventDataResult (?s4\<lparr>dm_isDataMigrationing := False\<rparr>) r"
  have eq: "DataMigration E s cb = (CollectDataMigrationState E ?s5 (dm_userIds ?s5) r)\<lparr>dm_callback := None\<rparr>"
    using idle by (simp add: DataMigration_def Let_def run)
  obtain t where t: "?s4 = t" by simp
  have e5: "effects (EventDataResult (t\<lparr>dm_isDataMigrationing := False\<rparr>) r) =
      effects t @ (if dm_callback t = Some True then [EventResult r] else [])"
    by (simp add: EventDataResult_def RefreshEventData_def world_simps)
  obtain m where m: "CollectDataMigrationState E ?s5 (dm_userIds ?s5) r = emit m ?s5"
    "\<exists>a b c d e f. m = MigrationState a b c d e f r"
    using CollectDataMigrationState_emit by blast
  from q obtain es where es: "effects t = effects s @ es" "\<forall>k. UnloadService k \<notin> set es"
    unfolding t by auto
  have cbt: "dm_callback t = cb" using q unfolding t by simp
  have "effects (DataMigration E s cb) = effects s @ es @ (if cb = Some True then [EventResult r] else []) @ [m]"
    unfolding eq m(1) using e5 es(1) cbt by (simp add: t world_simps)
  with m(2) es(2) show "\<exists>r m es. effects (DataMigration E s cb) =
        effects s @ es @ (if cb = Some True then [EventResult r] else []) @ [m]
      \<and> (\<exists>a b c d e f. m = MigrationState a b c d e f r) \<and> (\<forall>k. UnloadService k \<notin> set es)" by blast
  have "fm_state.more (emit e u) = fm_state.more u" "configMap (emit e u) = configMap u"
    for e and u :: "'c dm_state_scheme" by (simp_all add: emit_def)
  show "dm_callback (DataMigration E s cb) = None" unfolding eq by simp
  have base: "dm_isDataMigrationing (EventDataResult (t\<lparr>dm_isDataMigrationing := False\<rparr>) r) = False"
    "configMap (EventDataResult (t\<lparr>dm_isDataMigrationing := False\<rparr>) r) = configMap t"
    "dm_state.more (EventDataResult (t\<lparr>dm_isDataMigrationing := False\<rparr>) r) = dm_state.more t"
    by (simp_all add: EventDataResult_def RefreshEventData_def emit_def)
  then show "\<not> dm_isDataMigrationing (DataMigration E s cb)" "configMap (DataMigration E s cb) = configMap s"
    "dm_state.more (DataMigration E s cb) = dm_state.more s"
    unfolding eq m(1) using q by (simp_all add: t emit_def)
qed

end
