(* ===== verification/Server_Laws.thy ===== *)
theory Server_Laws
  imports Font_Server Registry_Laws Migration_Laws
begin

text \<open>
  The service as a whole: the invariant of its state, the contract that every remote call keeps,
  and the step relation in which calls, tasks, dying clients and system events interleave. The
  unit of interleaving is the body of a handler or of a task; the guard around a handler enters
  and leaves in steps of its own.
\<close>

section \<open>The invariant\<close>

fun is_migration :: "server_task \<Rightarrow> bool" where
  "is_migration (TaskMigration callback) = True"
| "is_migration _ = False"

definition pending_migrations :: "'a server_state_scheme \<Rightarrow> nat" where
  "pending_migrations s =
     (case handler s of None \<Rightarrow> 0 | Some q \<Rightarrow> length (filter is_migration q))"

text \<open>The flag is up exactly while one migration is queued (a running one is between two steps).\<close>

definition server_ok :: "'a server_state_scheme \<Rightarrow> bool" where
  "server_ok s \<longleftrightarrow>
     configs_ok s \<and> registry_ok s \<and> links_ok {} s \<and> \<not> dm_isDataMigrationing s \<and>
     pending_migrations s = (if isDataMigrationing s then 1 else 0)"

definition no_unload :: "'a world_scheme \<Rightarrow> 'a world_scheme \<Rightarrow> bool" where
  "no_unload s s' \<longleftrightarrow> (\<exists>es. effects s' = effects s @ es \<and> (\<forall>k. UnloadService k \<notin> set es))"

definition served :: "'a server_state_scheme \<Rightarrow> 'a server_state_scheme \<Rightarrow> bool" where
  "served s s' \<longleftrightarrow> server_ok s' \<and> callingCount s' = callingCount s \<and> no_unload s s'"

lemma no_unload_refl [simp]: "no_unload s s"
  by (simp add: no_unload_def)

lemma no_unload_trans: "no_unload s s1 \<Longrightarrow> no_unload s1 s' \<Longrightarrow> no_unload s s'"
  by (auto simp: no_unload_def)

lemma no_unload_same: "effects s' = effects s \<Longrightarrow> no_unload s s'"
  by (simp add: no_unload_def)

lemma served_refl: "server_ok s \<Longrightarrow> served s s"
  by (simp add: served_def)

lemma served_trans: "served s s1 \<Longrightarrow> served s1 s' \<Longrightarrow> served s s'"
  by (auto simp: served_def intro: no_unload_trans)

lemma served_foldl:
  "server_ok s \<Longrightarrow> (\<And>s x. server_ok s \<Longrightarrow> served s (f s x)) \<Longrightarrow> served s (foldl f s xs)"
proof (induction xs arbitrary: s)
  case (Cons x xs)
  then have "served s (f s x)" by simp
  moreover from this have "served (f s x) (foldl f (f s x) xs)" using Cons by (simp add: served_def)
  ultimately show ?case by (auto intro: served_trans)
qed (simp add: served_refl)

lemma more_server:
  "fm_state.more s' = fm_state.more (s :: 'a server_state_scheme) \<Longrightarrow>
     callingCount s' = callingCount s \<and> isDataMigrationing s' = isDataMigrationing s \<and>
     handler s' = handler s \<and> subscriber s' = subscriber s"
  by (cases s; cases s') simp

lemma served_fm:
  assumes "fm_frame u es s s'" "\<forall>k. UnloadService k \<notin> set es" "server_ok s"
  shows "served s s'"
proof -
  from assms(1) have more: "fm_state.more s' = fm_state.more s" and conf: "configs_ok s \<Longrightarrow> configs_ok s'"
    and e: "effects s' = effects s @ es" by (simp_all add: fm_frame_def)
  note m = more_registry [OF more] more_server [OF more]
  have "registry_ok s'" "links_ok {} s'"
    using assms(3) m registry_ok_cong [of s' s] links_ok_cong [of s' s] by (simp_all add: server_ok_def)
  then have "server_ok s'" using assms(3) m conf by (simp add: server_ok_def pending_migrations_def)
  with m e assms(2) show ?thesis by (auto simp: served_def no_unload_def)
qed

text \<open>Changes of the queue, the counters and the subscriber only.\<close>

lemma server_ok_handler:
  "server_ok s \<Longrightarrow> filter is_migration q = filter is_migration q' \<Longrightarrow> handler s = Some q \<Longrightarrow>
     server_ok (s\<lparr>handler := Some q'\<rparr>)"
  using registry_ok_cong [of "s\<lparr>handler := Some q'\<rparr>" s] links_ok_cong [of "s\<lparr>handler := Some q'\<rparr>" s]
  by (simp add: server_ok_def pending_migrations_def configs_ok_def)

lemma server_ok_count [simp]: "server_ok (s\<lparr>callingCount := n\<rparr>) = server_ok s"
  using registry_ok_cong [of "s\<lparr>callingCount := n\<rparr>" s] links_ok_cong [of "s\<lparr>callingCount := n\<rparr>" s]
  by (simp add: server_ok_def pending_migrations_def configs_ok_def)

lemma server_ok_subscriber [simp]: "server_ok (s\<lparr>subscriber := b\<rparr>) = server_ok s"
  using registry_ok_cong [of "s\<lparr>subscriber := b\<rparr>" s] links_ok_cong [of "s\<lparr>subscriber := b\<rparr>" s]
  by (simp add: server_ok_def pending_migrations_def configs_ok_def)

lemma PostTask_served: "server_ok s \<Longrightarrow> \<not> is_migration t \<Longrightarrow> served s (snd (PostTask E t s))"
  using server_ok_handler [of s]
  by (auto simp: PostTask_def served_def no_unload_same split: option.split)

lemma PostTask_keeps [simp]:
  "effects (snd (PostTask E t s)) = effects s" "clients (snd (PostTask E t s)) = clients s"
  "fs (snd (PostTask E t s)) = fs s" "callingCount (snd (PostTask E t s)) = callingCount s"
  by (simp_all add: PostTask_def split: option.split)

lemma AddUnload_served: "server_ok s \<Longrightarrow> served s (AddUnloadFontServiceTask E s)"
  by (simp add: AddUnloadFontServiceTask_def PostTask_served served_refl)

lemma filter_no_unload [simp]: "filter is_migration (removeAll TaskUnload q) = filter is_migration q"
  by (induction q) auto

lemma RemoveUnload_served: "server_ok s \<Longrightarrow> served s (RemoveUnloadFontServiceTask s)"
proof (cases "handler s")
  case (Some q)
  assume "server_ok s"
  from server_ok_handler [OF this _ Some, of "removeAll TaskUnload q"] Some show ?thesis
    by (simp add: RemoveUnloadFontServiceTask_def served_def no_unload_same)
qed (simp add: RemoveUnloadFontServiceTask_def served_refl)

section \<open>The registry's listener\<close>

lemma AddUnload_truncate:
  "registry_state.truncate (AddUnloadFontServiceTask E s) = registry_state.truncate s"
  by (simp add: AddUnloadFontServiceTask_def PostTask_def registry_state.truncate_def split: option.split)

interpretation listener: died_listener "client_died_callback E"
  by unfold_locales (simp add: client_died_callback_def AddUnload_truncate)

section \<open>The contract of the handlers\<close>

text \<open>
  What every body of a remote call keeps. The guard around it needs no more than that: the call
  returns what the body returns, and the count is what it was.
\<close>

locale server_body =
  fixes body :: "'a server_state_scheme \<Rightarrow> 'r \<times> 'a server_state_scheme"
  assumes body_served: "server_ok s \<Longrightarrow> served s (snd (body s))"
begin

lemma enter_ok:
  assumes "server_ok s"
  shows "server_ok (guard_enter s)" "callingCount (guard_enter s) = callingCount s + 1" "no_unload s (guard_enter s)"
  using RemoveUnload_served [OF assms] by (simp_all add: guard_enter_def Let_def served_def no_unload_def)

lemma exit_ok:
  assumes "server_ok s"
  shows "server_ok (guard_exit E chk s)" "callingCount (guard_exit E chk s) = callingCount s - 1"
    "no_unload s (guard_exit E chk s)"
proof -
  let ?s1 = "s\<lparr>callingCount := callingCount s - 1\<rparr>"
  have "server_ok ?s1" using assms by simp
  from AddUnload_served [OF this, of E] this
  show "server_ok (guard_exit E chk s)" "callingCount (guard_exit E chk s) = callingCount s - 1"
    "no_unload s (guard_exit E chk s)"
    by (auto simp: guard_exit_def Let_def served_def no_unload_def)
qed

lemma guarded:
  assumes "server_ok s"
  shows "fst (with_guard E chk body s) = fst (body (guard_enter s))"
    "served s (snd (with_guard E chk body s))"
proof -
  obtain r s1 where run: "body (guard_enter s) = (r, s1)" by fastforce
  note en = enter_ok [OF assms]
  from body_served [OF en(1)] run have b: "served (guard_enter s) s1" by simp
  then have "server_ok s1" by (simp add: served_def)
  note ex = exit_ok [OF this, of E chk]
  show "fst (with_guard E chk body s) = fst (body (guard_enter s))"
    by (simp add: with_guard_def run)
  show "served s (snd (with_guard E chk body s))"
    using en b ex by (auto simp: with_guard_def run served_def intro: no_unload_trans)
qed

end

lemma no_unload_update_effects [simp]: "UnloadService k \<notin> set (update_effects E t u y names)"
  by (simp add: update_effects_def stats_effects_def size_effect_def)

lemma frame_served:
  assumes "server_ok s"
    "\<exists>es. fm_frame u es s s' \<and> (if r = ERR_OK then \<exists>t. es = update_effects E t u y (names t) else es = [])"
  shows "served s s'"
proof -
  from assms(2) obtain es where fr: "fm_frame u es s s'"
    and es: "if r = ERR_OK then \<exists>t. es = update_effects E t u y (names t) else es = []" by blast
  from es have "\<forall>k. UnloadService k \<notin> set es" by (auto split: if_splits)
  with fr assms(1) show ?thesis by (blast intro: served_fm)
qed

lemma server_ok_configs: "server_ok s \<Longrightarrow> configs_ok s"
  by (simp add: server_ok_def)

lemma InstallFont_served:
  assumes "server_ok s"
  shows "served s (snd (InstallFont E s fd u))"
proof -
  obtain r s' where run: "InstallFont E s fd u = (r, s')" by fastforce
  show ?thesis
    using frame_served [OF assms InstallFont_frame [OF server_ok_configs [OF assms] run]] by (simp add: run)
qed

lemma UninstallFont_served:
  assumes "server_ok s"
  shows "served s (snd (UninstallFont E s n u))"
proof -
  obtain r s' where run: "UninstallFont E s n u = (r, s')" by fastforce
  show ?thesis
    using frame_served [OF assms UninstallFont_frame [OF server_ok_configs [OF assms] run]] by (simp add: run)
qed

lemma InstallScopeFont_served:
  assumes "server_ok s" "simple_name (si_appIdentifier info)"
  shows "served s (snd (InstallScopeFont E s info))"
proof -
  obtain r s' where run: "InstallScopeFont E s info = (r, s')" by fastforce
  show ?thesis
    using frame_served [OF assms(1) InstallScopeFont_frame [OF server_ok_configs [OF assms(1)] assms(2) run]]
    by (simp add: run)
qed

lemma UninstallScopeFont_served:
  assumes "server_ok s"
  shows "served s (snd (UninstallScopeFont E s url bundle tok u))"
proof -
  obtain r s' where run: "UninstallScopeFont E s url bundle tok u = (r, s')" by fastforce
  from UninstallScopeFont_frame [OF server_ok_configs [OF assms] run] obtain es where
    "fm_frame u es s s'" "\<forall>k. UnloadService k \<notin> set es" by (auto split: if_splits)
  from served_fm [OF this assms] show ?thesis by (simp add: run)
qed

lemma GetFontScope_served:
  assumes "server_ok s"
  shows "served s (snd (GetFontScope E s url bundle tok u))"
proof -
  obtain cfg s1 where get: "SafeGetOrCreateConfig s u (install_path u @ FONT_CONFIG_FILE) = (cfg, s1)" by fastforce
  from assms have "configs_ok s" by (simp add: server_ok_def)
  from SafeGetOrCreateConfig_eq(3) [OF get this] have "served s s1"
    by (rule served_fm) (simp_all add: assms)
  with get show ?thesis by (simp add: GetFontScope_def split: option.split)
qed

lemma CleanupScopeFontsByUser_served: "server_ok s \<Longrightarrow> served s (snd (CleanupScopeFontsByUser E s u))"
  using CleanupScopeFontsByUser_frame [OF server_ok_configs, of s E u]
  by (cases "CleanupScopeFontsByUser E s u") (auto intro: served_fm)

lemma CleanupAppScopeFontsByUser_served: "server_ok s \<Longrightarrow> served s (snd (CleanupAppScopeFontsByUser E s u))"
  using CleanupAppScopeFontsByUser_frame [OF server_ok_configs, of s E u]
  by (cases "CleanupAppScopeFontsByUser E s u") (auto intro: served_fm)

section \<open>Sweeps\<close>

lemma served_quiet: "quiet s s' \<Longrightarrow> server_ok s \<Longrightarrow> served s s'"
proof -
  assume q: "quiet s s'" and ok: "server_ok s"
  then have more: "world.more s' = world.more s" and no: "no_unload s s'" by (auto simp: quiet_def no_unload_def)
  note m = more_fm_eq [OF more]
  note m' = more_registry [OF conjunct2 [OF m]] more_server [OF conjunct2 [OF m]]
  have "registry_ok s'" "links_ok {} s'" "configs_ok s'"
    using ok m m' registry_ok_cong [of s' s] links_ok_cong [of s' s]
    by (simp_all add: server_ok_def configs_ok_def)
  then show ?thesis using ok no m m' by (simp add: served_def server_ok_def pending_migrations_def)
qed

lemma quiet_drop_tree: "quiet w (drop_tree p w)"
  by (rule frame_silent_quiet [OF frame_drop [of "[]"]]) simp

lemma quiet_foldl_fst:
  "(\<And>w d x. quiet w (fst (f (w, d) x))) \<Longrightarrow> quiet (fst a) (fst (foldl f a xs))"
proof (induction xs arbitrary: a)
  case (Cons x xs)
  have "quiet (fst a) (fst (f a x))" using Cons.prems [of "fst a" "snd a"] by simp
  moreover have "quiet (fst (f a x)) (fst (foldl f (f a x) xs))" using Cons.IH Cons.prems .
  ultimately show ?case by (simp add: quiet_trans)
qed simp

lemma quiet_ClearAllTempFileDir: "quiet w (ClearAllTempFileDir E w)"
  unfolding ClearAllTempFileDir_def Let_def by (rule quiet_foldl) (simp add: quiet_DeleteDir)

lemma quiet_scan_scope_dir: "quiet w (fst (scan_scope_dir E ip (w, dirs) x))"
  by (simp add: scan_scope_dir_def Let_def quiet_DeleteDir split: prod.split)

lemma quiet_remove_scope_dir: "quiet w (remove_scope_dir E w p)"
  by (simp add: remove_scope_dir_def quiet_drop_tree)

lemma quiet_scan_dirs:
  "foldl (scan_scope_dir E ip) (w, []) es = (w1, ds) \<Longrightarrow> quiet w (foldl (remove_scope_dir E) w1 ds)"
  using quiet_foldl_fst [of "scan_scope_dir E ip" "(w, [])" es, OF quiet_scan_scope_dir]
  by (auto intro: quiet_trans quiet_foldl quiet_remove_scope_dir)

lemma quiet_CleanupScopeFontDirs: "quiet w (CleanupScopeFontDirs E w)"
  unfolding CleanupScopeFontDirs_def
  by (rule quiet_foldl) (simp add: Let_def quiet_scan_dirs split: prod.split)

lemma quiet_CleanupAppScopeFontDirs: "quiet w (CleanupAppScopeFontDirs E w)"
  unfolding CleanupAppScopeFontDirs_def Let_def by (rule quiet_foldl) (auto intro: quiet_foldl quiet_DeleteDir)

lemma quiet_CleanupAllScopeFontDirs: "quiet w (CleanupAllScopeFontDirs E w)"
  unfolding CleanupAllScopeFontDirs_def Let_def by (rule quiet_foldl) (auto intro: quiet_foldl quiet_DeleteDir)

section \<open>The bodies of the calls\<close>

datatype server_call =
    CallInstallFont int
  | CallUninstallFont string
  | CallInstallFontWithUserId int int
  | CallUninstallFontWithUserId string int
  | CallDataMigration "bool option"
  | CallOnFontObserver "int option"
  | CallOffFontObserver
  | CallInstallScopeFont int int string
  | CallUninstallScopeFont string
  | CallGetFontScope string int

fun call_checks :: "server_call \<Rightarrow> bool" where
  "call_checks (CallInstallFont fd) = False"
| "call_checks (CallUninstallFont n) = False"
| "call_checks (CallInstallFontWithUserId fd u) = False"
| "call_checks (CallUninstallFontWithUserId n u) = False"
| "call_checks (CallDataMigration cb) = False"
| "call_checks _ = True"

fun call_body ::
    "'e server_env_scheme \<Rightarrow> ipc_caller \<Rightarrow> server_call \<Rightarrow> 'a server_state_scheme \<Rightarrow> 'a server_state_scheme"
  where
  "call_body E c (CallInstallFont fd) s = snd (InstallFontInner E c fd s)"
| "call_body E c (CallUninstallFont n) s = snd (UninstallFontInner E c n s)"
| "call_body E c (CallInstallFontWithUserId fd u) s = snd (InstallFontWithUserIdInner E c fd u s)"
| "call_body E c (CallUninstallFontWithUserId n u) s = snd (UninstallFontWithUserIdInner E c n u s)"
| "call_body E c (CallDataMigration cb) s = snd (Server_DataMigrationInner E c cb s)"
| "call_body E c (CallOnFontObserver b) s = snd (OnFontObserverInner E c b s)"
| "call_body E c CallOffFontObserver s = snd (OffFontObserverInner E c s)"
| "call_body E c (CallInstallScopeFont fd sc url) s = snd (InstallScopeFontInner E c fd sc url s)"
| "call_body E c (CallUninstallScopeFont url) s = snd (UninstallScopeFontInner E c url s)"
| "call_body E c (CallGetFontScope url out) s = snd (GetFontScopeInner E c url out s)"

text \<open>Every body keeps the contract.\<close>

lemma DataMigrationInner_served:
  assumes ok: "server_ok s"
  shows "served s (snd (Server_DataMigrationInner E c cb s))"
proof (cases "CheckPermission E c \<noteq> ERR_OK \<or> handler s = None \<or> isDataMigrationing s")
  case True
  then have "snd (Server_DataMigrationInner E c cb s) = s" by (auto simp: Server_DataMigrationInner_def Let_def)
  with ok show ?thesis by (simp add: served_refl)
next
  case False
  then obtain q where q: "handler s = Some q" by auto
  let ?s1 = "s\<lparr>isDataMigrationing := True, handler := Some (q @ [TaskMigration cb])\<rparr>"
  let ?s2 = "s\<lparr>isDataMigrationing := True, isDataMigrationing := False\<rparr>"
  have run: "snd (Server_DataMigrationInner E c cb s) = (if PostTask_ok E (TaskMigration cb) then ?s1 else ?s2)"
    using False q by (simp add: Server_DataMigrationInner_def PostTask_def Let_def)
  have "?s2 = s" using False by (cases s) simp
  moreover have "server_ok ?s1"
    using ok False q registry_ok_cong [of ?s1 s] links_ok_cong [of ?s1 s]
    by (simp add: server_ok_def pending_migrations_def configs_ok_def)
  ultimately show ?thesis
    using ok unfolding run by (auto simp: served_def no_unload_same)
qed

lemma OnFontObserverInner_served:
  assumes ok: "server_ok s"
  shows "served s (snd (OnFontObserverInner E c b s))"
proof -
  have reg: "served s (snd (RegisterClient E s b bn u t))" for bn u t
  proof -
    obtain r s' where run: "RegisterClient E s b bn u t = (r, s')" by fastforce
    have keep: "configs_ok s' = configs_ok s" "pending_migrations s' = pending_migrations s"
      "isDataMigrationing s' = isDataMigrationing s" "dm_isDataMigrationing s' = dm_isDataMigrationing s"
      "callingCount s' = callingCount s" "effects s' = effects s"
      using run by (auto simp: RegisterClient_cases configs_ok_def pending_migrations_def split: if_splits)
    then show ?thesis
      using RegisterClient_ok [OF _ _ run] ok by (simp add: run server_ok_def served_def no_unload_same)
  qed
  show ?thesis using reg ok by (simp add: OnFontObserverInner_def Let_def served_refl)
qed

text \<open>A client that goes leaves the count, the flag and the queued migrations alone.\<close>

definition same_service :: "'a server_state_scheme \<Rightarrow> 'a server_state_scheme \<Rightarrow> bool" where
  "same_service s s' \<longleftrightarrow>
     callingCount s' = callingCount s \<and> isDataMigrationing s' = isDataMigrationing s \<and>
     pending_migrations s' = pending_migrations s"

lemma same_service_refl [simp]: "same_service s s"
  by (simp add: same_service_def)

lemma same_service_trans: "same_service s s1 \<Longrightarrow> same_service s1 s' \<Longrightarrow> same_service s s'"
  by (simp add: same_service_def)

lemma callback_service: "same_service s (NotifyClientDied (client_died_callback E) s)"
  by (auto simp: same_service_def NotifyClientDied_def client_died_callback_def AddUnloadFontServiceTask_def
      PostTask_def pending_migrations_def split: option.split)

lemma leave_service:
  assumes "configs_ok s" "ci_appIdentifier i = BuildAppIdentifier FONT_SCOPE_APP t"
  shows "same_service s (NotifyClientDied (client_died_callback E) (cleanup_client E' (erase_client s t u) i))"
proof -
  have "configs_ok (erase_client s t u)" using assms(1) by (simp add: configs_ok_def)
  from cleanup_client_frame [OF this assms(2), of E'] have
    "fm_state.more (cleanup_client E' (erase_client s t u) i) = fm_state.more (erase_client s t u)"
    by (auto simp: fm_frame_def)
  from more_server [OF this] have "same_service (erase_client s t u) (cleanup_client E' (erase_client s t u) i)"
    by (simp add: same_service_def pending_migrations_def)
  moreover have "same_service s (erase_client s t u)"
    by (simp add: same_service_def erase_client_def pending_migrations_def)
  ultimately show ?thesis using callback_service by (blast intro: same_service_trans)
qed

lemma registry_app: "registry_ok s \<Longrightarrow> map_of (clients s) t = Some i \<Longrightarrow>
    ci_appIdentifier i = BuildAppIdentifier FONT_SCOPE_APP t"
  unfolding registry_ok_def by blast

lemma OnClientDied_service:
  "registry_ok s \<Longrightarrow> configs_ok s \<Longrightarrow> same_service s (OnClientDied E (client_died_callback E') s t)"
  using leave_service [of s _ t E'] registry_app [of s t] by (auto simp: OnClientDied_def Let_def split: option.split)

lemma UnregisterClient_service:
  assumes "registry_ok s" "configs_ok s"
  shows "same_service s (snd (UnregisterClient E (client_died_callback E') s t))"
proof (cases "map_of (clients s) t")
  case (Some i)
  let ?s1 = "case ci_binder i of None \<Rightarrow> s | Some b \<Rightarrow> s\<lparr>death_links := removeAll (b, t) (death_links s)\<rparr>"
  have "configs_ok ?s1" using assms(2) by (simp add: configs_ok_def split: option.split)
  from leave_service [OF this registry_app [OF assms(1) Some]] Some
  have "same_service ?s1 (snd (UnregisterClient E (client_died_callback E') s t))"
    by (simp add: UnregisterClient_def Let_def)
  moreover have "same_service s ?s1" by (simp add: same_service_def pending_migrations_def split: option.split)
  ultimately show ?thesis by (rule same_service_trans [rotated])
qed (simp add: UnregisterClient_def)

lemma foldl_OnClientDied_service:
  "registry_ok s \<Longrightarrow> configs_ok s \<Longrightarrow> same_service s (foldl (OnClientDied E (client_died_callback E')) s ts)"
proof (induction ts arbitrary: s)
  case (Cons t ts)
  from listener.OnClientDied_gone(1) [OF Cons.prems, of t E E']
  have "registry_ok (OnClientDied E (client_died_callback E') s t)"
    "configs_ok (OnClientDied E (client_died_callback E') s t)" by (simp_all add: client_gone_def)
  from Cons.IH [OF this] have "same_service (OnClientDied E (client_died_callback E') s t)
      (foldl (OnClientDied E (client_died_callback E')) s (t # ts))" by simp
  with OnClientDied_service [OF Cons.prems, of E E' t] show ?case by (rule same_service_trans)
qed simp

lemma served_service:
  "registry_ok s' \<Longrightarrow> configs_ok s' \<Longrightarrow> links_ok {} s' \<Longrightarrow> dm_isDataMigrationing s' = dm_isDataMigrationing s \<Longrightarrow>
     same_service s s' \<Longrightarrow> no_unload s s' \<Longrightarrow> server_ok s \<Longrightarrow> served s s'"
  by (simp add: served_def server_ok_def same_service_def)

lemma UnregisterClient_served:
  assumes ok: "server_ok s"
  shows "served s (snd (UnregisterClient E (client_died_callback E') s t))"
proof -
  obtain r s' where run: "UnregisterClient E (client_died_callback E') s t = (r, s')" by fastforce
  from ok have ok': "registry_ok s" "configs_ok s" "links_ok {} s" by (simp_all add: server_ok_def)
  show ?thesis
  proof (cases "map_of (clients s) t")
    case None
    with ok show ?thesis by (simp add: UnregisterClient_def served_refl)
  next
    case (Some i)
    then obtain b where b: "ci_binder i = Some b" using ok'(1) unfolding registry_ok_def by blast
    from listener.UnregisterClient_gone(2) [OF ok'(1,2) Some b run]
    have "no_unload s s'" "dm_isDataMigrationing s' = dm_isDataMigrationing s"
      by (simp_all add: client_gone_def no_unload_def)
    then show ?thesis
      using listener.UnregisterClient_ok [OF ok' run] UnregisterClient_service [OF ok'(1,2), of E E' t] ok
      by (simp add: run served_service)
  qed
qed

lemma OnRemoteDied_served:
  assumes ok: "server_ok s"
  shows "served s (OnRemoteDied E (client_died_callback E') s b)"
proof -
  from ok have ok': "registry_ok s" "configs_ok s" "links_ok {} s" by (simp_all add: server_ok_def)
  let ?s1 = "s\<lparr>death_links := filter (\<lambda>(b', t). b' \<noteq> b) (death_links s)\<rparr>"
  have "registry_ok ?s1" "configs_ok ?s1"
    using ok' registry_ok_cong [of ?s1 s] by (simp_all add: configs_ok_def)
  from foldl_OnClientDied_service [OF this]
  have "same_service ?s1 (OnRemoteDied E (client_died_callback E') s b)" by (simp add: OnRemoteDied_def)
  then have "same_service s (OnRemoteDied E (client_died_callback E') s b)"
    by (simp add: same_service_def pending_migrations_def)
  then show ?thesis
    by (intro served_service [OF listener.OnRemoteDied_ok(1-3) [OF ok'] listener.OnRemoteDied_ok(6) [OF ok']])
      (simp_all add: no_unload_def listener.OnRemoteDied_ok(5) [OF ok'] ok)
qed

lemma InstallFontInner_served: "server_ok s \<Longrightarrow> served s (snd (InstallFontInner E c fd s))"
  by (simp add: InstallFontInner_def Let_def InstallFont_served served_refl split: option.split)

lemma UninstallFontInner_served: "server_ok s \<Longrightarrow> served s (snd (UninstallFontInner E c n s))"
  by (simp add: UninstallFontInner_def Let_def UninstallFont_served served_refl split: option.split)

lemma WithUserIdInner_served:
  "server_ok s \<Longrightarrow> served s (snd (InstallFontWithUserIdInner E c fd u s))"
  "server_ok s \<Longrightarrow> served s (snd (UninstallFontWithUserIdInner E c n u s))"
  by (simp_all add: InstallFontWithUserIdInner_def UninstallFontWithUserIdInner_def Let_def
      InstallFont_served UninstallFont_served served_refl)

lemma OffFontObserverInner_served: "server_ok s \<Longrightarrow> served s (snd (OffFontObserverInner E c s))"
  by (simp add: OffFontObserverInner_def Let_def UnregisterClient_served served_refl)

lemma InstallScopeFontInner_served: "server_ok s \<Longrightarrow> served s (snd (InstallScopeFontInner E c fd sc url s))"
  by (simp add: InstallScopeFontInner_def Let_def InstallScopeFont_served served_refl simple_name_MakeAppIdentifier)

lemma UninstallScopeFontInner_served: "server_ok s \<Longrightarrow> served s (snd (UninstallScopeFontInner E c url s))"
  by (simp add: UninstallScopeFontInner_def Let_def UninstallScopeFont_served served_refl)

lemma GetFontScopeInner_served: "server_ok s \<Longrightarrow> served s (snd (GetFontScopeInner E c url out s))"
  using GetFontScope_served [of s E url "GetBundleNameByToken E c" "caller_tokenId c" "GetCallingUserId E c"]
  by (auto simp: GetFontScopeInner_def Let_def served_refl split: prod.split)

lemmas inner_served =
  InstallFontInner_served UninstallFontInner_served WithUserIdInner_served DataMigrationInner_served
  OnFontObserverInner_served OffFontObserverInner_served InstallScopeFontInner_served
  UninstallScopeFontInner_served GetFontScopeInner_served

lemma call_body_served: "server_ok s \<Longrightarrow> served s (call_body E c m s)"
  by (cases m) (simp_all add: inner_served)

interpretation call: server_body "\<lambda>s. ((), call_body E c m s)"
  by unfold_locales (simp add: call_body_served)

interpretation data_migration: server_body "Server_DataMigrationInner E c cb"
  by unfold_locales (rule DataMigrationInner_served)

interpretation on_observer: server_body "OnFontObserverInner E c b"
  by unfold_locales (rule OnFontObserverInner_served)

interpretation off_observer: server_body "OffFontObserverInner E c"
  by unfold_locales (rule OffFontObserverInner_served)

interpretation font_scope: server_body "GetFontScopeInner E c url out"
  by unfold_locales (rule GetFontScopeInner_served)

section \<open>Tasks\<close>

lemma StartDataMigrationTask_served:
  assumes cnt: "pending_migrations s = 0" and base: "configs_ok s" "registry_ok s" "links_ok {} s"
    "\<not> dm_isDataMigrationing s"
  shows "served s (StartDataMigrationTask E cb s)"
proof -
  let ?s0 = "s\<lparr>isDataMigrationing := False\<rparr>"
  let ?s1 = "RemoveUnloadFontServiceTask s"
  let ?s2 = "(DataMigration E ?s1 cb)\<lparr>isDataMigrationing := False\<rparr>"
  have p1: "pending_migrations ?s1 = 0" "configs_ok ?s1" "\<not> dm_isDataMigrationing ?s1"
    "clients ?s1 = clients s" "userClients ?s1 = userClients s" "death_links ?s1 = death_links s"
    "callingCount ?s1 = callingCount s" "effects ?s1 = effects s"
    using cnt base by (auto simp: RemoveUnloadFontServiceTask_def pending_migrations_def configs_ok_def
        split: option.splits)
  note d = DataMigration_done [OF p1(3), of E cb]
  have more: "dm_state.more ?s2 = dm_state.more (?s1\<lparr>isDataMigrationing := False\<rparr>)"
    using d(5) by (cases "DataMigration E ?s1 cb"; cases ?s1) simp
  then have f: "clients ?s2 = clients s" "userClients ?s2 = userClients s" "death_links ?s2 = death_links s"
    "callingCount ?s2 = callingCount s" "handler ?s2 = handler ?s1"
    using d(5) p1 by (cases "DataMigration E ?s1 cb"; cases ?s1; simp)+
  have "server_ok ?s2"
    using d(2,4) p1 f base registry_ok_cong [of ?s2 s] links_ok_cong [of ?s2 s]
    by (simp add: server_ok_def pending_migrations_def configs_ok_def)
  from AddUnload_served [OF this, of E] have "served ?s2 (StartDataMigrationTask E cb s)"
    by (simp add: StartDataMigrationTask_def Let_def)
  moreover have "no_unload s ?s2" "callingCount ?s2 = callingCount s"
    using d(1) p1(8) f by (auto simp: no_unload_def)
  ultimately show ?thesis by (auto simp: served_def intro: no_unload_trans)
qed

text \<open>
  The task that unloads looks again at everything that speaks against it; when it asks for the
  unloading, it has swept the users' directories before, and nothing else is pending.
\<close>

definition idle :: "'a server_state_scheme \<Rightarrow> bool" where
  "idle s \<longleftrightarrow> callingCount s = 0 \<and> \<not> isDataMigrationing s \<and> clients s = []"

lemma unload_task_busy: "\<not> idle s \<Longrightarrow> unload_task E s = s"
  by (auto simp: unload_task_def idle_def GetClientCount_def)

lemma quiet_emit_server: "server_ok (emit e s) = server_ok s" "callingCount (emit e s) = callingCount s"
  using registry_ok_cong [of "emit e s" s] links_ok_cong [of "emit e s" s]
  by (simp_all add: server_ok_def emit_def configs_ok_def pending_migrations_def)

lemma unload_task_ok:
  assumes "server_ok s"
  shows "server_ok (unload_task E s)" "callingCount (unload_task E s) = callingCount s"
    "idle s \<Longrightarrow> samgr_present E \<Longrightarrow> UnloadService FONT_SA_ID \<in> set (effects (unload_task E s))"
proof -
  let ?s2 = "CleanupScopeFontDirs E (ClearAllTempFileDir E s)"
  have "quiet s ?s2" using quiet_ClearAllTempFileDir quiet_CleanupScopeFontDirs quiet_trans by blast
  from served_quiet [OF this assms] have 2: "server_ok ?s2" "callingCount ?s2 = callingCount s"
    by (simp_all add: served_def)
  have run: "unload_task E s = (if idle s then snd (UnloadFontService E ?s2 FONT_SA_ID) else s)"
    by (auto simp: unload_task_def idle_def GetClientCount_def Let_def)
  show "server_ok (unload_task E s)" "callingCount (unload_task E s) = callingCount s"
    "idle s \<Longrightarrow> samgr_present E \<Longrightarrow> UnloadService FONT_SA_ID \<in> set (effects (unload_task E s))"
    unfolding run using 2 assms by (auto simp: UnloadFontService_def quiet_emit_server world_simps)
qed

lemma cleanup_task_served:
  "server_ok s \<Longrightarrow> served s (CleanupAllScopeFontsOnBoot E s)"
  "server_ok s \<Longrightarrow> served s (CleanupUserScopeFonts E s u)"
  "server_ok s \<Longrightarrow> served s (CleanupAppScopeFontsOnStart E s)"
proof -
  assume ok: "server_ok s"
  have then_quiet: "served s s1 \<Longrightarrow> quiet s1 s2 \<Longrightarrow> served s s2" for s1 s2
    using served_quiet served_trans served_def by blast
  show "served s (CleanupUserScopeFonts E s u)"
    using ok by (simp add: CleanupUserScopeFonts_def served_refl CleanupScopeFontsByUser_served)
  have "served s (foldl (\<lambda>s' uid. snd (CleanupScopeFontsByUser E s' uid)) s (GetAllCreatedUserIds E))"
    using ok by (rule served_foldl) (rule CleanupScopeFontsByUser_served)
  then show "served s (CleanupAllScopeFontsOnBoot E s)"
    unfolding CleanupAllScopeFontsOnBoot_def Let_def
    by (rule then_quiet) (blast intro: quiet_trans quiet_ClearAllTempFileDir quiet_CleanupAllScopeFontDirs)
  have "served s (foldl (\<lambda>s' uid. snd (CleanupAppScopeFontsByUser E s' uid)) s (GetAllCreatedUserIds E))"
    using ok by (rule served_foldl) (rule CleanupAppScopeFontsByUser_served)
  then show "served s (CleanupAppScopeFontsOnStart E s)"
    unfolding CleanupAppScopeFontsOnStart_def Let_def
    by (rule then_quiet) (rule quiet_CleanupAppScopeFontDirs)
qed

lemma take_task_ok:
  assumes ok: "server_ok s" and q: "handler s = Some (t # q)" and no: "\<not> is_migration t"
  shows "server_ok (s\<lparr>handler := Some q\<rparr>)"
  by (rule server_ok_handler [OF ok _ q]) (simp add: no)

lemma run_task_ok:
  assumes ok: "server_ok s" and q: "handler s = Some (t # q)"
  shows "server_ok (run_task E t (s\<lparr>handler := Some q\<rparr>))"
    "callingCount (run_task E t (s\<lparr>handler := Some q\<rparr>)) = callingCount s"
    "\<not> (t = TaskUnload \<and> idle s) \<Longrightarrow> no_unload s (run_task E t (s\<lparr>handler := Some q\<rparr>))"
proof -
  let ?s = "s\<lparr>handler := Some q\<rparr>" and ?r = "run_task E t (s\<lparr>handler := Some q\<rparr>)"
  have "server_ok ?r \<and> callingCount ?r = callingCount s \<and> (\<not> (t = TaskUnload \<and> idle s) \<longrightarrow> no_unload s ?r)"
  proof (cases "is_migration t")
    case True
    then obtain cb where t: "t = TaskMigration cb" by (cases t) auto
    have "pending_migrations ?s = 0" "configs_ok ?s" "registry_ok ?s" "links_ok {} ?s" "\<not> dm_isDataMigrationing ?s"
      using ok q t registry_ok_cong [of ?s s] links_ok_cong [of ?s s]
      by (auto simp: server_ok_def pending_migrations_def configs_ok_def split: if_splits)
    from StartDataMigrationTask_served [OF this, of E cb] show ?thesis
      by (simp add: t run_task_def served_def no_unload_def)
  next
    case False
    note ok' = take_task_ok [OF ok q False]
    show ?thesis
    proof (cases t)
      case TaskUnload
      have "idle ?s = idle s" by (simp add: idle_def)
      with unload_task_ok [OF ok', of E] unload_task_busy [of ?s E] show ?thesis
        by (cases "idle s") (simp_all add: TaskUnload run_task_def no_unload_def)
    qed (use False cleanup_task_served [OF ok'] in \<open>simp_all add: run_task_def served_def no_unload_def\<close>)
  qed
  then show "server_ok ?r" "callingCount ?r = callingCount s"
    "\<not> (t = TaskUnload \<and> idle s) \<Longrightarrow> no_unload s ?r" by blast+
qed

end
