(* ===== verification/Server_Steps.thy ===== *)
theory Server_Steps
  imports Server_Laws
begin

text \<open>
  The running service: remote calls that enter, run and leave at any time on the threads of the
  binder, the task queue, dying clients and system events, as one step relation. A configuration is
  the state of the service and the list of the calls that are inside their guard, each with a flag
  that tells whether its body has run.
\<close>

type_synonym calls = "(ipc_caller \<times> server_call \<times> bool) list"

inductive server_step ::
    "'e server_env_scheme \<Rightarrow> 'a server_state_scheme \<times> calls \<Rightarrow> 'a server_state_scheme \<times> calls \<Rightarrow> bool"
  for E :: "'e server_env_scheme" where
  enter: "length ps < 2 ^ 32 - 1 \<Longrightarrow> server_step E (s, ps) (guard_enter s, (c, m, False) # ps)"
| body: "server_step E (s, xs @ (c, m, False) # ys) (call_body E c m s, xs @ (c, m, True) # ys)"
| leave: "server_step E (s, xs @ (c, m, True) # ys) (guard_exit E (call_checks m) s, xs @ ys)"
| task: "handler s = Some (t # q) \<Longrightarrow> server_step E (s, ps) (run_task E t (s\<lparr>handler := Some q\<rparr>), ps)"
| died: "server_step E (s, ps) (OnRemoteDied E (client_died_callback E) s b, ps)"
| event: "server_step E (s, ps) (OnReceiveEvent E action code s, ps)"
| stop: "server_step E (s, ps) (OnStop s, ps)"

inductive_cases server_stepE: "server_step E (s, ps) (s', ps')"

text \<open>The process comes up with nothing but files and descriptors, and \<open>OnStart\<close> runs.\<close>

definition fresh_service :: "'a server_state_scheme \<Rightarrow> bool" where
  "fresh_service s \<longleftrightarrow>
     configMap s = Map.empty \<and> \<not> dm_isDataMigrationing s \<and> clients s = [] \<and> userClients s = (\<lambda>_. {}) \<and>
     death_links s = [] \<and> callingCount s = 0 \<and> \<not> isDataMigrationing s"

inductive service_run :: "'e server_env_scheme \<Rightarrow> 'a server_state_scheme \<times> calls \<Rightarrow> bool"
  for E :: "'e server_env_scheme" where
  start: "fresh_service s \<Longrightarrow> service_run E (OnStart E reasonName reasonValue s, [])"
| step: "service_run E x \<Longrightarrow> server_step E x y \<Longrightarrow> service_run E y"

section \<open>The invariant of every run\<close>

definition service_ok :: "'a server_state_scheme \<times> calls \<Rightarrow> bool" where
  "service_ok x \<longleftrightarrow>
     server_ok (fst x) \<and> callingCount (fst x) = of_nat (length (snd x)) \<and> length (snd x) < 2 ^ 32"

lemma SetClientDiedCallback_ok [simp]: "server_ok (SetClientDiedCallback s b) = server_ok s"
  using registry_ok_cong [of "SetClientDiedCallback s b" s] links_ok_cong [of "SetClientDiedCallback s b" s]
  by (simp add: server_ok_def SetClientDiedCallback_def configs_ok_def pending_migrations_def)

lemma OnReceiveEvent_served: "server_ok s \<Longrightarrow> served s (OnReceiveEvent E a code s)"
  by (simp add: OnReceiveEvent_def Let_def served_refl PostTask_served)

lemma OnStop_served: "server_ok s \<Longrightarrow> served s (OnStop s)"
  by (simp add: OnStop_def served_def) (simp add: SetClientDiedCallback_def no_unload_def)

lemma OnStart_ok:
  assumes "fresh_service s"
  shows "server_ok (OnStart E rn rv s)" "callingCount (OnStart E rn rv s) = 0" "no_unload s (OnStart E rn rv s)"
proof -
  let ?s1 = "SetClientDiedCallback (s\<lparr>handler := Some []\<rparr>) True"
  let ?t = "if rn = REASON_BOOT_COMPLETED then TaskCleanupBoot
            else if rn = REASON_USER_STOPPING then TaskCleanupUser (ParseUserIdFromReason rv) else TaskCleanupApp"
  have "server_ok (s\<lparr>handler := Some []\<rparr>)"
    using assms registry_empty [of "s\<lparr>handler := Some []\<rparr>"]
    by (simp add: fresh_service_def server_ok_def configs_ok_def links_ok_def pending_migrations_def)
  then have "server_ok ?s1" by simp
  then have 2: "served ?s1 (snd (PostTask E ?t ?s1))" by (rule PostTask_served) simp
  then have "server_ok (snd (PostTask E ?t ?s1))" unfolding served_def by blast
  then have "served (snd (PostTask E ?t ?s1)) (AddUnloadFontServiceTask E (snd (PostTask E ?t ?s1)))"
    by (rule AddUnload_served)
  with 2 have 3: "served ?s1 (AddUnloadFontServiceTask E (snd (PostTask E ?t ?s1)))" (is "served _ ?s3")
    by (rule served_trans)
  have "callingCount ?s1 = 0" "effects ?s1 = effects s"
    using assms by (simp_all add: fresh_service_def SetClientDiedCallback_def)
  moreover have "OnStart E rn rv s = SubscribeCommonEvent E ?s3" by (simp add: OnStart_def Let_def)
  moreover have "server_ok (SubscribeCommonEvent E ?s3) = server_ok ?s3"
    "callingCount (SubscribeCommonEvent E ?s3) = callingCount ?s3" "effects (SubscribeCommonEvent E ?s3) = effects ?s3"
    by (simp_all add: SubscribeCommonEvent_def)
  ultimately show "server_ok (OnStart E rn rv s)" "callingCount (OnStart E rn rv s) = 0"
    "no_unload s (OnStart E rn rv s)"
    using 3 by (simp_all add: served_def no_unload_def)
qed

lemma served_service_ok:
  "service_ok (s, ps) \<Longrightarrow> served s s' \<Longrightarrow> length ps' = length ps \<Longrightarrow> service_ok (s', ps')"
  by (simp add: service_ok_def served_def)

lemma server_step_ok:
  assumes "server_step E x y" "service_ok x"
  shows "service_ok y"
  using assms
proof (induction rule: server_step.induct)
  case (enter ps s c m)
  then have "server_ok s" by (simp add: service_ok_def)
  from call.enter_ok [OF this] enter show ?case by (simp add: service_ok_def)
next
  case (leave s xs c m ys)
  then have "server_ok s" by (simp add: service_ok_def)
  from call.exit_ok [OF this, of E "call_checks m"] leave show ?case by (simp add: service_ok_def)
next
  case (task s t q ps)
  from task.prems have "server_ok s" by (simp add: service_ok_def)
  from run_task_ok(1,2) [OF this task.hyps, of E] task show ?case by (simp add: service_ok_def)
next
  case (body s xs c m ys)
  then have "served s (call_body E c m s)" by (simp add: service_ok_def call_body_served)
  with body show ?case by (auto intro: served_service_ok)
next
  case (died s ps b)
  then have "served s (OnRemoteDied E (client_died_callback E) s b)" by (simp add: service_ok_def OnRemoteDied_served)
  with died show ?case by (auto intro: served_service_ok)
next
  case (event s ps a code)
  then have "served s (OnReceiveEvent E a code s)" by (simp add: service_ok_def OnReceiveEvent_served)
  with event show ?case by (auto intro: served_service_ok)
next
  case (stop s ps)
  then have "served s (OnStop s)" by (simp add: service_ok_def OnStop_served)
  with stop show ?case by (auto intro: served_service_ok)
qed

lemma service_run_ok: "service_run E x \<Longrightarrow> service_ok x"
proof (induction rule: service_run.induct)
  case (start s rn rv)
  then show ?case by (simp add: service_ok_def OnStart_ok)
qed (blast intro: server_step_ok)

text \<open>The count of a running service is zero only when no call is inside.\<close>

lemma no_call_inside: "service_ok (s, ps) \<Longrightarrow> callingCount s = 0 \<longleftrightarrow> ps = []"
proof -
  assume ok: "service_ok (s, ps)"
  then have "unat (callingCount s) = length ps" by (simp add: service_ok_def unat_of_nat)
  then show ?thesis by (metis length_0_conv unat_eq_zero)
qed

text \<open>Only the task that unloads asks for it, and only when nothing speaks against it.\<close>

lemma server_step_unload:
  assumes "server_step E x y" "service_ok x" "\<not> no_unload (fst x) (fst y)"
  shows "snd x = [] \<and> clients (fst x) = [] \<and> \<not> isDataMigrationing (fst x)"
  using assms
proof (induction rule: server_step.induct)
  case (enter ps s c m)
  then show ?case using call.enter_ok(3) by (auto simp: service_ok_def)
next
  case (leave s xs c m ys)
  then show ?case using call.exit_ok(3) by (auto simp: service_ok_def)
next
  case (task s t q ps)
  from task.prems(1) have "server_ok s" by (simp add: service_ok_def)
  from run_task_ok(3) [OF this task.hyps, of E] task.prems(2) have "idle s" by auto
  with no_call_inside [OF task.prems(1)] show ?case by (simp add: idle_def)
next
  case (body s xs c m ys)
  then show ?case using call_body_served [of s E c m] by (auto simp: service_ok_def served_def)
next
  case (died s ps b)
  then show ?case using OnRemoteDied_served [of s E E b] by (auto simp: service_ok_def served_def)
next
  case (event s ps a code)
  then show ?case using OnReceiveEvent_served [of s E a code] by (auto simp: service_ok_def served_def)
next
  case (stop s ps)
  then show ?case using OnStop_served [of s] by (auto simp: service_ok_def served_def)
qed

section \<open>When the unloading is planned\<close>

lemma guard_enter_cancels: "handler (guard_enter s) = Some q \<Longrightarrow> TaskUnload \<notin> set q"
  by (auto simp: guard_enter_def RemoveUnloadFontServiceTask_def Let_def split: option.splits)

lemma guard_exit_plans:
  assumes "callingCount s = 1" "\<not> isDataMigrationing s" "clients s = []" "handler s = Some q"
    "PostTask_ok E TaskUnload"
  shows "handler (guard_exit E chk s) = Some (q @ [TaskUnload])"
  using assms by (simp add: guard_exit_def AddUnloadFontServiceTask_def GetClientCount_def PostTask_def Let_def)

end
