(* ===== verification/Service_Properties.thy ===== *)
theory Service_Properties
  imports Server_Steps Manager_Removal Reference_Runs
begin

text \<open>
  What the service promises (\<open>font_client_registry.cpp\<close>, \<open>font_manager_server.cpp\<close>): the table of the
  observing applications, permissions, the count of running calls, the unloading of the idle service
  and the start of a migration, in every run of the step relation.
\<close>

section \<open>The registry\<close>

text \<open>
  C23: registering: success means that the token was not registered and now is, for its user, that the
  user's number of applications has gone up by one and does not exceed the limit, and that nobody else's
  entry has changed; every error leaves the registry as it was.
\<close>

theorem register_effect:
  assumes "registry_ok s" "RegisterClient E s b bn u t = (r, s')"
  shows "(r = ERR_OK \<longrightarrow> \<not> IsClientRegistered s t \<and> IsClientRegistered s' t \<and>
      card (userClients s' u) = Suc (card (userClients s u)) \<and> int (card (userClients s' u)) \<le> MAX_SCOPE_FONT_APP_NUM \<and>
      (\<forall>t'. t' \<noteq> t \<longrightarrow> map_of (clients s') t' = map_of (clients s) t') \<and>
      (\<forall>v. v \<noteq> u \<longrightarrow> userClients s' v = userClients s v)) \<and> (r \<noteq> ERR_OK \<longrightarrow> s' = s)"
proof -
  have fresh: "\<not> IsClientRegistered s t \<Longrightarrow> t \<notin> userClients s u"
    using assms(1) unfolding registry_ok_def IsClientRegistered_def by auto
  show ?thesis
    using assms(2) fresh userClients_finite [OF assms(1), of u]
    by (auto simp: RegisterClient_cases IsClientRegistered_def map_of_update err_defs split: if_splits)
qed

theorem register_effect_witness:
  "\<exists>s'. RegisterClient ref_env ref_fresh (Some 1) ''com.app'' 100 5 = (ERR_OK, s') \<and> IsClientRegistered s' 5 \<and>
     card (userClients s' 100) = 1"
proof -
  have ok: "registry_ok ref_fresh" by (rule registry_empty) (simp_all add: ref_state_def)
  have "fst (RegisterClient ref_env ref_fresh (Some 1) ''com.app'' 100 5) = ERR_OK"
    by (simp add: RegisterClient_cases IsClientRegistered_def ref_state_def MAX_SCOPE_FONT_APP_NUM_def)
  then obtain s' where run: "RegisterClient ref_env ref_fresh (Some 1) ''com.app'' 100 5 = (ERR_OK, s')"
    by (cases "RegisterClient ref_env ref_fresh (Some 1) ''com.app'' 100 5") simp
  have "userClients ref_fresh 100 = {}" by (simp add: ref_state_def)
  with register_effect [OF ok run] run show ?thesis by simp
qed

text \<open>
  C22: the invariant of the registry: tokens are distinct, the entries and the users' token sets agree,
  no user exceeds the limit, and the linked death recipients are exactly those of the entries; it
  holds after registering, unregistering and the death of any binder.
\<close>

theorem registry_invariant:
  assumes "registry_ok s" "configs_ok s" "links_ok {} s"
  shows "registry_ok (snd (RegisterClient E s b bn u t)) \<and> links_ok {} (snd (RegisterClient E s b bn u t)) \<and>
    registry_ok (snd (UnregisterClient E (client_died_callback E) s t)) \<and>
    links_ok {} (snd (UnregisterClient E (client_died_callback E) s t)) \<and>
    registry_ok (OnRemoteDied E (client_died_callback E) s k) \<and> links_ok {} (OnRemoteDied E (client_died_callback E) s k)"
  by (intro conjI RegisterClient_ok [OF assms(1,3) prod.collapse [symmetric]]
      listener.UnregisterClient_ok(1,3) [OF assms prod.collapse [symmetric]] listener.OnRemoteDied_ok(1,3) [OF assms])

theorem registry_invariant_witness:
  "registry_ok (snd (RegisterClient ref_env ref_fresh (Some 1) ''com.app'' 100 5))"
proof -
  have "registry_ok ref_fresh" "links_ok {} ref_fresh"
    by (rule registry_empty) (simp_all add: ref_state_def links_ok_def)
  with registry_invariant [OF _ ref_saved_configs(2)] show ?thesis by blast
qed

text \<open>
  C14: when the process of an observing application dies, its fonts go: \<open>OnClientDied\<close> takes the token
  off the registry and removes from the user's configuration exactly the records of the application's
  directory, provided these have source URLs of their own, the disk can be written and the JSON fits.
\<close>

theorem client_death_removes_fonts:
  fixes s :: "'a server_state_scheme"
  assumes "config_memory E" "registry_ok s" "configs_ok s" "map_of (clients s) t = Some i" "ci_userId i \<ge> 0"
    "disk_ok E s (user_config (ci_userId i))" "config_size E s (user_config (ci_userId i)) \<le> JSON_MEMORY"
    "config_items E s (user_config (ci_userId i)) = Some xs" "unique_member FONT_SRC_PATH xs"
    "\<forall>x\<in>set xs. has_text FONT_APP_IDENTIFIER (MakeAppIdentifier FONT_SCOPE_APP t) x \<longrightarrow>
       jstring x FONT_SRC_PATH \<noteq> None \<and>
       resolve (ValidateAndResolveRealPath E (install_path (ci_userId i)) (jtext x FONT_PATH))
         \<noteq> install_dir (ci_userId i) @ [FONT_CONFIG_FILE]"
  shows "\<not> IsClientRegistered (OnClientDied E (client_died_callback E) s t) t \<and>
    config_items E (OnClientDied E (client_died_callback E) s t) (user_config (ci_userId i))
      = Some (filter (\<lambda>x. \<not> has_text FONT_APP_IDENTIFIER (MakeAppIdentifier FONT_SCOPE_APP t) x) xs)"
proof -
  let ?a = "MakeAppIdentifier FONT_SCOPE_APP t" and ?s1 = "erase_client s t (ci_userId i)"
  let ?s2 = "cleanup_client E ?s1 i"
  have a: "ci_appIdentifier i = ?a" using registry_app [OF assms(2,4)] by (simp add: BuildAppIdentifier_eq)
  have apart: "?a \<noteq> FONT_CONFIG_FILE" "?a \<noteq> []" "simple_name ?a"
    by (simp_all add: simple_name_MakeAppIdentifier) (simp_all add: MakeAppIdentifier_def path_defs FONT_CONFIG_FILE_def err_defs)
  have same: "node_at ?s1 q = node_at s q" for q by (simp add: node_at_def)
  note cong = config_items_cong [OF same] LoadConfig_cong [OF same]
  have "config_items E ?s2 (user_config (ci_userId i)) = Some (filter (\<lambda>x. \<not> has_text FONT_APP_IDENTIFIER ?a x) xs)"
    using assms(3,5-10) apart
    by (simp add: cleanup_client_def a config_memory.CleanupAppScopeFonts_ok [OF assms(1)] configs_ok_def disk_ok_def
        config_size_def cong same)
  moreover have "config_items E (NotifyClientDied (client_died_callback E) ?s2) cfg = config_items E ?s2 cfg" for cfg
    using truncate_registry [OF listener.notify_keeps, of E ?s2] by (intro config_items_cong) (simp add: node_at_def)
  moreover have "OnClientDied E (client_died_callback E) s t = NotifyClientDied (client_died_callback E) ?s2"
    by (simp add: OnClientDied_def assms(4))
  moreover have "clients (OnClientDied E (client_died_callback E) s t) = AList.delete t (clients s)"
    using listener.OnClientDied_gone(1) [OF assms(2,3), of t E E] by (simp add: client_gone_def)
  ultimately show ?thesis by (simp add: IsClientRegistered_def delete_conv')
qed

text \<open>A state with one observing application and its font.\<close>

definition ref_client :: ClientInfo where
  "ref_client = \<lparr>ci_binder = Some 1, ci_bundleName = ''com.app'', ci_userId = 100, ci_tokenId = 5,
     ci_appIdentifier = BuildAppIdentifier FONT_SCOPE_APP 5\<rparr>"

definition ref_app_font :: cJSON where
  "ref_app_font = scope_item (scope_record (ref_info\<lparr>si_scope := FONT_SCOPE_APP,
     si_appIdentifier := MakeAppIdentifier FONT_SCOPE_APP 5\<rparr>) ''f.ttf'' [''Abc''])"

definition ref_observed :: server_state where
  "ref_observed = (ref_saved [ref_app_font] [])
     \<lparr>clients := [(5, ref_client)], userClients := (\<lambda>u. if u = 100 then {5} else {}), death_links := [(1, 5)]\<rparr>"

lemma ref_observed_registry: "registry_ok ref_observed" "configs_ok ref_observed" "links_ok {} ref_observed"
  "map_of (clients ref_observed) 5 = Some ref_client"
proof -
  show "configs_ok ref_observed"
    using ref_saved_configs(1) [of "[ref_app_font]" "[]"] by (simp add: configs_ok_def ref_observed_def)
qed (auto simp: registry_ok_def links_ok_def ref_observed_def ref_client_def MAX_SCOPE_FONT_APP_NUM_def split: if_splits)

lemma ref_app_font_records: "ref_records [ref_app_font]"
proof -
  have "MakeAppIdentifier FONT_SCOPE_APP 5 = APP_FONT_DIR_PREFIX @ ''5''"
  proof -
    have "to_string 5 = ''5''" by code_simp
    then show ?thesis by (simp add: MakeAppIdentifier_def)
  qed
  moreover have "length (to_string FONT_SCOPE_APP) = 1" by code_simp
  moreover have "int32_range FONT_SCOPE_APP" by (simp add: int32_range_def err_defs)
  ultimately show ?thesis
    using scope_item_size [of "scope_record (ref_info\<lparr>si_scope := FONT_SCOPE_APP,
        si_appIdentifier := MakeAppIdentifier FONT_SCOPE_APP 5\<rparr>) ''f.ttf'' [''Abc'']"] install_path_app_length
    by (simp add: ref_records_def ref_app_font_def ref_doc_size item_ok_scope_item)
       (simp add: ref_info_def path_defs)
qed

lemma ref_app_font_text:
  "jstring ref_app_font FONT_SRC_PATH = Some ''/storage/a.ttf''"
  "jstring ref_app_font FONT_APP_IDENTIFIER = Some (MakeAppIdentifier FONT_SCOPE_APP 5)"
  "jtext ref_app_font FONT_PATH = INSTALL_PATH_APP @ MakeAppIdentifier FONT_SCOPE_APP 5 @ ''/'' @ ''f.ttf''"
proof -
  have ct: "is_cstring (MakeAppIdentifier FONT_SCOPE_APP 5)" "MakeAppIdentifier FONT_SCOPE_APP 5 \<noteq> []"
    "is_cstring (INSTALL_PATH_APP @ MakeAppIdentifier FONT_SCOPE_APP 5 @ ''/f.ttf'')"
    by (simp_all add: MakeAppIdentifier_def path_defs NUL_def)
  then show "jstring ref_app_font FONT_APP_IDENTIFIER = Some (MakeAppIdentifier FONT_SCOPE_APP 5)"
    "jtext ref_app_font FONT_PATH = INSTALL_PATH_APP @ MakeAppIdentifier FONT_SCOPE_APP 5 @ ''/'' @ ''f.ttf''"
    by (simp_all add: ref_app_font_def jtext_def jstring_scope_item)
  have "is_cstring ''/storage/a.ttf''" by (simp add: NUL_def)
  then show "jstring ref_app_font FONT_SRC_PATH = Some ''/storage/a.ttf''"
    by (simp add: ref_app_font_def jstring_scope_item) (simp add: ref_info_def)
qed

lemma ref_observed_config:
  "disk_ok ref_env ref_observed (user_config 100)" "config_size ref_env ref_observed (user_config 100) \<le> JSON_MEMORY"
  "config_items ref_env ref_observed (user_config 100) = Some [ref_app_font]"
proof -
  have same: "node_at ref_observed q = node_at (ref_saved [ref_app_font] []) q" for q
    by (simp add: ref_observed_def node_at_def)
  show "config_items ref_env ref_observed (user_config 100) = Some [ref_app_font]"
    unfolding config_items_cong [OF same] by (rule ref_saved_items [OF ref_app_font_records])
  show "config_size ref_env ref_observed (user_config 100) \<le> JSON_MEMORY"
    using ref_saved_size [OF ref_app_font_records, of "[]"] LoadConfig_cong [OF same, of ref_env]
    by (simp add: config_size_def JSON_MEMORY_def)
  show "disk_ok ref_env ref_observed (user_config 100)"
    using config_memory.ready_disk [OF ref_env_memory ref_saved_ready [OF ref_app_font_records, of "[]"]]
    by (simp add: disk_ok_def same)
qed

theorem client_death_removes_fonts_witness:
  "config_items ref_env (OnClientDied ref_env (client_died_callback ref_env) ref_observed 5) (user_config 100) = Some []"
proof -
  have i: "ci_userId ref_client = 100" by (simp add: ref_client_def)
  have "unique_member FONT_SRC_PATH [ref_app_font]" by (simp add: unique_member_def)
  with client_death_removes_fonts [OF ref_env_memory ref_observed_registry(1,2,4), unfolded i, OF _ ref_observed_config]
    scope_path_safe [OF simple_name_MakeAppIdentifier, of "''f.ttf''" ref_env 100]
  show ?thesis by (simp add: ref_app_font_text has_text_def simple_name_def)
qed

section \<open>Permissions\<close>



text \<open>
  A font of the application scope is installed only for an application that is registered as an
  observer, for a user the account service knows, and with a bundle name; a session font needs no
  registration.
\<close>

lemma app_scope_needs_registration:
  assumes "InstallScopeFontInner E c fd sc url s = (r, s')" "r = ERR_OK"
  shows "VerifyAccessToken E (CallingTokenID c) PERMISSION_UPDATE_SCOPE_FONT \<and> sc \<in> {FONT_SCOPE_APP, FONT_SCOPE_SESSION} \<and>
    GetCallingUserId E c \<ge> 0 \<and> GetBundleNameByToken E c \<noteq> [] \<and>
    (if sc = FONT_SCOPE_APP then IsClientRegistered s (caller_tokenId c) else True) \<and>
    InstallScopeFont E s \<lparr>si_fd = fd, si_scope = sc, si_srcPath = url, si_bundleName = GetBundleNameByToken E c,
      si_appIdentifier = MakeAppIdentifier sc (caller_tokenId c), si_userId = GetCallingUserId E c\<rparr> = (ERR_OK, s')"
  using assms
  by (auto simp: InstallScopeFontInner_def CheckScopeFontPermission_def Let_def err_defs split: if_splits)

lemma ref_caller_info:
  "\<lparr>si_fd = 3, si_scope = FONT_SCOPE_SESSION, si_srcPath = ''/storage/a.ttf'',
     si_bundleName = GetBundleNameByToken ref_env ref_caller,
     si_appIdentifier = MakeAppIdentifier FONT_SCOPE_SESSION (caller_tokenId ref_caller),
     si_userId = GetCallingUserId ref_env ref_caller\<rparr> = ref_info"
  by (simp add: ref_info_def GetBundleNameByToken_def caller_tokenId_def ref_caller_def GetCallingUserId_def)

section \<open>The running service\<close>

text \<open>
  C19: the invariant of every run of the service, whatever calls, tasks, deaths and events come in
  whatever order: the calling count is the number of calls inside their guard, the registry and the
  table of configuration objects are sound, and at most one migration is queued, exactly while the
  flag that refuses another one is set.
\<close>

theorem service_invariant:
  assumes "service_run E (s, ps)"
  shows "unat (callingCount s) = length ps \<and> registry_ok s \<and> links_ok {} s \<and> configs_ok s \<and>
    pending_migrations s = (if isDataMigrationing s then 1 else 0)"
  using service_run_ok [OF assms] by (simp add: service_ok_def server_ok_def unat_of_nat)

text \<open>An environment whose queue takes nothing but the task that unloads, and the service in it.\<close>

definition ref_quiet_env :: server_env where
  "ref_quiet_env = ref_env\<lparr>PostTask_ok := (\<lambda>t. t = TaskUnload)\<rparr>"

definition ref_started :: server_state where
  "ref_started = OnStart ref_quiet_env [] [] ref_fresh"

lemma ref_started_run: "service_run ref_quiet_env (ref_started, [])"
  unfolding ref_started_def by (rule service_run.start) (simp add: fresh_service_def ref_state_def)

lemma ref_started_simps: "handler ref_started = Some [TaskUnload]" "effects ref_started = []" "idle ref_started"
  by (simp_all add: ref_started_def OnStart_def SetClientDiedCallback_def PostTask_def AddUnloadFontServiceTask_def
      SubscribeCommonEvent_def ref_quiet_env_def ref_state_def GetClientCount_def idle_def)

theorem service_invariant_witness:
  "pending_migrations ref_started = 0 \<and> registry_ok ref_started \<and> callingCount ref_started = 0"
  using service_invariant [OF ref_started_run] ref_started_simps(3) by (simp add: idle_def)



text \<open>
  C21: the idle service does get unloaded: when the last call leaves its guard with no client and no
  migration, the task that unloads is queued; running it while the service is idle requests the
  unloading; and a call that enters before takes every such task off the queue.
\<close>

theorem idle_service_unloads:
  assumes "callingCount s = 1" "\<not> isDataMigrationing s" "clients s = []" "handler s = Some q"
    "PostTask_ok E TaskUnload" "samgr_present E" "server_ok s"
  shows "handler (guard_exit E chk s) = Some (q @ [TaskUnload]) \<and>
    UnloadService FONT_SA_ID \<in> set (effects (run_task E TaskUnload (guard_exit E chk s))) \<and>
    handler (guard_enter (guard_exit E chk s)) = Some (removeAll TaskUnload q)"
proof -
  let ?s = "guard_exit E chk s"
  have h: "handler ?s = Some (q @ [TaskUnload])" by (rule guard_exit_plans [OF assms(1-5)])
  have "idle ?s"
    using assms(1-5) by (simp add: idle_def guard_exit_def AddUnloadFontServiceTask_def GetClientCount_def PostTask_def Let_def)
  moreover have "server_ok ?s" by (rule call.exit_ok(1) [OF assms(7)])
  ultimately have "UnloadService FONT_SA_ID \<in> set (effects (run_task E TaskUnload ?s))"
    using unload_task_ok(3) assms(6) by (simp add: run_task_def)
  with h show ?thesis by (simp add: guard_enter_def RemoveUnloadFontServiceTask_def)
qed

theorem idle_service_unloads_witness:
  "UnloadService FONT_SA_ID \<in> set (effects (run_task ref_env TaskUnload (guard_exit ref_env False (ref_fresh\<lparr>callingCount := 1\<rparr>))))"
proof -
  have "registry_ok ref_fresh" by (rule registry_empty) (simp_all add: ref_state_def)
  moreover have "clients ref_fresh = []" "death_links ref_fresh = []" "pending_migrations ref_fresh = 0"
    "\<not> isDataMigrationing ref_fresh" "\<not> dm_isDataMigrationing ref_fresh"
    by (simp_all add: ref_state_def pending_migrations_def)
  ultimately have "server_ok (ref_fresh\<lparr>callingCount := 1\<rparr>)"
    using ref_saved_configs(2) by (simp add: server_ok_def [of ref_fresh] links_ok_def)
  then show ?thesis
    by (rule idle_service_unloads [THEN conjunct2, THEN conjunct1, rotated 6]) (simp_all add: ref_state_def)
qed

end
