(* ===== verification/Font_Client.thy ===== *)
theory Font_Client
  imports Font_Utils
begin

text \<open>
  The client side (\<open>service/client/src\<close>): \<open>FontServiceLoadManager\<close>, which finds the service or
  loads it and waits for the answer, and \<open>FontManagerClient\<close>, which opens the font file, calls the
  service and keeps the death notification of the service. The state is the load status, the
  files that are open and the notification. The remote service and the system-ability manager are
  fields of the environment.
\<close>

datatype LoadSaStatus = WAIT_RESULT | SUCCESS | FAIL

record client_env =
  cl_realpath :: "string \<Rightarrow> string option"
  cl_access :: "string \<Rightarrow> bool"
  cl_fopen :: "string \<Rightarrow> bool"
  cl_fileno :: "string \<Rightarrow> int"
  cl_samgr :: bool
  CheckSystemAbility :: "nat \<Rightarrow> bool"
  load_callback_alloc :: bool
  LoadSystemAbility :: int
  load_answer :: LoadSaStatus
  GetSystemAbility :: bool
  iface_cast_ok :: bool
  service_binder :: "int option"
  cb_agent_alloc :: bool
  cb_agent_object :: bool
  svc_InstallFont :: "int \<Rightarrow> int \<times> int"
  svc_UninstallFont :: "string \<Rightarrow> int \<times> int"
  svc_DataMigration :: int
  svc_InstallFontWithUserId :: "int \<Rightarrow> int \<Rightarrow> int"
  svc_UninstallFontWithUserId :: "string \<Rightarrow> int \<Rightarrow> int"
  svc_OnFontObserver :: "int \<Rightarrow> int"
  svc_OffFontObserver :: int
  svc_InstallScopeFont :: "int \<Rightarrow> int \<Rightarrow> string \<Rightarrow> int \<times> int"
  svc_UninstallScopeFont :: "string \<Rightarrow> int \<times> int"
  svc_GetFontScope :: "string \<Rightarrow> int \<times> int"

text \<open>
  An observer is identified by a number; \<open>sa_links\<close> are the notifications linked to a binder of
  the service, with the observer they call.
\<close>

record client_state =
  loadSaStatus :: LoadSaStatus
  open_files :: "string list"
  saBinder :: "int option"
  saDeathRecipient :: "int option"
  sa_links :: "(int \<times> int) list"

section \<open>Finding and loading the service\<close>

definition InitStatus :: "client_state \<Rightarrow> client_state" where
  "InitStatus s = s\<lparr>loadSaStatus := WAIT_RESULT\<rparr>"

definition OnLoadSystemAbilitySuccess :: "client_state \<Rightarrow> client_state" where
  "OnLoadSystemAbilitySuccess s = s\<lparr>loadSaStatus := SUCCESS\<rparr>"

definition OnLoadSystemAbilityFail :: "client_state \<Rightarrow> client_state" where
  "OnLoadSystemAbilityFail s = s\<lparr>loadSaStatus := FAIL\<rparr>"

text \<open>
  The callback that the system-ability manager calls, from any thread: it goes to the load manager, which is a
  singleton and may be gone (\<open>loadMgr\<close>) when the answer comes late.
\<close>

definition SALoad_OnLoadSystemAbilitySuccess :: "bool \<Rightarrow> client_state \<Rightarrow> client_state" where
  "SALoad_OnLoadSystemAbilitySuccess loadMgr s = (if \<not> loadMgr then s else OnLoadSystemAbilitySuccess s)"

definition SALoad_OnLoadSystemAbilityFail :: "bool \<Rightarrow> client_state \<Rightarrow> client_state" where
  "SALoad_OnLoadSystemAbilityFail loadMgr s = (if \<not> loadMgr then s else OnLoadSystemAbilityFail s)"

text \<open>What happens during the bounded wait: the load callback comes, or nothing does; the load manager waits, so it is there.\<close>

definition wait_for_load :: "client_env \<Rightarrow> client_state \<Rightarrow> bool \<times> client_state" where
  "wait_for_load E s =
     (let s1 = (case load_answer E of
                  SUCCESS \<Rightarrow> SALoad_OnLoadSystemAbilitySuccess True s
                | FAIL \<Rightarrow> SALoad_OnLoadSystemAbilityFail True s
                | WAIT_RESULT \<Rightarrow> s)
      in (loadSaStatus s1 \<noteq> WAIT_RESULT, s1))"

definition LoadSa :: "client_env \<Rightarrow> client_state \<Rightarrow> bool \<times> client_state" where
  "LoadSa E s =
     (let s1 = InitStatus s in
      if \<not> cl_samgr E then (False, s1)
      else if \<not> load_callback_alloc E then (False, s1)
      else if LoadSystemAbility E \<noteq> ERR_OK then (False, s1)
      else case wait_for_load E s1 of
        (waitStatus, s2) \<Rightarrow>
          if \<not> waitStatus \<or> loadSaStatus s2 \<noteq> SUCCESS then (False, s2) else (True, s2))"

text \<open>Whether a proxy is returned. The second check is made under the lock.\<close>

definition GetFontServiceAbility :: "client_env \<Rightarrow> client_state \<Rightarrow> bool \<times> client_state" where
  "GetFontServiceAbility E s =
     (if \<not> cl_samgr E then (False, s)
      else if CheckSystemAbility E 0 then (iface_cast_ok E, s)
      else if CheckSystemAbility E 1 then (iface_cast_ok E, s)
      else case LoadSa E s of
        (False, s1) \<Rightarrow> (False, s1)
      | (True, s1) \<Rightarrow> if \<not> GetSystemAbility E then (False, s1) else (iface_cast_ok E, s1))"

section \<open>Opening the font file\<close>

definition PathToRealPath :: "client_env \<Rightarrow> string \<Rightarrow> string option" where
  "PathToRealPath E path =
     (if path = [] then None
      else if length path \<ge> PATH_MAX then None
      else case cl_realpath E (c_str path) of
        None \<Rightarrow> None
      | Some realPath \<Rightarrow> if \<not> cl_access E realPath then None else Some realPath)"

text \<open>
  The frame the three installing calls share: open the file, find the service, make the call,
  close the file. \<open>missing\<close> is the result when the file cannot be opened, \<open>noService\<close> when there
  is no service.
\<close>

definition with_font_file ::
    "client_env \<Rightarrow> string \<Rightarrow> 'r \<Rightarrow> 'r \<Rightarrow> (int \<Rightarrow> string \<Rightarrow> 'r) \<Rightarrow> client_state \<Rightarrow> 'r \<times> client_state" where
  "with_font_file E fontPath missing noService call s =
     (case PathToRealPath E fontPath of
        None \<Rightarrow> (missing, s)
      | Some realPath \<Rightarrow>
          if \<not> cl_fopen E realPath then (missing, s)
          else
            let s1 = s\<lparr>open_files := realPath # open_files s\<rparr>;
                fclose = (\<lambda>s'. s'\<lparr>open_files := remove1 realPath (open_files s')\<rparr>);
                fd = cl_fileno E realPath
            in if fd < 0 then (missing, fclose s1)
               else case GetFontServiceAbility E s1 of
                 (False, s2) \<Rightarrow> (noService, fclose s2)
               | (True, s2) \<Rightarrow> (call fd realPath, fclose s2))"

text \<open>Results with an out parameter are pairs of the returned code and the out value.\<close>

definition Client_InstallFont ::
    "client_env \<Rightarrow> string \<Rightarrow> client_state \<Rightarrow> (int \<times> int) \<times> client_state" where
  "Client_InstallFont E fontPath =
     with_font_file E fontPath (ERR_OK, ERR_FILE_NOT_EXISTS) (ERR_OK, ERR_INSTALL_FAIL)
       (\<lambda>fd realPath. svc_InstallFont E fd)"

definition Client_InstallFontWithUserId ::
    "client_env \<Rightarrow> string \<Rightarrow> int \<Rightarrow> client_state \<Rightarrow> int \<times> client_state" where
  "Client_InstallFontWithUserId E fontPath userId =
     with_font_file E fontPath ERR_FILE_NOT_EXISTS ERR_INSTALL_FAIL
       (\<lambda>fd realPath. svc_InstallFontWithUserId E fd userId)"

definition Client_InstallScopeFont ::
    "client_env \<Rightarrow> string \<Rightarrow> int \<Rightarrow> client_state \<Rightarrow> (int \<times> int) \<times> client_state" where
  "Client_InstallScopeFont E fontPath scope_value =
     with_font_file E fontPath (ERR_OK, ERR_FILE_NOT_EXISTS) (ERR_OK, ERR_SYSTEM_ERROR)
       (\<lambda>fd realPath. svc_InstallScopeFont E fd scope_value realPath)"

section \<open>Calls without a file\<close>

definition with_service ::
    "client_env \<Rightarrow> 'r \<Rightarrow> 'r \<Rightarrow> client_state \<Rightarrow> 'r \<times> client_state" where
  "with_service E noService result s =
     (case GetFontServiceAbility E s of
        (False, s1) \<Rightarrow> (noService, s1) | (True, s1) \<Rightarrow> (result, s1))"

definition Client_UninstallFont ::
    "client_env \<Rightarrow> string \<Rightarrow> client_state \<Rightarrow> (int \<times> int) \<times> client_state" where
  "Client_UninstallFont E fontName = with_service E (ERR_OK, ERR_UNINSTALL_FAIL) (svc_UninstallFont E fontName)"

definition Client_UninstallFontWithUserId ::
    "client_env \<Rightarrow> string \<Rightarrow> int \<Rightarrow> client_state \<Rightarrow> int \<times> client_state" where
  "Client_UninstallFontWithUserId E fontName userId =
     with_service E ERR_UNINSTALL_FAIL (svc_UninstallFontWithUserId E fontName userId)"

definition Client_UninstallScopeFont ::
    "client_env \<Rightarrow> string \<Rightarrow> client_state \<Rightarrow> (int \<times> int) \<times> client_state" where
  "Client_UninstallScopeFont E srcPath =
     with_service E (ERR_OK, ERR_SYSTEM_ERROR) (svc_UninstallScopeFont E srcPath)"

definition Client_GetFontScope ::
    "client_env \<Rightarrow> string \<Rightarrow> client_state \<Rightarrow> (int \<times> int) \<times> client_state" where
  "Client_GetFontScope E srcPath =
     with_service E (ERR_SYSTEM_ERROR, FONT_SCOPE_NONE) (svc_GetFontScope E srcPath)"

definition Client_DataMigration :: "client_env \<Rightarrow> client_state \<Rightarrow> int \<times> client_state" where
  "Client_DataMigration E s =
     (case GetFontServiceAbility E s of
        (False, s1) \<Rightarrow> (ERR_SYSTEM_ERROR, s1)
      | (True, s1) \<Rightarrow>
          if \<not> cb_agent_alloc E then (ERR_SYSTEM_ERROR, s1)
          else if \<not> cb_agent_object E then (ERR_SYSTEM_ERROR, s1)
          else (svc_DataMigration E, s1))"

section \<open>Observing the service\<close>

text \<open>The recipient that is held is taken off the binder that is held, when there are both.\<close>

definition unlink_service :: "client_state \<Rightarrow> client_state" where
  "unlink_service s =
     (case (saBinder s, saDeathRecipient s) of
        (Some b, Some r) \<Rightarrow> s\<lparr>sa_links := remove1 (b, r) (sa_links s)\<rparr>
      | _ \<Rightarrow> s)"

definition forget_service :: "client_state \<Rightarrow> client_state" where
  "forget_service s = (unlink_service s)\<lparr>saBinder := None, saDeathRecipient := None\<rparr>"

definition Client_OnFontObserver :: "client_env \<Rightarrow> int \<Rightarrow> client_state \<Rightarrow> int \<times> client_state" where
  "Client_OnFontObserver E observer s =
     (case GetFontServiceAbility E s of
        (False, s1) \<Rightarrow> (ERR_SYSTEM_ERROR, s1)
      | (True, s1) \<Rightarrow>
          let s2 = unlink_service s1;
              s3 = s2\<lparr>saBinder := service_binder E, saDeathRecipient := Some observer\<rparr>;
              s4 = (case saBinder s3 of
                      None \<Rightarrow> s3 | Some b \<Rightarrow> s3\<lparr>sa_links := (b, observer) # sa_links s3\<rparr>);
              ret = svc_OnFontObserver E observer
          in if ret \<noteq> ERR_OK \<and> ret \<noteq> ERR_SCOPE_FONT_REPEATED_REGISTER
             then (ret, forget_service s4)
             else (ret, s4))"

definition Client_OffFontObserver :: "client_env \<Rightarrow> client_state \<Rightarrow> int \<times> client_state" where
  "Client_OffFontObserver E s =
     (case GetFontServiceAbility E s of
        (False, s1) \<Rightarrow> (ERR_SYSTEM_ERROR, s1)
      | (True, s1) \<Rightarrow> (svc_OffFontObserver E, forget_service s1))"

section \<open>Callbacks from the service\<close>

text \<open>
  The service dies: the framework takes the recipients linked to its binder off the list, and
  \<open>FontServiceDeathRecipient::OnRemoteDied\<close> of each tells its observer. The result lists them.
\<close>

definition Client_OnRemoteDied :: "int \<Rightarrow> client_state \<Rightarrow> int list \<times> client_state" where
  "Client_OnRemoteDied binder s =
     (map snd (filter (\<lambda>(b, ob). b = binder) (sa_links s)),
      s\<lparr>sa_links := filter (\<lambda>(b, ob). b \<noteq> binder) (sa_links s)\<rparr>)"

text \<open>\<open>FontClientObserverAgent\<close> and \<open>DataMigrationCbAgent\<close> pass a call on, if there is somebody to pass it to.\<close>

definition OnServiceDied :: "('s \<Rightarrow> 's) option \<Rightarrow> 's \<Rightarrow> int \<times> 's" where
  "OnServiceDied callback s = (case callback of None \<Rightarrow> (ERR_OK, s) | Some f \<Rightarrow> (ERR_OK, f s))"

definition DataMigrationCbAgent_Handle :: "('e \<Rightarrow> 's \<Rightarrow> 's) option \<Rightarrow> 'e \<Rightarrow> 's \<Rightarrow> int \<times> 's" where
  "DataMigrationCbAgent_Handle listener eventData s =
     (case listener of None \<Rightarrow> (ERR_SYSTEM_ERROR, s) | Some OnHandle \<Rightarrow> (ERR_OK, OnHandle eventData s))"

text \<open>
  The link the client holds: exactly the one between the binder and the recipient it remembers,
  or none.
\<close>

definition sa_links_ok :: "client_state \<Rightarrow> bool" where
  "sa_links_ok s \<longleftrightarrow>
     sa_links s = (case (saBinder s, saDeathRecipient s) of (Some b, Some r) \<Rightarrow> [(b, r)] | _ \<Rightarrow> [])"

lemma load_keeps:
  "GetFontServiceAbility E s = (b, s') \<Longrightarrow>
     open_files s' = open_files s \<and> saBinder s' = saBinder s \<and> saDeathRecipient s' = saDeathRecipient s
     \<and> sa_links s' = sa_links s"
  by (auto simp: GetFontServiceAbility_def LoadSa_def InitStatus_def wait_for_load_def Let_def
      SALoad_OnLoadSystemAbilitySuccess_def SALoad_OnLoadSystemAbilityFail_def
      OnLoadSystemAbilitySuccess_def OnLoadSystemAbilityFail_def
      split: if_splits prod.splits bool.splits LoadSaStatus.splits)

lemma with_font_file_keeps:
  "with_font_file E p m n call s = (r, s') \<Longrightarrow> open_files s' = open_files s"
  by (auto simp: with_font_file_def Let_def dest!: load_keeps
      split: option.splits if_splits prod.splits bool.splits)

lemma unlink_service_links: "sa_links_ok s \<Longrightarrow> sa_links (unlink_service s) = []"
  by (auto simp: sa_links_ok_def unlink_service_def split: option.splits)

lemma forget_service_links: "sa_links_ok s \<Longrightarrow> sa_links (forget_service s) = []"
  by (simp add: forget_service_def unlink_service_links)

text \<open>
  The client never holds two death notifications: if what is linked is what it remembers, this stays
  so when it starts and stops observing; after a registration that the service accepted (or knew already)
  the link is to the binder of the service, after any other answer there is none.
\<close>

lemma observing_links:
  assumes "sa_links_ok s" "Client_OnFontObserver E ob s = (r, s')" "fst (GetFontServiceAbility E s)"
  shows "sa_links_ok s' \<and>
    sa_links s' = (if r = ERR_OK \<or> r = ERR_SCOPE_FONT_REPEATED_REGISTER
                   then (case service_binder E of None \<Rightarrow> [] | Some b \<Rightarrow> [(b, ob)]) else []) \<and>
    sa_links_ok (snd (Client_OffFontObserver E s')) \<and> sa_links (snd (Client_OffFontObserver E s')) \<in> {[], sa_links s'}"
proof -
  obtain s1 where get: "GetFontServiceAbility E s = (True, s1)"
    using assms(3) by (cases "GetFontServiceAbility E s") simp
  from load_keeps [OF get] assms(1) have ok1: "sa_links_ok s1" by (simp add: sa_links_ok_def)
  note clean = unlink_service_links [OF ok1]
  have on: "sa_links_ok s' \<and> sa_links s' = (if r = ERR_OK \<or> r = ERR_SCOPE_FONT_REPEATED_REGISTER
                   then (case service_binder E of None \<Rightarrow> [] | Some b \<Rightarrow> [(b, ob)]) else [])"
    using assms(2) clean
    by (auto simp: Client_OnFontObserver_def get Let_def sa_links_ok_def forget_service_def unlink_service_def
        split: option.splits if_splits)
  obtain b s2 where get2: "GetFontServiceAbility E s' = (b, s2)" by fastforce
  from load_keeps [OF get2] on [THEN conjunct1] have ok2: "sa_links_ok s2" "sa_links s2 = sa_links s'"
    unfolding sa_links_ok_def by presburger+
  have "sa_links (forget_service s2) = []" by (rule forget_service_links [OF ok2(1)])
  then have "sa_links_ok (forget_service s2)" by (simp add: sa_links_ok_def forget_service_def)
  with on ok2 \<open>sa_links (forget_service s2) = []\<close> show ?thesis
    by (cases b) (simp_all add: Client_OffFontObserver_def get2)
qed

end
