(* ===== verification/Cli_Tool.thy ===== *)
theory Cli_Tool
  imports CJSON_Api Font_Define
begin

text \<open>
  The command line tool (\<open>tools/ohos-fontManager/src\<close>): option parsing, the table that maps
  result codes to messages, the commands and \<open>main\<close>. The arguments are the list \<open>argv\<close> of C strings.
  A run yields its exit code and the lines it prints; the two calls into the client library are
  the fields of \<open>kits\<close>. The response objects are given as JSON values (running out of memory
  while they are built is not modelled).
\<close>

record kits =
  kits_InstallFont :: "string \<Rightarrow> int \<times> int"
  kits_UninstallFont :: "string \<Rightarrow> int \<times> int"

datatype cli_line = CliLog string | CliJson cJSON

type_synonym cli_result = "int \<times> cli_line list"

definition MAX_FONT_PATH_LEN :: nat where "MAX_FONT_PATH_LEN = 4096"
definition MAX_FONT_NAME_LEN :: nat where "MAX_FONT_NAME_LEN = 256"
definition ARG_INDEX_SUB_COMMAND :: nat where "ARG_INDEX_SUB_COMMAND = 1"
definition ARG_COUNT_WITH_SUB_COMMAND :: nat where "ARG_COUNT_WITH_SUB_COMMAND = 2"
definition ARG_SKIP_COUNT :: nat where "ARG_SKIP_COUNT = 2"

definition K_PROGRAM_NAME :: string where "K_PROGRAM_NAME = ''ohos-fontManager''"
definition K_TOOL_DESCRIPTION :: string where
  "K_TOOL_DESCRIPTION = ''Font management CLI tool for installing and uninstalling system fonts''"

section \<open>Responses\<close>

definition OutputSuccess :: "cJSON \<Rightarrow> cli_result" where
  "OutputSuccess data =
     (0, [CliJson (JObject [(''type'', JString ''result''), (''status'', JString ''success''),
                            (''data'', data)])])"

definition OutputError :: "string \<Rightarrow> string \<Rightarrow> string \<Rightarrow> cli_result" where
  "OutputError code message suggestion =
     (1, [CliJson (JObject [(''type'', JString ''result''), (''status'', JString ''failed''),
                            (''errCode'', JString (c_str code)), (''errMsg'', JString (c_str message)),
                            (''suggestion'', JString (c_str suggestion))])])"

definition log_first :: "string \<Rightarrow> cli_result \<Rightarrow> cli_result" where
  "log_first line r = (fst r, CliLog line # snd r)"

section \<open>Options\<close>

text \<open>
  The loop over \<open>argv\<close>: \<open>--name value\<close> (when a value follows) or \<open>--name=value\<close>, the first that
  matches; the empty text when there is none.
\<close>

fun parse_option :: "string \<Rightarrow> string \<Rightarrow> string list \<Rightarrow> string" where
  "parse_option flagForm equalPrefix [] = []"
| "parse_option flagForm equalPrefix (arg # args) =
     (if arg = flagForm \<and> args \<noteq> [] then hd args
      else if prefix equalPrefix arg then drop (length equalPrefix) arg
      else parse_option flagForm equalPrefix args)"

definition ParseStringOption :: "string list \<Rightarrow> string \<Rightarrow> string" where
  "ParseStringOption argv name = parse_option (''--'' @ name) (''--'' @ name @ ''='') argv"

section \<open>The error table\<close>

record ErrorEntry =
  ee_code :: int
  ee_errCode :: string
  ee_errMsg :: string
  ee_suggestion :: string

definition G_ERROR_TABLE :: "ErrorEntry list" where
  "G_ERROR_TABLE =
    [\<lparr>ee_code = 201, ee_errCode = ''ERR_PERMISSION_DENIED'',
      ee_errMsg = ''Permission verification failed. The application does not have the permission required to call the API.'',
      ee_suggestion = ''Add ohos.permission.UPDATE_FONT in module.json5 and ensure granted''\<rparr>,
     \<lparr>ee_code = 31100101, ee_errCode = ''ERR_RESOURCE_NOT_FOUND'',
      ee_errMsg = ''The font does not exist.'',
      ee_suggestion = ''Verify the font file path is correct and the file is readable''\<rparr>,
     \<lparr>ee_code = 31100102, ee_errCode = ''ERR_FM_FILE_VERIFY_FAIL'',
      ee_errMsg = ''The font is not supported.'',
      ee_suggestion = ''Use a valid font file format such as .ttf or .otf''\<rparr>,
     \<lparr>ee_code = 31100103, ee_errCode = ''ERR_FM_COPY_FAIL'',
      ee_errMsg = ''Failed to copy the font file.'',
      ee_suggestion = ''Check storage space and write permissions on font directory''\<rparr>,
     \<lparr>ee_code = 31100104, ee_errCode = ''ERR_RESOURCE_EXISTS'',
      ee_errMsg = ''The font file is installed.'',
      ee_suggestion = ''Use 'ohos-fontManager uninstall --font-name <name>' to remove first''\<rparr>,
     \<lparr>ee_code = 31100105, ee_errCode = ''ERR_FM_MAX_COUNT'',
      ee_errMsg = ''Exceeded the maximum number of installed files.'',
      ee_suggestion = ''Uninstall unused fonts before installing new ones''\<rparr>,
     \<lparr>ee_code = 31100106, ee_errCode = ''ERR_FM_INSTALL_FAIL'',
      ee_errMsg = ''The system ability works abnormally.'',
      ee_suggestion = ''Check if font_manager service (SA ID 66262) is running and retry''\<rparr>,
     \<lparr>ee_code = 31100107, ee_errCode = ''ERR_RESOURCE_NOT_FOUND'',
      ee_errMsg = ''The font file does not exist.'',
      ee_suggestion = ''Verify the font name is correct and the font is installed''\<rparr>,
     \<lparr>ee_code = 31100108, ee_errCode = ''ERR_FM_REMOVE_FAIL'',
      ee_errMsg = ''Failed to delete the font file.'',
      ee_suggestion = ''Check file permissions on the font directory and retry''\<rparr>,
     \<lparr>ee_code = 31100109, ee_errCode = ''ERR_FM_UNINSTALL_FAIL'',
      ee_errMsg = ''The system ability works abnormally.'',
      ee_suggestion = ''Check if font_manager service (SA ID 66262) is running and retry''\<rparr>]"

text \<open>The three texts of an \<open>ErrorInfo\<close>: code, message, suggestion.\<close>

definition MapFontError :: "int \<Rightarrow> string \<times> string \<times> string" where
  "MapFontError code =
     (case find (\<lambda>entry. ee_code entry = code) G_ERROR_TABLE of
        Some entry \<Rightarrow> (ee_errCode entry, ee_errMsg entry, ee_suggestion entry)
      | None \<Rightarrow> (''ERR_INTERNAL_ERROR'', ''Unknown error code: '' @ to_string code,
                 ''Contact system administrator for support''))"

section \<open>Commands\<close>

datatype CommandHandler = CmdHelpHandler | CmdInstallHandler | CmdUninstallHandler

record Command =
  cmd_name :: string
  cmd_description :: string
  cmd_usage :: string
  cmd_parameters :: string
  cmd_examples :: string
  cmd_handler :: CommandHandler

type_synonym commands = "(string \<times> Command) list"

definition RegisterCommand :: "string \<Rightarrow> Command \<Rightarrow> commands \<Rightarrow> commands" where
  "RegisterCommand name cmd gCommands = AList.update name cmd gCommands"

definition NEWLINE :: string where "NEWLINE = [CHR 0x0A]"

definition InitCommands :: "commands \<Rightarrow> commands" where
  "InitCommands gCommands =
     (let helpCmd = \<lparr>cmd_name = ''help'', cmd_description = ''Show this help message'',
            cmd_usage = ''ohos-fontManager help [command]'',
            cmd_parameters = ''    command          Optional. Show detailed help for a specific command.'',
            cmd_examples = ''    ohos-fontManager help'' @ NEWLINE @ ''    ohos-fontManager help install'',
            cmd_handler = CmdHelpHandler\<rparr>;
          installCmd = \<lparr>cmd_name = ''install'',
            cmd_description = ''Install a font from a local file into the system font directory'',
            cmd_usage = ''ohos-fontManager install --font-path <path>'',
            cmd_parameters = ''    --font-path <path>  Required. Font file path to install ''
              @ ''(must exist and be readable, e.g., .ttf or .otf)'',
            cmd_examples = ''    # Install a font from local file'' @ NEWLINE
              @ ''    ohos-fontManager install --font-path /data/local/tmp/custom.ttf'',
            cmd_handler = CmdInstallHandler\<rparr>;
          uninstallCmd = \<lparr>cmd_name = ''uninstall'',
            cmd_description = ''Uninstall an installed font by name from the system'',
            cmd_usage = ''ohos-fontManager uninstall --font-name <name>'',
            cmd_parameters = ''    --font-name <name>  Required. Font name to uninstall ''
              @ ''(the installed font name, not a file path)'',
            cmd_examples = ''    # Uninstall a font by name'' @ NEWLINE
              @ ''    ohos-fontManager uninstall --font-name CustomFont'',
            cmd_handler = CmdUninstallHandler\<rparr>
      in RegisterCommand ''uninstall'' uninstallCmd
           (RegisterCommand ''install'' installCmd (RegisterCommand ''help'' helpCmd gCommands)))"

definition PrintGlobalHelp :: "cli_line list" where
  "PrintGlobalHelp =
     map CliLog
       [K_PROGRAM_NAME @ '' - '' @ K_TOOL_DESCRIPTION,
        [],
        ''Usage:'',
        ''  '' @ K_PROGRAM_NAME @ '' <command> [options]'',
        [],
        ''Parameters:'',
        ''  --help                  Display this help message'',
        [],
        ''SubCommands:'',
        ''  install                 Install a font from a local file'',
        ''  uninstall               Uninstall an installed font by name'',
        [],
        ''Examples:'',
        ''  '' @ K_PROGRAM_NAME @ '' install --font-path /data/local/tmp/custom.ttf'',
        ''  '' @ K_PROGRAM_NAME @ '' uninstall --font-name CustomFont'',
        ''  '' @ K_PROGRAM_NAME @ '' install --help'']"

text \<open>The members of a registered command are never null; \<open>%-18s\<close> pads with spaces.\<close>

definition PrintCommandHelp :: "Command \<Rightarrow> cli_line list" where
  "PrintCommandHelp cmd =
     map CliLog
       [K_PROGRAM_NAME @ '' '' @ cmd_name cmd @ '' - '' @ cmd_description cmd,
        [],
        ''Usage:'',
        ''  '' @ cmd_usage cmd,
        [],
        ''Parameters:'',
        cmd_parameters cmd,
        ''    --help             Display this help message'',
        [],
        ''Examples:'',
        cmd_examples cmd]"

text \<open>A null argument (it can only be the last one \<open>main\<close> passes) is \<open>None\<close>.\<close>

definition CmdHelp :: "commands \<Rightarrow> string option list \<Rightarrow> cli_result" where
  "CmdHelp gCommands argv =
     (let targetCmd =
            (case find (\<lambda>a. case a of None \<Rightarrow> False | Some t \<Rightarrow> t = [] \<or> hd t \<noteq> CHR ''-'')
                    (drop ARG_INDEX_SUB_COMMAND argv) of
               Some (Some t) \<Rightarrow> t | _ \<Rightarrow> [])
      in if targetCmd = [] then (0, PrintGlobalHelp)
         else case map_of gCommands targetCmd of
           None \<Rightarrow> OutputError ''ERR_ARG_INVALID'' (''Unknown command: '' @ targetCmd)
                     ''Run 'ohos-fontManager --help' to see available commands''
         | Some cmd \<Rightarrow> (0, PrintCommandHelp cmd))"

definition CmdInstall :: "kits \<Rightarrow> string list \<Rightarrow> cli_result" where
  "CmdInstall K argv =
     (let fontPath = ParseStringOption argv ''font-path'' in
      if fontPath = [] then
        OutputError ''ERR_ARG_MISSING''
          (''Missing required parameter: --font-path. ''
             @ ''Context: install command requires a font file path'')
          (''Provide a valid font file path. ''
             @ ''Example: ohos-fontManager install --font-path /data/local/tmp/custom.ttf'')
      else if length fontPath > MAX_FONT_PATH_LEN then
        OutputError ''ERR_ARG_INVALID'' ''Font path exceeds maximum length (4096)''
          ''Provide a shorter file path''
      else
        log_first (''Installing font from path: '' @ fontPath)
          (let (ret, outValue) = kits_InstallFont K fontPath in
           if ret \<noteq> ERR_OK then
             OutputError ''ERR_INTERNAL_ERROR''
               (''Font service IPC call failed with code '' @ to_string ret)
               ''Check if font_manager service (SA ID 66262) is running and retry''
           else if outValue \<noteq> ERR_OK then
             (let (errCode, errMsg, suggestion) = MapFontError outValue
              in OutputError errCode errMsg suggestion)
           else
             OutputSuccess (JObject [(''message'', JString ''Font installed successfully''),
                                     (''fontPath'', JString fontPath)])))"

definition CmdUninstall :: "kits \<Rightarrow> string list \<Rightarrow> cli_result" where
  "CmdUninstall K argv =
     (let fontName = ParseStringOption argv ''font-name'' in
      if fontName = [] then
        OutputError ''ERR_ARG_MISSING''
          (''Missing required parameter: --font-name. ''
             @ ''Context: uninstall command requires a font name'')
          (''Provide a valid font name. ''
             @ ''Example: ohos-fontManager uninstall --font-name CustomFont'')
      else if length fontName > MAX_FONT_NAME_LEN then
        OutputError ''ERR_ARG_INVALID'' ''Font name exceeds maximum length (256)''
          ''Provide a shorter font name''
      else
        log_first (''Uninstalling font: '' @ fontName)
          (let (ret, outValue) = kits_UninstallFont K fontName in
           if ret \<noteq> ERR_OK then
             OutputError ''ERR_INTERNAL_ERROR''
               (''Font service IPC call failed with code '' @ to_string ret)
               ''Check if font_manager service (SA ID 66262) is running and retry''
           else if outValue \<noteq> ERR_OK then
             (let (errCode, errMsg, suggestion) = MapFontError outValue
              in OutputError errCode errMsg suggestion)
           else
             OutputSuccess (JObject [(''message'', JString ''Font uninstalled successfully''),
                                     (''fontName'', JString fontName)])))"

definition run_handler :: "kits \<Rightarrow> commands \<Rightarrow> CommandHandler \<Rightarrow> string list \<Rightarrow> cli_result" where
  "run_handler K gCommands h argv =
     (case h of
        CmdHelpHandler \<Rightarrow> CmdHelp gCommands (map Some argv)
      | CmdInstallHandler \<Rightarrow> CmdInstall K argv
      | CmdUninstallHandler \<Rightarrow> CmdUninstall K argv)"

text \<open>\<open>argv\<close> starts with the program's name.\<close>

definition cli_main :: "kits \<Rightarrow> string list \<Rightarrow> cli_result" where
  "cli_main K argv =
     (if length argv \<ge> ARG_COUNT_WITH_SUB_COMMAND \<and> argv ! ARG_INDEX_SUB_COMMAND = ''--help''
      then (0, snd (CmdHelp (InitCommands []) (take ARG_INDEX_SUB_COMMAND [Some (hd argv), None])))
      else if length argv < ARG_COUNT_WITH_SUB_COMMAND then
        OutputError ''ERR_ARG_MISSING'' ''No command provided''
          ''Run 'ohos-fontManager --help' to see available commands''
      else
        let gCommands = InitCommands [];
            cmdName = argv ! ARG_INDEX_SUB_COMMAND
        in if list_ex (\<lambda>a. a = ''--help'') (drop ARG_SKIP_COUNT argv)
           then (0, snd (CmdHelp gCommands [Some (hd argv), Some cmdName]))
           else case map_of gCommands cmdName of
             None \<Rightarrow> OutputError ''ERR_UNKNOWN_COMMAND'' (''Unknown command: '' @ cmdName)
                       ''Run 'ohos-fontManager --help' to see available commands''
           | Some cmd \<Rightarrow> run_handler K gCommands (cmd_handler cmd) (drop ARG_SKIP_COUNT argv))"

section \<open>Parsing what was written\<close>

text \<open>An option that was put on the command line is found, in both forms, unless it came earlier.\<close>

definition option_free :: "string \<Rightarrow> string list \<Rightarrow> bool" where
  "option_free name args \<longleftrightarrow>
     (\<forall>a\<in>set args. a \<noteq> ''--'' @ name \<and> \<not> prefix (''--'' @ name @ ''='') a)"

lemma parse_option_skip:
  "\<forall>a\<in>set args. a \<noteq> f \<and> \<not> prefix p a \<Longrightarrow> parse_option f p (args @ rest) = parse_option f p rest"
  by (induction args) auto

lemma flag_not_equal_form: "\<not> prefix (''--'' @ name @ ''='') (''--'' @ name)"
  by (auto simp: prefix_def)

lemma help_registered:
  "\<exists>cmd. map_of (InitCommands []) ''help'' = Some cmd \<and> cmd_handler cmd = CmdHelpHandler"
  by (simp add: InitCommands_def Let_def RegisterCommand_def)

lemma install_registered:
  "\<exists>cmd. map_of (InitCommands []) ''install'' = Some cmd \<and> cmd_handler cmd = CmdInstallHandler"
  by (simp add: InitCommands_def Let_def RegisterCommand_def)

lemma uninstall_registered:
  "\<exists>cmd. map_of (InitCommands []) ''uninstall'' = Some cmd \<and> cmd_handler cmd = CmdUninstallHandler"
  by (simp add: InitCommands_def Let_def RegisterCommand_def)

end
