(* ===== verification/Tool_Laws.thy ===== *)
theory Tool_Laws
  imports Font_Client Cli_Tool
begin

text \<open>
  What the client library and the command line tool promise: the service is found or loaded, no
  file stays open, at most one death notification is held; options are parsed back, exit codes tell
  the outcome.
\<close>

section \<open>The client\<close>

text \<open>
  The client gets a proxy of the service exactly if the system-ability manager is there, the interface
  can be cast, and the service runs already or could be loaded before the wait ended.
\<close>

lemma service_found_or_loaded:
  "fst (GetFontServiceAbility E s) \<longleftrightarrow>
     cl_samgr E \<and> iface_cast_ok E \<and>
     (CheckSystemAbility E 0 \<or> CheckSystemAbility E 1 \<or>
      load_callback_alloc E \<and> LoadSystemAbility E = ERR_OK \<and> load_answer E = SUCCESS \<and> GetSystemAbility E)"
  by (auto simp: GetFontServiceAbility_def LoadSa_def InitStatus_def wait_for_load_def Let_def
      SALoad_OnLoadSystemAbilitySuccess_def SALoad_OnLoadSystemAbilityFail_def
      OnLoadSystemAbilitySuccess_def OnLoadSystemAbilityFail_def split: prod.splits bool.splits LoadSaStatus.splits)

text \<open>
  No call of the client leaves a file open: the files that are open after \<open>InstallFont\<close>,
  \<open>InstallFontWithUserId\<close> and \<open>InstallScopeFont\<close> are those that were open before, on every path, and
  the service is only ever called with a descriptor of the file.
\<close>

lemma font_file_closed:
  "open_files (snd (Client_InstallFont E p s)) = open_files s \<and>
   open_files (snd (Client_InstallFontWithUserId E p u s)) = open_files s \<and>
   open_files (snd (Client_InstallScopeFont E p sc s)) = open_files s \<and>
   (fst (Client_InstallFont E p s) \<in> {(ERR_OK, ERR_FILE_NOT_EXISTS), (ERR_OK, ERR_INSTALL_FAIL)} \<or>
    (\<exists>path. PathToRealPath E p = Some path \<and> cl_fopen E path \<and> 0 \<le> cl_fileno E path \<and>
       fst (Client_InstallFont E p s) = svc_InstallFont E (cl_fileno E path)))"
proof -
  have "fst (Client_InstallFont E p s) \<in> {(ERR_OK, ERR_FILE_NOT_EXISTS), (ERR_OK, ERR_INSTALL_FAIL)} \<or>
    (\<exists>path. PathToRealPath E p = Some path \<and> cl_fopen E path \<and> 0 \<le> cl_fileno E path \<and>
       fst (Client_InstallFont E p s) = svc_InstallFont E (cl_fileno E path))"
    by (auto simp: Client_InstallFont_def with_font_file_def Let_def split: option.split prod.split bool.split)
  moreover have "open_files (snd (Client_InstallFont E p s)) = open_files s"
    "open_files (snd (Client_InstallFontWithUserId E p u s)) = open_files s"
    "open_files (snd (Client_InstallScopeFont E p sc s)) = open_files s"
    unfolding Client_InstallFont_def Client_InstallFontWithUserId_def Client_InstallScopeFont_def
    by (rule with_font_file_keeps [OF prod.collapse [symmetric]])+
  ultimately show ?thesis by blast
qed

section \<open>The command line tool\<close>

text \<open>
  The round trip of an option: whatever value is put behind \<open>--name\<close> or \<open>--name=\<close>, with other
  arguments before (none of them the option) and after it, \<open>ParseStringOption\<close> gives it back.
\<close>

lemma option_round_trip:
  assumes "option_free name before"
  shows "ParseStringOption (before @ [''--'' @ name, v] @ after) name = v \<and>
    ParseStringOption (before @ [''--'' @ name @ ''='' @ v] @ after) name = v"
  using assms flag_not_equal_form [of name]
  by (auto simp: ParseStringOption_def option_free_def parse_option_skip)

text \<open>
  \<open>install --font-path\<close> and \<open>uninstall --font-name\<close> exit with 0 exactly if both the call and its
  result were \<open>ERR_OK\<close>, for every value of a permitted length that is not \<open>--help\<close>.
\<close>

lemma cli_exit_code:
  assumes "v \<noteq> []" "v \<noteq> ''--help''"
  shows "(length v \<le> 4096 \<longrightarrow>
      (fst (cli_main K [prog, ''install'', ''--font-path'', v]) = 0 \<longleftrightarrow> kits_InstallFont K v = (ERR_OK, ERR_OK))) \<and>
    (length v \<le> 256 \<longrightarrow>
      (fst (cli_main K [prog, ''uninstall'', ''--font-name'', v]) = 0 \<longleftrightarrow> kits_UninstallFont K v = (ERR_OK, ERR_OK)))"
proof -
  obtain ic uc where cmds: "map_of (InitCommands []) ''install'' = Some ic" "cmd_handler ic = CmdInstallHandler"
    "map_of (InitCommands []) ''uninstall'' = Some uc" "cmd_handler uc = CmdUninstallHandler"
    using install_registered uninstall_registered by blast
  have opt: "ParseStringOption [''--font-path'', v] ''font-path'' = v" "ParseStringOption [''--font-name'', v] ''font-name'' = v"
    by (simp_all add: ParseStringOption_def)
  have "cli_main K [prog, ''install'', ''--font-path'', v] = CmdInstall K [''--font-path'', v]"
    "cli_main K [prog, ''uninstall'', ''--font-name'', v] = CmdUninstall K [''--font-name'', v]"
    using assms(2) cmds by (simp_all add: cli_main_def ARG_COUNT_WITH_SUB_COMMAND_def ARG_INDEX_SUB_COMMAND_def
        ARG_SKIP_COUNT_def run_handler_def Let_def)
  with assms(1) opt show ?thesis
    by (auto simp: CmdInstall_def CmdUninstall_def Let_def MAX_FONT_PATH_LEN_def MAX_FONT_NAME_LEN_def log_first_def
        OutputError_def OutputSuccess_def split: prod.splits)
qed

text \<open>
  \<open>help <command>\<close>, which the tool's own help text offers, never shows the help of the command: for
  every single argument but \<open>--help\<close>, \<open>main\<close> hands \<open>CmdHelp\<close> only that argument, the search starts behind it, and the
  global help is printed, also for a command that does not exist.
\<close>

lemma help_ignores_command:
  assumes "name \<noteq> ''--help''"
  shows "cli_main K [prog, ''help'', name] = (0, PrintGlobalHelp)"
proof -
  obtain hc where hc: "map_of (InitCommands []) ''help'' = Some hc" "cmd_handler hc = CmdHelpHandler"
    using help_registered by blast
  with assms show ?thesis
    by (simp add: cli_main_def ARG_COUNT_WITH_SUB_COMMAND_def ARG_INDEX_SUB_COMMAND_def
        ARG_SKIP_COUNT_def run_handler_def Let_def CmdHelp_def)
qed

end
