(* ===== verification/JS_Binding.thy ===== *)
theory JS_Binding
  imports Font_Client Cli_Tool
begin

text \<open>
  The JavaScript binding (\<open>interfaces/js/kits/src\<close>): arguments are checked and read, the call of the
  client library runs as asynchronous work, and its outcome settles a promise or is thrown. JavaScript
  values are a datatype; the answers of the N-API (third-party code) are the fields of \<open>napi_env\<close>, and
  those of the client library the fields of \<open>binding_kits\<close>. \<open>napi_get_cb_info\<close> gives the number of
  arguments of the call and fills up with \<open>undefined\<close>. Property getters that throw and the reference
  counts of the thread-safe functions are not modelled.
\<close>

datatype js_value =
    JsUndefined
  | JsNull
  | JsNumber int
  | JsString string
  | JsFunction int
  | JsObject "(string \<times> js_value) list"

datatype js_outcome = Returned js_value | Thrown int string

datatype js_promise = Resolved js_value | Rejected int string | Pending

record js_listener =
  heartBeatCallback :: "int option"
  progressCallback :: "int option"
  resultCallback :: "int option"

record binding_kits = kits +
  kits_InstallScopeFont :: "string \<Rightarrow> int \<Rightarrow> int \<times> int"
  kits_UninstallScopeFont :: "string \<Rightarrow> int \<times> int"
  kits_GetFontScope :: "string \<Rightarrow> int \<times> int"
  kits_DataMigration :: "js_listener \<Rightarrow> int"

text \<open>\<open>napi_stale_function\<close> is what a type that was never written happens to hold: a function or not.\<close>

record napi_env =
  napi_string_ok :: bool
  napi_typeof_ok :: bool
  napi_stale_function :: bool
  napi_int32_ok :: bool
  napi_reference_ok :: bool
  napi_create_work_ok :: "string \<Rightarrow> bool"
  napi_queue_work_ok :: "string \<Rightarrow> bool"
  napi_resolve_ok :: bool
  napi_reject_ok :: bool
  napi_send_event_ok :: bool
  napi_create_tsfn_ok :: bool
  napi_agent_alloc :: bool
  napi_add_hook_ok :: bool
  napi_remove_hook_ok :: bool

section \<open>Messages\<close>

definition MSG_PERMISSION :: string where
  "MSG_PERMISSION = ''Permission verification failed. The application does not have the permission required to call the API.''"
definition MSG_SYSTEM_APP :: string where
  "MSG_SYSTEM_APP = ''Permission verification failed. A non-system application calls a system API.''"

definition g_DataMigrationErrMsgMap :: "(int \<times> string) list" where
  "g_DataMigrationErrMsgMap =
    [(ERR_NO_PERMISSION, MSG_PERMISSION), (ERR_NOT_SYSTEM_APP, MSG_SYSTEM_APP),
     (ERR_DATA_MIGRATIONING, ''Data migration is in progress.''),
     (ERR_SYSTEM_ERROR, ''Call failed due to system error.'')]"

definition g_ScopeFontErrMsgMap :: "(int \<times> string) list" where
  "g_ScopeFontErrMsgMap =
    [(ERR_NO_PERMISSION, MSG_PERMISSION), (ERR_NOT_SYSTEM_APP, MSG_SYSTEM_APP),
     (ERR_INVALID_PARAM, ''Parameter error.''),
     (ERR_FILE_NOT_EXISTS, ''The font does not exist.''),
     (ERR_FILE_VERIFY_FAIL, ''The font is not supported.''),
     (ERR_COPY_FAIL, ''Failed to copy the font file.''),
     (ERR_INSTALLED_ALRADY, ''The font file is installed.''),
     (ERR_MAX_FILE_COUNT, ''Exceeded the maximum number of installed files.''),
     (ERR_INSTALL_FAIL, ''The system ability works abnormally.''),
     (ERR_UNINSTALL_FILE_NOT_EXISTS, ''The font file does not exist.''),
     (ERR_UNINSTALL_REMOVE_FAIL, ''Failed to delete the font file.''),
     (ERR_UNINSTALL_FAIL, ''The system ability works abnormally.''),
     (ERR_SYSTEM_ERROR, ''Call failed due to system error.''),
     (ERR_DATA_MIGRATIONING, ''Data migration is in progress.''),
     (ERR_SCOPE_FONT_NOT_FOUND, ''The scope font is not found.''),
     (ERR_SCOPE_FONT_REPEATED_REGISTER, ''The font observer is already registered.''),
     (ERR_SCOPE_FONT_EXCEED_REGISTER_LIMIT, ''The maximum number of font observers has been reached.''),
     (ERR_SCOPE_FONT_NOT_REGISTERED, ''The font observer is not registered.'')]"

text \<open>\<open>at(ERR_SYSTEM_ERROR)\<close>, which both tables have.\<close>

definition GetDataMigrationErrMsg :: "int \<Rightarrow> string" where
  "GetDataMigrationErrMsg errCode =
     (case map_of g_DataMigrationErrMsgMap errCode of
        Some msg \<Rightarrow> msg
      | None \<Rightarrow> (case map_of g_DataMigrationErrMsgMap ERR_SYSTEM_ERROR of Some msg \<Rightarrow> msg | None \<Rightarrow> []))"

definition GetScopeFontErrMsg :: "int \<Rightarrow> string" where
  "GetScopeFontErrMsg errCode =
     (case map_of g_ScopeFontErrMsgMap errCode of
        Some msg \<Rightarrow> msg
      | None \<Rightarrow> (case map_of g_ScopeFontErrMsgMap ERR_SYSTEM_ERROR of Some msg \<Rightarrow> msg | None \<Rightarrow> []))"

text \<open>The two \<open>switch\<close> statements of the user-level calls.\<close>

definition install_message :: "int \<Rightarrow> string" where
  "install_message errCode =
     (if errCode = ERR_NO_PERMISSION then MSG_PERMISSION
      else if errCode = ERR_NOT_SYSTEM_APP then MSG_SYSTEM_APP
      else if errCode = ERR_FILE_NOT_EXISTS then ''The font does not exist.''
      else if errCode = ERR_FILE_VERIFY_FAIL then ''The font is not supported.''
      else if errCode = ERR_COPY_FAIL then ''Failed to copy the font file.''
      else if errCode = ERR_INSTALLED_ALRADY then ''The font file is installed.''
      else if errCode = ERR_MAX_FILE_COUNT then ''Exceeded the maximum number of installed files.''
      else if errCode = ERR_INSTALL_FAIL then ''The system ability works abnormally.''
      else ''Other error.'')"

definition uninstall_message :: "int \<Rightarrow> string" where
  "uninstall_message errCode =
     (if errCode = ERR_NO_PERMISSION then MSG_PERMISSION
      else if errCode = ERR_NOT_SYSTEM_APP then MSG_SYSTEM_APP
      else if errCode = ERR_UNINSTALL_FILE_NOT_EXISTS then ''The font file does not exist.''
      else if errCode = ERR_UNINSTALL_REMOVE_FAIL then ''Failed to delete the font file.''
      else if errCode = ERR_UNINSTALL_FAIL then ''The system ability works abnormally.''
      else ''Other error.'')"

section \<open>Asynchronous work and its promise\<close>

record FontNapiCallback =
  cb_value :: string
  cb_errMsg :: string
  cb_success :: bool
  cb_errCode :: int
  cb_scope :: int
  cb_queryResult :: int
  cb_isQuery :: bool
  cb_isVoidResult :: bool

definition new_callback :: FontNapiCallback where
  "new_callback = \<lparr>cb_value = [], cb_errMsg = [], cb_success = True, cb_errCode = ERR_OK, cb_scope = 0,
     cb_queryResult = -1, cb_isQuery = False, cb_isVoidResult = False\<rparr>"

definition SetErrorMsg :: "FontNapiCallback \<Rightarrow> string \<Rightarrow> int \<Rightarrow> FontNapiCallback" where
  "SetErrorMsg cb msg errCode = cb\<lparr>cb_errMsg := msg, cb_success := False, cb_errCode := errCode\<rparr>"

definition ProcessPromiseResult :: "napi_env \<Rightarrow> FontNapiCallback \<Rightarrow> js_value \<Rightarrow> js_promise" where
  "ProcessPromiseResult N cb finalResult =
     (if cb_success cb then (if napi_resolve_ok N then Resolved finalResult else Pending)
      else if napi_reject_ok N then Rejected (cb_errCode cb) (c_str (cb_errMsg cb)) else Pending)"

definition Complete :: "napi_env \<Rightarrow> FontNapiCallback \<Rightarrow> js_promise" where
  "Complete N cb =
     (if cb_isQuery cb \<and> cb_success cb then ProcessPromiseResult N cb (JsNumber (cb_queryResult cb))
      else if cb_isVoidResult cb \<and> cb_success cb then ProcessPromiseResult N cb JsUndefined
      else if napi_int32_ok N then ProcessPromiseResult N cb (JsNumber (cb_errCode cb))
      else ProcessPromiseResult N (cb\<lparr>cb_success := False\<rparr>) JsUndefined)"

text \<open>The promise is returned in any case; without the work nobody settles it.\<close>

definition GetResult ::
    "napi_env \<Rightarrow> FontNapiCallback \<Rightarrow> string \<Rightarrow> (FontNapiCallback \<Rightarrow> FontNapiCallback) \<Rightarrow> js_promise" where
  "GetResult N callback name execute =
     (if \<not> napi_create_work_ok N name then Pending
      else if \<not> napi_queue_work_ok N name then Pending
      else Complete N (execute callback))"

definition cb_argv :: "nat \<Rightarrow> js_value list \<Rightarrow> js_value list" where
  "cb_argv capacity args = take capacity (args @ replicate capacity JsUndefined)"

definition GetResNameOrPath :: "napi_env \<Rightarrow> nat \<Rightarrow> js_value list \<Rightarrow> string" where
  "GetResNameOrPath N argc argv =
     (if argc = 0 then []
      else case hd argv of
        JsString s \<Rightarrow> if \<not> napi_string_ok N then [] else c_str s
      | _ \<Rightarrow> [])"

section \<open>User-level calls\<close>

definition installFontFunc :: "('a) binding_kits_scheme \<Rightarrow> FontNapiCallback \<Rightarrow> FontNapiCallback" where
  "installFontFunc K callback =
     (if cb_value callback = [] then SetErrorMsg callback ''The font does not exist.'' ERR_FILE_NOT_EXISTS
      else
        let (ret, outValue) = kits_InstallFont K (cb_value callback);
            cb1 = callback\<lparr>cb_errCode := outValue\<rparr>;
            cb2 = (if ret \<noteq> ERR_OK then SetErrorMsg cb1 ''The system ability works abnormally.'' ERR_INSTALL_FAIL
                   else cb1)
        in if cb_errCode cb2 \<noteq> ERR_OK
           then SetErrorMsg cb2 (install_message (cb_errCode cb2)) (cb_errCode cb2) else cb2)"

definition uninstallFontFunc :: "('a) binding_kits_scheme \<Rightarrow> FontNapiCallback \<Rightarrow> FontNapiCallback" where
  "uninstallFontFunc K callback =
     (if cb_value callback = []
      then SetErrorMsg callback ''The font file does not exist.'' ERR_UNINSTALL_FILE_NOT_EXISTS
      else
        let (ret, outValue) = kits_UninstallFont K (cb_value callback);
            cb1 = callback\<lparr>cb_errCode := outValue\<rparr>;
            cb2 = (if ret \<noteq> ERR_OK
                   then SetErrorMsg cb1 ''The system ability works abnormally.'' ERR_UNINSTALL_FAIL else cb1)
        in if cb_errCode cb2 \<noteq> ERR_OK
           then SetErrorMsg cb2 (uninstall_message (cb_errCode cb2)) (cb_errCode cb2) else cb2)"

definition ProcessFontByValue ::
    "napi_env \<Rightarrow> js_value list \<Rightarrow> string \<Rightarrow> (FontNapiCallback \<Rightarrow> FontNapiCallback) \<Rightarrow> js_promise" where
  "ProcessFontByValue N args name execute =
     GetResult N (new_callback\<lparr>cb_value := GetResNameOrPath N (length args) (cb_argv 1 args)\<rparr>) name execute"

definition JS_InstallFont :: "napi_env \<Rightarrow> 'a binding_kits_scheme \<Rightarrow> js_value list \<Rightarrow> js_promise" where
  "JS_InstallFont N K args = ProcessFontByValue N args ''InstallFont'' (installFontFunc K)"

definition JS_UninstallFont :: "napi_env \<Rightarrow> 'a binding_kits_scheme \<Rightarrow> js_value list \<Rightarrow> js_promise" where
  "JS_UninstallFont N K args = ProcessFontByValue N args ''UninstallFont'' (uninstallFontFunc K)"

section \<open>Scope-font calls\<close>

text \<open>\<open>napi_get_value_int32\<close> keeps the low 32 bits of a number.\<close>

definition ProcessScopeFont ::
    "napi_env \<Rightarrow> js_value list \<Rightarrow> string \<Rightarrow> (FontNapiCallback \<Rightarrow> FontNapiCallback) \<Rightarrow> bool \<Rightarrow> js_promise" where
  "ProcessScopeFont N args name execute hasScopeArg =
     (let argc = length args;
          argv = cb_argv 2 (take (if hasScopeArg then 2 else 1) args);
          cb1 = new_callback\<lparr>cb_isVoidResult := True, cb_value := GetResNameOrPath N 1 argv\<rparr>;
          cb2 = (if cb_value cb1 = [] \<and> argc > 0
                 then SetErrorMsg cb1 (GetScopeFontErrMsg ERR_INVALID_PARAM) ERR_INVALID_PARAM else cb1);
          cb3 = (if hasScopeArg \<and> argc \<ge> 2
                 then (case argv ! 1 of JsNumber v \<Rightarrow> cb2\<lparr>cb_scope := signed_take_bit 31 v\<rparr> | _ \<Rightarrow> cb2)
                 else cb2)
      in GetResult N cb3 name execute)"

text \<open>What the two changing calls make of the answer of the client library.\<close>

definition scope_answer :: "FontNapiCallback \<Rightarrow> int \<times> int \<Rightarrow> FontNapiCallback" where
  "scope_answer callback answer =
     (let (ret, outValue) = answer in
      if ret \<noteq> ERR_OK then SetErrorMsg callback (GetScopeFontErrMsg ret) ret
      else if outValue \<noteq> ERR_OK then SetErrorMsg callback (GetScopeFontErrMsg outValue) outValue
      else callback)"

definition installScopeFunc :: "'a binding_kits_scheme \<Rightarrow> FontNapiCallback \<Rightarrow> FontNapiCallback" where
  "installScopeFunc K callback =
     (if cb_value callback = []
      then SetErrorMsg callback (GetScopeFontErrMsg ERR_INVALID_PARAM) ERR_INVALID_PARAM
      else scope_answer callback (kits_InstallScopeFont K (cb_value callback) (cb_scope callback)))"

definition uninstallScopeFunc :: "'a binding_kits_scheme \<Rightarrow> FontNapiCallback \<Rightarrow> FontNapiCallback" where
  "uninstallScopeFunc K callback =
     (if cb_value callback = []
      then SetErrorMsg callback (GetScopeFontErrMsg ERR_INVALID_PARAM) ERR_INVALID_PARAM
      else scope_answer callback (kits_UninstallScopeFont K (cb_value callback)))"

definition JS_InstallScopeFont :: "napi_env \<Rightarrow> 'a binding_kits_scheme \<Rightarrow> js_value list \<Rightarrow> js_promise" where
  "JS_InstallScopeFont N K args = ProcessScopeFont N args ''InstallScopeFont'' (installScopeFunc K) True"

definition JS_UninstallScopeFont :: "napi_env \<Rightarrow> 'a binding_kits_scheme \<Rightarrow> js_value list \<Rightarrow> js_promise" where
  "JS_UninstallScopeFont N K args = ProcessScopeFont N args ''UninstallScopeFont'' (uninstallScopeFunc K) False"

definition ProcessScopeFontQuery ::
    "napi_env \<Rightarrow> js_value list \<Rightarrow> string \<Rightarrow> (FontNapiCallback \<Rightarrow> FontNapiCallback) \<Rightarrow> js_promise" where
  "ProcessScopeFontQuery N args name execute =
     (let argc = length args;
          cb1 = new_callback\<lparr>cb_isQuery := True, cb_value := GetResNameOrPath N argc (cb_argv 1 args)\<rparr>;
          cb2 = (if cb_value cb1 = [] \<and> argc > 0
                 then SetErrorMsg cb1 (GetScopeFontErrMsg ERR_INVALID_PARAM) ERR_INVALID_PARAM else cb1)
      in GetResult N cb2 name execute)"

definition fontScopeFunc :: "'a binding_kits_scheme \<Rightarrow> FontNapiCallback \<Rightarrow> FontNapiCallback" where
  "fontScopeFunc K callback =
     (if cb_value callback = []
      then SetErrorMsg callback (GetScopeFontErrMsg ERR_INVALID_PARAM) ERR_INVALID_PARAM
      else
        let (ret, outValue) = kits_GetFontScope K (cb_value callback) in
        if ret \<noteq> ERR_OK then SetErrorMsg callback (GetScopeFontErrMsg ret) ret
        else callback\<lparr>cb_queryResult := outValue\<rparr>)"

definition JS_GetFontScope :: "napi_env \<Rightarrow> 'a binding_kits_scheme \<Rightarrow> js_value list \<Rightarrow> js_promise" where
  "JS_GetFontScope N K args = ProcessScopeFontQuery N args ''GetFontScope'' (fontScopeFunc K)"

definition CreateFontScopeEnum :: js_value where
  "CreateFontScopeEnum = JsObject [(''APP'', JsNumber FONT_SCOPE_APP), (''SESSION'', JsNumber FONT_SCOPE_SESSION)]"

section \<open>Data migration\<close>

definition is_js_object :: "js_value \<Rightarrow> bool" where
  "is_js_object v = (case v of JsObject ps \<Rightarrow> True | _ \<Rightarrow> False)"

text \<open>The value of a named property; \<open>None\<close> is the error for a value that is no object.\<close>

definition named_property :: "js_value \<Rightarrow> string \<Rightarrow> js_value option" where
  "named_property v name =
     (case v of
        JsObject ps \<Rightarrow> Some (case map_of ps name of None \<Rightarrow> JsUndefined | Some x \<Rightarrow> x)
      | _ \<Rightarrow> None)"

text \<open>The reference that a \<open>JsFuncRefHolder\<close> holds: \<open>None\<close> unless the value is a function.\<close>

definition JsFuncRefHolder :: "napi_env \<Rightarrow> js_value option \<Rightarrow> int option" where
  "JsFuncRefHolder N value =
     (case value of
        Some (JsFunction f) \<Rightarrow> if \<not> napi_typeof_ok N then None else if \<not> napi_reference_ok N then None else Some f
      | _ \<Rightarrow> None)"

definition JS_DataMigrationInner :: "napi_env \<Rightarrow> 'a binding_kits_scheme \<Rightarrow> js_value list \<Rightarrow> js_outcome" where
  "JS_DataMigrationInner N K args =
     (if length args \<noteq> 1 then Thrown ERR_INVALID_PARAM []
      else if \<not> napi_typeof_ok N \<or> \<not> is_js_object (hd args) then Thrown ERR_INVALID_PARAM []
      else
        let value = hd args;
            listener = \<lparr>heartBeatCallback = JsFuncRefHolder N (named_property value ''onHeartBeat''),
                        progressCallback = JsFuncRefHolder N (named_property value ''onProgress''),
                        resultCallback = JsFuncRefHolder N (named_property value ''onResult'')\<rparr>;
            result = kits_DataMigration K listener
        in if result \<noteq> ERR_OK then Thrown result (GetDataMigrationErrMsg result)
           else Returned (JsNumber result))"

text \<open>A call of a function that was passed in, on the JavaScript thread: none without a reference.\<close>

definition CallJsMethod :: "int option \<Rightarrow> js_value list \<Rightarrow> (int \<times> js_value list) list" where
  "CallJsMethod funcRef argv = (case funcRef of None \<Rightarrow> [] | Some f \<Rightarrow> [(f, argv)])"

definition DoHeartbeatCallback :: "js_listener \<Rightarrow> (int \<times> js_value list) list" where
  "DoHeartbeatCallback L = CallJsMethod (heartBeatCallback L) []"

definition DoProgressCallback :: "js_listener \<Rightarrow> nat \<Rightarrow> nat \<Rightarrow> (int \<times> js_value list) list" where
  "DoProgressCallback L timeRemaining progressPercentage =
     CallJsMethod (progressCallback L)
       [JsObject [(''timeRemaining'', JsNumber (signed_take_bit 31 (int timeRemaining))),
                  (''progressPercentage'', JsNumber (signed_take_bit 31 (int progressPercentage)))]]"

definition DoResultCallback :: "js_listener \<Rightarrow> int \<Rightarrow> (int \<times> js_value list) list" where
  "DoResultCallback L progressResult = CallJsMethod (resultCallback L) [JsNumber progressResult]"

definition JS_OnHandle :: "napi_env \<Rightarrow> js_listener \<Rightarrow> effect \<Rightarrow> (int \<times> js_value list) list" where
  "JS_OnHandle N L eventData =
     (if \<not> napi_send_event_ok N then []
      else case eventData of
        EventHeartBeat \<Rightarrow> DoHeartbeatCallback L
      | EventProgress timeRemaining progressPercentage \<Rightarrow> DoProgressCallback L timeRemaining progressPercentage
      | EventResult progressResult \<Rightarrow> DoResultCallback L progressResult
      | _ \<Rightarrow> [])"

section \<open>Observing the service\<close>

text \<open>
  A thread-safe function belongs to one agent, which the client library knows by a number: the
  JavaScript function it calls (\<open>None\<close> is a null value) and whether it has been aborted.
  \<open>env_hooks\<close> are the clean-up hooks of the environment, \<open>js_calls\<close> the JavaScript functions that were
  called so far.
\<close>

record js_tsfn =
  ts_callback :: "int option"
  ts_closing :: bool

record js_state =
  js_client :: client_state
  js_tsfns :: "int \<rightharpoonup> js_tsfn"
  env_hooks :: "int list"
  js_calls :: "int list"
  next_agent :: int

definition FontObserverEnvCleanup :: "int \<Rightarrow> js_state \<Rightarrow> js_state" where
  "FontObserverEnvCleanup agent s =
     (case js_tsfns s agent of
        None \<Rightarrow> s | Some t \<Rightarrow> s\<lparr>js_tsfns := (js_tsfns s)(agent \<mapsto> t\<lparr>ts_closing := True\<rparr>)\<rparr>)"

text \<open>The function to call, \<open>Inl\<close> the error that is thrown.\<close>

definition ParseOnServiceDiedCallback :: "napi_env \<Rightarrow> js_value list \<Rightarrow> (int \<times> string) + int option" where
  "ParseOnServiceDiedCallback N args =
     (if length args \<noteq> 1 then Inl (ERR_INVALID_PARAM, GetScopeFontErrMsg ERR_INVALID_PARAM)
      else case named_property (hd (cb_argv 1 args)) ''onServiceDied'' of
        None \<Rightarrow> if napi_stale_function N then Inr None
               else Inl (ERR_INVALID_PARAM, GetScopeFontErrMsg ERR_INVALID_PARAM)
      | Some (JsFunction f) \<Rightarrow> Inr (Some f)
      | Some _ \<Rightarrow> Inl (ERR_INVALID_PARAM, GetScopeFontErrMsg ERR_INVALID_PARAM))"

definition CreateFontObserverAgent :: "napi_env \<Rightarrow> int option \<Rightarrow> js_state \<Rightarrow> ((int \<times> string) + int) \<times> js_state" where
  "CreateFontObserverAgent N onDied s =
     (if \<not> napi_create_tsfn_ok N then (Inl (ERR_SYSTEM_ERROR, GetScopeFontErrMsg ERR_SYSTEM_ERROR), s)
      else if \<not> napi_agent_alloc N then (Inl (ERR_SYSTEM_ERROR, GetScopeFontErrMsg ERR_SYSTEM_ERROR), s)
      else
        let agent = next_agent s in
        (Inr agent, s\<lparr>js_tsfns := (js_tsfns s)(agent \<mapsto> \<lparr>ts_callback = onDied, ts_closing = False\<rparr>),
                      next_agent := agent + 1\<rparr>))"

definition JS_OnFontObserver ::
    "napi_env \<Rightarrow> client_env \<Rightarrow> js_value list \<Rightarrow> js_state \<Rightarrow> js_outcome \<times> js_state" where
  "JS_OnFontObserver N E args s =
     (case ParseOnServiceDiedCallback N args of
        Inl (code, msg) \<Rightarrow> (Thrown code msg, s)
      | Inr onDied \<Rightarrow>
          (case CreateFontObserverAgent N onDied s of
             (Inl (code, msg), s1) \<Rightarrow> (Thrown code msg, s1)
           | (Inr agent, s1) \<Rightarrow>
               if \<not> napi_add_hook_ok N
               then (Thrown ERR_SYSTEM_ERROR (GetScopeFontErrMsg ERR_SYSTEM_ERROR), FontObserverEnvCleanup agent s1)
               else
                 let s2 = s1\<lparr>env_hooks := agent # env_hooks s1\<rparr>;
                     (ret, client) = Client_OnFontObserver E agent (js_client s2);
                     s3 = s2\<lparr>js_client := client\<rparr>
                 in if ret \<noteq> ERR_OK
                    then (Thrown ret (GetScopeFontErrMsg ret),
                          if napi_remove_hook_ok N
                          then FontObserverEnvCleanup agent (s3\<lparr>env_hooks := remove1 agent (env_hooks s3)\<rparr>)
                          else s3)
                    else (Returned JsUndefined, s3)))"

definition JS_OffFontObserver :: "client_env \<Rightarrow> js_state \<Rightarrow> js_outcome \<times> js_state" where
  "JS_OffFontObserver E s =
     (case Client_OffFontObserver E (js_client s) of
        (ret, client) \<Rightarrow>
          (if ret \<noteq> ERR_OK then Thrown ret (GetScopeFontErrMsg ret) else Returned JsUndefined,
           s\<lparr>js_client := client\<rparr>))"

text \<open>The environment goes: the module's object is finalized, which stops the observation.\<close>

definition JS_Finalizer :: "client_env \<Rightarrow> js_state \<Rightarrow> js_state" where
  "JS_Finalizer E s = s\<lparr>js_client := snd (Client_OffFontObserver E (js_client s))\<rparr>"

text \<open>The call on the JavaScript thread, and the lambda of an agent with \<open>napi_call_threadsafe_function\<close>.\<close>

definition FontObserverTsfnCallJs :: "int option \<Rightarrow> js_state \<Rightarrow> js_state" where
  "FontObserverTsfnCallJs jsCb s = (case jsCb of None \<Rightarrow> s | Some f \<Rightarrow> s\<lparr>js_calls := js_calls s @ [f]\<rparr>)"

definition call_tsfn :: "int \<Rightarrow> js_state \<Rightarrow> js_state" where
  "call_tsfn agent s =
     (case js_tsfns s agent of
        None \<Rightarrow> s
      | Some t \<Rightarrow> if ts_closing t then s else FontObserverTsfnCallJs (ts_callback t) s)"

text \<open>The service behind a binder dies: every recipient linked to it tells its agent.\<close>

definition JS_service_died :: "int \<Rightarrow> js_state \<Rightarrow> js_state" where
  "JS_service_died binder s =
     (let (agents, client) = Client_OnRemoteDied binder (js_client s)
      in foldl (\<lambda>s1 agent. snd (OnServiceDied (Some (call_tsfn agent)) s1)) (s\<lparr>js_client := client\<rparr>) agents)"

section \<open>The module\<close>

text \<open>
  What the module exports: functions that return a promise or a value, those that work on the observation,
  and an enumeration. \<open>FontManagerAddonInit\<close> binds them to their names.
\<close>

datatype js_export =
    PromiseFunction "napi_env \<Rightarrow> binding_kits \<Rightarrow> js_value list \<Rightarrow> js_promise"
  | ValueFunction "napi_env \<Rightarrow> binding_kits \<Rightarrow> js_value list \<Rightarrow> js_outcome"
  | ObserverFunction "napi_env \<Rightarrow> client_env \<Rightarrow> js_value list \<Rightarrow> js_state \<Rightarrow> js_outcome \<times> js_state"
  | EnumObject js_value

definition FontManagerAddonInit :: "(string \<times> js_export) list" where
  "FontManagerAddonInit =
    [(''installFont'', PromiseFunction JS_InstallFont),
     (''uninstallFont'', PromiseFunction JS_UninstallFont),
     (''dataMigration'', ValueFunction JS_DataMigrationInner),
     (''onFontObserver'', ObserverFunction JS_OnFontObserver),
     (''offFontObserver'', ObserverFunction (\<lambda>N E args. JS_OffFontObserver E)),
     (''installScopeFont'', PromiseFunction JS_InstallScopeFont),
     (''uninstallScopeFont'', PromiseFunction JS_UninstallScopeFont),
     (''getFontScope'', PromiseFunction JS_GetFontScope),
     (''FontScope'', EnumObject CreateFontScopeEnum)]"

text \<open>
  The environment goes: its clean-up hooks run. \<open>JsFuncRefHolder\<close> gives its reference back when it is
  destroyed, on the JavaScript thread if that can be reached; \<open>loop_ok\<close> is the answer of
  \<open>napi_get_uv_event_loop\<close>.
\<close>

definition JS_env_exit :: "js_state \<Rightarrow> js_state" where
  "JS_env_exit s = foldl (\<lambda>s1 agent. FontObserverEnvCleanup agent s1) (s\<lparr>env_hooks := []\<rparr>) (env_hooks s)"

datatype ref_deletion = DeleteHere int | DeleteOnJsThread int

definition destroy_JsFuncRefHolder :: "napi_env \<Rightarrow> bool \<Rightarrow> int option \<Rightarrow> ref_deletion list" where
  "destroy_JsFuncRefHolder N loop_ok ref =
     (case ref of
        None \<Rightarrow> []
      | Some r \<Rightarrow>
          if \<not> loop_ok then [DeleteHere r]
          else if napi_send_event_ok N then [DeleteOnJsThread r] else [DeleteHere r])"

end
