(* ===== verification/ANI_Binding.thy ===== *)
theory ANI_Binding
  imports JS_Binding
begin

text \<open>
  The ArkTS binding (\<open>interfaces/ani/src\<close>). Its calls run at once: each returns a value and may leave an
  error thrown in the environment. The answers of the ANI (third-party code) are the field \<open>ani_ok\<close>, which
  tells for each function whether it returns \<open>ANI_OK\<close>; the client library is the record
  \<open>binding_kits\<close> of the JavaScript binding.
\<close>

record ani_env =
  ani_ok :: "string \<Rightarrow> bool"
  ani_undefined :: bool
  ani_agent_alloc :: bool

section \<open>Strings and errors\<close>

definition ani_errorMsg :: "(int \<times> string) list" where
  "ani_errorMsg =
    [(ERR_NO_PERMISSION, MSG_PERMISSION), (ERR_NOT_SYSTEM_APP, MSG_SYSTEM_APP),
     (ERR_INVALID_PARAM, ''Parameter error.''),
     (ERR_FILE_NOT_EXISTS, ''The font does not exist.''),
     (ERR_FILE_VERIFY_FAIL, ''The font is not supported.''),
     (ERR_COPY_FAIL, ''Failed to copy the font file.''),
     (ERR_INSTALLED_ALRADY, ''The font file is installed.''),
     (ERR_MAX_FILE_COUNT, ''Exceeded the maximum number of installed files.''),
     (ERR_INSTALL_FAIL, ''The system ability works abnormally.''),
     (ERR_UNINSTALL_FILE_NOT_EXISTS, ''The font file does not exist.''),
     (ERR_UNINSTALL_REMOVE_FAIL, ''Failed to delete the font file.''),
     (ERR_UNINSTALL_FAIL, ''The system ability works abnormally.''),
     (ERR_SYSTEM_ERROR, ''Call failed due to system error.''),
     (ERR_DATA_MIGRATIONING, ''Data migration is in progress.''),
     (ERR_SCOPE_FONT_NOT_FOUND, ''The scope font is not found.''),
     (ERR_SCOPE_FONT_REPEATED_REGISTER, ''The font observer is already registered.''),
     (ERR_SCOPE_FONT_EXCEED_REGISTER_LIMIT, ''The maximum number of font observers has been reached.''),
     (ERR_SCOPE_FONT_NOT_REGISTERED, ''The font observer is not registered.'')]"

definition ANIStringToStdString :: "ani_env \<Rightarrow> string \<Rightarrow> string" where
  "ANIStringToStdString A ani_str =
     (if \<not> ani_ok A ''String_GetUTF8Size'' then []
      else if \<not> ani_ok A ''String_GetUTF8'' then []
      else c_str ani_str)"

text \<open>The error that is thrown, if the class, the object and its properties can be made.\<close>

definition ThrowAniError :: "ani_env \<Rightarrow> int \<Rightarrow> string \<Rightarrow> (int \<times> string) option" where
  "ThrowAniError A code message =
     (if \<not> ani_ok A ''FindClass'' then None
      else if \<not> ani_ok A ''Class_FindMethod'' then None
      else if \<not> ani_ok A ''Object_New'' then None
      else if \<not> ani_ok A ''Object_SetPropertyByName_Int'' then None
      else if \<not> ani_ok A ''String_NewUTF8'' then None
      else if \<not> ani_ok A ''Object_SetPropertyByName_Ref'' then None
      else if \<not> ani_ok A ''ThrowError'' then None
      else Some (code, message))"

definition ani_ThrowError :: "ani_env \<Rightarrow> int \<Rightarrow> (int \<times> string) option" where
  "ani_ThrowError A errorCode =
     ThrowAniError A errorCode
       (case map_of ani_errorMsg errorCode of None \<Rightarrow> ''Other error.'' | Some msg \<Rightarrow> msg)"

section \<open>Calls\<close>

definition ANI_InstallFont ::
    "ani_env \<Rightarrow> 'a binding_kits_scheme \<Rightarrow> string \<Rightarrow> int \<times> (int \<times> string) option" where
  "ANI_InstallFont A K ani_path =
     (let path = ANIStringToStdString A ani_path;
          (ret, errorCode) = kits_InstallFont K path
      in if ret \<noteq> 0 then (ret, ani_ThrowError A ret)
         else if errorCode \<noteq> 0 then (errorCode, ani_ThrowError A errorCode)
         else (errorCode, None))"

definition ANI_UninstallFont ::
    "ani_env \<Rightarrow> 'a binding_kits_scheme \<Rightarrow> string \<Rightarrow> int \<times> (int \<times> string) option" where
  "ANI_UninstallFont A K ani_fullName =
     (let fullName = ANIStringToStdString A ani_fullName;
          (ret, errorCode) = kits_UninstallFont K fullName
      in if ret \<noteq> 0 then (ret, ani_ThrowError A ret)
         else if errorCode \<noteq> 0 then (errorCode, ani_ThrowError A errorCode)
         else (errorCode, None))"

text \<open>\<open>AniDataMigrationListener::Create\<close>: whether the virtual machine and the reference are there.\<close>

definition ani_listener_init :: "ani_env \<Rightarrow> bool" where
  "ani_listener_init A \<longleftrightarrow> ani_ok A ''GetVM'' \<and> ani_ok A ''GlobalReference_Create''"

text \<open>\<open>answer\<close> is what \<open>FontManagerKits::DataMigration\<close> returns for the listener.\<close>

definition ANI_DataMigration :: "ani_env \<Rightarrow> int \<Rightarrow> bool \<Rightarrow> int \<times> (int \<times> string) option" where
  "ANI_DataMigration A answer callback_null =
     (if callback_null then (ERR_INVALID_PARAM, ani_ThrowError A ERR_INVALID_PARAM)
      else if \<not> ani_listener_init A then (ERR_SYSTEM_ERROR, ani_ThrowError A ERR_SYSTEM_ERROR)
      else if answer \<noteq> ERR_OK then (answer, ani_ThrowError A answer)
      else (answer, None))"

text \<open>The error of an observation; \<open>agent\<close> is the number the client library knows the agent by.\<close>

definition ANI_OnFontObserver ::
    "ani_env \<Rightarrow> client_env \<Rightarrow> bool \<Rightarrow> int \<Rightarrow> client_state \<Rightarrow> (int \<times> string) option \<times> client_state" where
  "ANI_OnFontObserver A E observer_null agent s =
     (if observer_null then (ani_ThrowError A ERR_INVALID_PARAM, s)
      else if ani_undefined A then (ani_ThrowError A ERR_INVALID_PARAM, s)
      else if \<not> ani_listener_init A then (ani_ThrowError A ERR_SYSTEM_ERROR, s)
      else if \<not> ani_agent_alloc A then (ani_ThrowError A ERR_SYSTEM_ERROR, s)
      else case Client_OnFontObserver E agent s of
        (ret, s1) \<Rightarrow> (if ret \<noteq> ERR_OK then ani_ThrowError A ret else None, s1))"

definition ANI_OffFontObserver ::
    "ani_env \<Rightarrow> client_env \<Rightarrow> client_state \<Rightarrow> (int \<times> string) option \<times> client_state" where
  "ANI_OffFontObserver A E s =
     (case Client_OffFontObserver E s of
        (ret, s1) \<Rightarrow> (if ret \<noteq> ERR_OK then ani_ThrowError A ret else None, s1))"

definition ANI_InstallScopeFont ::
    "ani_env \<Rightarrow> 'a binding_kits_scheme \<Rightarrow> string \<Rightarrow> int \<Rightarrow> (int \<times> string) option" where
  "ANI_InstallScopeFont A K ani_url ani_scope =
     (let url = ANIStringToStdString A ani_url in
      if url = [] then ani_ThrowError A ERR_INVALID_PARAM
      else
        let (ret, outValue) = kits_InstallScopeFont K url ani_scope in
        if ret \<noteq> ERR_OK then ani_ThrowError A ret
        else if outValue \<noteq> ERR_OK then ani_ThrowError A outValue else None)"

definition ANI_UninstallScopeFont ::
    "ani_env \<Rightarrow> 'a binding_kits_scheme \<Rightarrow> string \<Rightarrow> (int \<times> string) option" where
  "ANI_UninstallScopeFont A K ani_url =
     (let url = ANIStringToStdString A ani_url in
      if url = [] then ani_ThrowError A ERR_INVALID_PARAM
      else
        let (ret, outValue) = kits_UninstallScopeFont K url in
        if ret \<noteq> ERR_OK then ani_ThrowError A ret
        else if outValue \<noteq> ERR_OK then ani_ThrowError A outValue else None)"

definition ANI_GetFontScope ::
    "ani_env \<Rightarrow> 'a binding_kits_scheme \<Rightarrow> string \<Rightarrow> int \<times> (int \<times> string) option" where
  "ANI_GetFontScope A K ani_url =
     (let url = ANIStringToStdString A ani_url in
      if url = [] then (ERR_INVALID_PARAM, ani_ThrowError A ERR_INVALID_PARAM)
      else
        let (ret, outValue) = kits_GetFontScope K url in
        if ret \<noteq> ERR_OK then (ret, ani_ThrowError A ret) else (outValue, None))"

section \<open>Callbacks into the virtual machine\<close>

text \<open>
  A thread of the binder is attached to the virtual machine for the time of a callback, unless it
  belongs to it already. The result is the list of what happens.
\<close>

datatype ani_action = AttachThread | DetachThread | CreateGlobalRef | DeleteGlobalRef | CallMethod string "int list"

definition with_thread :: "ani_env \<Rightarrow> ani_action list \<Rightarrow> ani_action list" where
  "with_thread A body =
     (if ani_ok A ''GetEnv'' then body
      else if ani_ok A ''AttachCurrentThread'' then AttachThread # body @ [DetachThread]
      else [])"

definition ani_DoHeartbeatCallback :: "ani_env \<Rightarrow> ani_action list" where
  "ani_DoHeartbeatCallback A =
     (if \<not> ani_ok A ''Class_FindMethod onHeartBeat'' then [] else [CallMethod ''onHeartBeat'' []])"

definition ani_DoProgressCallback :: "ani_env \<Rightarrow> nat \<Rightarrow> nat \<Rightarrow> ani_action list" where
  "ani_DoProgressCallback A timeRemaining progressPercentage =
     (if \<not> ani_ok A ''Class_FindMethod onProgress'' then []
      else if \<not> ani_ok A ''FindClass DataMigrationProgressImpl'' then []
      else if \<not> ani_ok A ''Class_FindMethod <ctor>'' then []
      else if \<not> ani_ok A ''Object_New DataMigrationProgressImpl'' then []
      else [CallMethod ''onProgress'' [signed_take_bit 31 (int timeRemaining), signed_take_bit 31 (int progressPercentage)]])"

definition ani_DoResultCallback :: "ani_env \<Rightarrow> int \<Rightarrow> ani_action list" where
  "ani_DoResultCallback A progressResult =
     (if \<not> ani_ok A ''Class_FindMethod onResult'' then [] else [CallMethod ''onResult'' [progressResult]])"

definition ani_OnHandle :: "ani_env \<Rightarrow> effect \<Rightarrow> ani_action list" where
  "ani_OnHandle A eventData =
     (if \<not> ani_listener_init A then []
      else with_thread A
        (if \<not> ani_ok A ''FindClass DataMigrationCallback'' then []
         else case eventData of
           EventHeartBeat \<Rightarrow> ani_DoHeartbeatCallback A
         | EventProgress timeRemaining progressPercentage \<Rightarrow>
             ani_DoProgressCallback A timeRemaining progressPercentage
         | EventResult progressResult \<Rightarrow> ani_DoResultCallback A progressResult
         | _ \<Rightarrow> []))"

definition CallOnServiceDied :: "ani_env \<Rightarrow> ani_action list" where
  "CallOnServiceDied A =
     (if \<not> ani_listener_init A then [] else with_thread A [CallMethod ''onServiceDied'' []])"

section \<open>The references\<close>

text \<open>
  A listener and an observer hold a global reference from their construction, if that succeeded
  (\<open>has_ref\<close>, \<open>IsValid\<close>), to their destruction, which may run on any thread.
\<close>

definition construct_listener :: "ani_env \<Rightarrow> ani_action list" where
  "construct_listener A = (if ani_listener_init A then [CreateGlobalRef] else [])"

definition destroy_listener :: "ani_env \<Rightarrow> bool \<Rightarrow> ani_action list" where
  "destroy_listener A has_ref =
     (if has_ref then with_thread A (if ani_ok A ''GlobalReference_Delete'' then [DeleteGlobalRef] else []) else [])"

definition construct_AniObserverRef :: "ani_env \<Rightarrow> ani_action list" where
  "construct_AniObserverRef A =
     (if \<not> ani_ok A ''GetVM'' then [] else if \<not> ani_ok A ''GlobalReference_Create'' then [] else [CreateGlobalRef])"

definition destroy_AniObserverRef :: "ani_env \<Rightarrow> bool \<Rightarrow> ani_action list" where
  "destroy_AniObserverRef A has_ref =
     (if \<not> has_ref then []
      else with_thread A (if ani_ok A ''GlobalReference_Delete'' then [DeleteGlobalRef] else []))"

section \<open>The namespace\<close>

datatype ani_export =
    TextFunction "ani_env \<Rightarrow> binding_kits \<Rightarrow> string \<Rightarrow> int \<times> (int \<times> string) option"
  | MigrationFunction "ani_env \<Rightarrow> int \<Rightarrow> bool \<Rightarrow> int \<times> (int \<times> string) option"
  | ObserveFunction "ani_env \<Rightarrow> client_env \<Rightarrow> bool \<Rightarrow> int \<Rightarrow> client_state \<Rightarrow> (int \<times> string) option \<times> client_state"
  | UnobserveFunction "ani_env \<Rightarrow> client_env \<Rightarrow> client_state \<Rightarrow> (int \<times> string) option \<times> client_state"
  | ScopeInstallFunction "ani_env \<Rightarrow> binding_kits \<Rightarrow> string \<Rightarrow> int \<Rightarrow> (int \<times> string) option"
  | ScopeUninstallFunction "ani_env \<Rightarrow> binding_kits \<Rightarrow> string \<Rightarrow> (int \<times> string) option"

text \<open>\<open>None\<close> is \<open>ANI_ERROR\<close>.\<close>

definition ANI_Init :: "ani_env \<Rightarrow> (string \<times> ani_export) list option" where
  "ANI_Init A =
     (if \<not> ani_ok A ''FindNamespace'' then None
      else
        let nsMethods =
          [(''nativeInstallFont'', TextFunction ANI_InstallFont),
           (''nativeUninstallFont'', TextFunction ANI_UninstallFont),
           (''dataMigration'', MigrationFunction ANI_DataMigration),
           (''onFontObserver'', ObserveFunction ANI_OnFontObserver),
           (''offFontObserver'', UnobserveFunction ANI_OffFontObserver),
           (''nativeInstallScopeFont'', ScopeInstallFunction ANI_InstallScopeFont),
           (''nativeUninstallScopeFont'', ScopeUninstallFunction ANI_UninstallScopeFont),
           (''nativeGetFontScope'', TextFunction ANI_GetFontScope)]
        in if \<not> ani_ok A ''Namespace_BindNativeFunctions'' then None else Some nsMethods)"

definition ANI_Constructor :: "ani_env \<Rightarrow> (string \<times> ani_export) list option" where
  "ANI_Constructor A = (if \<not> ani_ok A ''GetEnv'' then None else ANI_Init A)"

end
