(* ===== verification/Binding_Properties.thy ===== *)
theory Binding_Properties
  imports ANI_Binding
begin

text \<open>
  What the bindings make of the client library: when a promise is settled and how, that the two
  languages see the same errors, and who is told that the service died.
\<close>

section \<open>Promises\<close>

text \<open>The N-API works as far as it concerns a promise whose work has run.\<close>

definition napi_settles :: "napi_env \<Rightarrow> bool" where
  "napi_settles N \<longleftrightarrow> napi_string_ok N \<and> napi_int32_ok N \<and> napi_resolve_ok N \<and> napi_reject_ok N"

definition string_argument :: "js_value list \<Rightarrow> string" where
  "string_argument args = (case args of JsString s # rest \<Rightarrow> c_str s | _ \<Rightarrow> [])"

definition work_queued :: "napi_env \<Rightarrow> string \<Rightarrow> bool" where
  "work_queued N name \<longleftrightarrow> napi_create_work_ok N name \<and> napi_queue_work_ok N name"

text \<open>The promise of a call whose result has this code.\<close>

definition settled :: "(int \<Rightarrow> string) \<Rightarrow> int \<Rightarrow> js_promise" where
  "settled message code = (if code = ERR_OK then Resolved (JsNumber ERR_OK) else Rejected code (message code))"

lemma messages_cstring [simp]:
  "c_str (install_message code) = install_message code" "c_str (uninstall_message code) = uninstall_message code"
  by (simp_all add: install_message_def uninstall_message_def MSG_PERMISSION_def MSG_SYSTEM_APP_def c_str_def NUL_def)

lemma argument_eq:
  "napi_settles N \<Longrightarrow> GetResNameOrPath N (length args) (cb_argv 1 args) = string_argument args"
  "napi_settles N \<Longrightarrow> GetResNameOrPath N 1 (cb_argv 2 (take (Suc n) args)) = string_argument args"
  by (auto simp: GetResNameOrPath_def cb_argv_def string_argument_def napi_settles_def numeral_2_eq_2
      split: list.split js_value.split)

lemma GetResult_eq:
  "GetResult N cb name execute = (if work_queued N name then Complete N (execute cb) else Pending)"
  by (simp add: GetResult_def work_queued_def)

lemma Complete_error:
  "napi_settles N \<Longrightarrow> c_str msg = msg \<Longrightarrow> Complete N (SetErrorMsg cb msg code) = Rejected code msg"
  by (simp add: Complete_def ProcessPromiseResult_def SetErrorMsg_def napi_settles_def)

lemma SetErrorMsg_twice: "SetErrorMsg (SetErrorMsg cb m c) m' c' = SetErrorMsg cb m' c'"
  by (simp add: SetErrorMsg_def)

lemma SetErrorMsg_code [simp]: "cb_errCode (SetErrorMsg cb m c) = c"
  by (simp add: SetErrorMsg_def)

text \<open>The work of the two user-level calls, on a text.\<close>

lemma font_work:
  assumes "napi_settles N"
  shows "Complete N (installFontFunc K (new_callback\<lparr>cb_value := t\<rparr>)) =
     (if t = [] then Rejected ERR_FILE_NOT_EXISTS (install_message ERR_FILE_NOT_EXISTS)
      else settled install_message (case kits_InstallFont K t of (ret, out) \<Rightarrow> if ret = ERR_OK then out else ERR_INSTALL_FAIL))"
    "Complete N (uninstallFontFunc K (new_callback\<lparr>cb_value := t\<rparr>)) =
     (if t = [] then Rejected ERR_UNINSTALL_FILE_NOT_EXISTS (uninstall_message ERR_UNINSTALL_FILE_NOT_EXISTS)
      else settled uninstall_message (case kits_UninstallFont K t of (ret, out) \<Rightarrow> if ret = ERR_OK then out else ERR_UNINSTALL_FAIL))"
proof -
  note error = Complete_error [OF assms]
  have texts: "''The font does not exist.'' = install_message ERR_FILE_NOT_EXISTS"
    "''The font file does not exist.'' = uninstall_message ERR_UNINSTALL_FILE_NOT_EXISTS"
    by (simp_all add: install_message_def uninstall_message_def err_defs)
  have codes: "ERR_INSTALL_FAIL \<noteq> ERR_OK" "ERR_UNINSTALL_FAIL \<noteq> ERR_OK" by (simp_all add: err_defs)
  have fine: "Complete N (new_callback\<lparr>cb_value := t, cb_errCode := ERR_OK\<rparr>) = Resolved (JsNumber ERR_OK)" for t
    using assms by (simp add: Complete_def ProcessPromiseResult_def new_callback_def napi_settles_def)
  obtain ret out where a: "kits_InstallFont K t = (ret, out)" by fastforce
  show "Complete N (installFontFunc K (new_callback\<lparr>cb_value := t\<rparr>)) =
     (if t = [] then Rejected ERR_FILE_NOT_EXISTS (install_message ERR_FILE_NOT_EXISTS)
      else settled install_message (case kits_InstallFont K t of (ret, out) \<Rightarrow> if ret = ERR_OK then out else ERR_INSTALL_FAIL))"
    unfolding installFontFunc_def texts
    by (simp add: a Let_def error codes fine settled_def SetErrorMsg_twice)
  obtain ret out where a: "kits_UninstallFont K t = (ret, out)" by fastforce
  show "Complete N (uninstallFontFunc K (new_callback\<lparr>cb_value := t\<rparr>)) =
     (if t = [] then Rejected ERR_UNINSTALL_FILE_NOT_EXISTS (uninstall_message ERR_UNINSTALL_FILE_NOT_EXISTS)
      else settled uninstall_message (case kits_UninstallFont K t of (ret, out) \<Rightarrow> if ret = ERR_OK then out else ERR_UNINSTALL_FAIL))"
    unfolding uninstallFontFunc_def texts
    by (simp add: a Let_def error codes fine settled_def SetErrorMsg_twice)
qed

text \<open>
  C7: the promises of \<open>installFont\<close> and \<open>uninstallFont\<close>, for any arguments: when the work could be queued
  the promise is settled, with 0 exactly if both the call and its result are 0 and otherwise with the error
  of the result (a failed call counts as a service that works abnormally, an argument that is no text as a
  font that does not exist). When the work cannot be queued the promise stays pending for ever.
\<close>

theorem js_promise_settles:
  assumes "napi_settles N"
  shows "JS_InstallFont N K args =
     (if \<not> work_queued N ''InstallFont'' then Pending
      else if string_argument args = [] then Rejected ERR_FILE_NOT_EXISTS (install_message ERR_FILE_NOT_EXISTS)
      else settled install_message
        (case kits_InstallFont K (string_argument args) of (ret, out) \<Rightarrow> if ret = ERR_OK then out else ERR_INSTALL_FAIL)) \<and>
   JS_UninstallFont N K args =
     (if \<not> work_queued N ''UninstallFont'' then Pending
      else if string_argument args = []
      then Rejected ERR_UNINSTALL_FILE_NOT_EXISTS (uninstall_message ERR_UNINSTALL_FILE_NOT_EXISTS)
      else settled uninstall_message
        (case kits_UninstallFont K (string_argument args) of (ret, out) \<Rightarrow> if ret = ERR_OK then out else ERR_UNINSTALL_FAIL))"
proof -
  have run: "JS_InstallFont N K args = GetResult N (new_callback\<lparr>cb_value := string_argument args\<rparr>) ''InstallFont'' (installFontFunc K)"
    "JS_UninstallFont N K args = GetResult N (new_callback\<lparr>cb_value := string_argument args\<rparr>) ''UninstallFont'' (uninstallFontFunc K)"
    using argument_eq(1) [OF assms] by (simp_all add: JS_InstallFont_def JS_UninstallFont_def ProcessFontByValue_def)
  show ?thesis unfolding run GetResult_eq font_work [OF assms] by simp
qed

text \<open>An N-API that works, and one that cannot queue.\<close>

definition ref_napi :: napi_env where
  "ref_napi = \<lparr>napi_string_ok = True, napi_typeof_ok = True, napi_stale_function = False, napi_int32_ok = True,
     napi_reference_ok = True, napi_create_work_ok = (\<lambda>n. True), napi_queue_work_ok = (\<lambda>n. n \<noteq> ''UninstallFont''),
     napi_resolve_ok = True, napi_reject_ok = True, napi_send_event_ok = True, napi_create_tsfn_ok = True,
     napi_agent_alloc = True, napi_add_hook_ok = True, napi_remove_hook_ok = True\<rparr>"

definition ref_binding_kits :: binding_kits where
  "ref_binding_kits = \<lparr>kits_InstallFont = (\<lambda>p. (0, if p = ''/a.ttf'' then 0 else 31100104)), kits_UninstallFont = (\<lambda>n. (0, 0)),
     kits_InstallScopeFont = (\<lambda>p v. (0, if v = 1 then 0 else 31100115)), kits_UninstallScopeFont = (\<lambda>p. (31100110, 0)),
     kits_GetFontScope = (\<lambda>p. (0, 1)), kits_DataMigration = (\<lambda>l. 0)\<rparr>"

theorem js_promise_settles_witness:
  "JS_InstallFont ref_napi ref_binding_kits [JsString ''/a.ttf''] = Resolved (JsNumber 0) \<and>
   JS_InstallFont ref_napi ref_binding_kits [JsString ''/b.ttf''] = Rejected 31100104 ''The font file is installed.'' \<and>
   JS_UninstallFont ref_napi ref_binding_kits [JsString ''Abc''] = Pending"
proof -
  have "napi_settles ref_napi" by (simp add: napi_settles_def ref_napi_def)
  note run = js_promise_settles [OF this, of ref_binding_kits]
  from run [of "[JsString ''/a.ttf'']"] run [of "[JsString ''/b.ttf'']"] run [of "[JsString ''Abc'']"] show ?thesis
    by (simp add: string_argument_def work_queued_def ref_napi_def ref_binding_kits_def settled_def err_defs
        install_message_def c_str_def NUL_def)
qed

section \<open>The two languages\<close>

definition ani_works :: "ani_env \<Rightarrow> bool" where
  "ani_works A \<longleftrightarrow> (\<forall>f. ani_ok A f)"

text \<open>The code that counts: the one of the call, then the result.\<close>

definition answer_code :: "int \<times> int \<Rightarrow> int" where
  "answer_code answer = (if fst answer \<noteq> ERR_OK then fst answer else snd answer)"

definition known_code :: "int \<Rightarrow> bool" where
  "known_code code \<longleftrightarrow> code = ERR_OK \<or> code \<in> fst ` set g_ScopeFontErrMsgMap"

lemma same_table: "ani_errorMsg = g_ScopeFontErrMsgMap"
  by (simp add: ani_errorMsg_def g_ScopeFontErrMsgMap_def)

lemma scope_messages_cstring: "m \<in> snd ` set g_ScopeFontErrMsgMap \<Longrightarrow> c_str m = m"
  by (auto simp: g_ScopeFontErrMsgMap_def MSG_PERMISSION_def MSG_SYSTEM_APP_def c_str_def NUL_def)

lemma same_message:
  assumes "ani_works A" "known_code code" "code \<noteq> ERR_OK"
  shows "ani_ThrowError A code = Some (code, GetScopeFontErrMsg code)" "c_str (GetScopeFontErrMsg code) = GetScopeFontErrMsg code"
proof -
  from assms(2,3) obtain m where m: "map_of g_ScopeFontErrMsgMap code = Some m"
    by (auto simp: known_code_def dest: weak_map_of_SomeI)
  then have "m \<in> snd ` set g_ScopeFontErrMsgMap" by (force dest: map_of_SomeD)
  with m show "c_str (GetScopeFontErrMsg code) = GetScopeFontErrMsg code"
    by (simp add: GetScopeFontErrMsg_def scope_messages_cstring)
  from m assms(1) show "ani_ThrowError A code = Some (code, GetScopeFontErrMsg code)"
    by (simp add: ani_ThrowError_def ThrowAniError_def ani_works_def same_table GetScopeFontErrMsg_def)
qed

text \<open>What a thrown error, or none, is as the end of a promise.\<close>

definition as_promise :: "js_value \<Rightarrow> (int \<times> string) option \<Rightarrow> js_promise" where
  "as_promise v err = (case err of None \<Rightarrow> Resolved v | Some (c, m) \<Rightarrow> Rejected c m)"

lemma as_promise_simps [simp]: "as_promise v None = Resolved v" "as_promise v (Some (c, m)) = Rejected c m"
  by (simp_all add: as_promise_def)

lemma scope_answer_promise:
  assumes "napi_settles N" "ani_works A" "known_code (answer_code a)" "cb_success cb" "cb_isVoidResult cb" "\<not> cb_isQuery cb"
  shows "Complete N (scope_answer cb a) =
    as_promise JsUndefined (if answer_code a = ERR_OK then None else ani_ThrowError A (answer_code a))"
proof (cases "answer_code a = ERR_OK")
  case True
  then have "scope_answer cb a = cb" by (cases a) (auto simp: answer_code_def scope_answer_def split: if_splits)
  with True assms(1,4-6) show ?thesis by (simp add: Complete_def ProcessPromiseResult_def napi_settles_def)
next
  case False
  then have "scope_answer cb a = SetErrorMsg cb (GetScopeFontErrMsg (answer_code a)) (answer_code a)"
    by (cases a) (auto simp: answer_code_def scope_answer_def)
  with False show ?thesis using same_message [OF assms(2,3)] Complete_error [OF assms(1)] by simp
qed

lemma bad_url:
  assumes "napi_settles N" "ani_works A"
  shows "Complete N (SetErrorMsg cb (GetScopeFontErrMsg ERR_INVALID_PARAM) ERR_INVALID_PARAM) = as_promise v (ani_ThrowError A ERR_INVALID_PARAM)"
proof -
  have "known_code ERR_INVALID_PARAM" "ERR_INVALID_PARAM \<noteq> ERR_OK"
    by (simp_all add: known_code_def g_ScopeFontErrMsgMap_def) (simp add: err_defs)
  from same_message [OF assms(2) this] Complete_error [OF assms(1)] show ?thesis by simp
qed

text \<open>The callback that the work starts from: its text, its scope, and an outcome that is still open.\<close>

lemma scope_callback:
  assumes "napi_settles N" "work_queued N name"
  shows "\<exists>cb. ProcessScopeFont N [JsString u, JsNumber v] name execute True = Complete N (execute cb) \<and>
      cb_value cb = c_str u \<and> cb_scope cb = signed_take_bit 31 v \<and> \<not> cb_isQuery cb \<and> cb_isVoidResult cb \<and>
      (c_str u \<noteq> [] \<longrightarrow> cb_success cb)"
    "\<exists>cb. ProcessScopeFont N [JsString u] name execute False = Complete N (execute cb) \<and>
      cb_value cb = c_str u \<and> \<not> cb_isQuery cb \<and> cb_isVoidResult cb \<and> (c_str u \<noteq> [] \<longrightarrow> cb_success cb)"
    "\<exists>cb. ProcessScopeFontQuery N [JsString u] name execute = Complete N (execute cb) \<and>
      cb_value cb = c_str u \<and> cb_isQuery cb \<and> (c_str u \<noteq> [] \<longrightarrow> cb_success cb)"
proof -
  have path: "GetResNameOrPath N 1 (JsString u # xs) = c_str u" "GetResNameOrPath N (Suc 0) (JsString u # xs) = c_str u" for xs
    using assms(1) by (simp_all add: GetResNameOrPath_def napi_settles_def)
  note defs = ProcessScopeFont_def ProcessScopeFontQuery_def cb_argv_def GetResult_eq assms(2) Let_def path numeral_2_eq_2
  note fields = new_callback_def SetErrorMsg_def
  let ?start = "\<lambda>c. if c_str u = [] then SetErrorMsg c (GetScopeFontErrMsg ERR_INVALID_PARAM) ERR_INVALID_PARAM else c"
  show "\<exists>cb. ProcessScopeFont N [JsString u, JsNumber v] name execute True = Complete N (execute cb) \<and>
      cb_value cb = c_str u \<and> cb_scope cb = signed_take_bit 31 v \<and> \<not> cb_isQuery cb \<and> cb_isVoidResult cb \<and>
      (c_str u \<noteq> [] \<longrightarrow> cb_success cb)"
    by (rule exI [of _ "(?start (new_callback\<lparr>cb_isVoidResult := True, cb_value := c_str u\<rparr>))\<lparr>cb_scope := signed_take_bit 31 v\<rparr>"]) (simp add: defs, simp add: fields)
  show "\<exists>cb. ProcessScopeFont N [JsString u] name execute False = Complete N (execute cb) \<and>
      cb_value cb = c_str u \<and> \<not> cb_isQuery cb \<and> cb_isVoidResult cb \<and> (c_str u \<noteq> [] \<longrightarrow> cb_success cb)"
    by (rule exI [of _ "?start (new_callback\<lparr>cb_isVoidResult := True, cb_value := c_str u\<rparr>)"]) (simp add: defs, simp add: fields)
  show "\<exists>cb. ProcessScopeFontQuery N [JsString u] name execute = Complete N (execute cb) \<and>
      cb_value cb = c_str u \<and> cb_isQuery cb \<and> (c_str u \<noteq> [] \<longrightarrow> cb_success cb)"
    by (rule exI [of _ "?start (new_callback\<lparr>cb_isQuery := True, cb_value := c_str u\<rparr>)"]) (simp add: defs, simp add: fields)
qed

text \<open>
  C25: the two bindings agree on the calls for scope fonts: for the same URL and scope, and the same answers
  of the client library with codes the tables know, the promise of JavaScript is fulfilled exactly when
  ArkTS throws nothing, with the same value, and rejected with the code and message that ArkTS throws.
\<close>

theorem bindings_agree:
  assumes "napi_settles N" "\<forall>n. work_queued N n" "ani_works A"
    "known_code (answer_code (kits_InstallScopeFont K (c_str u) (signed_take_bit 31 v)))"
    "known_code (answer_code (kits_UninstallScopeFont K (c_str u)))" "known_code (fst (kits_GetFontScope K (c_str u)))"
  shows "JS_InstallScopeFont N K [JsString u, JsNumber v] =
      as_promise JsUndefined (ANI_InstallScopeFont A K u (signed_take_bit 31 v)) \<and>
    JS_UninstallScopeFont N K [JsString u] = as_promise JsUndefined (ANI_UninstallScopeFont A K u) \<and>
    JS_GetFontScope N K [JsString u] =
      as_promise (JsNumber (fst (ANI_GetFontScope A K u))) (snd (ANI_GetFontScope A K u))"
proof -
  have str: "ANIStringToStdString A u = c_str u" using assms(3) by (simp add: ANIStringToStdString_def ani_works_def)
  note q = assms(2) [rule_format]
  note answer = scope_answer_promise [OF assms(1,3)] and bad = bad_url [OF assms(1,3)]
  obtain cb where "JS_InstallScopeFont N K [JsString u, JsNumber v] = Complete N (installScopeFunc K cb)"
    "cb_value cb = c_str u" "cb_scope cb = signed_take_bit 31 v" "\<not> cb_isQuery cb" "cb_isVoidResult cb"
    "c_str u \<noteq> [] \<longrightarrow> cb_success cb"
    unfolding JS_InstallScopeFont_def using scope_callback(1) [OF assms(1) q] by blast
  then have install: "JS_InstallScopeFont N K [JsString u, JsNumber v] =
      as_promise JsUndefined (ANI_InstallScopeFont A K u (signed_take_bit 31 v))"
    using bad answer [OF assms(4)]
    by (auto simp: installScopeFunc_def ANI_InstallScopeFont_def str answer_code_def split: prod.split)
  obtain cb where "JS_UninstallScopeFont N K [JsString u] = Complete N (uninstallScopeFunc K cb)"
    "cb_value cb = c_str u" "\<not> cb_isQuery cb" "cb_isVoidResult cb" "c_str u \<noteq> [] \<longrightarrow> cb_success cb"
    unfolding JS_UninstallScopeFont_def using scope_callback(2) [OF assms(1) q] by blast
  then have uninstall: "JS_UninstallScopeFont N K [JsString u] = as_promise JsUndefined (ANI_UninstallScopeFont A K u)"
    using bad answer [OF assms(5)]
    by (auto simp: uninstallScopeFunc_def ANI_UninstallScopeFont_def str answer_code_def split: prod.split)
  obtain cb where cb: "JS_GetFontScope N K [JsString u] = Complete N (fontScopeFunc K cb)"
    "cb_value cb = c_str u" "cb_isQuery cb" "c_str u \<noteq> [] \<longrightarrow> cb_success cb"
    unfolding JS_GetFontScope_def using scope_callback(3) [OF assms(1) q] by blast
  obtain r x where k: "kits_GetFontScope K (c_str u) = (r, x)" by fastforce
  have "JS_GetFontScope N K [JsString u] = as_promise (JsNumber (fst (ANI_GetFontScope A K u))) (snd (ANI_GetFontScope A K u))"
    using cb bad same_message [OF assms(3,6)] Complete_error [OF assms(1)] assms(1)
    by (auto simp: fontScopeFunc_def ANI_GetFontScope_def str k Complete_def [of N "cb\<lparr>cb_queryResult := x\<rparr>"]
        ProcessPromiseResult_def napi_settles_def)
  with install uninstall show ?thesis by simp
qed

text \<open>An ANI that works.\<close>

definition ref_ani :: ani_env where
  "ref_ani = \<lparr>ani_ok = (\<lambda>f. True), ani_undefined = False, ani_agent_alloc = True\<rparr>"

theorem bindings_agree_witness:
  "JS_InstallScopeFont (ref_napi\<lparr>napi_queue_work_ok := (\<lambda>n. True)\<rparr>) ref_binding_kits [JsString ''/a.ttf'', JsNumber 0] =
     as_promise JsUndefined (ANI_InstallScopeFont ref_ani ref_binding_kits ''/a.ttf'' 0) \<and>
   ANI_InstallScopeFont ref_ani ref_binding_kits ''/a.ttf'' 0 = Some (31100115, ''The font observer is not registered.'') \<and>
   ANI_InstallScopeFont ref_ani ref_binding_kits ''/a.ttf'' 1 = None"
proof -
  let ?N = "ref_napi\<lparr>napi_queue_work_ok := (\<lambda>n. True)\<rparr>"
  have N: "napi_settles ?N" "\<forall>n. work_queued ?N n" "ani_works ref_ani"
    by (simp_all add: napi_settles_def work_queued_def ref_napi_def ani_works_def ref_ani_def)
  have known: "known_code (answer_code (kits_InstallScopeFont ref_binding_kits p v))"
    "known_code (answer_code (kits_UninstallScopeFont ref_binding_kits p))" "known_code (fst (kits_GetFontScope ref_binding_kits p))" for p v
    by (simp_all add: ref_binding_kits_def known_code_def answer_code_def g_ScopeFontErrMsgMap_def err_defs)
  from bindings_agree [OF N known, of "''/a.ttf''" 0] show ?thesis
    by (simp add: ANI_InstallScopeFont_def ANIStringToStdString_def ref_ani_def ref_binding_kits_def ani_ThrowError_def
        ThrowAniError_def ani_errorMsg_def err_defs c_str_def NUL_def)
qed

section \<open>Who is told that the service died\<close>

lemma died_linked:
  "sa_links (js_client s) = [(b, agent)] \<Longrightarrow>
     js_calls (JS_service_died b s) = js_calls (call_tsfn agent s)"
  by (simp add: JS_service_died_def Client_OnRemoteDied_def OnServiceDied_def call_tsfn_def FontObserverTsfnCallJs_def split: option.split)

lemma service_link_after:
  assumes "sa_links_ok s" "Client_OnFontObserver E agent s = (r, s')" "fst (GetFontServiceAbility E s)"
    "service_binder E = Some b" "r = ERR_OK \<or> r = ERR_SCOPE_FONT_REPEATED_REGISTER"
  shows "sa_links s' = [(b, agent)] \<and> sa_links_ok s'"
  using observing_links [OF assms(1-3)] assms(4,5) by auto

text \<open>A client whose service is there, with binder 1, and accepts everything.\<close>

definition ref_client_env :: client_env where
  "ref_client_env = \<lparr>cl_realpath = Some, cl_access = (\<lambda>p. True), cl_fopen = (\<lambda>p. True), cl_fileno = (\<lambda>p. 7),
     cl_samgr = True, CheckSystemAbility = (\<lambda>n. True), load_callback_alloc = True, LoadSystemAbility = 0,
     load_answer = WAIT_RESULT, GetSystemAbility = True, iface_cast_ok = True, service_binder = Some 1,
     cb_agent_alloc = True, cb_agent_object = True, svc_InstallFont = (\<lambda>fd. (0, 0)), svc_UninstallFont = (\<lambda>n. (0, 0)),
     svc_DataMigration = 0, svc_InstallFontWithUserId = (\<lambda>fd u. 0), svc_UninstallFontWithUserId = (\<lambda>n u. 0),
     svc_OnFontObserver = (\<lambda>b. 0), svc_OffFontObserver = 0, svc_InstallScopeFont = (\<lambda>fd sc p. (0, 0)),
     svc_UninstallScopeFont = (\<lambda>p. (0, 0)), svc_GetFontScope = (\<lambda>p. (0, 0))\<rparr>"

definition ref_client_state :: client_state where
  "ref_client_state = \<lparr>loadSaStatus = WAIT_RESULT, open_files = [], saBinder = None, saDeathRecipient = None,
     sa_links = []\<rparr>"

text \<open>
  C37: the application that observes the service is told when it dies: after a call of \<open>onFontObserver\<close> that
  returned, the death of the service calls exactly the function \<open>onServiceDied\<close> of the object that was passed,
  once; and the client keeps the invariant of its death notifications.
\<close>

theorem observer_notified:
  assumes "sa_links_ok (js_client s)" "JS_OnFontObserver N E [JsObject ps] s = (Returned v, s')"
    "service_binder E = Some b" "map_of ps ''onServiceDied'' = Some (JsFunction f)"
  shows "js_calls (JS_service_died b s') = js_calls s @ [f] \<and> sa_links_ok (js_client s')"
proof -
  let ?s2 = "s\<lparr>js_tsfns := (js_tsfns s)(next_agent s \<mapsto> \<lparr>ts_callback = Some f, ts_closing = False\<rparr>),
    next_agent := next_agent s + 1, env_hooks := next_agent s # env_hooks s\<rparr>"
  have arg: "ParseOnServiceDiedCallback N [JsObject ps] = Inr (Some f)"
    by (simp add: ParseOnServiceDiedCallback_def cb_argv_def named_property_def assms(4))
  obtain ret client where call: "Client_OnFontObserver E (next_agent s) (js_client s) = (ret, client)" by fastforce
  from assms(2) have ret: "ret = ERR_OK" and s': "s' = ?s2\<lparr>js_client := client\<rparr>"
    by (auto simp: JS_OnFontObserver_def arg CreateFontObserverAgent_def Let_def call split: if_splits)
  have "fst (GetFontServiceAbility E (js_client s))"
    using call ret by (cases "GetFontServiceAbility E (js_client s)") (auto simp: Client_OnFontObserver_def err_defs split: bool.splits)
  from service_link_after [OF assms(1) call this assms(3)] ret
  have "sa_links client = [(b, next_agent s)]" "sa_links_ok client" by simp_all
  then show ?thesis using died_linked [of s' b "next_agent s"] by (simp add: s' call_tsfn_def FontObserverTsfnCallJs_def)
qed

definition ref_js :: js_state where
  "ref_js = \<lparr>js_client = ref_client_state, js_tsfns = Map.empty, env_hooks = [], js_calls = [], next_agent = 1\<rparr>"

definition ref_observer :: js_value where
  "ref_observer = JsObject [(''onServiceDied'', JsFunction 42)]"

lemma ref_client_links: "sa_links_ok (js_client ref_js)"
  by (simp add: sa_links_ok_def ref_js_def ref_client_state_def)

lemma ref_observes: "\<exists>s'. JS_OnFontObserver ref_napi ref_client_env [ref_observer] ref_js = (Returned JsUndefined, s')"
  by (simp add: JS_OnFontObserver_def ParseOnServiceDiedCallback_def cb_argv_def named_property_def ref_observer_def
      CreateFontObserverAgent_def ref_napi_def Client_OnFontObserver_def GetFontServiceAbility_def ref_client_env_def Let_def err_defs)

theorem observer_notified_witness:
  "\<exists>s'. JS_OnFontObserver ref_napi ref_client_env [ref_observer] ref_js = (Returned JsUndefined, s') \<and>
     js_calls (JS_service_died 1 s') = [42]"
proof -
  from ref_observes obtain s' where run: "JS_OnFontObserver ref_napi ref_client_env [ref_observer] ref_js = (Returned JsUndefined, s')" ..
  have "service_binder ref_client_env = Some 1" "js_calls ref_js = []" by (simp_all add: ref_client_env_def ref_js_def)
  with observer_notified [OF ref_client_links run [unfolded ref_observer_def]] run show ?thesis by simp
qed

text \<open>
  C38: a second \<open>onFontObserver\<close> takes the notification away: when the service answers it with ``registered
  already'', the call throws that error and aborts the function of its own agent, but the client library
  has replaced the earlier agent by it. When the service dies afterwards, no JavaScript function is called,
  although the first call returned and the application is still registered.
\<close>

theorem repeat_loses_notification:
  assumes "sa_links_ok (js_client s)" "service_binder E = Some b" "fst (GetFontServiceAbility E (js_client s))"
    "svc_OnFontObserver E (next_agent s) = ERR_SCOPE_FONT_REPEATED_REGISTER"
    "map_of ps ''onServiceDied'' = Some (JsFunction f)" "napi_create_tsfn_ok N" "napi_agent_alloc N" "napi_add_hook_ok N"
    "napi_remove_hook_ok N"
  shows "\<exists>s'. JS_OnFontObserver N E [JsObject ps] s =
      (Thrown ERR_SCOPE_FONT_REPEATED_REGISTER ''The font observer is already registered.'', s') \<and>
    js_calls (JS_service_died b s') = js_calls s"
proof -
  let ?a = "next_agent s"
  have arg: "ParseOnServiceDiedCallback N [JsObject ps] = Inr (Some f)"
    by (simp add: ParseOnServiceDiedCallback_def cb_argv_def named_property_def assms(5))
  have msg: "GetScopeFontErrMsg ERR_SCOPE_FONT_REPEATED_REGISTER = ''The font observer is already registered.''"
    "ERR_SCOPE_FONT_REPEATED_REGISTER \<noteq> ERR_OK"
    by (simp_all add: GetScopeFontErrMsg_def g_ScopeFontErrMsgMap_def err_defs)
  obtain ret client where call: "Client_OnFontObserver E ?a (js_client s) = (ret, client)" by fastforce
  with assms(3,4) have ret: "ret = ERR_SCOPE_FONT_REPEATED_REGISTER"
    by (auto simp: Client_OnFontObserver_def Let_def split: prod.splits bool.splits if_splits)
  from service_link_after [OF assms(1) call assms(3,2)] ret have link: "sa_links client = [(b, ?a)]" by simp
  obtain s' where run: "JS_OnFontObserver N E [JsObject ps] s = (Thrown ret (GetScopeFontErrMsg ret), s')"
    and s': "js_client s' = client" "js_tsfns s' ?a = Some \<lparr>ts_callback = Some f, ts_closing = True\<rparr>" "js_calls s' = js_calls s"
    using msg(2) ret assms(6-9)
    by (simp add: JS_OnFontObserver_def arg CreateFontObserverAgent_def Let_def call FontObserverEnvCleanup_def)
  have "js_calls (JS_service_died b s') = js_calls s"
    using died_linked [of s' b ?a] link s' by (simp add: call_tsfn_def FontObserverTsfnCallJs_def)
  with run ret msg show ?thesis by simp
qed

text \<open>The same client at a service that knows it already.\<close>

definition ref_repeat_env :: client_env where
  "ref_repeat_env = ref_client_env\<lparr>svc_OnFontObserver := (\<lambda>a. if a = 1 then 0 else ERR_SCOPE_FONT_REPEATED_REGISTER)\<rparr>"

theorem repeat_loses_notification_witness:
  "\<exists>s1 s2 m. JS_OnFontObserver ref_napi ref_repeat_env [ref_observer] ref_js = (Returned JsUndefined, s1) \<and>
     js_calls (JS_service_died 1 s1) = [42] \<and>
     JS_OnFontObserver ref_napi ref_repeat_env [ref_observer] s1 = (Thrown ERR_SCOPE_FONT_REPEATED_REGISTER m, s2) \<and>
     js_calls (JS_service_died 1 s2) = []"
proof -
  obtain s1 where first: "JS_OnFontObserver ref_napi ref_repeat_env [ref_observer] ref_js = (Returned JsUndefined, s1)"
    and s1: "next_agent s1 = 2" "js_calls s1 = []" "sa_links_ok (js_client s1)" "js_calls (JS_service_died 1 s1) = [42]"
    by (simp add: JS_OnFontObserver_def ParseOnServiceDiedCallback_def cb_argv_def named_property_def ref_observer_def
        CreateFontObserverAgent_def ref_napi_def Client_OnFontObserver_def GetFontServiceAbility_def ref_repeat_env_def
        ref_client_env_def Let_def err_defs ref_js_def ref_client_state_def unlink_service_def sa_links_ok_def
        JS_service_died_def Client_OnRemoteDied_def OnServiceDied_def call_tsfn_def FontObserverTsfnCallJs_def)
  have "service_binder ref_repeat_env = Some 1" "fst (GetFontServiceAbility ref_repeat_env (js_client s1))"
    "svc_OnFontObserver ref_repeat_env (next_agent s1) = ERR_SCOPE_FONT_REPEATED_REGISTER"
    "napi_create_tsfn_ok ref_napi" "napi_agent_alloc ref_napi" "napi_add_hook_ok ref_napi" "napi_remove_hook_ok ref_napi"
    by (simp_all add: ref_repeat_env_def ref_client_env_def GetFontServiceAbility_def s1(1) ref_napi_def)
  from repeat_loses_notification [OF s1(3) this(1-3) _ this(4-7), of "[(''onServiceDied'', JsFunction 42)]" 42]
  show ?thesis using first s1 by (auto simp: ref_observer_def)
qed

end
