(* ===== verification/Install_Threads.thy ===== *)
theory Install_Threads
  imports Manager_Laws
begin

text \<open>
  Several calls of \<open>FontManager::InstallFont\<close> for one user at the same time, each on a thread of the
  binder. The function holds no lock of its own: its steps are the operations of \<open>FontConfig\<close>, each under
  \<open>configLock_\<close>, \<open>SafeGetOrCreateConfig\<close> under \<open>mapLock_\<close>, and the operations on files between them.
  \<open>install_step\<close> is the body of \<open>InstallFont\<close> cut at these places: a position with the local variables that
  are alive there, and one step from it. Setting up the directories, copying the font and the reports are one step
  each: they only create what is missing, touch files named after the thread, and tell other services.
\<close>

datatype install_pc =
    Starting
  | Configuring
  | Looking FontConfig "string list" "string list"
  | Probing FontConfig "string list" "string list" string
  | Dropping FontConfig "string list" "string list" string
  | Counting FontConfig "string list"
  | Copying FontConfig "string list"
  | Inserting FontConfig "string list" string
  | Discarding int string
  | Reporting "string list"
  | Finished int

text \<open>
  \<open>Looking cfg names rest\<close> is the head of the loop over the names, with those that are left;
  \<open>Finished r\<close> has returned \<open>r\<close>.
\<close>

fun install_step ::
    "'e font_env_scheme \<Rightarrow> int \<Rightarrow> int \<Rightarrow> install_pc \<Rightarrow> 'a fm_state_scheme \<Rightarrow> install_pc \<times> 'a fm_state_scheme" where
  "install_step E fd userId Starting s =
     (case CheckAndInitInstallPath E s (install_path userId) of
        (False, s1) \<Rightarrow> (Finished ERR_FILE_NOT_EXISTS, s1)
      | (True, s1) \<Rightarrow> (Configuring, s1))"
| "install_step E fd userId Configuring s =
     (case SafeGetOrCreateConfig s userId (install_path userId @ FONT_CONFIG_FILE) of
        (cfg, s1) \<Rightarrow>
          let fullNameVector = GetFullNamesByFd E s1 fd in
          if length fullNameVector = 0 then (Finished ERR_FILE_VERIFY_FAIL, s1)
          else (Looking cfg fullNameVector fullNameVector, s1))"
| "install_step E fd userId (Looking cfg names []) s = (Counting cfg names, s)"
| "install_step E fd userId (Looking cfg names (fullName # rest)) s =
     (let findPath = GetFontFileByName E s cfg fullName in
      if findPath = [] then (Looking cfg names rest, s) else (Probing cfg names rest findPath, s))"
| "install_step E fd userId (Probing cfg names rest findPath) s =
     (if CheckPathExist E s (SandBoxPathToRealPath (install_path userId) findPath)
      then (Finished ERR_INSTALLED_ALRADY, s) else (Dropping cfg names rest findPath, s))"
| "install_step E fd userId (Dropping cfg names rest findPath) s =
     (case DeleteFontRecord E s cfg findPath of
        (False, s1) \<Rightarrow> (Finished ERR_INSTALL_FAIL, s1) | (True, s1) \<Rightarrow> (Looking cfg names rest, s1))"
| "install_step E fd userId (Counting cfg names) s =
     (if GetInstalledFontsNum E s cfg \<ge> GetMaxInstallNum E then (Finished ERR_MAX_FILE_COUNT, s)
      else (Copying cfg names, s))"
| "install_step E fd userId (Copying cfg names) s =
     (case CopyFileForInstall E s (install_path userId) (GetFileName (GetFilePathByFd E s fd)) fd of
        (destPath, s1) \<Rightarrow> if destPath = [] then (Finished ERR_COPY_FAIL, s1) else (Inserting cfg names destPath, s1))"
| "install_step E fd userId (Inserting cfg names destPath) s =
     (case InsertFontRecordIfUnderLimit E s cfg (INSTALL_PATH_APP @ GetFileName destPath) names (GetMaxInstallNum E) of
        (insertRet, s1) \<Rightarrow> if insertRet \<noteq> ERR_OK then (Discarding insertRet destPath, s1) else (Reporting names, s1))"
| "install_step E fd userId (Discarding insertRet destPath) s = (Finished insertRet, DeleteDir E s destPath True)"
| "install_step E fd userId (Reporting names) s =
     (Finished ERR_OK, report_update E s (install_path userId) userId INSTALL (GetFormatFullName names))"
| "install_step E fd userId (Finished r) s = (Finished r, s)"

primrec run_install ::
    "'e font_env_scheme \<Rightarrow> int \<Rightarrow> int \<Rightarrow> nat \<Rightarrow> install_pc \<times> 'a fm_state_scheme \<Rightarrow> install_pc \<times> 'a fm_state_scheme"
  where
  "run_install E fd userId 0 c = c"
| "run_install E fd userId (Suc n) c = run_install E fd userId n (install_step E fd userId (fst c) (snd c))"

section \<open>One thread alone\<close>

lemma run_install_Finished [simp]: "run_install E fd u n (Finished r, s) = (Finished r, s)"
  by (induction n) simp_all

text \<open>A number of steps that is large enough is a successor.\<close>

lemma enough: "Suc k \<le> m \<Longrightarrow> \<exists>n. m = Suc n \<and> k \<le> n"
  by (cases m) auto

abbreviation finished_as :: "int \<times> 's \<Rightarrow> install_pc \<times> 's" where
  "finished_as rs \<equiv> (Finished (fst rs), snd rs)"

lemma run_inserting:
  assumes "2 \<le> m"
  shows "run_install E fd u m (Inserting cfg ns destPath, s) =
     (case InsertFontRecordIfUnderLimit E s cfg (INSTALL_PATH_APP @ GetFileName destPath) ns (GetMaxInstallNum E) of
        (insertRet, s1) \<Rightarrow>
          if insertRet \<noteq> ERR_OK then (Finished insertRet, DeleteDir E s1 destPath True)
          else (Finished ERR_OK, report_update E s1 (install_path u) u INSTALL (GetFormatFullName ns)))"
proof -
  from assms obtain n where "m = Suc (Suc n)" by (metis add_2_eq_Suc le_Suc_ex)
  then show ?thesis by (auto split: prod.split)
qed

lemma run_copying:
  assumes "3 \<le> m"
  shows "run_install E fd u m (Copying cfg ns, s) =
     (case CopyFileForInstall E s (install_path u) (GetFileName (GetFilePathByFd E s fd)) fd of
        (destPath, s1) \<Rightarrow> if destPath = [] then (Finished ERR_COPY_FAIL, s1)
                         else run_install E fd u 2 (Inserting cfg ns destPath, s1))"
proof -
  from assms obtain n where n: "m = Suc n" "2 \<le> n" using enough [of 2 m] by auto
  then show ?thesis by (simp add: run_inserting split: prod.split)
qed

lemma run_counting:
  assumes "4 \<le> m"
  shows "run_install E fd u m (Counting cfg ns, s) = finished_as (install_new_font E cfg (install_path u) fd u ns s)"
proof -
  from assms obtain n where n: "m = Suc n" "3 \<le> n" using enough [of 3 m] by auto
  then show ?thesis by (simp add: run_copying run_inserting install_new_font_def Let_def split: prod.split)
qed

lemma run_looking:
  "3 * length rest + 5 \<le> m \<Longrightarrow>
   run_install E fd u m (Looking cfg ns rest, s) =
     (case clear_stale_names E cfg (install_path u) rest s of
        (Some err, s1) \<Rightarrow> (Finished err, s1)
      | (None, s1) \<Rightarrow> finished_as (install_new_font E cfg (install_path u) fd u ns s1))"
proof (induction rest arbitrary: s m)
  case Nil
  then obtain n where n: "m = Suc n" "4 \<le> n" using enough [of 4 m] by auto
  then show ?case using run_counting [OF n(2)] by simp
next
  case (Cons name rest)
  then obtain n where n: "m = Suc (Suc (Suc n))" "3 * length rest + 5 \<le> n"
    using le_Suc_ex [of "Suc (Suc (Suc (3 * length rest + 5)))" m] by auto
  have ge: "3 * length rest + 5 \<le> Suc (Suc n)" using n(2) by simp
  show ?case
    using Cons.IH [OF n(2)] Cons.IH [OF ge] unfolding n(1)
    by (auto simp: Let_def split: prod.split bool.split)
qed

text \<open>Left alone, a thread does what \<open>InstallFont\<close> does, in at most three steps for each name and seven more.\<close>

lemma run_install_alone:
  assumes "3 * length (GetFullNamesByFd E s fd) + 7 \<le> m"
  shows "run_install E fd u m (Starting, s) = finished_as (InstallFont E s fd u)"
proof -
  obtain b s1 where init: "CheckAndInitInstallPath E s (install_path u) = (b, s1)" by fastforce
  obtain cfg s2 where get: "SafeGetOrCreateConfig s1 u (install_path u @ FONT_CONFIG_FILE) = (cfg, s2)" by fastforce
  have "fds s1 = fds s" "fds s2 = fds s1"
    using frame_init_install [OF init] SafeGet_frame [OF get] by (simp_all add: frame_def fm_frame_def)
  then have names: "GetFullNamesByFd E s2 fd = GetFullNamesByFd E s fd" by (simp add: GetFullNamesByFd_def)
  from assms obtain n where n: "m = Suc (Suc n)" "3 * length (GetFullNamesByFd E s fd) + 5 \<le> n"
    using le_Suc_ex [of "Suc (Suc (3 * length (GetFullNamesByFd E s fd) + 5))" m] by auto
  show ?thesis
    by (cases b) (simp_all add: n InstallFont_def Let_def init get names run_looking split: prod.split option.split)
qed

end
