(* ===== verification/Removal_Threads.thy ===== *)
theory Removal_Threads
  imports Install_Threads
begin

text \<open>
  \<open>FontManager::UninstallFont\<close> on a thread of its own. As in \<open>Install_Threads\<close> the function holds no lock: it
  is cut between the operations of \<open>FontConfig\<close>, which lock, and the operations on the file, which do not. The
  checks of the record that was found and the resolution of its path read nothing that is shared, so they belong to
  the step of the lookup.
\<close>

datatype removal_pc =
    Entering
  | Seeking FontConfig
  | Testing FontConfig string string
  | Unlinking FontConfig string string
  | Erasing FontConfig string
  | Telling
  | Done int

fun removal_step ::
    "'e font_env_scheme \<Rightarrow> string \<Rightarrow> int \<Rightarrow> removal_pc \<Rightarrow> 'a fm_state_scheme \<Rightarrow> removal_pc \<times> 'a fm_state_scheme" where
  "removal_step E fontFullName userId Entering s =
     (if fontFullName = [] then (Done ERR_UNINSTALL_FILE_NOT_EXISTS, s)
      else case SafeGetOrCreateConfig s userId (install_path userId @ FONT_CONFIG_FILE) of
        (cfg, s1) \<Rightarrow> (Seeking cfg, s1))"
| "removal_step E fontFullName userId (Seeking cfg) s =
     (case GetFontRecordByName E s cfg fontFullName of
        None \<Rightarrow> (Done ERR_UNINSTALL_FILE_NOT_EXISTS, s)
      | Some record \<Rightarrow>
          if fr_fontPath record = [] then (Done ERR_UNINSTALL_FILE_NOT_EXISTS, s)
          else if fr_scope record \<ge> 0 then (Done ERR_UNINSTALL_FILE_NOT_EXISTS, s)
          else
            let path = fr_fontPath record;
                realPath = ValidateAndResolveRealPath E (install_path userId) path
            in if realPath = [] then (Done ERR_UNINSTALL_FILE_NOT_EXISTS, s) else (Testing cfg path realPath, s))"
| "removal_step E fontFullName userId (Testing cfg path realPath) s =
     (if CheckPathExist E s realPath then (Unlinking cfg path realPath, s) else (Erasing cfg path, s))"
| "removal_step E fontFullName userId (Unlinking cfg path realPath) s =
     (case RemoveFile E s realPath of
        (False, s1) \<Rightarrow> (Done ERR_UNINSTALL_REMOVE_FAIL, s1) | (True, s1) \<Rightarrow> (Erasing cfg path, s1))"
| "removal_step E fontFullName userId (Erasing cfg path) s =
     (case DeleteFontRecord E s cfg path of
        (False, s1) \<Rightarrow> (Done ERR_UNINSTALL_FAIL, s1) | (True, s1) \<Rightarrow> (Telling, s1))"
| "removal_step E fontFullName userId Telling s =
     (Done ERR_OK, report_update E s (install_path userId) userId UNINSTALL fontFullName)"
| "removal_step E fontFullName userId (Done r) s = (Done r, s)"

primrec run_removal ::
    "'e font_env_scheme \<Rightarrow> string \<Rightarrow> int \<Rightarrow> nat \<Rightarrow> removal_pc \<times> 'a fm_state_scheme \<Rightarrow> removal_pc \<times> 'a fm_state_scheme"
  where
  "run_removal E fontFullName userId 0 c = c"
| "run_removal E fontFullName userId (Suc n) c =
     run_removal E fontFullName userId n (removal_step E fontFullName userId (fst c) (snd c))"

lemma run_removal_Done [simp]: "run_removal E name u n (Done r, s) = (Done r, s)"
  by (induction n) simp_all

text \<open>Left alone, a thread does in at most six steps what \<open>UninstallFont\<close> does.\<close>

lemma run_erasing:
  assumes "2 \<le> m"
  shows "run_removal E name u m (Erasing cfg path, s) =
     (case DeleteFontRecord E s cfg path of
        (False, s1) \<Rightarrow> (Done ERR_UNINSTALL_FAIL, s1)
      | (True, s1) \<Rightarrow> (Done ERR_OK, report_update E s1 (install_path u) u UNINSTALL name))"
proof -
  from assms obtain n where "m = Suc (Suc n)" by (metis add_2_eq_Suc le_Suc_ex)
  then show ?thesis by (auto split: prod.split bool.split)
qed

lemma run_testing:
  assumes "4 \<le> m"
  shows "run_removal E name u m (Testing cfg path real, s) =
     (case (if CheckPathExist E s real then RemoveFile E s real else (True, s)) of
        (False, s1) \<Rightarrow> (Done ERR_UNINSTALL_REMOVE_FAIL, s1)
      | (True, s1) \<Rightarrow> run_removal E name u 2 (Erasing cfg path, s1))"
proof -
  from assms obtain n where n: "m = Suc (Suc n)" "2 \<le> n" "2 \<le> Suc n"
    using le_Suc_ex [of "Suc (Suc 2)" m] by auto
  have erase: "run_removal E name u k (Erasing cfg path, t) = run_removal E name u 2 (Erasing cfg path, t)" if "2 \<le> k" for k t
    by (simp only: run_erasing [OF that] run_erasing [OF le_refl])
  show ?thesis
  proof (cases "CheckPathExist E s real")
    case True
    then show ?thesis unfolding n(1) by (simp add: erase [OF n(2)] split: prod.split bool.split)
  next
    case False
    then show ?thesis unfolding n(1) using erase [OF n(3)] by simp
  qed
qed

lemma run_removal_alone:
  assumes "6 \<le> m"
  shows "run_removal E name u m (Entering, s) = (Done (fst (UninstallFont E s name u)), snd (UninstallFont E s name u))"
proof -
  from assms obtain n where n: "m = Suc (Suc n)" "4 \<le> n"
    using le_Suc_ex [of "Suc (Suc 4)" m] by auto
  obtain cfg s1 where get: "SafeGetOrCreateConfig s u (install_path u @ FONT_CONFIG_FILE) = (cfg, s1)" by fastforce
  show ?thesis
    unfolding n(1)
    by (simp add: UninstallFont_def Let_def get run_testing [OF n(2)] run_erasing
        split: option.split prod.split bool.split)
qed

end
