(* ===== verification/Font_Threads.thy ===== *)
theory Font_Threads
  imports Removal_Threads
begin

text \<open>
  Any number of installations and removals of fonts for one user at the same time. A call is an installation, on a
  thread whose identifier goes into the name of the copy (\<open>std::hash\<close> of \<open>std::this_thread::get_id()\<close>), or
  a removal; everything else of the environment is shared. A turn lets thread \<open>i\<close> take its next step on the shared
  state, a schedule is the list of the turns.
\<close>

record install_call =
  call_thread :: nat
  call_fd :: int

datatype font_call = Installs install_call | Removes string

datatype thread_pc = Installing install_pc | Removing removal_pc

primrec call_start :: "font_call \<Rightarrow> thread_pc" where
  "call_start (Installs c) = Installing Starting"
| "call_start (Removes n) = Removing Entering"

primrec call_result :: "font_call \<Rightarrow> int \<Rightarrow> thread_pc" where
  "call_result (Installs c) r = Installing (Finished r)"
| "call_result (Removes n) r = Removing (Done r)"

definition thread_env :: "'e font_env_scheme \<Rightarrow> nat \<Rightarrow> 'e font_env_scheme" where
  "thread_env E thread = E\<lparr>thread_hash := thread\<rparr>"

fun call_step ::
    "'e font_env_scheme \<Rightarrow> int \<Rightarrow> font_call \<Rightarrow> thread_pc \<Rightarrow> 'a fm_state_scheme \<Rightarrow> thread_pc \<times> 'a fm_state_scheme" where
  "call_step E userId (Installs c) (Installing pc) s =
     map_prod Installing id (install_step (thread_env E (call_thread c)) (call_fd c) userId pc s)"
| "call_step E userId (Removes n) (Removing pc) s = map_prod Removing id (removal_step E n userId pc s)"
| "call_step E userId _ pc s = (pc, s)"

definition turn ::
    "'e font_env_scheme \<Rightarrow> int \<Rightarrow> font_call list \<Rightarrow> nat \<Rightarrow> thread_pc list \<times> 'a fm_state_scheme
       \<Rightarrow> thread_pc list \<times> 'a fm_state_scheme" where
  "turn E userId calls i c =
     (let (pcs, s) = c in
      if i < length pcs then (case call_step E userId (calls ! i) (pcs ! i) s of (pc, s1) \<Rightarrow> (pcs[i := pc], s1)) else c)"

definition interleave ::
    "'e font_env_scheme \<Rightarrow> int \<Rightarrow> font_call list \<Rightarrow> nat list \<Rightarrow> 'a fm_state_scheme
       \<Rightarrow> thread_pc list \<times> 'a fm_state_scheme" where
  "interleave E userId calls schedule s = fold (turn E userId calls) schedule (map call_start calls, s)"

lemma turn_length [simp]: "length (fst (turn E u calls i c)) = length (fst c)"
  by (simp add: turn_def split: prod.split)

lemma fold_turn_length [simp]: "length (fst (fold (turn E u calls) is c)) = length (fst c)"
  by (induction "is" arbitrary: c) simp_all

section \<open>Consecutive turns of one thread\<close>

definition run_call ::
    "'e font_env_scheme \<Rightarrow> int \<Rightarrow> font_call \<Rightarrow> nat \<Rightarrow> thread_pc \<times> 'a fm_state_scheme \<Rightarrow> thread_pc \<times> 'a fm_state_scheme" where
  "run_call E userId call n = (\<lambda>c. call_step E userId call (fst c) (snd c)) ^^ n"

lemma run_call_install:
  "run_call E u (Installs c) n (Installing pc, s) =
     map_prod Installing id (run_install (thread_env E (call_thread c)) (call_fd c) u n (pc, s))"
  by (induction n arbitrary: pc s) (simp_all add: run_call_def funpow_Suc_right map_prod_def split_beta del: funpow.simps)

lemma run_call_removal:
  "run_call E u (Removes name) n (Removing pc, s) = map_prod Removing id (run_removal E name u n (pc, s))"
  by (induction n arbitrary: pc s) (simp_all add: run_call_def funpow_Suc_right map_prod_def split_beta del: funpow.simps)

text \<open>What the function of a call does when nothing comes between.\<close>

primrec call_alone :: "'e font_env_scheme \<Rightarrow> int \<Rightarrow> font_call \<Rightarrow> 'a fm_state_scheme \<Rightarrow> int \<times> 'a fm_state_scheme" where
  "call_alone E userId (Installs c) s = InstallFont (thread_env E (call_thread c)) s (call_fd c) userId"
| "call_alone E userId (Removes n) s = UninstallFont E s n userId"

text \<open>How many steps the thread of a call takes at most: three for each name of its font and seven, or six.\<close>

primrec call_steps :: "'e font_env_scheme \<Rightarrow> 'a world_scheme \<Rightarrow> font_call \<Rightarrow> nat" where
  "call_steps E w (Installs c) = 3 * length (GetFullNamesByFd E w (call_fd c)) + 7"
| "call_steps E w (Removes n) = 6"

lemma thread_names [simp]: "GetFullNamesByFd (thread_env E h) = GetFullNamesByFd E"
  by (intro ext) (simp add: GetFullNamesByFd_def thread_env_def split: option.split)

lemma run_call_alone:
  "call_steps E s call \<le> n \<Longrightarrow>
   run_call E u call n (call_start call, s) = map_prod (call_result call) id (call_alone E u call s)"
  by (cases call) (simp_all add: run_call_install run_call_removal run_install_alone run_removal_alone map_prod_def split_beta)

lemma turn_power:
  assumes "i < length pcs"
  shows "(turn E u calls i ^^ n) (pcs, s) =
     (case run_call E u (calls ! i) n (pcs ! i, s) of (pc, s1) \<Rightarrow> (pcs[i := pc], s1))"
  using assms
proof (induction n arbitrary: pcs s)
  case (Suc n)
  obtain pc s1 where step: "call_step E u (calls ! i) (pcs ! i) s = (pc, s1)" by fastforce
  have "turn E u calls i (pcs, s) = (pcs[i := pc], s1)" using Suc.prems step by (simp add: turn_def)
  then show ?case
    using Suc.IH [of "pcs[i := pc]" s1] Suc.prems step
    by (simp add: run_call_def funpow_Suc_right split: prod.split del: funpow.simps)
qed (simp add: run_call_def)

end
