(* ===== verification/Font_Interleaving.thy ===== *)
theory Font_Interleaving
  imports Font_Threads Manager_Progress Manager_Store
begin

text \<open>
  The invariant of concurrent installations and removals: whatever turns the threads take, the file of a font that
  is being recorded is whole, a record that was written stays unless somebody asked for its removal, and the number
  of records stays below the limit.
\<close>

section \<open>The environment of a thread\<close>

lemma thread_env_simps [simp]:
  "sys_fault (thread_env E h) = sys_fault E" "fwrite_count (thread_env E h) = fwrite_count E"
  "cJSON_Parse (thread_env E h) = cJSON_Parse E" "thread_hash (thread_env E h) = h"
  "GetFontFullName (thread_env E h) = GetFontFullName E" "sendfile_script (thread_env E h) = sendfile_script E"
  "GetFileTime (thread_env E h) = GetFileTime E"
  by (simp_all add: thread_env_def GetFileTime_def Let_def)

lemma thread_env_cjson:
  "cJSON_Parse (thread_env E h) = cJSON_Parse E" "cJSON_Print (thread_env E h) = cJSON_Print E"
  "cJSON_IsArray (thread_env E h) = cJSON_IsArray E" "cJSON_IsString (thread_env E h) = cJSON_IsString E"
  "cJSON_IsNumber (thread_env E h) = cJSON_IsNumber E" "cJSON_GetObjectItem (thread_env E h) = cJSON_GetObjectItem E"
  "cJSON_GetArraySize (thread_env E h) = cJSON_GetArraySize E" "cJSON_GetArrayItem (thread_env E h) = cJSON_GetArrayItem E"
  "cJSON_CreateString (thread_env E h) = cJSON_CreateString E" "cJSON_CreateNumber (thread_env E h) = cJSON_CreateNumber E"
  "cJSON_CreateArray (thread_env E h) = cJSON_CreateArray E" "cJSON_CreateObject (thread_env E h) = cJSON_CreateObject E"
  "cJSON_AddItemToArray (thread_env E h) = cJSON_AddItemToArray E"
  "cJSON_AddItemToObject (thread_env E h) = cJSON_AddItemToObject E"
  "cJSON_DeleteItemFromArray (thread_env E h) = cJSON_DeleteItemFromArray E"
  "cJSON_DeleteItemFromObject (thread_env E h) = cJSON_DeleteItemFromObject E"
  "cJSON_ReplaceItemInObject (thread_env E h) = cJSON_ReplaceItemInObject E"
  by (simp_all add: thread_env_def)

lemma thread_env_library: "config_library E \<Longrightarrow> config_library (thread_env E h)"
  unfolding config_library_def cjson_library_def thread_env_cjson .

lemma thread_env_memory: "config_memory E \<Longrightarrow> config_memory (thread_env E h)"
  unfolding config_memory_def cjson_memory_def cjson_memory_axioms_def cjson_library_def thread_env_cjson .

lemma thread_env_reads [simp]:
  "CheckPathExist (thread_env E h) = CheckPathExist E" "GetMaxInstallNum (thread_env E h) = GetMaxInstallNum E"
  "LoadConfig (thread_env E h) = LoadConfig E" "config_items (thread_env E h) = config_items E"
  "GetFilePathByFd (thread_env E h) = GetFilePathByFd E"
proof -
  show path: "CheckPathExist (thread_env E h) = CheckPathExist E"
    by (simp add: fun_eq_iff CheckPathExist_def)
  show "GetMaxInstallNum (thread_env E h) = GetMaxInstallNum E"
    by (simp add: GetMaxInstallNum_def thread_env_def)
  show load: "LoadConfig (thread_env E h) = LoadConfig E"
    by (intro ext) (simp only: LoadConfig_def CheckConfigFile_def path GetFileData_def fopen_r_def thread_env_simps)
  show "config_items (thread_env E h) = config_items E"
    by (simp add: fun_eq_iff config_items_def load)
  show "GetFilePathByFd (thread_env E h) = GetFilePathByFd E"
    by (intro ext) (simp only: GetFilePathByFd_def thread_env_simps)
qed

lemma to_string_no_underscore: "CHR ''_'' \<notin> set (to_string (int n))"
  by (auto simp: to_string_def is_digit_def dest!: nat_digits_all_digits)

lemma split_at_char: "xs @ c # ys = xs' @ c # ys' \<Longrightarrow> c \<notin> set xs \<Longrightarrow> c \<notin> set xs' \<Longrightarrow> xs = xs'"
  by (induction xs arbitrary: xs') (auto simp: Cons_eq_append_conv append_eq_Cons_conv)

text \<open>Copies made by different threads have different names.\<close>

lemma copy_name_thread:
  assumes "copy_name (thread_env E h) n = copy_name (thread_env E h') n'"
  shows "h = h'"
proof -
  from assms have "to_string (int h) @ CHR ''_'' # n = to_string (int h') @ CHR ''_'' # n'"
    by (simp add: copy_name_def)
  from split_at_char [OF this to_string_no_underscore to_string_no_underscore] show ?thesis by simp
qed

section \<open>A copy touches two paths\<close>

lemma CopyFileForInstall_others:
  assumes run: "CopyFileForInstall E w (a @ ''/'') n fd = (r, w')" and n: "CHR ''/'' \<notin> set n"
    and q: "q \<noteq> resolve (a @ ''/'') @ [copy_name E n]" "\<not> prefix (resolve (a @ ''/'') @ [''temp'', copy_name E n]) q"
  shows "node_at w' q = node_at w q"
proof -
  let ?t = "(a @ ''/'') @ TEMP_FILE @ copy_name E n" and ?d = "(a @ ''/'') @ copy_name E n"
  have rt: "resolve ?t = resolve (a @ ''/'') @ [''temp'', copy_name E n]"
    by (rule resolve_dir_temp_name [OF simple_copy_name [OF n]])
  have rd: "resolve ?d = resolve (a @ ''/'') @ [copy_name E n]"
    by (rule resolve_dir_name [OF simple_copy_name [OF n]])
  obtain b1 w1 where 1: "CopyFile E w fd ?t = (b1, w1)" by fastforce
  obtain b2 w2 where 2: "RenameFile E w1 ?t ?d = (b2, w2)" by fastforce
  have n1: "node_at w1 q = node_at w q"
    using frame_CopyFile [OF 1 prefix_order.refl] q(2) unfolding rt frame_def by simp
  have "w2 = w1 \<or> (\<exists>c. w2 = put_node (resolve ?d) (File c) (drop_tree (resolve ?t) w1))"
    using 2 by (auto simp: RenameFile_def rename_file_def split: if_splits option.splits)
  then have n2: "node_at w2 q = node_at w1 q"
    using q unfolding rt rd by (auto simp: world_simps)
  have n3: "node_at (snd (RemoveFile E w2 ?t)) q = node_at w2 q"
    using frame_RemoveFile [of "resolve ?t" ?t w2 E] q(2) unfolding rt frame_def by simp
  have "w' = w1 \<or> w' = w2 \<or> w' = snd (RemoveFile E w2 ?t)"
    using run 1 2 by (auto simp: CopyFileForInstall_alt split: bool.splits)
  with n1 n2 n3 show ?thesis by auto
qed

section \<open>The invariant\<close>

definition thread_file :: "'e font_env_scheme \<Rightarrow> 'a world_scheme \<Rightarrow> install_call \<Rightarrow> string" where
  "thread_file E w c = copy_name (thread_env E (call_thread c)) (GetFileName (GetFilePathByFd E w (call_fd c)))"

abbreviation thread_path :: "'e font_env_scheme \<Rightarrow> 'a world_scheme \<Rightarrow> install_call \<Rightarrow> string" where
  "thread_path E w c \<equiv> INSTALL_PATH_APP @ thread_file E w c"

text \<open>The whole font of a call is in its file; its record.\<close>

definition font_in_place :: "'e font_env_scheme \<Rightarrow> int \<Rightarrow> install_call \<Rightarrow> 'a world_scheme \<Rightarrow> 'b world_scheme \<Rightarrow> bool" where
  "font_in_place E u c w0 w \<longleftrightarrow>
     (\<exists>i. fds w0 (call_fd c) = Some i \<and> nat (st_size i) \<le> length (fd_data i) \<and>
        node_at w (install_dir u @ [thread_file E w0 c]) = Some (File (take (nat (st_size i)) (fd_data i))))"

definition font_record :: "'e font_env_scheme \<Rightarrow> install_call \<Rightarrow> 'a world_scheme \<Rightarrow> cJSON" where
  "font_record E c w0 = user_item (thread_path E w0 c) (GetFullNamesByFd E w0 (call_fd c))"

text \<open>Somebody asked for the removal of a font under one of the names that the record of a call holds.\<close>

definition wanted :: "'e font_env_scheme \<Rightarrow> 'a world_scheme \<Rightarrow> font_call list \<Rightarrow> install_call \<Rightarrow> bool" where
  "wanted E w0 calls c \<longleftrightarrow> (\<exists>n. Removes n \<in> set calls \<and> named n (font_record E c w0))"

text \<open>The thread has written its record.\<close>

fun recorded :: "thread_pc \<Rightarrow> bool" where
  "recorded (Installing (Reporting ns)) = True"
| "recorded (Installing (Finished r)) = (r = ERR_OK)"
| "recorded _ = False"

text \<open>Where the file of a recorded path is, and the places that no installation works in.\<close>

definition rec_file :: "int \<Rightarrow> string \<Rightarrow> path" where
  "rec_file u p = resolve (SandBoxPathToRealPath (install_path u) p)"

definition own_place :: "'e font_env_scheme \<Rightarrow> int \<Rightarrow> 'a world_scheme \<Rightarrow> font_call list \<Rightarrow> string \<Rightarrow> bool" where
  "own_place E u w0 calls p \<longleftrightarrow>
     (\<exists>d r. rec_file u p = install_dir u @ d # r \<and> d \<noteq> FONT_CONFIG_FILE \<and> d \<noteq> ''temp'' \<and>
        (\<forall>c. Installs c \<in> set calls \<longrightarrow> d \<noteq> thread_file E w0 c))"

text \<open>What a removal under the name \<open>n\<close> may have found: a record of the start, or one that an installation has written.\<close>

definition target ::
    "'e font_env_scheme \<Rightarrow> int \<Rightarrow> font_call list \<Rightarrow> 'a world_scheme \<Rightarrow> cJSON list \<Rightarrow> thread_pc list \<Rightarrow> string \<Rightarrow> string \<Rightarrow> bool"
  where
  "target E u calls w0 xs0 pcs n p \<longleftrightarrow>
     (own_place E u w0 calls p \<and> p \<in> recorded_paths xs0 \<or> (\<exists>c. Installs c \<in> set calls \<and> p = thread_path E w0 c)) \<and>
     (\<forall>j<length calls. \<forall>c. calls ! j = Installs c \<longrightarrow> p = thread_path E w0 c \<longrightarrow>
        recorded (pcs ! j) \<and> named n (font_record E c w0))"

text \<open>What is true of a thread at each position, given the records and all positions.\<close>

fun thread_ok ::
    "'e font_env_scheme \<Rightarrow> int \<Rightarrow> font_call list \<Rightarrow> 'a world_scheme \<Rightarrow> cJSON list \<Rightarrow> cJSON list \<Rightarrow> thread_pc list \<Rightarrow>
       'b world_scheme \<Rightarrow> font_call \<Rightarrow> thread_pc \<Rightarrow> bool" where
  "thread_ok E u calls w0 xs0 xs pcs w (Installs c) (Installing Starting) = True"
| "thread_ok E u calls w0 xs0 xs pcs w (Installs c) (Installing Configuring) = True"
| "thread_ok E u calls w0 xs0 xs pcs w (Installs c) (Installing (Looking cfg ns rest)) =
     (cfg = user_config u \<and> ns = GetFullNamesByFd E w0 (call_fd c))"
| "thread_ok E u calls w0 xs0 xs pcs w (Installs c) (Installing (Probing cfg ns rest p)) =
     (cfg = user_config u \<and> ns = GetFullNamesByFd E w0 (call_fd c) \<and>
      (\<forall>j<length calls. \<forall>d. calls ! j = Installs d \<longrightarrow> p = thread_path E w0 d \<longrightarrow> recorded (pcs ! j)))"
| "thread_ok E u calls w0 xs0 xs pcs w (Installs c) (Installing (Dropping cfg ns rest p)) =
     (cfg = user_config u \<and> ns = GetFullNamesByFd E w0 (call_fd c) \<and>
      (\<forall>d. Installs d \<in> set calls \<longrightarrow> p = thread_path E w0 d \<longrightarrow> wanted E w0 calls d))"
| "thread_ok E u calls w0 xs0 xs pcs w (Installs c) (Installing (Counting cfg ns)) =
     (cfg = user_config u \<and> ns = GetFullNamesByFd E w0 (call_fd c))"
| "thread_ok E u calls w0 xs0 xs pcs w (Installs c) (Installing (Copying cfg ns)) =
     (cfg = user_config u \<and> ns = GetFullNamesByFd E w0 (call_fd c))"
| "thread_ok E u calls w0 xs0 xs pcs w (Installs c) (Installing (Inserting cfg ns dest)) =
     (cfg = user_config u \<and> ns = GetFullNamesByFd E w0 (call_fd c) \<and>
      dest = install_path u @ thread_file E w0 c \<and> font_in_place E u c w0 w)"
| "thread_ok E u calls w0 xs0 xs pcs w (Installs c) (Installing (Discarding r dest)) =
     (r \<noteq> ERR_OK \<and> dest = install_path u @ thread_file E w0 c)"
| "thread_ok E u calls w0 xs0 xs pcs w (Installs c) (Installing (Reporting ns)) =
     (ns = GetFullNamesByFd E w0 (call_fd c) \<and>
      (wanted E w0 calls c \<or> font_in_place E u c w0 w \<and> font_record E c w0 \<in> set xs))"
| "thread_ok E u calls w0 xs0 xs pcs w (Installs c) (Installing (Finished r)) =
     (r = ERR_OK \<longrightarrow> wanted E w0 calls c \<or> font_in_place E u c w0 w \<and> font_record E c w0 \<in> set xs)"
| "thread_ok E u calls w0 xs0 xs pcs w (Removes n) (Removing Entering) = True"
| "thread_ok E u calls w0 xs0 xs pcs w (Removes n) (Removing (Seeking cfg)) = (cfg = user_config u)"
| "thread_ok E u calls w0 xs0 xs pcs w (Removes n) (Removing (Testing cfg p real)) =
     (cfg = user_config u \<and> real \<noteq> [] \<and> real = ValidateAndResolveRealPath E (install_path u) p \<and>
      target E u calls w0 xs0 pcs n p)"
| "thread_ok E u calls w0 xs0 xs pcs w (Removes n) (Removing (Unlinking cfg p real)) =
     (cfg = user_config u \<and> real \<noteq> [] \<and> real = ValidateAndResolveRealPath E (install_path u) p \<and>
      target E u calls w0 xs0 pcs n p)"
| "thread_ok E u calls w0 xs0 xs pcs w (Removes n) (Removing (Erasing cfg p)) =
     (cfg = user_config u \<and> target E u calls w0 xs0 pcs n p)"
| "thread_ok E u calls w0 xs0 xs pcs w (Removes n) (Removing Telling) = True"
| "thread_ok E u calls w0 xs0 xs pcs w (Removes n) (Removing (Done r)) = True"
| "thread_ok E u calls w0 xs0 xs pcs w call pc = False"

text \<open>
  The whole: \<open>xs0\<close> are the records of the start, which may have been more than the limit; every record is one of
  them or was written by an installation.
\<close>

definition new_records :: "'e font_env_scheme \<Rightarrow> 'a world_scheme \<Rightarrow> font_call list \<Rightarrow> cJSON set" where
  "new_records E w0 calls = {font_record E c w0 | c. Installs c \<in> set calls}"

definition threads_ok ::
    "'e font_env_scheme \<Rightarrow> int \<Rightarrow> font_call list \<Rightarrow> 'a world_scheme \<Rightarrow> cJSON list \<Rightarrow>
       thread_pc list \<times> 'b fm_state_scheme \<Rightarrow> bool" where
  "threads_ok E u calls w0 xs0 c \<longleftrightarrow>
     length (fst c) = length calls \<and> fds (snd c) = fds w0 \<and> configs_ok (snd c) \<and>
     (\<exists>xs. config_items E (snd c) (user_config u) = Some xs \<and>
        int (length xs) \<le> max (GetMaxInstallNum E) (int (length xs0)) \<and> set xs \<subseteq> set xs0 \<union> new_records E w0 calls \<and>
        (\<forall>i<length calls. thread_ok E u calls w0 xs0 xs (fst c) (snd c) (calls ! i) (fst c ! i)) \<and>
        (\<forall>i<length calls. \<forall>d. calls ! i = Installs d \<longrightarrow> thread_path E w0 d \<in> recorded_paths xs \<longrightarrow> recorded (fst c ! i)))"

text \<open>What the threads rely on: their identifiers differ, and the file system answers and takes every write.\<close>

fun other_thread :: "font_call \<Rightarrow> font_call \<Rightarrow> bool" where
  "other_thread (Installs c) (Installs d) = (call_thread c \<noteq> call_thread d)"
| "other_thread _ _ = True"

definition threads_env :: "'e font_env_scheme \<Rightarrow> int \<Rightarrow> font_call list \<Rightarrow> bool" where
  "threads_env E u calls \<longleftrightarrow>
     sorted_wrt other_thread calls \<and> (\<forall>p. \<not> sys_fault E (SysExists p)) \<and>
     (\<forall>n. n \<le> fwrite_count E (ConfigPath (user_config u)) n)"

text \<open>
  What they rely on at the start: no record names a file that will be new, and the records that are to be removed
  have their files in places of their own.
\<close>

definition records_apart :: "'e font_env_scheme \<Rightarrow> int \<Rightarrow> 'a world_scheme \<Rightarrow> font_call list \<Rightarrow> cJSON list \<Rightarrow> bool" where
  "records_apart E u w0 calls xs0 \<longleftrightarrow>
     (\<forall>c. Installs c \<in> set calls \<longrightarrow> thread_path E w0 c \<notin> recorded_paths xs0) \<and>
     (\<forall>x\<in>set xs0. \<forall>n p. Removes n \<in> set calls \<longrightarrow> named n x \<longrightarrow> has_text FONT_PATH p x \<longrightarrow> own_place E u w0 calls p)"

lemma other_threads:
  assumes "threads_env E u calls" "i < length calls" "j < length calls" "i \<noteq> j" "calls ! i = Installs c" "calls ! j = Installs d"
  shows "thread_file E w c \<noteq> thread_file E w d"
proof -
  have "other_thread (calls ! min i j) (calls ! max i j)"
    using assms(1-4) by (intro sorted_wrt_nth_less [where P = other_thread]) (auto simp: threads_env_def)
  then have "call_thread c \<noteq> call_thread d"
    using assms(4-6) by (cases "i < j") (auto simp: min_def max_def)
  then show ?thesis by (auto simp: thread_file_def dest: copy_name_thread)
qed

lemma thread_file_name [simp]:
  "simple_name (thread_file E w c)" "CHR ''/'' \<notin> set (thread_file E w c)" "thread_file E w c \<noteq> FONT_CONFIG_FILE"
  "thread_file E w c \<noteq> ''temp''" "is_cstring (thread_file E w c)"
proof -
  show "simple_name (thread_file E w c)"
    unfolding thread_file_def by (rule simple_copy_name [OF GetFileName_no_slash])
  then show "CHR ''/'' \<notin> set (thread_file E w c)" by (simp add: simple_name_def)
  show "thread_file E w c \<noteq> FONT_CONFIG_FILE" "thread_file E w c \<noteq> ''temp''" "is_cstring (thread_file E w c)"
    unfolding thread_file_def by (rule copy_name_not_config is_cstring_copy_name)+
qed

lemma config_not_thread_file [simp]: "FONT_CONFIG_FILE \<noteq> thread_file E w c"
  using thread_file_name(3) [of E w c] by metis

lemma temp_not_thread_file [simp]: "''temp'' \<noteq> thread_file E w c"
  using thread_file_name(4) [of E w c] by metis

lemma thread_path_cstring [simp]: "is_cstring (thread_path E w c)" "c_str (thread_path E w c) = thread_path E w c"
  by (simp_all add: path_defs NUL_def)

section \<open>One thread moves\<close>

text \<open>
  A step of thread \<open>i\<close> keeps the invariant if it leaves the files and the records of the others alone unless
  their removal is wanted, keeps to the limit, and brings the thread into a position that is right for it.
\<close>

lemma target_mono:
  assumes "target E u calls w0 xs0 pcs n p" "\<forall>j<length calls. recorded (pcs ! j) \<longrightarrow> recorded (pcs' ! j)"
  shows "target E u calls w0 xs0 pcs' n p"
  using assms unfolding target_def by blast

lemma target_update:
  "target E u calls w0 xs0 pcs n p \<Longrightarrow> \<not> recorded (pcs ! i) \<Longrightarrow> target E u calls w0 xs0 (pcs[i := pc]) n p"
  by (erule target_mono) (metis nth_list_update_neq)

lemma thread_ok_other:
  assumes "thread_ok E u calls w0 xs0 xs pcs w call pc"
    and "\<forall>j<length calls. recorded (pcs ! j) \<longrightarrow> recorded (pcs' ! j)"
    and "\<And>c. call = Installs c \<Longrightarrow> \<not> wanted E w0 calls c \<Longrightarrow> font_record E c w0 \<in> set xs \<Longrightarrow> font_record E c w0 \<in> set ys"
    and "\<And>c. call = Installs c \<Longrightarrow> \<not> (recorded pc \<and> wanted E w0 calls c) \<Longrightarrow> font_in_place E u c w0 w \<Longrightarrow>
      font_in_place E u c w0 w'"
  shows "thread_ok E u calls w0 xs0 ys pcs' w' call pc"
proof (cases call)
  case (Installs c)
  with assms show ?thesis
  proof (cases pc)
    case (Installing ipc)
    with assms Installs show ?thesis by (cases ipc) auto
  qed simp
next
  case (Removes n)
  with assms show ?thesis
  proof (cases pc)
    case (Removing rpc)
    with assms Removes show ?thesis by (cases rpc) (auto intro: target_mono)
  qed simp
qed

lemma threads_ok_move:
  assumes ok: "threads_ok E u calls w0 xs0 (pcs, s)" and i: "i < length calls"
    and items: "config_items E s (user_config u) = Some xs"
    and s': "fds s' = fds s" "configs_ok s'" "config_items E s' (user_config u) = Some ys"
      "int (length ys) \<le> max (GetMaxInstallNum E) (int (length xs0))"
    and sub: "set ys \<subseteq> set xs \<union> new_records E w0 calls"
    and place: "\<And>j c. j < length calls \<Longrightarrow> j \<noteq> i \<Longrightarrow> calls ! j = Installs c \<Longrightarrow>
      \<not> (recorded (pcs ! j) \<and> wanted E w0 calls c) \<Longrightarrow> font_in_place E u c w0 s \<Longrightarrow> font_in_place E u c w0 s'"
    and rec: "\<And>j c. j < length calls \<Longrightarrow> j \<noteq> i \<Longrightarrow> calls ! j = Installs c \<Longrightarrow> \<not> wanted E w0 calls c \<Longrightarrow>
      font_record E c w0 \<in> set xs \<Longrightarrow> font_record E c w0 \<in> set ys"
    and new: "\<And>j c. j < length calls \<Longrightarrow> calls ! j = Installs c \<Longrightarrow> thread_path E w0 c \<in> recorded_paths ys \<Longrightarrow>
      thread_path E w0 c \<in> recorded_paths xs \<or> j = i \<and> recorded pc"
    and stays: "recorded (pcs ! i) \<Longrightarrow> recorded pc"
    and me: "thread_ok E u calls w0 xs0 ys (pcs[i := pc]) s' (calls ! i) pc"
  shows "threads_ok E u calls w0 xs0 (pcs[i := pc], s')"
proof -
  from ok items have len: "length pcs = length calls" and f: "fds s = fds w0"
    and all: "\<And>j. j < length calls \<Longrightarrow> thread_ok E u calls w0 xs0 xs pcs s (calls ! j) (pcs ! j)"
    and recd: "\<And>j c. j < length calls \<Longrightarrow> calls ! j = Installs c \<Longrightarrow> thread_path E w0 c \<in> recorded_paths xs \<Longrightarrow> recorded (pcs ! j)"
    and old: "set xs \<subseteq> set xs0 \<union> new_records E w0 calls"
    by (auto simp: threads_ok_def)
  have keep: "\<forall>j<length calls. recorded (pcs ! j) \<longrightarrow> recorded (pcs[i := pc] ! j)"
    using stays i len by (auto simp: nth_list_update)
  have "thread_ok E u calls w0 xs0 ys (pcs[i := pc]) s' (calls ! j) (pcs[i := pc] ! j)" if j: "j < length calls" for j
  proof (cases "j = i")
    case True
    with me i len show ?thesis by simp
  next
    case False
    have "thread_ok E u calls w0 xs0 ys (pcs[i := pc]) s' (calls ! j) (pcs ! j)"
      by (rule thread_ok_other [OF all [OF j] keep]) (use rec [OF j False] place [OF j False] in simp_all)
    with False show ?thesis by simp
  qed
  moreover have "recorded (pcs[i := pc] ! j)" if j: "j < length calls" "calls ! j = Installs c"
    "thread_path E w0 c \<in> recorded_paths ys" for j c
    using new [OF j] recd [OF j(1,2)] keep j(1) i len by auto
  moreover have "set ys \<subseteq> set xs0 \<union> new_records E w0 calls" using sub old by blast
  ultimately show ?thesis using s' f len by (simp add: threads_ok_def)
qed

text \<open>A step that changes no file.\<close>

lemma threads_ok_still:
  assumes ok: "threads_ok E u calls w0 xs0 (pcs, s)" and i: "i < length calls"
    and items: "config_items E s (user_config u) = Some xs"
    and s': "fds s' = fds s" "configs_ok s'" "\<And>q. node_at s' q = node_at s q"
    and stays: "recorded (pcs ! i) \<Longrightarrow> recorded pc"
    and me: "thread_ok E u calls w0 xs0 xs (pcs[i := pc]) s (calls ! i) pc"
  shows "threads_ok E u calls w0 xs0 (pcs[i := pc], s')"
proof -
  have items': "config_items E s' (user_config u) = Some xs"
    unfolding config_items_cong [OF s'(3)] by (rule items)
  have place: "font_in_place E u c w0 s' = font_in_place E u c w0 s" for c
    by (simp add: font_in_place_def s'(3))
  have "thread_ok E u calls w0 xs0 xs (pcs[i := pc]) s' (calls ! i) pc"
    by (rule thread_ok_other [OF me]) (simp_all add: place)
  with ok items items' show ?thesis
    by (intro threads_ok_move [OF ok i items s'(1,2) items' _ _ _ _ _ stays]) (auto simp: threads_ok_def place)
qed

text \<open>What the invariant says when the records are known.\<close>

lemma threads_okE:
  assumes "threads_ok E u calls w0 xs0 (pcs, s)" "i < length calls"
  obtains xs where "config_items E s (user_config u) = Some xs" "configs_ok s" "fds s = fds w0"
    "int (length xs) \<le> max (GetMaxInstallNum E) (int (length xs0))" "set xs \<subseteq> set xs0 \<union> new_records E w0 calls"
    "thread_ok E u calls w0 xs0 xs pcs s (calls ! i) (pcs ! i)" "length pcs = length calls"
    "\<And>j. j < length calls \<Longrightarrow> thread_ok E u calls w0 xs0 xs pcs s (calls ! j) (pcs ! j)"
    "\<And>j c. j < length calls \<Longrightarrow> calls ! j = Installs c \<Longrightarrow> thread_path E w0 c \<in> recorded_paths xs \<Longrightarrow> recorded (pcs ! j)"
  using assms by (auto simp: threads_ok_def)

section \<open>The steps\<close>

lemma WriteToFile_reliable:
  "\<forall>n. n \<le> fwrite_count E (ConfigPath cfg) n \<Longrightarrow> WriteToFile E w cfg t = (False, w') \<Longrightarrow> w' = w"
  by (auto simp: WriteToFile_def fwrite_all_def Let_def min.absorb2 split: option.splits)

lemma delete_by_member_reliable:
  "\<forall>n. n \<le> fwrite_count E (ConfigPath cfg) n \<Longrightarrow> delete_by_member E w cfg key v = (False, w') \<Longrightarrow> w' = w"
  by (auto simp: delete_by_member_def dest: WriteToFile_reliable split: option.splits prod.splits)

lemma InsertFontRecordIfUnderLimit_reliable:
  "\<forall>n. n \<le> fwrite_count E (ConfigPath cfg) n \<Longrightarrow> InsertFontRecordIfUnderLimit E w cfg p ns m = (r, w') \<Longrightarrow>
     r \<noteq> ERR_OK \<Longrightarrow> w' = w"
  by (auto simp: InsertFontRecordIfUnderLimit_def dest: WriteToFile_reliable
      split: option.splits prod.splits bool.splits if_splits)

lemma thread_file_resolve:
  "resolve (install_path u @ thread_file E w c) = install_dir u @ [thread_file E w c]"
  by (rule resolve_install_path_name) simp

text \<open>What is recorded under the path of a call is looked for where the call put it.\<close>

lemma thread_path_real: "SandBoxPathToRealPath (install_path u) (thread_path E w c) = install_path u @ thread_file E w c"
  by (simp add: SandBoxPathToRealPath_def)

lemma font_in_place_exists:
  assumes "font_in_place E u c w0 w" "\<forall>p. \<not> sys_fault E (SysExists p)"
  shows "CheckPathExist E w (SandBoxPathToRealPath (install_path u) (thread_path E w0 c))"
  using assms wants_dir_name [of "thread_file E w0 c" "install_path u"]
  by (auto simp: thread_path_real CheckPathExist_def path_exists_def thread_file_resolve font_in_place_def)

lemma font_in_place_cong:
  assumes "\<And>q. q = install_dir u @ [thread_file E w0 c] \<Longrightarrow> node_at w q \<noteq> None \<Longrightarrow> node_at w' q = node_at w q"
  shows "font_in_place E u c w0 w \<Longrightarrow> font_in_place E u c w0 w'"
  using assms by (fastforce simp: font_in_place_def)

lemma font_record_text: "has_text FONT_PATH p (font_record E c w) \<longleftrightarrow> p = thread_path E w c"
  by (auto simp: has_text_def font_record_def jstring_user_item)

text \<open>A write of the configuration touches no font.\<close>

lemma font_in_place_config:
  "config_frame (user_config u) w w' \<Longrightarrow> font_in_place E u c w0 w \<Longrightarrow> font_in_place E u c w0 w'"
  unfolding config_frame_def resolve_config by (rule font_in_place_cong) simp_all

lemma config_frame_fm:
  "config_frame (user_config u) s s' \<Longrightarrow> configs_ok s \<Longrightarrow> fds s' = fds s \<and> configs_ok (s' :: 'a fm_state_scheme)"
  using frame_fm [OF frame_user_config] by (fastforce simp: fm_frame_def)

lemma thread_path_file [simp]: "rec_file u (thread_path E w c) = install_dir u @ [thread_file E w c]"
  by (simp add: rec_file_def thread_path_real thread_file_resolve)

lemma thread_file_inj:
  assumes "threads_env E u calls" "Installs c \<in> set calls" "Installs d \<in> set calls" "thread_file E w c = thread_file E w d"
  shows "c = d"
proof -
  from assms(2,3) obtain i j where i: "i < length calls" "calls ! i = Installs c" and j: "j < length calls" "calls ! j = Installs d"
    by (metis in_set_conv_nth)
  show ?thesis
  proof (cases "i = j")
    case True
    with i(2) j(2) show ?thesis by simp
  next
    case False
    from other_threads [OF assms(1) i(1) j(1) False i(2) j(2), of w] assms(4) show ?thesis by contradiction
  qed
qed

lemma find_member: "find P xs = Some x \<Longrightarrow> x \<in> set xs \<and> P x"
  by (auto simp: find_Some_iff)

text \<open>What a removal takes is neither the configuration nor the file of an installation that nobody wants removed.\<close>

lemma target_place:
  assumes "target E u calls w0 xs0 pcs n p"
  shows "\<exists>d r. rec_file u p = install_dir u @ d # r \<and> d \<noteq> FONT_CONFIG_FILE \<and> d \<noteq> ''temp''"
  using assms unfolding target_def own_place_def by fastforce

lemma target_other:
  assumes env: "threads_env E u calls" and t: "target E u calls w0 xs0 pcs n p" and n: "Removes n \<in> set calls"
    and j: "j < length calls" "calls ! j = Installs c" "\<not> (recorded (pcs ! j) \<and> wanted E w0 calls c)"
  shows "\<not> prefix (rec_file u p) (install_dir u @ [thread_file E w0 c])"
proof -
  have p: "p \<noteq> thread_path E w0 c" using t n j by (auto simp: target_def wanted_def)
  have c: "Installs c \<in> set calls" using j by (metis nth_mem)
  consider "own_place E u w0 calls p" | d where "Installs d \<in> set calls" "p = thread_path E w0 d"
    using t by (auto simp: target_def)
  then show ?thesis
  proof cases
    case 1
    with c show ?thesis by (auto simp: own_place_def)
  next
    case 2
    then obtain k where k: "k < length calls" "calls ! k = Installs d" by (auto simp: in_set_conv_nth)
    from 2(2) p have "k \<noteq> j" using j k by auto
    from other_threads [OF env k(1) j(1) this k(2) j(2)] show ?thesis by (simp add: 2(2))
  qed
qed

context config_library
begin

lemmas thread_laws = thread_env_library [OF config_library_axioms]

lemma start_keeps:
  assumes ok: "threads_ok E u calls w0 xs0 (pcs, s)" and i: "i < length calls" and call: "calls ! i = Installs c"
    and pc: "pcs ! i = Installing Starting" and step: "install_step (thread_env E h) fd u Starting s = (pc', s')"
  shows "threads_ok E u calls w0 xs0 (pcs[i := Installing pc'], s')"
  using ok i
proof (rule threads_okE)
  fix xs assume xs: "config_items E s (user_config u) = Some xs" and c: "configs_ok s"
    and len: "int (length xs) \<le> max (GetMaxInstallNum E) (int (length xs0))"
  obtain b where init: "CheckAndInitInstallPath (thread_env E h) s (install_path u) = (b, s')"
    and pc': "pc' = Configuring \<or> pc' = Finished ERR_FILE_NOT_EXISTS"
    using step by (auto split: prod.splits bool.splits)
  note keep = config_library.CheckAndInitInstallPath_keeps [OF thread_laws init, unfolded thread_env_reads, OF xs]
  have f: "fm_frame u [] s s'" using frame_init_install [OF init] by (rule frame_fm)
  show ?thesis
  proof (rule threads_ok_move [OF ok i xs _ _ keep(1) len])
    show "fds s' = fds s" "configs_ok s'" using f c by (simp_all add: fm_frame_def)
    show "font_in_place E u d w0 s'" if "font_in_place E u d w0 s" for d
      by (rule font_in_place_cong [OF _ that]) (rule keep(2))
    show "thread_ok E u calls w0 xs0 xs (pcs[i := Installing pc']) s' (calls ! i) (Installing pc')"
      using pc' by (auto simp: call err_defs)
  qed (simp_all add: pc)
qed

lemma configure_keeps:
  assumes ok: "threads_ok E u calls w0 xs0 (pcs, s)" and i: "i < length calls" and call: "calls ! i = Installs c"
    and pc: "pcs ! i = Installing Configuring"
    and step: "install_step (thread_env E h) (call_fd c) u Configuring s = (pc', s')"
  shows "threads_ok E u calls w0 xs0 (pcs[i := Installing pc'], s')"
  using ok i
proof (rule threads_okE)
  fix xs assume xs: "config_items E s (user_config u) = Some xs" and c: "configs_ok s" and f: "fds s = fds w0"
  obtain cfg where get: "SafeGetOrCreateConfig s u (install_path u @ FONT_CONFIG_FILE) = (cfg, s')"
    using step by (auto simp: Let_def split: prod.splits if_splits)
  note get' = SafeGetOrCreateConfig_eq [OF get c]
  have f': "fds s' = fds s" using get'(3) by (simp add: fm_frame_def)
  have ns: "GetFullNamesByFd E s' fd = GetFullNamesByFd E w0 fd" for fd by (simp add: GetFullNamesByFd_def f f')
  have pc': "pc' = Finished ERR_FILE_VERIFY_FAIL \<or> (\<exists>ns. pc' = Looking (user_config u) ns ns
      \<and> ns = GetFullNamesByFd E w0 (call_fd c))"
    using step get get'(1) by (auto simp: Let_def ns split: if_splits)
  show ?thesis
    by (rule threads_ok_still [OF ok i xs f' get'(2) get'(4)]) (use pc' in \<open>auto simp: pc call err_defs\<close>)
qed

lemma look_keeps:
  assumes ok: "threads_ok E u calls w0 xs0 (pcs, s)" and i: "i < length calls" and call: "calls ! i = Installs c"
    and pc: "pcs ! i = Installing (Looking cfg ns rest)"
    and step: "install_step (thread_env E h) fd u (Looking cfg ns rest) s = (pc', s')"
  shows "threads_ok E u calls w0 xs0 (pcs[i := Installing pc'], s')"
  using ok i
proof (rule threads_okE)
  fix xs assume xs: "config_items E s (user_config u) = Some xs" and c: "configs_ok s"
    and me: "thread_ok E u calls w0 xs0 xs pcs s (calls ! i) (pcs ! i)" and len: "length pcs = length calls"
    and recd: "\<And>j c. j < length calls \<Longrightarrow> calls ! j = Installs c \<Longrightarrow> thread_path E w0 c \<in> recorded_paths xs \<Longrightarrow> recorded (pcs ! j)"
  from me have cfg: "cfg = user_config u" "ns = GetFullNamesByFd E w0 (call_fd c)" by (simp_all add: pc call)
  have s': "s' = s" using step by (cases rest) (auto simp: Let_def split: if_splits)
  have "thread_ok E u calls w0 xs0 xs (pcs[i := Installing pc']) s (calls ! i) (Installing pc')"
  proof (cases rest)
    case Nil
    with step cfg show ?thesis by (auto simp: call)
  next
    case (Cons n rest')
    define p where "p = GetFontFileByName (thread_env E h) s cfg n"
    show ?thesis
    proof (cases "p = []")
      case True
      with step cfg Cons show ?thesis by (auto simp: p_def call)
    next
      case False
      with config_library.find_jtext [OF thread_laws, unfolded thread_env_reads, OF xs p_def [unfolded cfg(1), symmetric]]
      have "p \<in> recorded_paths xs" by (auto simp: recorded_paths_def)
      then have "recorded (pcs[i := Installing pc'] ! j)"
        if "j < length calls" "calls ! j = Installs d" "p = thread_path E w0 d" for j d
        using recd [of j d] that pc by (cases "j = i") auto
      with step cfg Cons False show ?thesis by (auto simp: Let_def p_def call)
    qed
  qed
  with s' show ?thesis
    using threads_ok_still [OF ok i xs _ c] by (simp add: pc)
qed

lemma probe_keeps:
  assumes ok: "threads_ok E u calls w0 xs0 (pcs, s)" and i: "i < length calls" and env: "threads_env E u calls"
    and call: "calls ! i = Installs c" and pc: "pcs ! i = Installing (Probing cfg ns rest p)"
    and step: "install_step (thread_env E h) fd u (Probing cfg ns rest p) s = (pc', s')"
  shows "threads_ok E u calls w0 xs0 (pcs[i := Installing pc'], s')"
  using ok i
proof (rule threads_okE)
  fix xs assume xs: "config_items E s (user_config u) = Some xs" and c: "configs_ok s"
    and me: "thread_ok E u calls w0 xs0 xs pcs s (calls ! i) (pcs ! i)"
    and all: "\<And>j. j < length calls \<Longrightarrow> thread_ok E u calls w0 xs0 xs pcs s (calls ! j) (pcs ! j)"
  have there: "wanted E w0 calls d \<or> CheckPathExist E s (SandBoxPathToRealPath (install_path u) p)"
    if d: "Installs d \<in> set calls" "p = thread_path E w0 d" for d
  proof -
    from d(1) obtain j where j: "j < length calls" "calls ! j = Installs d" by (auto simp: in_set_conv_nth)
    from me j d(2) have "recorded (pcs ! j)" by (simp add: pc call)
    with all [OF j(1)] j(2) have "wanted E w0 calls d \<or> font_in_place E u d w0 s"
      by (cases "pcs ! j" rule: recorded.cases) auto
    with env d(2) show ?thesis by (auto simp: threads_env_def intro: font_in_place_exists)
  qed
  have "thread_ok E u calls w0 xs0 xs (pcs[i := Installing pc']) s (calls ! i) (Installing pc') \<and> s' = s"
  proof (cases "CheckPathExist E s (SandBoxPathToRealPath (install_path u) p)")
    case True
    with step show ?thesis by (auto simp: call err_defs)
  next
    case False
    with there have "\<forall>d. Installs d \<in> set calls \<longrightarrow> p = thread_path E w0 d \<longrightarrow> wanted E w0 calls d" by blast
    with False step me show ?thesis by (auto simp: pc call)
  qed
  then show ?thesis using threads_ok_still [OF ok i xs _ c] by (simp add: pc)
qed

text \<open>A record is deleted: what installations wrote stays, unless it may go.\<close>

lemma delete_keeps:
  assumes ok: "threads_ok E u calls w0 xs0 (pcs, s)" and i: "i < length calls" and env: "threads_env E u calls"
    and p: "\<And>d. Installs d \<in> set calls \<Longrightarrow> p = thread_path E w0 d \<Longrightarrow> wanted E w0 calls d"
    and del: "DeleteFontRecord F s (user_config u) p = (b, s')" and F: "F = E \<or> (\<exists>h. F = thread_env E h)"
    and stays: "\<not> recorded (pcs ! i)"
    and me: "\<And>xs ys. thread_ok E u calls w0 xs0 xs pcs s (calls ! i) (pcs ! i) \<Longrightarrow>
      thread_ok E u calls w0 xs0 ys (pcs[i := pc]) s' (calls ! i) pc"
  shows "threads_ok E u calls w0 xs0 (pcs[i := pc], s')"
  using ok i
proof (rule threads_okE)
  fix xs assume xs: "config_items E s (user_config u) = Some xs" and c: "configs_ok s"
    and mine: "thread_ok E u calls w0 xs0 xs pcs s (calls ! i) (pcs ! i)"
    and len: "int (length xs) \<le> max (GetMaxInstallNum E) (int (length xs0))"
  note del' = del [unfolded DeleteFontRecord_def]
  have lib: "config_library F" using F thread_laws config_library_axioms by auto
  have items: "config_items F = config_items E" "fwrite_count F = fwrite_count E" using F by auto
  show ?thesis
  proof (cases b)
    case False
    with del' have "delete_by_member F s (user_config u) FONT_PATH p = (False, s')" by simp
    from delete_by_member_reliable [OF _ this] env have "s' = s" by (simp add: threads_env_def items)
    then show ?thesis
      using threads_ok_still [OF ok i xs _ c] me [OF mine] stays by simp
  next
    case True
    let ?ys = "remove_first (has_text FONT_PATH p) xs"
    note law = config_library.delete_by_member_eq [OF lib del', unfolded items xs]
    from law True have ys: "config_items E s' (user_config u) = Some ?ys" by (auto split: if_splits)
    note fr = delete_by_member_frame [OF del']
    have sub: "set ?ys \<subseteq> set xs" by (rule set_remove_first_subset)
    have "length ?ys \<le> length xs" by (induction xs) auto
    with len have len': "int (length ?ys) \<le> max (GetMaxInstallNum E) (int (length xs0))" by linarith
    show ?thesis
    proof (rule threads_ok_move [OF ok i xs _ _ ys len'])
      show "fds s' = fds s" "configs_ok s'" using config_frame_fm [OF fr c] by simp_all
      show "font_in_place E u d w0 s'" if "font_in_place E u d w0 s" for d
        by (rule font_in_place_config [OF fr that])
      show "font_record E d w0 \<in> set ?ys"
        if "j < length calls" "calls ! j = Installs d" "\<not> wanted E w0 calls d" "font_record E d w0 \<in> set xs" for j d
        using that p [of d] by (intro remove_first_keeps) (auto simp: font_record_text in_set_conv_nth)
      show "thread_path E w0 d \<in> recorded_paths xs \<or> j = i \<and> recorded pc"
        if "thread_path E w0 d \<in> recorded_paths ?ys" for j d
        using that sub by (auto simp: recorded_paths_def)
    qed (use sub stays me [OF mine] in auto)
  qed
qed

lemma drop_keeps:
  assumes ok: "threads_ok E u calls w0 xs0 (pcs, s)" and i: "i < length calls" and env: "threads_env E u calls"
    and call: "calls ! i = Installs c" and pc: "pcs ! i = Installing (Dropping cfg ns rest p)"
    and step: "install_step (thread_env E h) fd u (Dropping cfg ns rest p) s = (pc', s')"
  shows "threads_ok E u calls w0 xs0 (pcs[i := Installing pc'], s')"
  using ok i
proof (rule threads_okE)
  fix xs assume me: "thread_ok E u calls w0 xs0 xs pcs s (calls ! i) (pcs ! i)"
  obtain b where del: "DeleteFontRecord (thread_env E h) s (user_config u) p = (b, s')"
    and pc': "pc' = (if b then Looking cfg ns rest else Finished ERR_INSTALL_FAIL)"
    using step me by (auto simp: pc call split: prod.splits bool.splits)
  show ?thesis
    by (rule delete_keeps [OF ok i env _ del]) (use me in \<open>auto simp: pc pc' call err_defs\<close>)
qed

lemma copy_keeps:
  assumes ok: "threads_ok E u calls w0 xs0 (pcs, s)" and i: "i < length calls" and env: "threads_env E u calls"
    and call: "calls ! i = Installs c" and pc: "pcs ! i = Installing (Copying cfg ns)"
    and step: "install_step (thread_env E (call_thread c)) (call_fd c) u (Copying cfg ns) s = (pc', s')"
  shows "threads_ok E u calls w0 xs0 (pcs[i := Installing pc'], s')"
  using ok i
proof (rule threads_okE)
  fix xs assume xs: "config_items E s (user_config u) = Some xs" and c: "configs_ok s"
    and all: "thread_ok E u calls w0 xs0 xs pcs s (calls ! i) (pcs ! i)" and f: "fds s = fds w0"
    and len: "int (length xs) \<le> max (GetMaxInstallNum E) (int (length xs0))"
  from all pc have cfg: "cfg = user_config u" "ns = GetFullNamesByFd E w0 (call_fd c)" by (simp_all add: call)
  let ?E = "thread_env E (call_thread c)" and ?n = "GetFileName (GetFilePathByFd E w0 (call_fd c))"
  have n: "GetFilePathByFd E s (call_fd c) = GetFilePathByFd E w0 (call_fd c)"
    by (simp add: GetFilePathByFd_def f)
  obtain a where a: "install_path u = a @ ''/''" using install_path_dir by blast
  obtain dest where cp: "CopyFileForInstall ?E s (a @ ''/'') ?n (call_fd c) = (dest, s')"
    and pc': "pc' = (if dest = [] then Finished ERR_COPY_FAIL else Inserting cfg ns dest)"
    using step by (auto simp: n a split: prod.splits if_splits)
  have fname: "copy_name ?E ?n = thread_file E w0 c" by (simp add: thread_file_def)
  note others = CopyFileForInstall_others [OF cp GetFileName_no_slash, unfolded fname, folded a]
  have fr: "frame (install_dir u) [] s s'"
    using frame_CopyFileForInstall [OF cp GetFileName_no_slash, of "install_dir u"] by (simp add: a)
  have ys: "config_items E s' (user_config u) = Some xs"
    unfolding xs [symmetric] by (rule config_items_cong, rule others, unfold resolve_config)
      (auto dest: prefix_length_le)
  show ?thesis
  proof (rule threads_ok_move [OF ok i xs _ _ ys len])
    show "fds s' = fds s" "configs_ok s'" using frame_fm [OF fr] c by (simp_all add: fm_frame_def)
    show "font_in_place E u d w0 s'"
      if "j < length calls" "j \<noteq> i" "calls ! j = Installs d" "font_in_place E u d w0 s" for j d
    proof (rule font_in_place_cong [OF _ that(4)], rule others)
      fix q assume q: "q = install_dir u @ [thread_file E w0 d]"
      show "q \<noteq> install_dir u @ [thread_file E w0 c]"
        using other_threads [OF env that(1) i that(2,3) call] by (simp add: q)
      show "\<not> prefix (install_dir u @ [''temp'', thread_file E w0 c]) q"
        by (auto simp: q dest: prefix_length_le)
    qed
    show "thread_ok E u calls w0 xs0 xs (pcs[i := Installing pc']) s' (calls ! i) (Installing pc')"
    proof (cases "dest = []")
      case True
      then show ?thesis by (simp add: pc' call err_defs)
    next
      case False
      note cp' = CopyFileForInstall_ok [OF cp False GetFileName_no_slash, unfolded fname, folded a]
      have "font_in_place E u c w0 s'"
        using cp'(2) unfolding cp'(1) thread_file_resolve by (simp add: font_in_place_def f)
      with False cfg show ?thesis by (simp add: pc' call cp'(1))
    qed
  qed (simp_all add: pc)
qed

lemma new_record: "Installs c \<in> set calls \<Longrightarrow> font_record E c w0 \<in> new_records E w0 calls"
  by (auto simp: new_records_def)

text \<open>What an insertion does to the records: nothing, or the record of the call is appended.\<close>

lemma insert_step:
  assumes ok: "threads_ok E u calls w0 xs0 (pcs, s)" and i: "i < length calls" and env: "threads_env E u calls"
    and call: "calls ! i = Installs c" and pc: "pcs ! i = Installing (Inserting cfg ns dest)"
    and step: "install_step (thread_env E h) fd u (Inserting cfg ns dest) s = (pc', s')"
    and xs: "config_items E s (user_config u) = Some xs"
  shows "s' = s \<and> (\<exists>r. r \<noteq> ERR_OK \<and> pc' = Discarding r dest) \<or>
    config_items E s' (user_config u) = Some (xs @ [font_record E c w0]) \<and> config_frame (user_config u) s s' \<and>
    int (length xs) < GetMaxInstallNum E \<and> pc' = Reporting ns \<and> thread_path E w0 c \<notin> recorded_paths xs \<and>
    InsertFontRecordIfUnderLimit (thread_env E h) s (user_config u) (thread_path E w0 c)
      (GetFullNamesByFd E w0 (call_fd c)) (GetMaxInstallNum E) = (ERR_OK, s')"
  using ok i
proof (rule threads_okE)
  fix ys assume xs': "config_items E s (user_config u) = Some ys"
    and all: "thread_ok E u calls w0 xs0 ys pcs s (calls ! i) (pcs ! i)"
    and recd: "\<And>j c. j < length calls \<Longrightarrow> calls ! j = Installs c \<Longrightarrow> thread_path E w0 c \<in> recorded_paths ys \<Longrightarrow> recorded (pcs ! j)"
  from all pc have cfg: "cfg = user_config u" "ns = GetFullNamesByFd E w0 (call_fd c)"
    "dest = install_path u @ thread_file E w0 c" by (simp_all add: call)
  obtain a where a: "install_path u = a @ ''/''" using install_path_dir by blast
  have name: "GetFileName dest = thread_file E w0 c"
    unfolding cfg(3) a by (rule GetFileName_dir) simp
  obtain r where ins: "InsertFontRecordIfUnderLimit (thread_env E h) s (user_config u) (thread_path E w0 c)
      (GetFullNamesByFd E w0 (call_fd c)) (GetMaxInstallNum E) = (r, s')"
    and pc': "pc' = (if r \<noteq> ERR_OK then Discarding r dest else Reporting ns)"
    using step by (auto simp: cfg(1,2) name split: prod.splits if_splits)
  show ?thesis
  proof (cases "r = ERR_OK")
    case False
    with InsertFontRecordIfUnderLimit_reliable [OF _ ins] env have "s' = s" by (simp add: threads_env_def)
    with False show ?thesis by (simp add: pc')
  next
    case True
    note law = config_library.InsertFontRecordIfUnderLimit_eq [OF thread_laws ins, unfolded thread_env_reads xs]
    have fresh: "thread_path E w0 c \<notin> recorded_paths xs" using recd [OF i call] xs' xs pc by auto
    with law True have "config_items E s' (user_config u) = Some (xs @ [font_record E c w0])"
      "int (length xs) < GetMaxInstallNum E"
      by (auto simp: font_record_def err_defs split: if_splits)
    with True fresh ins InsertFontRecordIfUnderLimit_frame [OF ins] show ?thesis by (simp add: pc')
  qed
qed

lemma insert_keeps:
  assumes ok: "threads_ok E u calls w0 xs0 (pcs, s)" and i: "i < length calls" and env: "threads_env E u calls"
    and call: "calls ! i = Installs c" and pc: "pcs ! i = Installing (Inserting cfg ns dest)"
    and step: "install_step (thread_env E h) fd u (Inserting cfg ns dest) s = (pc', s')"
  shows "threads_ok E u calls w0 xs0 (pcs[i := Installing pc'], s')"
  using ok i
proof (rule threads_okE)
  fix xs assume xs: "config_items E s (user_config u) = Some xs" and c: "configs_ok s"
    and all: "thread_ok E u calls w0 xs0 xs pcs s (calls ! i) (pcs ! i)"
  from all have cfg: "ns = GetFullNamesByFd E w0 (call_fd c)" "dest = install_path u @ thread_file E w0 c"
    "font_in_place E u c w0 s" by (simp_all add: pc call)
  let ?ys = "xs @ [font_record E c w0]"
  from insert_step [OF ok i env call pc step xs] show ?thesis
  proof (elim disjE conjE exE)
    fix r assume "s' = s" "r \<noteq> ERR_OK" "pc' = Discarding r dest"
    then show ?thesis using threads_ok_still [OF ok i xs _ c] by (simp add: pc call cfg(2))
  next
    assume ys: "config_items E s' (user_config u) = Some ?ys" and fr: "config_frame (user_config u) s s'"
      and less: "int (length xs) < GetMaxInstallNum E" and pc': "pc' = Reporting ns"
    from less have len': "int (length ?ys) \<le> max (GetMaxInstallNum E) (int (length xs0))" by simp
    show ?thesis
    proof (rule threads_ok_move [OF ok i xs _ _ ys len'])
      show "fds s' = fds s" "configs_ok s'" using config_frame_fm [OF fr c] by simp_all
      show "set ?ys \<subseteq> set xs \<union> new_records E w0 calls" using new_record [of c] i call by (auto simp: in_set_conv_nth)
      show "font_in_place E u d w0 s'" if "font_in_place E u d w0 s" for d
        by (rule font_in_place_config [OF fr that])
      show "thread_path E w0 d \<in> recorded_paths xs \<or> j = i \<and> recorded (Installing pc')"
        if "j < length calls" "calls ! j = Installs d" "thread_path E w0 d \<in> recorded_paths ?ys" for j d
      proof (cases "j = i")
        case False
        from other_threads [OF env that(1) i False that(2) call] that(3) show ?thesis
          by (auto simp: recorded_paths_def font_record_text)
      qed (simp add: pc')
      show "thread_ok E u calls w0 xs0 ?ys (pcs[i := Installing pc']) s' (calls ! i) (Installing pc')"
        using font_in_place_config [OF fr cfg(3)] by (simp add: pc' call cfg(1))
    qed (simp_all add: pc)
  qed
qed

text \<open>The copy of a call is discarded: nothing else in the directory changes.\<close>

lemma discard_step:
  fixes s :: "'a fm_state_scheme"
  assumes "s' = DeleteDir F s (install_path u @ thread_file E w0 c) True"
  shows "frame (install_dir u) [] s s'" "\<not> prefix (install_dir u @ [thread_file E w0 c]) q \<Longrightarrow> node_at s' q = node_at s q"
proof -
  let ?d = "install_path u @ thread_file E w0 c"
  have rd: "resolve ?d = install_dir u @ [thread_file E w0 c]" by (rule thread_file_resolve)
  have fr: "frame (resolve ?d) [] s s'" unfolding assms by (rule frame_DeleteDir_root) simp
  then show "frame (install_dir u) [] s s'" by (rule frame_mono) (simp add: rd)
  show "\<not> prefix (install_dir u @ [thread_file E w0 c]) q \<Longrightarrow> node_at s' q = node_at s q"
    using fr unfolding frame_def rd by blast
qed

lemma discard_keeps:
  assumes ok: "threads_ok E u calls w0 xs0 (pcs, s)" and i: "i < length calls" and env: "threads_env E u calls"
    and call: "calls ! i = Installs c" and pc: "pcs ! i = Installing (Discarding r dest)"
    and step: "install_step (thread_env E h) fd u (Discarding r dest) s = (pc', s')"
  shows "threads_ok E u calls w0 xs0 (pcs[i := Installing pc'], s')"
  using ok i
proof (rule threads_okE)
  fix xs assume xs: "config_items E s (user_config u) = Some xs" and c: "configs_ok s"
    and all: "thread_ok E u calls w0 xs0 xs pcs s (calls ! i) (pcs ! i)"
    and len: "int (length xs) \<le> max (GetMaxInstallNum E) (int (length xs0))"
  from all have r: "r \<noteq> ERR_OK" and dest: "dest = install_path u @ thread_file E w0 c" by (simp_all add: pc call)
  from step have s': "s' = DeleteDir (thread_env E h) s (install_path u @ thread_file E w0 c) True"
    and pc': "pc' = Finished r" by (simp_all add: dest)
  note d = discard_step [OF s']
  have ys: "config_items E s' (user_config u) = Some xs"
    unfolding xs [symmetric] by (rule config_items_cong, unfold resolve_config, rule d(2)) simp
  show ?thesis
  proof (rule threads_ok_move [OF ok i xs _ _ ys len])
    show "fds s' = fds s" "configs_ok s'" using frame_fm [OF d(1)] c by (simp_all add: fm_frame_def)
    show "font_in_place E u d w0 s'"
      if "j < length calls" "j \<noteq> i" "calls ! j = Installs d" "font_in_place E u d w0 s" for j d
      using other_threads [OF env that(1) i that(2,3) call, of w0] d(2)
      by (intro font_in_place_cong [OF _ that(4)]) simp
  qed (simp_all add: pc pc' call r)
qed

text \<open>The steps of a removal.\<close>

lemma seek_step:
  assumes step: "removal_step E n u (Seeking cfg) s = (pc', s')" and xs: "config_items E s cfg = Some xs"
  shows "s' = s \<and> ((\<exists>r. pc' = Done r) \<or> (\<exists>x p. x \<in> set xs \<and> named n x \<and> has_text FONT_PATH p x \<and>
      ValidateAndResolveRealPath E (install_path u) p \<noteq> [] \<and>
      pc' = Testing cfg p (ValidateAndResolveRealPath E (install_path u) p)))"
proof (cases "find (named n) xs")
  case None
  with step xs show ?thesis by (auto simp: GetFontRecordByName_eq named_def [abs_def])
next
  case (Some x)
  then have x: "x \<in> set xs" "named n x" by (auto dest: find_member)
  have rec: "GetFontRecordByName E s cfg n = Some (jrecord x)"
    using Some xs by (simp add: GetFontRecordByName_eq named_def [abs_def])
  have "has_text FONT_PATH (jtext x FONT_PATH) x" if "jtext x FONT_PATH \<noteq> []"
    using that by (auto simp: jtext_def has_text_def split: option.splits)
  with x step rec show ?thesis by (auto simp: jrecord_def Let_def split: if_splits)
qed

lemma seek_keeps:
  assumes ok: "threads_ok E u calls w0 xs0 (pcs, s)" and i: "i < length calls" and env: "threads_env E u calls"
    and apart: "records_apart E u w0 calls xs0"
    and call: "calls ! i = Removes n" and pc: "pcs ! i = Removing (Seeking cfg)"
    and step: "removal_step E n u (Seeking cfg) s = (pc', s')"
  shows "threads_ok E u calls w0 xs0 (pcs[i := Removing pc'], s')"
  using ok i
proof (rule threads_okE)
  fix xs assume xs: "config_items E s (user_config u) = Some xs" and c: "configs_ok s"
    and me: "thread_ok E u calls w0 xs0 xs pcs s (calls ! i) (pcs ! i)" and len: "length pcs = length calls"
    and old: "set xs \<subseteq> set xs0 \<union> new_records E w0 calls"
    and recd: "\<And>j c. j < length calls \<Longrightarrow> calls ! j = Installs c \<Longrightarrow> thread_path E w0 c \<in> recorded_paths xs \<Longrightarrow> recorded (pcs ! j)"
  from me have cfg: "cfg = user_config u" by (simp add: pc call)
  have n: "Removes n \<in> set calls" using i call by (metis nth_mem)
  have me': "thread_ok E u calls w0 xs0 xs (pcs[i := Removing pc']) s (calls ! i) (Removing pc') \<and> s' = s"
    using seek_step [OF step xs [folded cfg]]
  proof (elim conjE disjE exE)
    fix x p
    assume x: "x \<in> set xs" "named n x" "has_text FONT_PATH p x" and s': "s' = s"
      and real: "ValidateAndResolveRealPath E (install_path u) p \<noteq> []"
        "pc' = Testing cfg p (ValidateAndResolveRealPath E (install_path u) p)"
    have path: "p \<in> recorded_paths xs" using x by (auto simp: recorded_paths_def)
    have new: "x = font_record E d w0" if d: "Installs d \<in> set calls" "p = thread_path E w0 d" for d
    proof -
      have "x \<notin> set xs0" using apart d x(3) by (auto simp: records_apart_def recorded_paths_def)
      with old x(1) obtain e where e: "Installs e \<in> set calls" "x = font_record E e w0" by (auto simp: new_records_def)
      with x(3) d(2) have "thread_file E w0 d = thread_file E w0 e" by (simp add: font_record_text)
      with thread_file_inj [OF env d(1) e(1), of w0] e(2) show ?thesis by simp
    qed
    have "own_place E u w0 calls p \<and> p \<in> recorded_paths xs0 \<or> (\<exists>c. Installs c \<in> set calls \<and> p = thread_path E w0 c)"
    proof (cases "x \<in> set xs0")
      case True
      with apart x n show ?thesis by (auto simp: records_apart_def recorded_paths_def)
    next
      case False
      with old x(1) obtain e where "Installs e \<in> set calls" "x = font_record E e w0" by (auto simp: new_records_def)
      with x(3) show ?thesis by (auto simp: font_record_text)
    qed
    moreover have "recorded (pcs ! j) \<and> named n (font_record E d w0)"
      if "j < length calls" "calls ! j = Installs d" "p = thread_path E w0 d" for j d
      using recd [of j d] new [of d] that path x(2) by (auto simp: in_set_conv_nth)
    ultimately have "target E u calls w0 xs0 pcs n p" by (auto simp: target_def)
    then have "target E u calls w0 xs0 (pcs[i := Removing pc']) n p"
      by (rule target_update) (simp add: pc)
    with real s' cfg show ?thesis by (simp add: call)
  qed (auto simp: call)
  then show ?thesis using threads_ok_still [OF ok i xs _ c] by (simp add: pc)
qed

lemma unlink_keeps:
  assumes ok: "threads_ok E u calls w0 xs0 (pcs, s)" and i: "i < length calls" and env: "threads_env E u calls"
    and call: "calls ! i = Removes n" and pc: "pcs ! i = Removing (Unlinking cfg p real)"
    and step: "removal_step E n u (Unlinking cfg p real) s = (pc', s')"
  shows "threads_ok E u calls w0 xs0 (pcs[i := Removing pc'], s')"
  using ok i
proof (rule threads_okE)
  fix xs assume xs: "config_items E s (user_config u) = Some xs" and c: "configs_ok s"
    and len: "int (length xs) \<le> max (GetMaxInstallNum E) (int (length xs0))"
    and me: "thread_ok E u calls w0 xs0 xs pcs s (calls ! i) (pcs ! i)"
  have n: "Removes n \<in> set calls" using i call by (metis nth_mem)
  from me have cfg: "cfg = user_config u" and real: "real \<noteq> []" "ValidateAndResolveRealPath E (install_path u) p = real"
    and t: "target E u calls w0 xs0 pcs n p" by (auto simp: pc call)
  have rf: "resolve real = rec_file u p"
    using ValidateAndResolveRealPath_below(2) [OF real(2,1)] by (simp add: rec_file_def)
  from target_place [OF t] obtain d r where place: "rec_file u p = install_dir u @ d # r" "d \<noteq> FONT_CONFIG_FILE" by blast
  obtain b where rm: "RemoveFile E s real = (b, s')"
    and pc': "pc' = (if b then Erasing cfg p else Done ERR_UNINSTALL_REMOVE_FAIL)"
    using step by (auto split: prod.splits bool.splits)
  have fr: "frame (rec_file u p) [] s s'" using frame_RemoveFile [of "rec_file u p" real s E] rm rf by simp
  then have fm: "frame (install_dir u) [] s s'" by (rule frame_mono) (simp add: place)
  have keep: "node_at s' q = node_at s q" if "\<not> prefix (rec_file u p) q" for q
    using fr that unfolding frame_def by blast
  have ys: "config_items E s' (user_config u) = Some xs"
    unfolding xs [symmetric] by (rule config_items_cong, unfold resolve_config, rule keep) (use place in auto)
  show ?thesis
  proof (rule threads_ok_move [OF ok i xs _ _ ys len])
    show "fds s' = fds s" "configs_ok s'" using frame_fm [OF fm] c by (simp_all add: fm_frame_def)
    show "font_in_place E u d w0 s'"
      if "j < length calls" "calls ! j = Installs d" "\<not> (recorded (pcs ! j) \<and> wanted E w0 calls d)"
        "font_in_place E u d w0 s" for j d
      using keep target_other [OF env t n that(1-3)] by (intro font_in_place_cong [OF _ that(4)]) blast
    show "thread_ok E u calls w0 xs0 xs (pcs[i := Removing pc']) s' (calls ! i) (Removing pc')"
      using target_update [OF t, of i] by (cases b) (simp_all add: call pc' cfg pc)
  qed (simp_all add: pc)
qed

lemma erase_keeps:
  assumes ok: "threads_ok E u calls w0 xs0 (pcs, s)" and i: "i < length calls" and env: "threads_env E u calls"
    and call: "calls ! i = Removes n" and pc: "pcs ! i = Removing (Erasing cfg p)"
    and step: "removal_step E n u (Erasing cfg p) s = (pc', s')"
  shows "threads_ok E u calls w0 xs0 (pcs[i := Removing pc'], s')"
  using ok i
proof (rule threads_okE)
  fix xs assume me: "thread_ok E u calls w0 xs0 xs pcs s (calls ! i) (pcs ! i)"
  have n: "Removes n \<in> set calls" using i call by (metis nth_mem)
  obtain b where del: "DeleteFontRecord E s (user_config u) p = (b, s')"
    and pc': "pc' = (if b then Telling else Done ERR_UNINSTALL_FAIL)"
    using step me by (auto simp: pc call split: prod.splits bool.splits)
  show ?thesis
  proof (rule delete_keeps [OF ok i env _ del])
    show "wanted E w0 calls d" if "Installs d \<in> set calls" "p = thread_path E w0 d" for d
      using me that n by (auto simp: pc call target_def wanted_def in_set_conv_nth)
  qed (auto simp: pc pc' call)
qed

text \<open>A report changes no file.\<close>

lemma report_keeps:
  assumes ok: "threads_ok E u calls w0 xs0 (pcs, s)" and i: "i < length calls"
    and s': "s' = report_update F s (install_path u) u t names" and stays: "recorded (pcs ! i) \<Longrightarrow> recorded pc"
    and me: "\<And>xs. thread_ok E u calls w0 xs0 xs pcs s (calls ! i) (pcs ! i) \<Longrightarrow>
      thread_ok E u calls w0 xs0 xs (pcs[i := pc]) s (calls ! i) pc"
  shows "threads_ok E u calls w0 xs0 (pcs[i := pc], s')"
  using ok i
proof (rule threads_okE)
  fix xs assume xs: "config_items E s (user_config u) = Some xs" and c: "configs_ok s"
    and mine: "thread_ok E u calls w0 xs0 xs pcs s (calls ! i) (pcs ! i)"
  have "fm_frame u (update_effects F (fs s) u t names) s s'" unfolding s' by (rule frame_fm, rule frame_report_update)
  with c have "fds s' = fds s" "configs_ok s'" by (simp_all add: fm_frame_def)
  moreover have "node_at s' q = node_at s q" for q by (simp add: s' world_simps)
  ultimately show ?thesis using threads_ok_still [OF ok i xs _ _ _ stays me [OF mine]] by blast
qed

section \<open>Every turn and every schedule\<close>

lemma install_keeps:
  assumes ok: "threads_ok E u calls w0 xs0 (pcs, s)" and i: "i < length calls" and env: "threads_env E u calls"
    and call: "calls ! i = Installs c" and ipc: "pcs ! i = Installing ipc"
    and step: "install_step (thread_env E (call_thread c)) (call_fd c) u ipc s = (pc', s')"
  shows "threads_ok E u calls w0 xs0 (pcs[i := Installing pc'], s')"
  using ok i
proof (rule threads_okE)
  fix xs assume xs: "config_items E s (user_config u) = Some xs" and cf: "configs_ok s"
    and all: "thread_ok E u calls w0 xs0 xs pcs s (calls ! i) (pcs ! i)"
  show ?thesis
  proof (cases ipc)
    case Starting
    then show ?thesis using start_keeps [OF ok i call _ step [unfolded Starting]] ipc by simp
  next
    case Configuring
    then show ?thesis using configure_keeps [OF ok i call _ step [unfolded Configuring]] ipc by simp
  next
    case (Looking cfg ns rest)
    then show ?thesis using look_keeps [OF ok i call _ step [unfolded Looking]] ipc by simp
  next
    case (Probing cfg ns rest p)
    then show ?thesis using probe_keeps [OF ok i env call _ step [unfolded Probing]] ipc by simp
  next
    case (Dropping cfg ns rest p)
    then show ?thesis using drop_keeps [OF ok i env call _ step [unfolded Dropping]] ipc by simp
  next
    case (Counting cfg ns)
    with step all have "s' = s" "thread_ok E u calls w0 xs0 xs (pcs[i := Installing pc']) s (calls ! i) (Installing pc')"
      by (auto simp: err_defs call ipc split: if_splits)
    then show ?thesis using threads_ok_still [OF ok i xs _ cf] Counting by (simp add: ipc)
  next
    case (Copying cfg ns)
    then show ?thesis using copy_keeps [OF ok i env call _ step [unfolded Copying]] ipc by simp
  next
    case (Inserting cfg ns dest)
    then show ?thesis using insert_keeps [OF ok i env call _ step [unfolded Inserting]] ipc by simp
  next
    case (Discarding r dest)
    then show ?thesis using discard_keeps [OF ok i env call _ step [unfolded Discarding]] ipc by simp
  next
    case (Reporting ns)
    with step have "s' = report_update (thread_env E (call_thread c)) s (install_path u) u INSTALL (GetFormatFullName ns)"
      and pc': "pc' = Finished ERR_OK" by simp_all
    from report_keeps [OF ok i this(1)] show ?thesis by (simp add: pc' ipc Reporting call)
  next
    case (Finished r)
    with step have "s' = s" "pc' = Finished r" by simp_all
    with threads_ok_still [OF ok i xs _ cf] all Finished show ?thesis by (simp add: ipc call)
  qed
qed

lemma removal_keeps:
  assumes ok: "threads_ok E u calls w0 xs0 (pcs, s)" and i: "i < length calls" and env: "threads_env E u calls"
    and apart: "records_apart E u w0 calls xs0" and call: "calls ! i = Removes n" and rpc: "pcs ! i = Removing rpc"
    and step: "removal_step E n u rpc s = (pc', s')"
  shows "threads_ok E u calls w0 xs0 (pcs[i := Removing pc'], s')"
  using ok i
proof (rule threads_okE)
  fix xs assume xs: "config_items E s (user_config u) = Some xs" and cf: "configs_ok s"
    and all: "thread_ok E u calls w0 xs0 xs pcs s (calls ! i) (pcs ! i)"
  show ?thesis
  proof (cases rpc)
    case Entering
    show ?thesis
    proof (cases "n = []")
      case True
      then show ?thesis using step threads_ok_still [OF ok i xs _ cf] Entering by (auto simp: rpc call)
    next
      case False
      obtain cfg where get: "SafeGetOrCreateConfig s u (install_path u @ FONT_CONFIG_FILE) = (cfg, s')"
        and pc': "pc' = Seeking cfg" using step False Entering by (auto split: prod.splits)
      note get' = SafeGetOrCreateConfig_eq [OF get cf]
      have "fds s' = fds s" using get'(3) by (simp add: fm_frame_def)
      then show ?thesis
        by (rule threads_ok_still [OF ok i xs _ get'(2) get'(4)]) (use get'(1) pc' Entering in \<open>simp_all add: rpc call\<close>)
    qed
  next
    case (Seeking cfg)
    then show ?thesis using seek_keeps [OF ok i env apart call _ step [unfolded Seeking]] rpc by simp
  next
    case (Testing cfg p real)
    with step all have "s' = s" "thread_ok E u calls w0 xs0 xs (pcs[i := Removing pc']) s (calls ! i) (Removing pc')"
      by (auto simp: call rpc intro!: target_update split: if_splits)
    then show ?thesis using threads_ok_still [OF ok i xs _ cf] Testing by (simp add: rpc)
  next
    case (Unlinking cfg p real)
    then show ?thesis using unlink_keeps [OF ok i env call _ step [unfolded Unlinking]] rpc by simp
  next
    case (Erasing cfg p)
    then show ?thesis using erase_keeps [OF ok i env call _ step [unfolded Erasing]] rpc by simp
  next
    case Telling
    with step have "s' = report_update E s (install_path u) u UNINSTALL n" and pc': "pc' = Done ERR_OK" by simp_all
    from report_keeps [OF ok i this(1)] show ?thesis by (simp add: pc' rpc Telling call)
  next
    case (Done r)
    with step have "s' = s" "pc' = Done r" by simp_all
    with threads_ok_still [OF ok i xs _ cf] all Done show ?thesis by (simp add: rpc call)
  qed
qed

lemma turn_keeps:
  assumes ok: "threads_ok E u calls w0 xs0 c" and env: "threads_env E u calls" and apart: "records_apart E u w0 calls xs0"
  shows "threads_ok E u calls w0 xs0 (turn E u calls i c)"
proof -
  obtain pcs s where c: "c = (pcs, s)" by fastforce
  show ?thesis
  proof (cases "i < length calls")
    case False
    with ok show ?thesis by (simp add: turn_def c threads_ok_def)
  next
    case i: True
    note ok' = ok [unfolded c]
    obtain xs where all: "thread_ok E u calls w0 xs0 xs pcs s (calls ! i) (pcs ! i)" and len: "length pcs = length calls"
      using threads_okE [OF ok' i] by metis
    consider a ipc where "calls ! i = Installs a" "pcs ! i = Installing ipc"
      | n rpc where "calls ! i = Removes n" "pcs ! i = Removing rpc"
      using all by (cases "calls ! i"; cases "pcs ! i") auto
    then show ?thesis
    proof cases
      case 1
      obtain pc' s' where "install_step (thread_env E (call_thread a)) (call_fd a) u ipc s = (pc', s')" by fastforce
      from install_keeps [OF ok' i env 1 this] this 1 i len show ?thesis by (simp add: turn_def c)
    next
      case 2
      obtain pc' s' where "removal_step E n u rpc s = (pc', s')" by fastforce
      from removal_keeps [OF ok' i env apart 2 this] this 2 i len show ?thesis by (simp add: turn_def c)
    qed
  qed
qed

text \<open>The start, and every schedule.\<close>

lemma threads_start:
  assumes "config_items E s (user_config u) = Some xs" "configs_ok s" "records_apart E u s calls xs"
  shows "threads_ok E u calls s xs (map call_start calls, s)"
proof -
  have "thread_ok E u calls s xs xs pcs s call (call_start call)" for call pcs by (cases call) simp_all
  with assms show ?thesis by (auto simp: threads_ok_def records_apart_def in_set_conv_nth)
qed

lemma interleave_keeps:
  assumes "config_items E s (user_config u) = Some xs" "configs_ok s" "threads_env E u calls" "records_apart E u s calls xs"
  shows "threads_ok E u calls s xs (interleave E u calls schedule s)"
proof -
  have "threads_ok E u calls s xs (fold (turn E u calls) schedule c)" if "threads_ok E u calls s xs c" for c
    using that by (induction schedule arbitrary: c) (simp_all add: turn_keeps [OF _ assms(3,4)])
  from this [OF threads_start [OF assms(1,2,4)]] show ?thesis by (simp add: interleave_def)
qed

end

end
