(* ===== verification/Store_Interleaving.thy ===== *)
theory Store_Interleaving
  imports Font_Interleaving
begin

text \<open>
  A second invariant of concurrent installations and removals, about the store as a whole: no two records name one
  file, and the file of every record is there, but for records that a removal is just about to erase. It needs room on
  the disk and in memory, and records that keep apart at the start.
\<close>

section \<open>The invariant\<close>

definition standing :: "'e font_env_scheme \<Rightarrow> int \<Rightarrow> 'a world_scheme \<Rightarrow> string \<Rightarrow> bool" where
  "standing E u w p \<longleftrightarrow> CheckPathExist E w (SandBoxPathToRealPath (install_path u) p)"

text \<open>A removal has unlinked the file, or found that it was not there, and will erase the record next.\<close>

fun erases :: "string \<Rightarrow> thread_pc \<Rightarrow> bool" where
  "erases p (Removing (Erasing cfg q)) = (p = q)"
| "erases p _ = False"

text \<open>What the records to come will take.\<close>

primrec call_size :: "'e font_env_scheme \<Rightarrow> 'a world_scheme \<Rightarrow> font_call \<Rightarrow> nat" where
  "call_size E w0 (Installs c) = json_size (font_record E c w0)"
| "call_size E w0 (Removes n) = 0"

definition pending :: "'e font_env_scheme \<Rightarrow> 'a world_scheme \<Rightarrow> font_call list \<Rightarrow> thread_pc list \<Rightarrow> nat" where
  "pending E w0 calls pcs = (\<Sum>i<length calls. if recorded (pcs ! i) then 0 else call_size E w0 (calls ! i))"

definition store_safe ::
    "'e font_env_scheme \<Rightarrow> int \<Rightarrow> font_call list \<Rightarrow> 'a world_scheme \<Rightarrow> thread_pc list \<times> 'b fm_state_scheme \<Rightarrow> bool" where
  "store_safe E u calls w0 c \<longleftrightarrow>
     node_at (snd c) (install_dir u) = Some Dir \<and>
     config_size E (snd c) (user_config u) + pending E w0 calls (fst c) \<le> JSON_MEMORY \<and>
     (\<exists>xs. config_items E (snd c) (user_config u) = Some xs \<and> unique_member FONT_PATH xs \<and>
        (\<forall>p\<in>recorded_paths xs. standing E u (snd c) p \<or> (\<exists>pc\<in>set (fst c). erases p pc)))"

text \<open>What it needs at the start.\<close>

definition store_apart :: "'e font_env_scheme \<Rightarrow> int \<Rightarrow> 'a world_scheme \<Rightarrow> font_call list \<Rightarrow> cJSON list \<Rightarrow> bool" where
  "store_apart E u w0 calls xs0 \<longleftrightarrow>
     unique_member FONT_PATH xs0 \<and>
     (\<forall>c. Installs c \<in> set calls \<longrightarrow> thread_path E w0 c \<notin> recorded_paths xs0) \<and>
     (\<forall>p\<in>recorded_paths xs0. standing E u w0 p \<and> own_place E u w0 calls p \<and>
        (\<forall>q\<in>recorded_paths xs0. p \<noteq> q \<longrightarrow> \<not> prefix (rec_file u p) (rec_file u q)))"

lemma store_apart_records: "store_apart E u w0 calls xs0 \<Longrightarrow> records_apart E u w0 calls xs0"
  by (auto simp: store_apart_def records_apart_def recorded_paths_def)

section \<open>Records keep apart\<close>

definition known :: "'e font_env_scheme \<Rightarrow> 'a world_scheme \<Rightarrow> font_call list \<Rightarrow> cJSON list \<Rightarrow> string set" where
  "known E w0 calls xs0 = recorded_paths xs0 \<union> {thread_path E w0 c | c. Installs c \<in> set calls}"

lemma known_paths:
  "set xs \<subseteq> set xs0 \<union> new_records E w0 calls \<Longrightarrow> p \<in> recorded_paths xs \<Longrightarrow> p \<in> known E w0 calls xs0"
  by (fastforce simp: known_def recorded_paths_def new_records_def font_record_text)

lemma known_place:
  assumes "store_apart E u w0 calls xs0" "p \<in> known E w0 calls xs0"
  shows "\<exists>d r. rec_file u p = install_dir u @ d # r \<and> d \<noteq> FONT_CONFIG_FILE \<and> d \<noteq> ''temp''"
proof (cases "p \<in> recorded_paths xs0")
  case True
  with assms(1) have "own_place E u w0 calls p" by (simp add: store_apart_def)
  then show ?thesis by (auto simp: own_place_def)
next
  case False
  with assms(2) obtain c where "p = thread_path E w0 c" by (auto simp: known_def)
  then show ?thesis by simp
qed

lemma known_not_prefix:
  assumes apart: "store_apart E u w0 calls xs0" and env: "threads_env E u calls"
    and p: "p \<in> known E w0 calls xs0" and q: "q \<in> known E w0 calls xs0" "p \<noteq> q"
  shows "\<not> prefix (rec_file u p) (rec_file u q)"
proof -
  have place: "own_place E u w0 calls p" if "p \<in> recorded_paths xs0" for p
    using apart that by (simp add: store_apart_def)
  consider "p \<in> recorded_paths xs0" "q \<in> recorded_paths xs0"
    | c where "p \<in> recorded_paths xs0" "q = thread_path E w0 c" "Installs c \<in> set calls"
    | c where "q \<in> recorded_paths xs0" "p = thread_path E w0 c" "Installs c \<in> set calls"
    | c d where "p = thread_path E w0 c" "q = thread_path E w0 d" "Installs c \<in> set calls" "Installs d \<in> set calls"
    using p q(1) by (auto simp: known_def)
  then show ?thesis
  proof cases
    case 1
    with apart q(2) show ?thesis by (simp add: store_apart_def)
  next
    case 2
    from place [OF 2(1)] 2(3) show ?thesis by (auto simp: own_place_def 2(2))
  next
    case 3
    from place [OF 3(1)] 3(3) show ?thesis by (auto simp: own_place_def 3(2))
  next
    case 4
    then have "thread_file E w0 c \<noteq> thread_file E w0 d" using q(2) by simp
    then show ?thesis by (simp add: 4(1,2))
  qed
qed

section \<open>One thread moves\<close>

lemma standing_cong: "node_at w' (rec_file u p) = node_at w (rec_file u p) \<Longrightarrow> standing E u w' p = standing E u w p"
  by (simp add: standing_def rec_file_def CheckPathExist_def path_exists_def)

lemma standing_node: "standing E u w p \<Longrightarrow> node_at w (rec_file u p) \<noteq> None"
  unfolding standing_def rec_file_def CheckPathExist_def path_exists_def by (auto split: if_splits option.splits)

lemma config_size_cong:
  assumes "node_at w' (resolve (ConfigPath cfg)) = node_at w (resolve (ConfigPath cfg))"
  shows "config_size E w' cfg = config_size E w cfg"
  unfolding config_size_def LoadConfig_cong [OF assms] ..

lemma pending_mono:
  "\<forall>j<length calls. recorded (pcs ! j) \<longrightarrow> recorded (pcs' ! j) \<Longrightarrow> pending E w0 calls pcs' \<le> pending E w0 calls pcs"
  unfolding pending_def by (intro sum_mono) auto

lemma pending_update: "(recorded (pcs ! i) \<Longrightarrow> recorded pc) \<Longrightarrow> i < length pcs \<Longrightarrow>
    pending E w0 calls (pcs[i := pc]) \<le> pending E w0 calls pcs"
  by (intro pending_mono) (auto simp: nth_list_update)

lemma pending_recorded:
  assumes "i < length calls" "length pcs = length calls" "\<not> recorded (pcs ! i)" "recorded pc"
  shows "pending E w0 calls (pcs[i := pc]) + call_size E w0 (calls ! i) = pending E w0 calls pcs"
proof -
  let ?f = "\<lambda>pcs i. if recorded (pcs ! i) then 0 else call_size E w0 (calls ! i)"
  have split: "(\<Sum>j<length calls. g j) = g i + (\<Sum>j\<in>{..<length calls} - {i}. g j)" for g :: "nat \<Rightarrow> nat"
    using assms(1) by (intro sum.remove) auto
  have "(\<Sum>j\<in>{..<length calls} - {i}. ?f (pcs[i := pc]) j) = (\<Sum>j\<in>{..<length calls} - {i}. ?f pcs j)"
    by (rule sum.cong) auto
  then show ?thesis
    using assms unfolding pending_def split by simp
qed

lemma store_safe_move:
  assumes "length pcs = length calls" "i < length calls" "node_at s' (install_dir u) = Some Dir"
    "config_size E s' (user_config u) + pending E w0 calls (pcs[i := pc]) \<le> JSON_MEMORY"
    "config_items E s' (user_config u) = Some ys" "unique_member FONT_PATH ys"
    "\<And>p. p \<in> recorded_paths ys \<Longrightarrow> standing E u s' p \<or> erases p pc \<or> (\<exists>j<length calls. j \<noteq> i \<and> erases p (pcs ! j))"
  shows "store_safe E u calls w0 (pcs[i := pc], s')"
proof -
  have "standing E u s' p \<or> (\<exists>pc'\<in>set (pcs[i := pc]). erases p pc')" if "p \<in> recorded_paths ys" for p
    using assms(7) [OF that]
  proof (elim disjE exE conjE)
    fix j assume "j < length calls" "j \<noteq> i" "erases p (pcs ! j)"
    then show ?thesis using assms(1) by (metis length_list_update nth_list_update_neq nth_mem)
  qed (use assms(1,2) set_update_memI in \<open>auto simp: set_update_memI\<close>)
  with assms show ?thesis by (auto simp: store_safe_def)
qed

context config_memory
begin

text \<open>A step that keeps the configuration and the files of the records, and does not erase.\<close>

lemma store_safe_still:
  assumes safe: "store_safe E u calls w0 (pcs, s)" and len: "length pcs = length calls" and i: "i < length calls"
    and keep: "\<And>q. node_at s q \<noteq> None \<Longrightarrow> q \<in> {install_dir u, install_dir u @ [FONT_CONFIG_FILE]} \<Longrightarrow> node_at s' q = node_at s q"
    and recs: "\<And>xs p. config_items E s (user_config u) = Some xs \<Longrightarrow> p \<in> recorded_paths xs \<Longrightarrow> standing E u s p \<Longrightarrow>
      node_at s' (rec_file u p) = node_at s (rec_file u p) \<or> erases p pc"
    and stays: "recorded (pcs ! i) \<Longrightarrow> recorded pc" and no: "\<And>p. \<not> erases p (pcs ! i)"
  shows "store_safe E u calls w0 (pcs[i := pc], s')"
proof -
  from safe obtain xs where xs: "config_items E s (user_config u) = Some xs" "unique_member FONT_PATH xs"
    and hold: "\<And>p. p \<in> recorded_paths xs \<Longrightarrow> standing E u s p \<or> (\<exists>pc\<in>set pcs. erases p pc)"
    and dir: "node_at s (install_dir u) = Some Dir"
    and size: "config_size E s (user_config u) + pending E w0 calls pcs \<le> JSON_MEMORY"
    by (auto simp: store_safe_def)
  have "node_at s (resolve (ConfigPath (user_config u))) \<noteq> None" using config_items_file [OF xs(1)] by auto
  then have c: "node_at s' (resolve (ConfigPath (user_config u))) = node_at s (resolve (ConfigPath (user_config u)))"
    unfolding resolve_config by (rule keep) simp
  show ?thesis
  proof (rule store_safe_move [OF len i])
    show "node_at s' (install_dir u) = Some Dir" using keep [of "install_dir u"] dir by simp
    show "config_size E s' (user_config u) + pending E w0 calls (pcs[i := pc]) \<le> JSON_MEMORY"
      using pending_update [of pcs i pc E w0 calls, OF stays] i len size unfolding config_size_cong [OF c] by simp
    show "config_items E s' (user_config u) = Some xs" unfolding config_items_cong [OF c] by (rule xs(1))
    show "unique_member FONT_PATH xs" by (rule xs(2))
    show "standing E u s' p \<or> erases p pc \<or> (\<exists>j<length calls. j \<noteq> i \<and> erases p (pcs ! j))"
      if p: "p \<in> recorded_paths xs" for p
      using hold [OF p]
    proof
      assume "standing E u s p"
      with recs [OF xs(1) p] standing_cong [of s' u p s E] show ?thesis by auto
    next
      assume "\<exists>pc\<in>set pcs. erases p pc"
      then obtain j where "j < length calls" "erases p (pcs ! j)" using len by (auto simp: in_set_conv_nth)
      with no show ?thesis by auto
    qed
  qed
qed

text \<open>A record is deleted, by an installation that found it stale or by a removal.\<close>

lemma config_apart:
  assumes "store_apart E u w0 calls xs0" "set xs \<subseteq> set xs0 \<union> new_records E w0 calls" "p \<in> recorded_paths xs"
    "config_frame (user_config u) s s'"
  shows "standing E u s' p = standing E u s p"
proof (rule standing_cong)
  from known_place [OF assms(1) known_paths [OF assms(2,3)]] obtain d r where
    "rec_file u p = install_dir u @ d # r" "d \<noteq> FONT_CONFIG_FILE" by blast
  then have "rec_file u p \<noteq> resolve (ConfigPath (user_config u))" unfolding resolve_config by simp
  with assms(4) show "node_at s' (rec_file u p) = node_at s (rec_file u p)" unfolding config_frame_def by blast
qed

lemma safe_disk:
  assumes "threads_env E u calls" "store_safe E u calls w0 (pcs, s)" "\<not> sys_fault E (SysOpenW (ConfigPath (user_config u)))"
  shows "disk_ok E s (user_config u)"
  using assms unfolding disk_ok_def resolve_config butlast_snoc by (simp add: threads_env_def store_safe_def)

lemma delete_safe:
  assumes ok: "threads_ok E u calls w0 xs0 (pcs, s)" and safe: "store_safe E u calls w0 (pcs, s)" and i: "i < length calls"
    and env: "threads_env E u calls" and apart: "store_apart E u w0 calls xs0"
    and opens: "\<not> sys_fault E (SysOpenW (ConfigPath (user_config u)))"
    and del: "DeleteFontRecord F s (user_config u) p = (b, s')" and F: "F = E \<or> (\<exists>h. F = thread_env E h)"
    and stays: "\<not> recorded (pcs ! i)" and this_one: "\<And>q. erases q (pcs ! i) \<Longrightarrow> q = p"
  shows "store_safe E u calls w0 (pcs[i := pc], s')"
  using ok i
proof (rule threads_okE)
  fix xs assume xs: "config_items E s (user_config u) = Some xs" and len: "length pcs = length calls"
    and old: "set xs \<subseteq> set xs0 \<union> new_records E w0 calls"
  from safe xs have uq: "unique_member FONT_PATH xs"
    and hold: "\<And>p. p \<in> recorded_paths xs \<Longrightarrow> standing E u s p \<or> (\<exists>pc\<in>set pcs. erases p pc)"
    and dir: "node_at s (install_dir u) = Some Dir"
    and size: "config_size E s (user_config u) + pending E w0 calls pcs \<le> JSON_MEMORY"
    by (auto simp: store_safe_def)
  have mem: "config_memory F" using F thread_env_memory [OF config_memory_axioms] config_memory_axioms by auto
  have items: "config_items F = config_items E" "config_size F w cfg = config_size E w cfg" for w :: "'c fm_state_scheme" and cfg
    using F by (auto simp: config_size_def)
  have disk: "disk_ok F s (user_config u)" using safe_disk [OF env safe opens] F by (auto simp: disk_ok_def)
  note del' = del [unfolded DeleteFontRecord_def]
  note fr = delete_by_member_frame [OF del']
  obtain ys where ys: "config_items E s' (user_config u) = Some ys" "unique_member FONT_PATH ys" "set ys \<subseteq> set xs"
    "p \<notin> recorded_paths ys" "config_size E s' (user_config u) \<le> config_size E s (user_config u)"
  proof (cases "\<exists>x\<in>set xs. has_text FONT_PATH p x")
    case True
    have "config_size F s (user_config u) \<le> JSON_MEMORY" using size by (simp add: items)
    from config_memory.delete_progress [OF mem _ True disk this] xs del' have
      "config_items E s' (user_config u) = Some (remove_first (has_text FONT_PATH p) xs)"
      "config_size E s' (user_config u) \<le> config_size E s (user_config u)" by (auto simp: items)
    moreover have "p \<notin> recorded_paths (remove_first (has_text FONT_PATH p) xs)"
      using unique_member_remove [OF uq] by (auto simp: recorded_paths_def)
    ultimately show ?thesis
      by (intro that [of "remove_first (has_text FONT_PATH p) xs"]) (simp_all add: unique_remove_first(1) [OF uq] set_remove_first_subset)
  next
    case False
    have "config_library F" using mem by (simp add: config_memory_def config_library_def cjson_memory_def)
    from config_library.delete_by_member_eq [OF this del'] xs False have "s' = s" by (auto simp: items split: if_splits)
    with that [of xs] xs uq False show ?thesis by (auto simp: recorded_paths_def)
  qed
  have sub: "q \<in> recorded_paths xs" if "q \<in> recorded_paths ys" for q
    using that ys(3) by (auto simp: recorded_paths_def)
  show ?thesis
  proof (rule store_safe_move [OF len i _ _ ys(1,2)])
    show "node_at s' (install_dir u) = Some Dir"
      using fr dir unfolding config_frame_def resolve_config by simp
    have "pending E w0 calls (pcs[i := pc]) \<le> pending E w0 calls pcs" using stays i len by (intro pending_update) auto
    with size ys(5) show "config_size E s' (user_config u) + pending E w0 calls (pcs[i := pc]) \<le> JSON_MEMORY" by linarith
    show "standing E u s' q \<or> erases q pc \<or> (\<exists>j<length calls. j \<noteq> i \<and> erases q (pcs ! j))"
      if q: "q \<in> recorded_paths ys" for q
      using hold [OF sub [OF q]]
    proof
      assume "standing E u s q"
      with config_apart [OF apart old sub [OF q] fr] show ?thesis by simp
    next
      assume "\<exists>pc\<in>set pcs. erases q pc"
      then obtain j where j: "j < length calls" "erases q (pcs ! j)" using len by (auto simp: in_set_conv_nth)
      moreover have "q \<noteq> p" using q ys(4) by blast
      ultimately show ?thesis using this_one [of q] by auto
    qed
  qed
qed

text \<open>The steps of an installation.\<close>

lemma install_safe:
  assumes ok: "threads_ok E u calls w0 xs0 (pcs, s)" and safe: "store_safe E u calls w0 (pcs, s)" and i: "i < length calls"
    and env: "threads_env E u calls" and apart: "store_apart E u w0 calls xs0" and opens: "\<not> sys_fault E (SysOpenW (ConfigPath (user_config u)))"
    and call: "calls ! i = Installs c" and ipc: "pcs ! i = Installing ipc"
    and step: "install_step (thread_env E (call_thread c)) (call_fd c) u ipc s = (pc', s')"
  shows "store_safe E u calls w0 (pcs[i := Installing pc'], s')"
  using ok i
proof (rule threads_okE)
  fix xs assume xs: "config_items E s (user_config u) = Some xs" and cf: "configs_ok s"
    and all: "thread_ok E u calls w0 xs0 xs pcs s (calls ! i) (pcs ! i)" and len: "length pcs = length calls"
    and f: "fds s = fds w0" and old: "set xs \<subseteq> set xs0 \<union> new_records E w0 calls"
    and recd: "\<And>j c. j < length calls \<Longrightarrow> calls ! j = Installs c \<Longrightarrow> thread_path E w0 c \<in> recorded_paths xs \<Longrightarrow> recorded (pcs ! j)"
  note still = store_safe_still [OF safe len i, where pc = "Installing pc'"]
  have same: ?thesis if "\<And>q. node_at s' q = node_at s q" "recorded (pcs ! i) \<Longrightarrow> recorded (Installing pc')"
    using that by (intro still) (auto simp: ipc)
  have mine: "rec_file u p \<noteq> install_dir u @ [thread_file E w0 c] \<and>
      \<not> prefix (install_dir u @ [''temp'', thread_file E w0 c]) (rec_file u p) \<and>
      \<not> prefix (install_dir u @ [thread_file E w0 c]) (rec_file u p)"
    if p: "p \<in> recorded_paths xs" and new: "\<not> recorded (pcs ! i)" for p
  proof -
    from known_paths [OF old p] have k: "p \<in> known E w0 calls xs0" .
    have c: "thread_path E w0 c \<in> known E w0 calls xs0" using i call by (auto simp: known_def in_set_conv_nth)
    have "p \<noteq> thread_path E w0 c" using recd [OF i call] p new by auto
    then have "\<not> prefix (install_dir u @ [thread_file E w0 c]) (rec_file u p)"
      using known_not_prefix [OF apart env c k] by simp
    moreover from this have "rec_file u p \<noteq> install_dir u @ [thread_file E w0 c]" by auto
    moreover from known_place [OF apart k] have
      "\<not> prefix (install_dir u @ [''temp'', thread_file E w0 c]) (rec_file u p)" by auto
    ultimately show ?thesis by blast
  qed
  show ?thesis
  proof (cases ipc)
    case Starting
    with step obtain b where init: "CheckAndInitInstallPath (thread_env E (call_thread c)) s (install_path u) = (b, s')"
      by (auto split: prod.splits bool.splits)
    note keep = config_library.CheckAndInitInstallPath_keeps
      [OF thread_env_library [OF config_library_axioms] init, unfolded thread_env_reads, OF xs]
    show ?thesis
    proof (rule still)
      show "node_at s' (rec_file u p) = node_at s (rec_file u p) \<or> erases p (Installing pc')" if "standing E u s p" for p
        using keep(2) [OF standing_node [OF that]] by simp
    qed (simp_all add: ipc Starting keep(2))
  next
    case Configuring
    with step obtain cfg where get: "SafeGetOrCreateConfig s u (install_path u @ FONT_CONFIG_FILE) = (cfg, s')"
      by (auto simp: Let_def split: prod.splits if_splits)
    from same [OF SafeGetOrCreateConfig_eq(4) [OF get cf]] show ?thesis by (simp add: ipc Configuring)
  next
    case (Looking cfg ns rest)
    with step same show ?thesis by (cases rest) (auto simp: Let_def ipc split: if_splits)
  next
    case (Probing cfg ns rest p)
    with step same show ?thesis by (auto simp: ipc split: if_splits)
  next
    case (Dropping cfg ns rest p)
    with step all obtain b where "DeleteFontRecord (thread_env E (call_thread c)) s (user_config u) p = (b, s')"
      by (auto simp: call ipc split: prod.splits bool.splits)
    from delete_safe [OF ok safe i env apart opens this] show ?thesis by (auto simp: ipc Dropping)
  next
    case (Counting cfg ns)
    with step same show ?thesis by (auto simp: ipc split: if_splits)
  next
    case (Copying cfg ns)
    let ?E = "thread_env E (call_thread c)" and ?n = "GetFileName (GetFilePathByFd E w0 (call_fd c))"
    have n: "GetFilePathByFd E s (call_fd c) = GetFilePathByFd E w0 (call_fd c)"
      by (simp add: GetFilePathByFd_def f)
    obtain a where a: "install_path u = a @ ''/''" using install_path_dir by blast
    obtain dest where cp: "CopyFileForInstall ?E s (a @ ''/'') ?n (call_fd c) = (dest, s')"
      using step Copying by (auto simp: n a split: prod.splits if_splits)
    have fname: "copy_name ?E ?n = thread_file E w0 c" by (simp add: thread_file_def)
    note others = CopyFileForInstall_others [OF cp GetFileName_no_slash, unfolded fname, folded a]
    show ?thesis
    proof (rule still)
      show "node_at s' q = node_at s q" if "q \<in> {install_dir u, install_dir u @ [FONT_CONFIG_FILE]}" for q
        using that by (intro others) (auto dest: prefix_length_le)
      show "node_at s' (rec_file u p) = node_at s (rec_file u p) \<or> erases p (Installing pc')"
        if "config_items E s (user_config u) = Some ys" "p \<in> recorded_paths ys" for ys p
        using that xs mine [of p] by (intro disjI1 others) (simp_all add: ipc Copying)
    qed (simp_all add: ipc Copying)
  next
    case (Inserting cfg ns dest)
    let ?F = "thread_env E (call_thread c)" and ?ys = "xs @ [font_record E c w0]"
    from safe xs have uq: "unique_member FONT_PATH xs"
      and hold: "\<And>p. p \<in> recorded_paths xs \<Longrightarrow> standing E u s p \<or> (\<exists>pc\<in>set pcs. erases p pc)"
      and dir: "node_at s (install_dir u) = Some Dir"
      and size: "config_size E s (user_config u) + pending E w0 calls pcs \<le> JSON_MEMORY"
      by (auto simp: store_safe_def)
    from insert_step [OF ok i env call ipc [unfolded Inserting] step [unfolded Inserting] xs] show ?thesis
    proof (elim disjE conjE exE)
      assume "s' = s"
      then show ?thesis using same by (simp add: ipc Inserting)
    next
      assume ys: "config_items E s' (user_config u) = Some ?ys" and fr: "config_frame (user_config u) s s'"
        and less: "int (length xs) < GetMaxInstallNum E" and pc': "pc' = Reporting ns"
        and fresh: "thread_path E w0 c \<notin> recorded_paths xs"
        and ins: "InsertFontRecordIfUnderLimit ?F s (user_config u) (thread_path E w0 c)
          (GetFullNamesByFd E w0 (call_fd c)) (GetMaxInstallNum E) = (ERR_OK, s')"
      have pend: "pending E w0 calls (pcs[i := Installing pc']) + json_size (font_record E c w0) = pending E w0 calls pcs"
        using pending_recorded [OF i len, of "Installing pc'"] by (simp add: call ipc Inserting pc')
      have disk: "disk_ok ?F s (user_config u)" using safe_disk [OF env safe opens] by (simp add: disk_ok_def)
      have fits: "config_size ?F s (user_config u) + json_size (font_record E c w0) \<le> JSON_MEMORY"
        using size pend by (simp add: config_size_def)
      from config_memory.InsertFontRecordIfUnderLimit_progress [OF thread_env_memory [OF config_memory_axioms] _ disk
          fits [unfolded font_record_def] less] xs ins
      have grown: "config_size E s' (user_config u) \<le> config_size E s (user_config u) + json_size (font_record E c w0)"
        by (simp add: config_size_def font_record_def)
      show ?thesis
      proof (rule store_safe_move [OF len i _ _ ys])
        show "node_at s' (install_dir u) = Some Dir" using fr dir unfolding config_frame_def resolve_config by simp
        show "config_size E s' (user_config u) + pending E w0 calls (pcs[i := Installing pc']) \<le> JSON_MEMORY"
          using grown pend size by linarith
        show "unique_member FONT_PATH ?ys" using uq fresh by (auto simp: unique_member_append font_record_text recorded_paths_def)
        show "standing E u s' p \<or> erases p (Installing pc') \<or> (\<exists>j<length calls. j \<noteq> i \<and> erases p (pcs ! j))"
          if p: "p \<in> recorded_paths ?ys" for p
        proof (cases "p \<in> recorded_paths xs")
          case True
          from hold [OF this] config_apart [OF apart old True fr] len show ?thesis by (fastforce simp: in_set_conv_nth ipc)
        next
          case False
          with p have p': "p = thread_path E w0 c" by (auto simp: recorded_paths_def font_record_text)
          have "font_in_place E u c w0 s'"
            by (rule font_in_place_config [OF fr]) (use all in \<open>simp add: call ipc Inserting\<close>)
          then show ?thesis
            using font_in_place_exists [of E u c w0 s'] env by (simp add: standing_def p' threads_env_def)
        qed
      qed
    qed
  next
    case (Discarding r dest)
    with all step have s': "s' = DeleteDir (thread_env E (call_thread c)) s (install_path u @ thread_file E w0 c) True"
      by (simp add: call ipc)
    note d = discard_step(2) [OF s']
    show ?thesis
    proof (rule still)
      show "node_at s' q = node_at s q" if "q \<in> {install_dir u, install_dir u @ [FONT_CONFIG_FILE]}" for q
        using that by (intro d) (auto dest: prefix_length_le)
      show "node_at s' (rec_file u p) = node_at s (rec_file u p) \<or> erases p (Installing pc')"
        if "config_items E s (user_config u) = Some ys" "p \<in> recorded_paths ys" for ys p
        using that xs mine [of p] all by (intro disjI1 d) (simp_all add: ipc Discarding call)
    qed (use all in \<open>simp_all add: ipc Discarding call\<close>)
  next
    case (Reporting ns)
    with step have "s' = report_update (thread_env E (call_thread c)) s (install_path u) u INSTALL (GetFormatFullName ns)"
      "pc' = Finished ERR_OK" by simp_all
    with same show ?thesis by (simp add: world_simps ipc Reporting)
  next
    case (Finished r)
    with step have "s' = s" "pc' = Finished r" by simp_all
    with same show ?thesis by (simp add: ipc Finished)
  qed
qed

text \<open>The steps of a removal.\<close>

lemma removal_safe:
  assumes ok: "threads_ok E u calls w0 xs0 (pcs, s)" and safe: "store_safe E u calls w0 (pcs, s)" and i: "i < length calls"
    and env: "threads_env E u calls" and apart: "store_apart E u w0 calls xs0" and opens: "\<not> sys_fault E (SysOpenW (ConfigPath (user_config u)))"
    and call: "calls ! i = Removes n" and rpc: "pcs ! i = Removing rpc"
    and step: "removal_step E n u rpc s = (pc', s')"
  shows "store_safe E u calls w0 (pcs[i := Removing pc'], s')"
  using ok i
proof (rule threads_okE)
  fix xs assume xs: "config_items E s (user_config u) = Some xs" and cf: "configs_ok s"
    and all: "thread_ok E u calls w0 xs0 xs pcs s (calls ! i) (pcs ! i)" and len: "length pcs = length calls"
    and old: "set xs \<subseteq> set xs0 \<union> new_records E w0 calls"
  note still = store_safe_still [OF safe len i, where pc = "Removing pc'"]
  have same: ?thesis if "\<And>q. node_at s' q = node_at s q" "\<And>p. \<not> erases p (pcs ! i)"
    using that by (intro still) (auto simp: rpc)
  show ?thesis
  proof (cases rpc)
    case Entering
    show ?thesis
    proof (cases "n = []")
      case True
      with step same show ?thesis by (simp add: rpc Entering)
    next
      case False
      with step Entering obtain cfg where "SafeGetOrCreateConfig s u (install_path u @ FONT_CONFIG_FILE) = (cfg, s')"
        by (auto split: prod.splits)
      from same [OF SafeGetOrCreateConfig_eq(4) [OF this cf]] show ?thesis by (simp add: rpc Entering)
    qed
  next
    case (Seeking cfg)
    with all xs have "config_items E s cfg = Some xs" by (simp add: call rpc)
    from seek_step [OF step [unfolded Seeking] this] same show ?thesis by (simp add: rpc Seeking)
  next
    case (Testing cfg p real)
    with step same show ?thesis by (auto simp: rpc split: if_splits)
  next
    case (Unlinking cfg p real)
    with all have real: "real \<noteq> []" "ValidateAndResolveRealPath E (install_path u) p = real"
      and t: "target E u calls w0 xs0 pcs n p" by (auto simp: call rpc)
    have rf: "resolve real = rec_file u p"
      using ValidateAndResolveRealPath_below(2) [OF real(2,1)] by (simp add: rec_file_def)
    obtain b where rm: "RemoveFile E s real = (b, s')"
      and pc': "pc' = (if b then Erasing cfg p else Done ERR_UNINSTALL_REMOVE_FAIL)"
      using step Unlinking by (auto split: prod.splits bool.splits)
    show ?thesis
    proof (cases b)
      case False
      then have "s' = s" using rm by (auto simp: RemoveFile_def RemoveAll_def remove_all_def split: if_splits)
      then show ?thesis using same by (simp add: rpc Unlinking)
    next
      case True
      have fr: "frame (rec_file u p) [] s s'" using frame_RemoveFile [of "rec_file u p" real s E] rm rf by simp
      have keep: "node_at s' q = node_at s q" if "\<not> prefix (rec_file u p) q" for q
        using fr that unfolding frame_def by blast
      have p: "p \<in> known E w0 calls xs0" using t by (auto simp: target_def known_def)
      from known_place [OF apart p] obtain d r where place: "rec_file u p = install_dir u @ d # r" "d \<noteq> FONT_CONFIG_FILE"
        by blast
      show ?thesis
      proof (rule still)
        show "node_at s' q = node_at s q" if "q \<in> {install_dir u, install_dir u @ [FONT_CONFIG_FILE]}" for q
          using that place by (intro keep) (auto dest: prefix_length_le)
        show "node_at s' (rec_file u q) = node_at s (rec_file u q) \<or> erases q (Removing pc')"
          if "config_items E s (user_config u) = Some ys" "q \<in> recorded_paths ys" for ys q
        proof (cases "q = p")
          case True
          then show ?thesis using \<open>b\<close> by (simp add: pc')
        next
          case False
          have "q \<in> known E w0 calls xs0" using that xs by (intro known_paths [OF old]) simp
          from known_not_prefix [OF apart env p this] False show ?thesis by (intro disjI1 keep) simp
        qed
      qed (simp_all add: rpc Unlinking)
    qed
  next
    case (Erasing cfg p)
    with step all obtain b where "DeleteFontRecord E s (user_config u) p = (b, s')"
      by (auto simp: call rpc split: prod.splits bool.splits)
    show ?thesis
      by (rule delete_safe [OF ok safe i env apart opens \<open>DeleteFontRecord E s (user_config u) p = (b, s')\<close> disjI1 [OF refl]])
        (simp_all add: rpc Erasing)
  next
    case Telling
    with step have s': "s' = report_update E s (install_path u) u UNINSTALL n" by simp
    show ?thesis by (rule same) (simp_all add: s' world_simps rpc Telling)
  next
    case (Done r)
    with step have s': "s' = s" by simp
    show ?thesis by (rule same) (simp_all add: s' rpc Done)
  qed
qed

section \<open>Every schedule\<close>

lemma turn_safe:
  assumes ok: "threads_ok E u calls w0 xs0 c" and safe: "store_safe E u calls w0 c"
    and env: "threads_env E u calls" and apart: "store_apart E u w0 calls xs0" and opens: "\<not> sys_fault E (SysOpenW (ConfigPath (user_config u)))"
  shows "store_safe E u calls w0 (turn E u calls i c)"
proof -
  obtain pcs s where c: "c = (pcs, s)" by fastforce
  note ok' = ok [unfolded c] and safe' = safe [unfolded c]
  show ?thesis
  proof (cases "i < length calls")
    case False
    with ok safe show ?thesis by (simp add: turn_def c threads_ok_def)
  next
    case i: True
    obtain xs where all: "thread_ok E u calls w0 xs0 xs pcs s (calls ! i) (pcs ! i)" and len: "length pcs = length calls"
      using threads_okE [OF ok' i] by metis
    consider a ipc where "calls ! i = Installs a" "pcs ! i = Installing ipc"
      | n rpc where "calls ! i = Removes n" "pcs ! i = Removing rpc"
      using all by (cases "calls ! i"; cases "pcs ! i") auto
    then show ?thesis
    proof cases
      case 1
      obtain pc' s' where "install_step (thread_env E (call_thread a)) (call_fd a) u ipc s = (pc', s')" by fastforce
      from install_safe [OF ok' safe' i env apart opens 1 this] this 1 i len show ?thesis by (simp add: turn_def c)
    next
      case 2
      obtain pc' s' where "removal_step E n u rpc s = (pc', s')" by fastforce
      from removal_safe [OF ok' safe' i env apart opens 2 this] this 2 i len show ?thesis by (simp add: turn_def c)
    qed
  qed
qed

lemma store_start:
  assumes "config_items E s (user_config u) = Some xs" "store_apart E u s calls xs" "node_at s (install_dir u) = Some Dir"
    "config_size E s (user_config u) + (\<Sum>c\<leftarrow>calls. call_size E s c) \<le> JSON_MEMORY"
  shows "store_safe E u calls s (map call_start calls, s)"
proof -
  have "\<not> recorded (call_start c)" for c by (cases c) simp_all
  then have "pending E s calls (map call_start calls) = (\<Sum>i<length calls. call_size E s (calls ! i))"
    by (simp add: pending_def)
  also have "\<dots> = (\<Sum>c\<leftarrow>calls. call_size E s c)" by (simp add: sum_list_sum_nth atLeast0LessThan)
  finally have "pending E s calls (map call_start calls) = (\<Sum>c\<leftarrow>calls. call_size E s c)" .
  with assms show ?thesis by (auto simp: store_safe_def store_apart_def)
qed

lemma interleave_safe:
  assumes items: "config_items E s (user_config u) = Some xs" and ok: "configs_ok s" and env: "threads_env E u calls"
    and apart: "store_apart E u s calls xs" and dir: "node_at s (install_dir u) = Some Dir"
    and size: "config_size E s (user_config u) + (\<Sum>c\<leftarrow>calls. call_size E s c) \<le> JSON_MEMORY"
    and opens: "\<not> sys_fault E (SysOpenW (ConfigPath (user_config u)))"
  shows "store_safe E u calls s (interleave E u calls schedule s)"
proof -
  note apart' = store_apart_records [OF apart]
  have "store_safe E u calls s (fold (turn E u calls) schedule c)"
    if "threads_ok E u calls s xs c" "store_safe E u calls s c" for c
    using that by (induction schedule arbitrary: c) (simp_all add: turn_keeps [OF _ env apart'] turn_safe [OF _ _ env apart opens])
  from this [OF threads_start [OF items ok apart'] store_start [OF items apart dir size]] show ?thesis
    by (simp add: interleave_def)
qed

end

end
