(* ===== verification/Concurrency_Properties.thy ===== *)
theory Concurrency_Properties
  imports Store_Interleaving Reference_Runs
begin

text \<open>
  Installations and removals for one user at the same time, in every order of their steps: a thread alone is the
  function; no record and no file of a finished installation is lost; the limit holds; every thread finishes
  in a bounded number of its own steps. But two threads may record one font name twice.
\<close>

section \<open>One thread\<close>


section \<open>All schedules\<close>

text \<open>How many of its own steps a thread still has to take; \<open>n\<close> is the number of names of its font.\<close>

fun install_left :: "nat \<Rightarrow> install_pc \<Rightarrow> nat" where
  "install_left n Starting = 3 * n + 7"
| "install_left n Configuring = 3 * n + 6"
| "install_left n (Looking cfg ns rest) = 3 * length rest + 5"
| "install_left n (Probing cfg ns rest p) = 3 * length rest + 7"
| "install_left n (Dropping cfg ns rest p) = 3 * length rest + 6"
| "install_left n (Counting cfg ns) = 4"
| "install_left n (Copying cfg ns) = 3"
| "install_left n (Inserting cfg ns d) = 2"
| "install_left n (Discarding r d) = 1"
| "install_left n (Reporting ns) = 1"
| "install_left n (Finished r) = 0"

fun removal_left :: "removal_pc \<Rightarrow> nat" where
  "removal_left Entering = 6"
| "removal_left (Seeking cfg) = 5"
| "removal_left (Testing cfg p real) = 4"
| "removal_left (Unlinking cfg p real) = 3"
| "removal_left (Erasing cfg p) = 2"
| "removal_left Telling = 1"
| "removal_left (Done r) = 0"

primrec steps_left :: "nat \<Rightarrow> thread_pc \<Rightarrow> nat" where
  "steps_left n (Installing pc) = install_left n pc"
| "steps_left n (Removing pc) = removal_left pc"

lemma steps_left_0: "steps_left n pc = 0 \<longleftrightarrow> (\<exists>r. pc = Installing (Finished r) \<or> pc = Removing (Done r))"
proof (cases pc)
  case (Installing ipc)
  then show ?thesis by (cases ipc) auto
next
  case (Removing rpc)
  then show ?thesis by (cases rpc) auto
qed

lemma install_decreases:
  assumes "install_step E fd u pc s = (pc', s')" "n = length (GetFullNamesByFd E s fd)"
  shows "install_left n pc' \<le> install_left n pc - 1"
proof (cases pc)
  case Configuring
  obtain cfg s1 where get: "SafeGetOrCreateConfig s u (install_path u @ FONT_CONFIG_FILE) = (cfg, s1)" by fastforce
  have "fds s1 = fds s" using SafeGet_frame [OF get] by (simp add: fm_frame_def)
  with assms Configuring get show ?thesis by (auto simp: GetFullNamesByFd_def Let_def split: if_splits)
next
  case (Looking cfg ns rest)
  with assms show ?thesis by (cases rest) (auto simp: Let_def split: if_splits)
qed (use assms in \<open>auto split: prod.splits bool.splits if_splits\<close>)

lemma removal_decreases: "removal_step E n u pc s = (pc', s') \<Longrightarrow> removal_left pc' \<le> removal_left pc - 1"
  by (cases pc) (auto simp: Let_def split: prod.splits bool.splits option.splits if_splits)

primrec call_names :: "'e font_env_scheme \<Rightarrow> 'a world_scheme \<Rightarrow> font_call \<Rightarrow> nat" where
  "call_names E w (Installs c) = length (GetFullNamesByFd E w (call_fd c))"
| "call_names E w (Removes n) = 0"

lemma step_decreases:
  assumes step: "call_step E u call pc s = (pc', s')" and n: "n = call_names E s call"
    and ok: "thread_ok E u calls w0 xs0 xs pcs w call pc"
  shows "steps_left n pc' \<le> steps_left n pc - 1"
proof (cases call)
  case (Installs c)
  with ok obtain ipc where pc: "pc = Installing ipc" by (cases pc) auto
  obtain ipc' where "install_step (thread_env E (call_thread c)) (call_fd c) u ipc s = (ipc', s')" "pc' = Installing ipc'"
    using step by (auto simp: Installs pc map_prod_def split: prod.splits)
  with install_decreases [OF this(1)] n show ?thesis by (simp add: Installs pc)
next
  case (Removes name)
  with ok obtain rpc where pc: "pc = Removing rpc" by (cases pc) auto
  obtain rpc' where "removal_step E name u rpc s = (rpc', s')" "pc' = Removing rpc'"
    using step by (auto simp: Removes pc map_prod_def split: prod.splits)
  with removal_decreases [OF this(1)] show ?thesis by (simp add: pc)
qed

lemma turn_decreases:
  assumes ok: "threads_ok E u calls w0 xs0 c" and i: "i < length calls" and n: "n = call_names E w0 (calls ! i)"
  shows "steps_left n (fst (turn E u calls j c) ! i) \<le> steps_left n (fst c ! i) - (if j = i then 1 else 0)"
proof (cases "j = i")
  case True
  obtain pcs s where c: "c = (pcs, s)" by fastforce
  obtain xs where len: "length pcs = length calls" and f: "fds s = fds w0"
    and me: "thread_ok E u calls w0 xs0 xs pcs s (calls ! i) (pcs ! i)"
    using threads_okE [OF ok [unfolded c] i] by metis
  obtain pc' s' where step: "call_step E u (calls ! i) (pcs ! i) s = (pc', s')" by fastforce
  have "n = call_names E s (calls ! i)" by (cases "calls ! i") (simp_all add: n GetFullNamesByFd_def f)
  from step_decreases [OF step this me] True i len step show ?thesis by (simp add: turn_def c)
qed (simp add: turn_def split: prod.split)

lemma schedule_decreases:
  assumes "config_library E" "threads_env E u calls" "records_apart E u w0 calls xs0" "threads_ok E u calls w0 xs0 c"
    "i < length calls" "n = call_names E w0 (calls ! i)"
  shows "steps_left n (fst (fold (turn E u calls) schedule c) ! i) \<le> steps_left n (fst c ! i) - count_list schedule i"
  using assms(4)
proof (induction schedule arbitrary: c)
  case (Cons j schedule)
  from Cons.IH [OF config_library.turn_keeps [OF assms(1) Cons.prems assms(2,3)], of j]
    turn_decreases [OF Cons.prems assms(5,6), of j]
  show ?case by (cases "j = i") simp_all
qed simp

text \<open>
  C29: no installation is lost: whatever the order of the steps of any number of installations and removals for one
  user, when an installation has returned 0 its whole font is in the file it was copied to and its record is in the
  configuration, unless a removal asks for one of its names; provided the threads have different identifiers, the
  records of the start keep apart from the new files, and the file system answers and takes every write.
\<close>

theorem no_lost_install:
  assumes "config_library E" "configs_ok s" "config_items E s (user_config u) = Some xs" "threads_env E u calls"
    "records_apart E u s calls xs" "interleave E u calls schedule s = (pcs, s')"
    "i < length calls" "calls ! i = Installs c" "pcs ! i = Installing (Finished ERR_OK)" "\<not> wanted E s calls c"
  shows "font_in_place E u c s s' \<and>
     (\<exists>zs. config_items E s' (user_config u) = Some zs \<and> font_record E c s \<in> set zs)"
proof -
  from config_library.interleave_keeps [OF assms(1,3,2,4,5), of schedule] assms(6) obtain zs where
    zs: "config_items E s' (user_config u) = Some zs"
    "thread_ok E u calls s xs zs pcs s' (calls ! i) (pcs ! i)" using assms(7) by (auto simp: threads_ok_def)
  with assms(8-10) show ?thesis by simp
qed


lemma all_finish:
  assumes "config_library E" "configs_ok s" "config_items E s (user_config u) = Some xs" "threads_env E u calls"
    "records_apart E u s calls xs" "i < length calls" "call_steps E s (calls ! i) \<le> count_list schedule i"
  shows "\<exists>r. fst (interleave E u calls schedule s) ! i = call_result (calls ! i) r"
proof -
  let ?pc = "fst (interleave E u calls schedule s) ! i" and ?n = "call_names E s (calls ! i)"
  have "steps_left ?n (call_start (calls ! i)) = call_steps E s (calls ! i)" by (cases "calls ! i") simp_all
  with schedule_decreases [OF assms(1,4,5) config_library.threads_start [OF assms(1,3,2,5)] assms(6) refl, of schedule] assms(6,7)
  have "steps_left ?n ?pc = 0" by (simp add: interleave_def)
  then obtain r where r: "?pc = Installing (Finished r) \<or> ?pc = Removing (Done r)" by (auto simp: steps_left_0)
  obtain zs where "thread_ok E u calls s xs zs (fst (interleave E u calls schedule s))
      (snd (interleave E u calls schedule s)) (calls ! i) ?pc"
    using config_library.interleave_keeps [OF assms(1,3,2,4,5), of schedule] assms(6) by (auto simp: threads_ok_def)
  with r show ?thesis by (cases "calls ! i") auto
qed


text \<open>
  C15: the store survives concurrency: whatever the order of the steps of any number of installations and removals
  for one user, no two records name one file, and the file of every record is there unless a removal has just unlinked
  it and is about to erase the record; so when all have returned, every record has its file. The disk must be
  writable, memory must suffice, and at the start every record has a file in a place of its own.
\<close>

theorem concurrent_store:
  assumes "config_memory E" "configs_ok s" "config_items E s (user_config u) = Some xs" "threads_env E u calls"
    "store_apart E u s calls xs" "node_at s (install_dir u) = Some Dir" "\<not> sys_fault E (SysOpenW (ConfigPath (user_config u)))"
    "config_size E s (user_config u) + (\<Sum>c\<leftarrow>calls. call_size E s c) \<le> JSON_MEMORY"
    "interleave E u calls schedule s = (pcs, s')"
  shows "\<exists>zs. config_items E s' (user_config u) = Some zs \<and> unique_member FONT_PATH zs \<and>
     (\<forall>p\<in>recorded_paths zs. standing E u s' p \<or> (\<exists>pc\<in>set pcs. erases p pc)) \<and>
     ((\<forall>i<length calls. \<exists>r. pcs ! i = call_result (calls ! i) r) \<longrightarrow> (\<forall>p\<in>recorded_paths zs. standing E u s' p))"
proof -
  from config_memory.interleave_safe [OF assms(1,3,2,4,5,6,8,7), of schedule] assms(9) obtain zs where
    zs: "config_items E s' (user_config u) = Some zs" "unique_member FONT_PATH zs"
    "\<forall>p\<in>recorded_paths zs. standing E u s' p \<or> (\<exists>pc\<in>set pcs. erases p pc)" by (auto simp: store_safe_def)
  have len: "length pcs = length calls" using assms(9) by (metis fold_turn_length fst_conv interleave_def length_map)
  have "\<not> erases p (call_result c r)" for p c r by (cases c) simp_all
  with len have "\<not> (\<exists>pc\<in>set pcs. erases p pc)" if "\<forall>i<length calls. \<exists>r. pcs ! i = call_result (calls ! i) r" for p
    using that by (auto simp: in_set_conv_nth) metis
  with zs show ?thesis by blast
qed

section \<open>Two threads and one name\<close>

text \<open>A call whose font can be installed from a state, alone.\<close>

definition installable :: "'e font_env_scheme \<Rightarrow> int \<Rightarrow> 'a fm_state_scheme \<Rightarrow> cJSON list \<Rightarrow> install_call \<Rightarrow> bool" where
  "installable E u s xs c \<longleftrightarrow>
     (\<exists>i. copyable E s (call_fd c) i) \<and> GetFullNamesByFd E s (call_fd c) \<noteq> [] \<and>
     (\<forall>n\<in>set (GetFullNamesByFd E s (call_fd c)). \<forall>x\<in>set xs. \<not> named n x) \<and>
     thread_path E s c \<notin> recorded_paths xs \<and>
     node_at s (install_dir u @ [thread_file E s c]) \<noteq> Some Dir \<and>
     node_at s (install_dir u @ [''temp'', thread_file E s c]) \<noteq> Some Dir"

lemma thread_env_conditions [simp]:
  "ready (thread_env E h) s u = ready E s u" "copyable (thread_env E h) w fd i = copyable E w fd i"
  "config_size (thread_env E h) w cfg = config_size E w cfg"
  by (simp_all add: ready_def copyable_def config_size_def)

lemma run_looking_free:
  assumes "config_library E" "config_items E s cfg = Some xs" "\<forall>n\<in>set rest. \<forall>x\<in>set xs. \<not> named n x"
  shows "run_install E fd u (Suc (length rest)) (Looking cfg ns rest, s) = (Counting cfg ns, s)"
  using assms(3)
proof (induction rest)
  case (Cons n rest)
  then have "find (\<lambda>j. n \<in> set (jnames j)) xs = None" by (auto simp: find_None_iff named_def)
  with Cons show ?case by (simp add: config_library.GetFontFileByName_eq [OF assms(1)] assms(2))
qed simp

text \<open>The first thread has checked its names; nothing has changed but the table of configuration objects.\<close>

lemma run_checks:
  fixes s :: "'a fm_state_scheme"
  assumes "config_memory E" "ready E s u" "config_items E s (user_config u) = Some xs" "installable E u s xs c"
  defines "ns \<equiv> GetFullNamesByFd E s (call_fd c)"
  shows "\<exists>s2. run_install (thread_env E (call_thread c)) (call_fd c) u (length ns + 3) (Starting, s) =
      (Counting (user_config u) ns, s2) \<and> fds s2 = fds s \<and> configs_ok s2 \<and> (\<forall>q. node_at s2 q = node_at s q)"
proof -
  let ?E = "thread_env E (call_thread c)"
  from assms(2) have ok: "configs_ok s" by (simp add: ready_def)
  obtain cfg s2 where get: "SafeGetOrCreateConfig s u (install_path u @ FONT_CONFIG_FILE) = (cfg, s2)" by fastforce
  note get' = SafeGetOrCreateConfig_eq [OF get ok]
  have f: "fds s2 = fds s" using get'(3) by (simp add: fm_frame_def)
  then have ns: "GetFullNamesByFd E s2 (call_fd c) = ns" by (simp add: ns_def GetFullNamesByFd_def)
  have init: "CheckAndInitInstallPath ?E s (install_path u) = (True, s)"
    using assms(2) by (intro config_memory.ready_init [OF thread_env_memory [OF assms(1)]]) simp
  have lib: "config_library ?E"
    using assms(1) by (intro thread_env_library) (simp add: config_memory_def config_library_def cjson_memory_def)
  have items: "config_items ?E s2 (user_config u) = Some xs"
    unfolding thread_env_reads config_items_cong [OF get'(4)] by (rule assms(3))
  have free: "\<forall>n\<in>set ns. \<forall>x\<in>set xs. \<not> named n x" and ne: "ns \<noteq> []"
    using assms(4) by (auto simp: installable_def ns_def)
  have len: "length ns + 3 = Suc (Suc (Suc (length ns)))" by simp
  then have "run_install ?E (call_fd c) u (length ns + 3) (Starting, s) = (Counting (user_config u) ns, s2)"
    unfolding len using run_looking_free [OF lib items free, of "call_fd c" u ns] ne
    by (simp add: init get get'(1) ns)
  then show ?thesis using f get'(2,4) by blast
qed

lemma memory_library: "config_memory E \<Longrightarrow> config_library E"
  by (simp add: config_memory_def config_library_def cjson_memory_def)

text \<open>The schedule: the first thread checks, the second does everything, the first goes on.\<close>

lemma two_installs_run:
  fixes s :: "'a fm_state_scheme"
  assumes mem: "config_memory E" and rdy: "ready E s u" and items: "config_items E s (user_config u) = Some xs"
    and a: "installable E u s xs a" and b: "installable E u s xs b" and ids: "call_thread a \<noteq> call_thread b"
    and few: "int (length xs) + 1 < GetMaxInstallNum E"
    and size: "config_size E s (user_config u) + json_size (font_record E a s) + json_size (font_record E b s) \<le> JSON_MEMORY"
  shows "\<exists>schedule s'. interleave E u [Installs a, Installs b] schedule s = ([Installing (Finished ERR_OK), Installing (Finished ERR_OK)], s')"
proof -
  let ?Ea = "thread_env E (call_thread a)" and ?Eb = "thread_env E (call_thread b)" and ?cfg = "user_config u"
  let ?na = "GetFullNamesByFd E s (call_fd a)" and ?nb = "GetFullNamesByFd E s (call_fd b)"
  note lib = memory_library [OF mem]
  note mem_a = thread_env_memory [OF mem, of "call_thread a"] and mem_b = thread_env_memory [OF mem, of "call_thread b"]
  from rdy have faults: "\<forall>c. \<not> sys_fault E c" by (simp add: ready_def)
  from run_checks [OF mem rdy items a] obtain s2 where
    checks: "run_install ?Ea (call_fd a) u (length ?na + 3) (Starting, s) = (Counting ?cfg ?na, s2)"
    and f2: "fds s2 = fds s" and ok2: "configs_ok s2" and n2: "\<And>q. node_at s2 q = node_at s q" by blast
  have rdy2: "ready E s2 u" using rdy ok2 config_items_cong [OF n2, of E] by (simp add: ready_def n2)
  have items2: "config_items E s2 ?cfg = Some xs" unfolding config_items_cong [OF n2] by (rule items)
  have size2: "config_size E s2 ?cfg = config_size E s ?cfg" unfolding config_size_def LoadConfig_cong [OF n2] ..
  have same: "GetFullNamesByFd E s2 fd = GetFullNamesByFd E s fd" "GetFilePathByFd E s2 fd = GetFilePathByFd E s fd" for fd
    by (simp_all add: GetFullNamesByFd_def GetFilePathByFd_def f2)
  from b obtain ib where ib: "copyable E s (call_fd b) ib" by (auto simp: installable_def)
  have nb: "GetFontFullName E (fd_data ib) = ?nb" using config_memory.copyable_names [OF mem ib faults] by simp
  have few1: "int (length xs) < GetMaxInstallNum ?Eb" using few by simp
  have "\<exists>s3. InstallFont ?Eb s2 (call_fd b) u = (ERR_OK, s3) \<and>
      config_size ?Eb s3 ?cfg \<le> config_size ?Eb s2 ?cfg + json_size (user_item (thread_path E s b) ?nb) \<and>
      (\<forall>q. q \<noteq> install_dir u @ [FONT_CONFIG_FILE] \<longrightarrow> q \<noteq> install_dir u @ [thread_file E s b] \<longrightarrow>
        \<not> prefix (install_dir u @ [''temp'', thread_file E s b]) q \<longrightarrow> node_at s3 q = node_at s2 q)"
    using rdy2 ib items2 nb b few1 size size2
    by (intro config_memory.InstallFont_progress [OF mem_b, where xs = xs and i = ib])
      (simp_all add: installable_def copyable_def f2 same n2 thread_file_def font_record_def)
  then obtain s3 where run_b: "InstallFont ?Eb s2 (call_fd b) u = (ERR_OK, s3)"
    and size3: "config_size E s3 ?cfg \<le> config_size E s2 ?cfg + json_size (font_record E b s)"
    and n3: "\<And>q. q \<noteq> install_dir u @ [FONT_CONFIG_FILE] \<Longrightarrow> q \<noteq> install_dir u @ [thread_file E s b] \<Longrightarrow>
      \<not> prefix (install_dir u @ [''temp'', thread_file E s b]) q \<Longrightarrow> node_at s3 q = node_at s q"
    by (auto simp: font_record_def n2)
  obtain es where fr: "fm_frame u es s2 s3" using InstallFont_frame [OF ok2 run_b] by blast
  then have f3: "fds s3 = fds s" and ok3: "configs_ok s3" using ok2 by (simp_all add: fm_frame_def f2)
  obtain ys where ys: "config_items E s3 ?cfg = Some ys" "length ys \<le> Suc (length xs)"
    using config_library.InstallFont_ok [OF thread_env_library [OF lib] ok2 run_b refl, unfolded thread_env_reads] items2
    by (auto dest: list_emb_length)
  have ne: "thread_file E s a \<noteq> thread_file E s b"
    using ids by (auto simp: thread_file_def dest: copy_name_thread)
  have dirs: "node_at s3 (install_dir u) = Some Dir" "node_at s3 (install_dir u @ [''temp'']) = Some Dir"
    "node_at s3 (install_dir u @ [thread_file E s a]) \<noteq> Some Dir"
    "node_at s3 (install_dir u @ [''temp'', thread_file E s a]) \<noteq> Some Dir"
  proof -
    have n4: "node_at s3 (install_dir u @ q) = node_at s (install_dir u @ q)"
      if "q \<in> {[], [''temp''], [thread_file E s a], [''temp'', thread_file E s a]}" for q
      using that ne by (intro n3) auto
    from n4 [of "[]"] rdy show "node_at s3 (install_dir u) = Some Dir" by (simp add: ready_def)
    from n4 [of "[''temp'']"] rdy show "node_at s3 (install_dir u @ [''temp'']) = Some Dir" by (simp add: ready_def)
    from n4 a show "node_at s3 (install_dir u @ [thread_file E s a]) \<noteq> Some Dir"
      "node_at s3 (install_dir u @ [''temp'', thread_file E s a]) \<noteq> Some Dir" by (simp_all add: installable_def)
  qed
  have rdy3: "ready E s3 u" using rdy ok3 dirs ys by (simp add: ready_def)
  from a obtain ia where ia: "copyable E s (call_fd a) ia" by (auto simp: installable_def)
  have same3: "GetFilePathByFd E s3 fd = GetFilePathByFd E s fd" for fd by (simp add: GetFilePathByFd_def f3)
  have "\<exists>s4. install_new_font ?Ea ?cfg (install_path u) (call_fd a) u ?na s3 = (ERR_OK, s4)"
    using config_memory.install_new_font_succeeds [OF mem_a, of s3 u "call_fd a" ia ys "thread_file E s a" ?na]
      rdy3 ia ys few dirs size size2 size3
    by (auto simp: copyable_def f3 thread_file_def same3 font_record_def)
  then obtain s4 where run_a: "install_new_font ?Ea ?cfg (install_path u) (call_fd a) u ?na s3 = (ERR_OK, s4)" ..
  let ?sched = "replicate (length ?na + 3) 0 @ replicate (3 * length ?nb + 7) 1 @ replicate 4 0"
  have "interleave E u [Installs a, Installs b] ?sched s = ([Installing (Finished ERR_OK), Installing (Finished ERR_OK)], s4)"
    using run_install_alone [of ?Eb s2 "call_fd b" "3 * length ?nb + 7" u]
      run_counting [of 4 ?Ea "call_fd a" u ?cfg ?na s3] run_a run_b checks
    by (simp add: interleave_def turn_power run_call_install same)
  then show ?thesis by blast
qed

lemma ready_threads_env:
  "ready E s u \<Longrightarrow> sorted_wrt other_thread calls \<Longrightarrow> threads_env E u calls"
  by (simp add: ready_def threads_env_def)





section \<open>Runs\<close>

text \<open>Two applications install one font from two descriptors.\<close>

definition ref_two :: server_state where
  "ref_two = ref_fresh\<lparr>fds := (fds ref_fresh)(5 \<mapsto> ref_fd)\<rparr>"

definition ref_calls :: "install_call list" where
  "ref_calls = [\<lparr>call_thread = 7, call_fd = 3\<rparr>, \<lparr>call_thread = 8, call_fd = 5\<rparr>]"

lemma ref_two_simps [simp]:
  "node_at ref_two q = node_at ref_fresh q" "configs_ok ref_two" "fds ref_two 3 = Some ref_fd" "fds ref_two 5 = Some ref_fd"
  using ref_saved_configs(2) by (simp_all add: ref_two_def node_at_def configs_ok_def) (simp add: ref_state_def)

lemma ref_two_config:
  "config_items ref_env ref_two (user_config 100) = Some []"
  "config_size ref_env ref_two (user_config 100) \<le> 100"
  using ref_fresh_size config_items_cong [of ref_two "user_config 100" ref_fresh ref_env]
    LoadConfig_cong [of ref_two "user_config 100" ref_fresh ref_env]
  by (simp_all add: ref_fresh_items config_size_def)

lemma ref_two_ready: "ready ref_env ref_two 100"
  using ref_install_conditions(1) by (simp add: ready_def ref_two_config)

lemma ref_calls_simps:
  "call_thread (ref_calls ! 0) = 7" "call_thread (ref_calls ! Suc 0) = 8" "length ref_calls = 2"
  "call_fd (ref_calls ! 0) = 3" "call_fd (ref_calls ! Suc 0) = 5"
  by (simp_all add: ref_calls_def)

lemma ref_two_font:
  assumes "c \<in> set ref_calls"
  shows "fds ref_two (call_fd c) = Some ref_fd" "GetFullNamesByFd ref_env ref_two (call_fd c) = [''Abc'']"
    "GetFilePathByFd ref_env ref_two (call_fd c) = ''/storage/a.ttf''" "0 \<le> call_fd c"
    "length (thread_file ref_env ref_two c) = 23"
proof -
  show f: "fds ref_two (call_fd c) = Some ref_fd" "0 \<le> call_fd c" using assms by (auto simp: ref_calls_def)
  then show path: "GetFilePathByFd ref_env ref_two (call_fd c) = ''/storage/a.ttf''"
    by (simp add: GetFilePathByFd_def PATH_MAX_def is_cstring_def NUL_def)
  show "GetFullNamesByFd ref_env ref_two (call_fd c) = [''Abc'']"
    using f by (simp add: GetFullNamesByFd_def MAX_FONT_FILE_SIZE_def)
  have digits: "to_string 7 = ''7''" "to_string 8 = ''8''" by code_simp+
  have time: "GetFileTime ref_env = ''20250102-030405''" by code_simp
  have "call_thread c = 7 \<or> call_thread c = 8" using assms by (auto simp: ref_calls_def)
  then show "length (thread_file ref_env ref_two c) = 23"
    by (elim disjE) (simp_all add: thread_file_def path ref_base copy_name_def digits time)
qed

lemma ref_two_installable:
  assumes "c \<in> set ref_calls"
  shows "installable ref_env 100 ref_two [] c"
  using ref_two_font [OF assms]
  by (auto simp: installable_def copyable_def MAX_FONT_FILE_SIZE_def ref_node_at install_dir_100 recorded_paths_def)

lemma ref_two_record: "c \<in> set ref_calls \<Longrightarrow> json_size (font_record ref_env c ref_two) \<le> 200"
  using user_item_size [of "thread_path ref_env ref_two c" "[''Abc'']"] ref_two_font [of c]
  by (simp add: font_record_def install_path_app_length)

lemma ref_call_in: "ref_calls ! 0 \<in> set ref_calls" "ref_calls ! 1 \<in> set ref_calls"
  by (simp_all add: ref_calls_def)

text \<open>The conditions of the properties, at this state.\<close>

abbreviation ref_threads :: "font_call list" where
  "ref_threads \<equiv> [Installs (ref_calls ! 0), Installs (ref_calls ! 1), Removes ''Old'']"

lemma ref_two_threads:
  "config_library ref_env" "configs_ok ref_two" "config_items ref_env ref_two (user_config 100) = Some []"
  "threads_env ref_env 100 ref_threads" "records_apart ref_env 100 ref_two ref_threads []"
  using ready_threads_env [OF ref_two_ready, of ref_threads]
  by (simp_all add: ref_env_library ref_two_config recorded_paths_def records_apart_def ref_calls_simps)

lemma ref_two_pair:
  "installable ref_env 100 ref_two [] (ref_calls ! 0)" "installable ref_env 100 ref_two [] (ref_calls ! 1)"
  "call_thread (ref_calls ! 0) \<noteq> call_thread (ref_calls ! 1)" "int (length ([] :: cJSON list)) + 1 < GetMaxInstallNum ref_env"
  "config_size ref_env ref_two (user_config 100) + json_size (font_record ref_env (ref_calls ! 0) ref_two)
     + json_size (font_record ref_env (ref_calls ! 1) ref_two) \<le> JSON_MEMORY"
  using ref_two_config(2) ref_two_record [OF ref_call_in(1)] ref_two_record [OF ref_call_in(2)]
  by (simp_all add: ref_two_installable [OF ref_call_in(1)] ref_two_installable [OF ref_call_in(2), simplified]
      ref_calls_simps ref_max DEFAULT_MAX_INSTALL_NUM_def JSON_MEMORY_def)


theorem no_lost_install_witness:
  "\<exists>schedule s'. interleave ref_env 100 [Installs (ref_calls ! 0), Installs (ref_calls ! 1)] schedule ref_two =
       ([Installing (Finished ERR_OK), Installing (Finished ERR_OK)], s') \<and>
     font_in_place ref_env 100 (ref_calls ! 0) ref_two s' \<and>
     (\<exists>zs. config_items ref_env s' (user_config 100) = Some zs \<and>
        font_record ref_env (ref_calls ! 0) ref_two \<in> set zs)"
proof -
  from two_installs_run [OF ref_env_memory ref_two_ready ref_two_config(1) ref_two_pair] obtain schedule s' where
    run: "interleave ref_env 100 [Installs (ref_calls ! 0), Installs (ref_calls ! 1)] schedule ref_two =
      ([Installing (Finished ERR_OK), Installing (Finished ERR_OK)], s')" by blast
  have env: "threads_env ref_env 100 [Installs (ref_calls ! 0), Installs (ref_calls ! 1)]"
    "records_apart ref_env 100 ref_two [Installs (ref_calls ! 0), Installs (ref_calls ! 1)] []"
    using ref_two_threads(4,5) by (simp_all add: threads_env_def records_apart_def)
  from no_lost_install [OF ref_two_threads(1-3) env run, of 0 "ref_calls ! 0"] run show ?thesis by (auto simp: wanted_def)
qed



text \<open>The user's font is removed while another with its name is installed.\<close>

definition ref_swap :: "font_call list" where
  "ref_swap = [Installs \<lparr>call_thread = 7, call_fd = 3\<rparr>, Removes ''Abc'']"

abbreviation ref_one :: server_state where
  "ref_one \<equiv> ref_saved [ref_font] ref_font_file"

lemma ref_one_names: "GetFullNamesByFd ref_env ref_one 3 = [''Abc'']" "GetFilePathByFd ref_env ref_one 3 = ''/storage/a.ttf''"
  by (simp_all add: ref_saved_def ref_names ref_path)

lemma ref_swap_file: "Installs c \<in> set ref_swap \<Longrightarrow> thread_file ref_env ref_one c = ref_copy"
proof -
  have "thread_env ref_env 7 = ref_env" by (simp add: thread_env_def ref_env_def)
  then show "Installs c \<in> set ref_swap \<Longrightarrow> ?thesis"
    by (auto simp: ref_swap_def thread_file_def ref_one_names ref_base ref_copy_def)
qed

lemma ref_one_paths: "recorded_paths [ref_font] = {INSTALL_PATH_APP @ ''a.ttf''}"
  using ref_uninstall_conditions(4) by (auto simp: recorded_paths_def has_text_def)

lemma ref_one_file: "rec_file 100 (INSTALL_PATH_APP @ ''a.ttf'') = install_dir 100 @ [''a.ttf'']"
  by (simp add: rec_file_def SandBoxPathToRealPath_def resolve_install_path_name simple_name_def)

lemma ref_one_apart: "store_apart ref_env 100 ref_one ref_swap [ref_font]"
proof -
  have "length ref_copy \<noteq> length ''a.ttf''" by (simp add: ref_copy_length)
  then have copy: "ref_copy \<noteq> ''a.ttf''" by metis
  have "node_at ref_one (install_dir 100 @ [''a.ttf'']) = Some (File ''abc'')"
    by (simp add: ref_saved_def ref_node_at ref_font_file_def install_dir_100 FONT_CONFIG_FILE_def)
  then have "standing ref_env 100 ref_one (INSTALL_PATH_APP @ ''a.ttf'')"
    using wants_dir_name [of "''a.ttf''" "install_path 100"]
    by (simp add: standing_def CheckPathExist_def path_exists_def SandBoxPathToRealPath_def resolve_install_path_name simple_name_def)
  with copy show ?thesis
    using ref_swap_file by (auto simp: store_apart_def ref_one_paths unique_member_def own_place_def ref_one_file FONT_CONFIG_FILE_def)
qed

lemma ref_one_conditions:
  "configs_ok ref_one" "config_items ref_env ref_one (user_config 100) = Some [ref_font]" "threads_env ref_env 100 ref_swap"
  "node_at ref_one (install_dir 100) = Some Dir" "\<not> sys_fault ref_env (SysOpenW (ConfigPath (user_config 100)))"
  "config_size ref_env ref_one (user_config 100) + (\<Sum>c\<leftarrow>ref_swap. call_size ref_env ref_one c) \<le> JSON_MEMORY"
proof -
  note ready = ref_uninstall_conditions(1)
  show "configs_ok ref_one" "node_at ref_one (install_dir 100) = Some Dir" "\<not> sys_fault ref_env (SysOpenW (ConfigPath (user_config 100)))"
    using ready by (simp_all add: ready_def)
  show "config_items ref_env ref_one (user_config 100) = Some [ref_font]" by (rule ref_uninstall_conditions(2))
  show "threads_env ref_env 100 ref_swap" by (rule ready_threads_env [OF ready]) (simp add: ref_swap_def)
  have "json_size (user_item (INSTALL_PATH_APP @ ref_copy) [''Abc'']) \<le> 300"
    using user_item_size [of "INSTALL_PATH_APP @ ref_copy" "[''Abc'']"] by (simp add: install_path_app_length ref_copy_length)
  with ref_saved_size [OF ref_font_records, of ref_font_file]
  show "config_size ref_env ref_one (user_config 100) + (\<Sum>c\<leftarrow>ref_swap. call_size ref_env ref_one c) \<le> JSON_MEMORY"
    using ref_swap_file by (simp add: ref_swap_def font_record_def ref_one_names JSON_MEMORY_def)
qed

theorem concurrent_store_witness:
  "\<exists>zs. config_items ref_env (snd (interleave ref_env 100 ref_swap (concat (replicate 10 [1, 0])) ref_one)) (user_config 100) = Some zs \<and>
     (\<forall>p\<in>recorded_paths zs. standing ref_env 100 (snd (interleave ref_env 100 ref_swap (concat (replicate 10 [1, 0])) ref_one)) p)"
proof -
  let ?schedule = "concat (replicate 10 [1, 0]) :: nat list"
  obtain pcs s' where run: "interleave ref_env 100 ref_swap ?schedule ref_one = (pcs, s')" by fastforce
  have turns: "count_list ?schedule (0 :: nat) = 10" "count_list ?schedule (1 :: nat) = 10" by code_simp+
  have "call_steps ref_env ref_one (ref_swap ! i) \<le> count_list ?schedule i" if "i < length ref_swap" for i
    using that turns by (auto simp: ref_swap_def less_Suc_eq ref_one_names)
  then have "\<forall>i<length ref_swap. \<exists>r. pcs ! i = call_result (ref_swap ! i) r"
    using all_finish [OF ref_env_library ref_one_conditions(1-3) store_apart_records [OF ref_one_apart], of _ ?schedule] run by simp
  with concurrent_store [OF ref_env_memory ref_one_conditions(1-3) ref_one_apart ref_one_conditions(4-6) run] run
  show ?thesis by auto
qed

end
