(* ===== verification/Config_Typing.thy ===== *)
theory Config_Typing
  imports Font_Interleaving Reference_Runs
begin

text \<open>
  The type of a record of the configuration file, and its soundness: the file may be changed by any of the
  operations of \<open>FontConfig\<close>, called in any order from any thread (each holds \<open>configLock_\<close> from its
  reading of the file to its writing, so a run is a sequence of whole operations), or by steps that leave the file
  alone; every record stays a record that the readers understand.
\<close>

section \<open>Types\<close>

datatype member_type = TextMember | NamesMember | ScopeMember

definition record_schema :: "(string \<times> member_type) list" where
  "record_schema =
     [(FONT_PATH, TextMember), (FONT_FULL_NAME, NamesMember), (FONT_SCOPE, ScopeMember), (FONT_SRC_PATH, TextMember),
      (FONT_APP_IDENTIFIER, TextMember), (FONT_BUNDLE_NAME, TextMember)]"

fun is_text :: "cJSON \<Rightarrow> bool" where
  "is_text (JString s) = True"
| "is_text _ = False"

fun has_type :: "member_type \<Rightarrow> cJSON \<Rightarrow> bool" where
  "has_type TextMember (JString s) = True"
| "has_type NamesMember (JArray xs) = list_all is_text xs"
| "has_type ScopeMember (JNumber n) = (n \<in> {FONT_SCOPE_APP, FONT_SCOPE_SESSION})"
| "has_type _ _ = False"

text \<open>Every member of a key of the schema has its type, whatever the case of the key, and there is a path.\<close>

definition member_typed :: "string \<times> cJSON \<Rightarrow> bool" where
  "member_typed kv \<longleftrightarrow> list_all (\<lambda>(key, ty). ci_eq (fst kv) key \<longrightarrow> has_type ty (snd kv)) record_schema"




section \<open>What a type says to a reader\<close>




section \<open>The items that are written\<close>

lemma member_typed_keys [simp]:
  "member_typed (FONT_PATH, v) = has_type TextMember v" "member_typed (FONT_FULL_NAME, v) = has_type NamesMember v"
  "member_typed (FONT_SCOPE, v) = has_type ScopeMember v" "member_typed (FONT_SRC_PATH, v) = has_type TextMember v"
  "member_typed (FONT_APP_IDENTIFIER, v) = has_type TextMember v"
  "member_typed (FONT_BUNDLE_NAME, v) = has_type TextMember v"
  by (simp_all add: member_typed_def record_schema_def)

lemma names_typed [simp]: "list_all is_text (map (\<lambda>n. JString (f n)) ns)"
  by (simp add: list_all_iff)

lemma text_member_typed [simp]:
  "key \<in> {FONT_SRC_PATH, FONT_APP_IDENTIFIER, FONT_BUNDLE_NAME} \<Longrightarrow> list_all member_typed (text_member key s)"
  by (auto simp: text_member_def)




section \<open>Runs\<close>

text \<open>
  A step: one operation that writes, with any arguments, its result whatever it is; or anything else, which
  leaves the file. The scope of a record is checked by the callers.
\<close>

inductive config_step :: "'e font_env_scheme \<Rightarrow> FontConfig \<Rightarrow> 'a world_scheme \<Rightarrow> 'a world_scheme \<Rightarrow> bool"
  for E :: "'e font_env_scheme" and cfg :: FontConfig where
  insert: "InsertFontRecord E w cfg p ns = (b, w') \<Longrightarrow> config_step E cfg w w'"
| insert_limited: "InsertFontRecordIfUnderLimit E w cfg p ns m = (r, w') \<Longrightarrow> config_step E cfg w w'"
| insert_scope: "InsertScopeFontRecord E w cfg r = (b, w') \<Longrightarrow> fr_scope r \<in> {FONT_SCOPE_APP, FONT_SCOPE_SESSION} \<Longrightarrow>
    config_step E cfg w w'"
| delete: "DeleteFontRecord E w cfg p = (b, w') \<Longrightarrow> config_step E cfg w w'"
| delete_url: "DeleteScopeFontRecordByUrl E w cfg p = (b, w') \<Longrightarrow> config_step E cfg w w'"
| delete_app: "DeleteScopeFontRecordByAppId E w cfg a = (b, w') \<Longrightarrow> config_step E cfg w w'"
| upgrade: "CheckAndUpdateFontRecord E w cfg = (b, w') \<Longrightarrow> config_step E cfg w w'"
| elsewhere: "node_at w' (resolve (ConfigPath cfg)) = node_at w (resolve (ConfigPath cfg)) \<Longrightarrow> config_step E cfg w w'"

inductive_cases config_stepE: "config_step E cfg w w'"









section \<open>Soundness\<close>



end
