(* ===== verification/Guard_Views.thy ===== *)
theory Guard_Views
  imports Font_Server Manager_Removal
begin

text \<open>
  What the guard around every call of the service leaves alone: files, descriptors and configuration
  objects, and with them every condition of the operations of the manager.
\<close>

section \<open>The guard and the files\<close>

text \<open>The guard around a call touches neither files nor configuration objects.\<close>

lemma guard_keeps [simp]:
  "node_at (guard_enter s) q = node_at s q" "configs_ok (guard_enter s) = configs_ok s" "fds (guard_enter s) = fds s"
  "node_at (guard_exit E chk s) q = node_at s q" "configs_ok (guard_exit E chk s) = configs_ok s"
  by (simp_all add: guard_enter_def RemoveUnloadFontServiceTask_def guard_exit_def AddUnloadFontServiceTask_def
      PostTask_def Let_def node_at_def configs_ok_def split: option.split)

lemma guard_items [simp]:
  "config_items E (guard_enter s) cfg = config_items E s cfg" "config_items E (guard_exit E' chk s) cfg = config_items E s cfg"
  by (rule config_items_cong, simp)+

lemma with_guard_node:
  assumes "configs_ok s" "\<And>s. configs_ok s \<Longrightarrow> node_at (snd (body s)) q = node_at s q"
  shows "node_at (snd (with_guard E chk body s)) q = node_at s q"
  using assms(2) [of "guard_enter s"] assms(1) by (cases "body (guard_enter s)") (simp add: with_guard_def)

lemma guard_conditions [simp]:
  "ready E (guard_enter s) u = ready E s u" "copyable E (guard_enter s) fd i = copyable E s fd i"
  "LoadConfig E (guard_enter s) cfg = LoadConfig E s cfg" "config_size E (guard_enter s) cfg = config_size E s cfg"
  "GetFilePathByFd E (guard_enter s) fd = GetFilePathByFd E s fd"
  "GetFullNamesByFd E (guard_enter s) fd = GetFullNamesByFd E s fd"
  "app_dir_free (guard_enter s) u app f = app_dir_free s u app f"
proof -
  show l: "LoadConfig E (guard_enter s) cfg = LoadConfig E s cfg" for cfg by (rule LoadConfig_cong) simp
  then show "config_size E (guard_enter s) cfg = config_size E s cfg" by (simp add: config_size_def)
qed (simp_all add: ready_def copyable_def GetFilePathByFd_def GetFullNamesByFd_def app_dir_free_def)

end
