(* ===== verification/Front_Ends.thy ===== *)
theory Front_Ends
  imports Guard_Views Binding_Properties Reference_Runs Manager_Store
begin

text \<open>
  The layers put together: the interface \<open>FontManagerKits\<close>, which \<open>FontManagerClient\<close> implements and
  the bindings and the tool call, the inner API (\<open>service/inner_api\<close>), and the client whose remote
  service is \<open>FontManagerServer\<close>.
\<close>

section \<open>The interfaces of the client library\<close>

text \<open>The answers of the client, called in a state of its own, as the front ends see them.\<close>

definition FontManagerKits :: "client_env \<Rightarrow> client_state \<Rightarrow> binding_kits" where
  "FontManagerKits E s =
     \<lparr>kits_InstallFont = (\<lambda>fontPath. fst (Client_InstallFont E fontPath s)),
      kits_UninstallFont = (\<lambda>fontName. fst (Client_UninstallFont E fontName s)),
      kits_InstallScopeFont = (\<lambda>fontPath scope_value. fst (Client_InstallScopeFont E fontPath scope_value s)),
      kits_UninstallScopeFont = (\<lambda>srcPath. fst (Client_UninstallScopeFont E srcPath s)),
      kits_GetFontScope = (\<lambda>srcPath. fst (Client_GetFontScope E srcPath s)),
      kits_DataMigration = (\<lambda>listener. fst (Client_DataMigration E s))\<rparr>"

definition FontManagerInnerApi_InstallFont :: "client_env \<Rightarrow> string \<Rightarrow> int \<Rightarrow> client_state \<Rightarrow> int \<times> client_state" where
  "FontManagerInnerApi_InstallFont E fontPath userId = Client_InstallFontWithUserId E fontPath userId"

definition FontManagerInnerApi_UninstallFont :: "client_env \<Rightarrow> string \<Rightarrow> int \<Rightarrow> client_state \<Rightarrow> int \<times> client_state" where
  "FontManagerInnerApi_UninstallFont E fontName userId = Client_UninstallFontWithUserId E fontName userId"

section \<open>The service behind the client\<close>

text \<open>
  The answers of a service in state \<open>s\<close> to caller \<open>c\<close>. The transport (generated code and the binder) passes a
  descriptor on under another number, \<open>fd_in_service\<close>; the death of processes is not part of these calls.
\<close>

definition remote_service ::
    "'e server_env_scheme \<Rightarrow> ipc_caller \<Rightarrow> (int \<Rightarrow> int) \<Rightarrow> 'a server_state_scheme \<Rightarrow> client_env \<Rightarrow> client_env" where
  "remote_service E c fd_in_service s C =
     C\<lparr>svc_InstallFont := (\<lambda>fd. fst (Server_InstallFont E c (fd_in_service fd) s)),
       svc_UninstallFont := (\<lambda>n. fst (Server_UninstallFont E c n s)),
       svc_InstallFontWithUserId := (\<lambda>fd u. fst (InstallFontWithUserId E c (fd_in_service fd) u s)),
       svc_UninstallFontWithUserId := (\<lambda>n u. fst (UninstallFontWithUserId E c n u s)),
       svc_InstallScopeFont := (\<lambda>fd v p. fst (Server_InstallScopeFont E c (fd_in_service fd) v p s)),
       svc_UninstallScopeFont := (\<lambda>p. fst (Server_UninstallScopeFont E c p s)),
       svc_GetFontScope := (\<lambda>p. fst (Server_GetFontScope E c p FONT_SCOPE_NONE s))\<rparr>"

lemma remote_service_client [simp]:
  "PathToRealPath (remote_service E c f s C) = PathToRealPath C" "cl_fileno (remote_service E c f s C) = cl_fileno C"
  "svc_InstallFont (remote_service E c f s C) fd = fst (Server_InstallFont E c (f fd) s)"
  "svc_InstallFontWithUserId (remote_service E c f s C) fd u = fst (InstallFontWithUserId E c (f fd) u s)"
  by (simp_all add: remote_service_def fun_eq_iff PathToRealPath_def split: option.split)

section \<open>What an answer of success says\<close>

text \<open>A call with a file reports success only if the service did, for that file.\<close>

lemma with_font_file_success:
  assumes "fst (with_font_file E p m n call s) = r" "r \<noteq> m" "r \<noteq> n"
  shows "\<exists>realPath. PathToRealPath E p = Some realPath \<and> 0 \<le> cl_fileno E realPath \<and> call (cl_fileno E realPath) realPath = r"
  using assms by (auto simp: with_font_file_def Let_def split: option.splits if_splits prod.splits bool.splits)

lemma resolved_install:
  assumes "JS_InstallFont N K args = Resolved v"
  shows "\<exists>path rest. args = JsString path # rest \<and> kits_InstallFont K (c_str path) = (ERR_OK, ERR_OK) \<and> v = JsNumber ERR_OK"
proof -
  let ?p = "GetResNameOrPath N (length args) (cb_argv 1 args)"
  let ?cb = "installFontFunc K (new_callback\<lparr>cb_value := ?p\<rparr>)"
  from assms have fin: "Complete N ?cb = Resolved v"
    by (auto simp: JS_InstallFont_def ProcessFontByValue_def GetResult_def split: if_splits)
  have plain: "\<not> cb_isQuery ?cb" "\<not> cb_isVoidResult ?cb"
    by (simp_all add: installFontFunc_def new_callback_def SetErrorMsg_def Let_def split: prod.split)
  with fin have ok: "cb_success ?cb" and v: "v = JsNumber (cb_errCode ?cb)"
    by (auto simp: Complete_def ProcessPromiseResult_def split: if_splits)
  from ok have kits: "kits_InstallFont K ?p = (ERR_OK, ERR_OK)" "?p \<noteq> []" "cb_errCode ?cb = ERR_OK"
    by (auto simp: installFontFunc_def new_callback_def SetErrorMsg_def Let_def split: if_splits prod.splits)
  then obtain path rest where "args = JsString path # rest" "?p = c_str path"
    by (cases args) (auto simp: GetResNameOrPath_def cb_argv_def split: js_value.splits if_splits)
  with kits v show ?thesis by auto
qed

lemma server_install_success:
  assumes "Server_InstallFont E c fd s = ((x, ERR_OK), s')"
  shows "\<exists>u s1. CheckPermission E c = ERR_OK \<and> GetOsAccountLocalIdFromUid E (CallingUid c) = Some u \<and>
     InstallFont E (guard_enter s) fd u = (ERR_OK, s1) \<and> s' = guard_exit E False s1 \<and> x = ERR_OK"
  using assms
  by (auto simp: Server_InstallFont_def with_guard_def InstallFontInner_def Let_def err_defs
      split: if_splits option.splits prod.splits)

text \<open>
  C33: a fulfilled promise is kept: if \<open>installFont\<close> of JavaScript resolves, over the client library and the
  service, then its value is 0, the path it was called with is the file that was opened, the caller had the permission and an
  account, and in the state the service is left in that file's whole content is below the directory of this account,
  with a record in its configuration.
\<close>

theorem promised_font_installed:
  fixes s :: "'a server_state_scheme"
  assumes "config_library E" "configs_ok s"
    "JS_InstallFont N (FontManagerKits (remote_service E c fd_in_service s C) cs) args = Resolved v"
  shows "v = JsNumber 0 \<and> (\<exists>path rest realPath fd u s' i fname zs. args = JsString path # rest \<and>
     PathToRealPath C (c_str path) = Some realPath \<and> fd = fd_in_service (cl_fileno C realPath) \<and>
     Server_InstallFont E c fd s = ((ERR_OK, ERR_OK), s') \<and>
     CheckPermission E c = ERR_OK \<and> GetOsAccountLocalIdFromUid E (CallingUid c) = Some u \<and>
     fds s fd = Some i \<and> fname = copy_name E (GetFileName (GetFilePathByFd E s fd)) \<and>
     node_at s' (install_dir u @ [fname]) = Some (File (take (nat (st_size i)) (fd_data i))) \<and>
     config_items E s' (user_config u) = Some zs \<and> INSTALL_PATH_APP @ fname \<in> recorded_paths zs)"
proof -
  from resolved_install [OF assms(3)] obtain path rest where args: "args = JsString path # rest"
    and kits: "fst (Client_InstallFont (remote_service E c fd_in_service s C) (c_str path) cs) = (ERR_OK, ERR_OK)"
    and v: "v = JsNumber ERR_OK" by (auto simp: FontManagerKits_def)
  from with_font_file_success [OF kits [unfolded Client_InstallFont_def]] obtain realPath where
    rp: "PathToRealPath C (c_str path) = Some realPath"
    and svc: "fst (Server_InstallFont E c (fd_in_service (cl_fileno C realPath)) s) = (ERR_OK, ERR_OK)"
    by (auto simp: err_defs)
  let ?fd = "fd_in_service (cl_fileno C realPath)" and ?f = "copy_name E (GetFileName (GetFilePathByFd E s (fd_in_service (cl_fileno C realPath))))"
  from svc obtain s' where run: "Server_InstallFont E c ?fd s = ((ERR_OK, ERR_OK), s')"
    by (cases "Server_InstallFont E c ?fd s") auto
  from server_install_success [OF run] obtain u s1 where
    who: "CheckPermission E c = ERR_OK" "GetOsAccountLocalIdFromUid E (CallingUid c) = Some u"
    and inst: "InstallFont E (guard_enter s) ?fd u = (ERR_OK, s1)" and s': "s' = guard_exit E False s1" by blast
  have ok: "configs_ok (guard_enter s)" using assms(2) by simp
  from config_library.InstallFont_ok [OF assms(1) ok inst refl, unfolded guard_conditions guard_keeps] obtain i ys zs where
    i: "fds s ?fd = Some i" "node_at s1 (install_dir u @ [?f]) = Some (File (take (nat (st_size i)) (fd_data i)))"
    and zs: "config_items E s1 (user_config u) = Some zs"
      "zs = (if INSTALL_PATH_APP @ ?f \<in> recorded_paths ys then ys
             else ys @ [user_item (INSTALL_PATH_APP @ ?f) (GetFullNamesByFd E s ?fd)])"
    by blast
  have "is_cstring (INSTALL_PATH_APP @ ?f)" by (simp add: path_defs NUL_def is_cstring_copy_name)
  then have "INSTALL_PATH_APP @ ?f \<in> recorded_paths zs"
    using zs(2) by (auto simp: recorded_paths_def has_text_def jstring_user_item)
  with args rp run who i zs(1) v show ?thesis by (auto simp: s' err_defs)
qed

text \<open>The service at work: an application installs a font it has open as descriptor 7, which the service gets as 3.\<close>

lemma ref_installFont:
  "JS_InstallFont (ref_napi\<lparr>napi_queue_work_ok := (\<lambda>n. True)\<rparr>)
     (FontManagerKits (remote_service ref_env ref_caller (\<lambda>fd. 3) ref_fresh ref_client_env) ref_client_state)
     [JsString ''/storage/a.ttf''] = Resolved (JsNumber 0)"
proof -
  have "fst (InstallFont ref_env (guard_enter ref_fresh) 3 100) = ERR_OK"
    by (rule config_memory.InstallFont_succeeds [OF ref_env_memory])
      (unfold guard_conditions guard_keeps guard_items, (rule ref_install_conditions)+)
  then have "fst (Server_InstallFont ref_env ref_caller 3 ref_fresh) = (ERR_OK, ERR_OK)"
    by (simp add: Server_InstallFont_def with_guard_def InstallFontInner_def CheckPermission_def Let_def split_beta)
  then have "kits_InstallFont (FontManagerKits (remote_service ref_env ref_caller (\<lambda>fd. 3) ref_fresh ref_client_env)
      ref_client_state) ''/storage/a.ttf'' = (ERR_OK, ERR_OK)"
    by (simp add: FontManagerKits_def Client_InstallFont_def with_font_file_def PathToRealPath_def PATH_MAX_def
        GetFontServiceAbility_def remote_service_def ref_client_env_def Let_def)
  then show ?thesis
    by (simp add: JS_InstallFont_def ProcessFontByValue_def GetResult_def ref_napi_def GetResNameOrPath_def cb_argv_def
        installFontFunc_def new_callback_def Complete_def ProcessPromiseResult_def c_str_def NUL_def err_defs)
qed

theorem promised_font_installed_witness:
  "\<exists>s' i fname. Server_InstallFont ref_env ref_caller 3 ref_fresh = ((ERR_OK, ERR_OK), s') \<and>
     fds ref_fresh 3 = Some i \<and>
     node_at s' (install_dir 100 @ [fname]) = Some (File (take (nat (st_size i)) (fd_data i)))"
  using promised_font_installed [OF ref_env_library ref_saved_configs(2) ref_installFont] by auto

end
