(* ===== verification/Binding_Lifetimes.thy ===== *)
theory Binding_Lifetimes
  imports Binding_Properties
begin

text \<open>
  What the bindings hold and when they give it back: the thread-safe functions of JavaScript observers with
  the hooks that abort them, and the global references of ArkTS listeners with the threads attached for their calls.
\<close>

section \<open>JavaScript observers\<close>

text \<open>
  The states of a module: a call of a function that it exports, the death of the service behind a binder, and the
  finalizer of the module's object, with any answers of the N-API and of the client's surroundings.
\<close>

inductive js_step :: "js_state \<Rightarrow> js_state \<Rightarrow> bool" where
  call: "map_of FontManagerAddonInit name = Some (ObserverFunction f) \<Longrightarrow> f N E args s = (r, s') \<Longrightarrow> js_step s s'"
| died: "js_step s (JS_service_died binder s)"
| finalized: "js_step s (JS_Finalizer E s)"

inductive_cases js_stepE: "js_step s s'"

text \<open>A function that is not aborted has a hook that will do it.\<close>

definition hooked :: "js_state \<Rightarrow> bool" where
  "hooked s \<longleftrightarrow> (\<forall>agent t. js_tsfns s agent = Some t \<longrightarrow> \<not> ts_closing t \<longrightarrow> agent \<in> set (env_hooks s))"

lemma exported_observers:
  "map_of FontManagerAddonInit name = Some (ObserverFunction f) \<Longrightarrow>
     f = JS_OnFontObserver \<or> f = (\<lambda>N E args. JS_OffFontObserver E)"
  by (drule map_of_SomeD) (auto simp: FontManagerAddonInit_def)

lemma env_cleanup_tsfns:
  "js_tsfns (FontObserverEnvCleanup a s) b =
     (if a = b then map_option (\<lambda>t. t\<lparr>ts_closing := True\<rparr>) (js_tsfns s b) else js_tsfns s b)"
  "env_hooks (FontObserverEnvCleanup a s) = env_hooks s" "js_calls (FontObserverEnvCleanup a s) = js_calls s"
  "js_client (FontObserverEnvCleanup a s) = js_client s"
  by (simp_all add: FontObserverEnvCleanup_def split: option.split)

lemma call_tsfn_keeps [simp]:
  "js_tsfns (call_tsfn a s) = js_tsfns s" "env_hooks (call_tsfn a s) = env_hooks s"
  by (simp_all add: call_tsfn_def FontObserverTsfnCallJs_def split: option.split)

lemma service_died_keeps:
  "js_tsfns (JS_service_died b s) = js_tsfns s \<and> env_hooks (JS_service_died b s) = env_hooks s"
proof -
  have "js_tsfns (foldl (\<lambda>s1 a. snd (OnServiceDied (Some (call_tsfn a)) s1)) t as) = js_tsfns t \<and>
      env_hooks (foldl (\<lambda>s1 a. snd (OnServiceDied (Some (call_tsfn a)) s1)) t as) = env_hooks t" for t as
    by (induction "as" arbitrary: t) (simp_all add: OnServiceDied_def)
  then show ?thesis by (simp add: JS_service_died_def split: prod.split)
qed

lemma on_observer_hooked:
  assumes "hooked s" "JS_OnFontObserver N E args s = (r, s')"
  shows "hooked s'"
  using assms
  by (auto simp: JS_OnFontObserver_def CreateFontObserverAgent_def hooked_def env_cleanup_tsfns Let_def
      split: sum.splits prod.splits if_splits)

lemma js_step_hooked: "js_step s s' \<Longrightarrow> hooked s \<Longrightarrow> hooked s'"
proof (induction rule: js_step.induct)
  case (call name f N E args s r s')
  then show ?case
    using on_observer_hooked by (auto simp: JS_OffFontObserver_def hooked_def dest!: exported_observers split: prod.splits)
qed (simp_all add: hooked_def service_died_keeps JS_Finalizer_def)

lemma js_steps_hooked: "js_step\<^sup>*\<^sup>* s s' \<Longrightarrow> hooked s \<Longrightarrow> hooked s'"
  by (induction rule: rtranclp_induct) (auto intro: js_step_hooked)

text \<open>When the hooks have run, every function is aborted.\<close>

lemma env_exit_tsfns:
  "js_tsfns (JS_env_exit s) a =
     map_option (\<lambda>t. if a \<in> set (env_hooks s) then t\<lparr>ts_closing := True\<rparr> else t) (js_tsfns s a)"
  "js_calls (JS_env_exit s) = js_calls s"
proof -
  have "js_tsfns (foldl (\<lambda>s1 x. FontObserverEnvCleanup x s1) t xs) a =
      map_option (\<lambda>u. if a \<in> set xs then u\<lparr>ts_closing := True\<rparr> else u) (js_tsfns t a) \<and>
      js_calls (foldl (\<lambda>s1 x. FontObserverEnvCleanup x s1) t xs) = js_calls t" for t xs
  proof (induction xs arbitrary: t)
    case (Cons x xs)
    then show ?case by (cases "js_tsfns t a") (auto simp: env_cleanup_tsfns)
  qed (simp add: option.map_ident)
  from this [of "s\<lparr>env_hooks := []\<rparr>" "env_hooks s"] show
    "js_tsfns (JS_env_exit s) a =
       map_option (\<lambda>t. if a \<in> set (env_hooks s) then t\<lparr>ts_closing := True\<rparr> else t) (js_tsfns s a)"
    "js_calls (JS_env_exit s) = js_calls s" by (simp_all add: JS_env_exit_def)
qed

definition all_aborted :: "js_state \<Rightarrow> bool" where
  "all_aborted s \<longleftrightarrow> (\<forall>agent t. js_tsfns s agent = Some t \<longrightarrow> ts_closing t)"

lemma env_exit_aborts:
  assumes "hooked s"
  shows "all_aborted (JS_env_exit s)"
  unfolding all_aborted_def
proof (intro allI impI)
  fix agent t
  assume "js_tsfns (JS_env_exit s) agent = Some t"
  then obtain u where u: "js_tsfns s agent = Some u" "t = (if agent \<in> set (env_hooks s) then u\<lparr>ts_closing := True\<rparr> else u)"
    by (auto simp: env_exit_tsfns)
  with assms show "ts_closing t" by (cases "agent \<in> set (env_hooks s)") (auto simp: hooked_def)
qed

lemma aborted_not_called:
  assumes "all_aborted s"
  shows "js_calls (JS_service_died b s) = js_calls s"
proof -
  have "call_tsfn a t = t" if "all_aborted t" for a t
    using that by (auto simp: call_tsfn_def all_aborted_def split: option.split)
  then have "foldl (\<lambda>s1 a. snd (OnServiceDied (Some (call_tsfn a)) s1)) t as = t" if "all_aborted t" for t as
    using that by (induction "as") (simp_all add: OnServiceDied_def)
  with assms show ?thesis by (simp add: JS_service_died_def all_aborted_def split: prod.split)
qed

text \<open>
  C35: nothing calls into an environment that is gone: whatever a module has done before, registered and
  unregistered in any order with any failures, once the clean-up hooks of its environment have run the death of
  the service calls no JavaScript function, however often it dies and whether or not the finalizer has run.
\<close>

theorem no_call_after_teardown:
  assumes "js_step\<^sup>*\<^sup>* s s'" "js_tsfns s = Map.empty"
  shows "js_calls (JS_service_died b (JS_env_exit s')) = js_calls s' \<and>
    js_calls (JS_service_died b (JS_service_died b' (JS_Finalizer E (JS_env_exit s')))) = js_calls s'"
proof -
  have "hooked s" using assms(2) by (simp add: hooked_def)
  from env_exit_aborts [OF js_steps_hooked [OF assms(1) this]] have gone: "all_aborted (JS_env_exit s')" .
  then have fin: "all_aborted (JS_Finalizer E (JS_env_exit s'))" by (simp add: all_aborted_def JS_Finalizer_def)
  then have "all_aborted (JS_service_died b' (JS_Finalizer E (JS_env_exit s')))"
    by (simp add: all_aborted_def service_died_keeps)
  from aborted_not_called [OF this] aborted_not_called [OF fin] aborted_not_called [OF gone] show ?thesis
    by (simp add: env_exit_tsfns JS_Finalizer_def)
qed

text \<open>One observer.\<close>

theorem no_call_after_teardown_witness:
  "\<exists>s'. JS_OnFontObserver ref_napi ref_client_env [ref_observer] ref_js = (Returned JsUndefined, s') \<and>
     env_hooks s' = [1] \<and> js_calls (JS_service_died 1 (JS_env_exit s')) = []"
proof -
  obtain s' where run: "JS_OnFontObserver ref_napi ref_client_env [ref_observer] ref_js = (Returned JsUndefined, s')"
    and st: "env_hooks s' = [1]" "js_calls s' = []"
    by (simp add: JS_OnFontObserver_def ParseOnServiceDiedCallback_def cb_argv_def named_property_def ref_observer_def
        CreateFontObserverAgent_def ref_napi_def Client_OnFontObserver_def GetFontServiceAbility_def ref_client_env_def
        ref_js_def Let_def err_defs)
  have "map_of FontManagerAddonInit ''onFontObserver'' = Some (ObserverFunction JS_OnFontObserver)"
    by (simp add: FontManagerAddonInit_def)
  from js_step.call [OF this run] have "js_step\<^sup>*\<^sup>* ref_js s'" by blast
  from no_call_after_teardown [OF this, of 1] run st show ?thesis by (simp add: ref_js_def)
qed

text \<open>
  But a hook, with its function, stays until then: every accepted observer adds one, and stopping to observe
  takes none away.
\<close>

lemma observation_leaves_hook:
  assumes "JS_OnFontObserver N E args s = (Returned v, s')"
  shows "length (env_hooks s') = Suc (length (env_hooks s)) \<and>
    env_hooks (snd (JS_OffFontObserver E' s')) = env_hooks s' \<and> js_tsfns (snd (JS_OffFontObserver E' s')) = js_tsfns s'"
  using assms
  by (auto simp: JS_OnFontObserver_def CreateFontObserverAgent_def JS_OffFontObserver_def Let_def
      split: sum.splits prod.splits if_splits)

text \<open>The reference of a migration listener's function is given back exactly once, if there is one.\<close>

lemma reference_returned:
  "destroy_JsFuncRefHolder N loop_ok ref \<in>
     (case ref of None \<Rightarrow> {[]} | Some r \<Rightarrow> {[DeleteHere r], [DeleteOnJsThread r]})"
  by (simp add: destroy_JsFuncRefHolder_def split: option.split)

section \<open>ArkTS listeners\<close>

text \<open>
  What is allowed: the state is whether the thread was attached and whether the reference is there; \<open>None\<close> is
  a thread attached twice or detached without need, a call or a deletion without a reference.
\<close>

fun ani_run :: "ani_action list \<Rightarrow> bool \<times> bool \<Rightarrow> (bool \<times> bool) option" where
  "ani_run [] st = Some st"
| "ani_run (AttachThread # as) (attached, ref) = (if attached then None else ani_run as (True, ref))"
| "ani_run (DetachThread # as) (attached, ref) = (if attached then ani_run as (False, ref) else None)"
| "ani_run (CreateGlobalRef # as) (attached, ref) = (if ref then None else ani_run as (attached, True))"
| "ani_run (DeleteGlobalRef # as) (attached, ref) = (if ref then ani_run as (attached, False) else None)"
| "ani_run (CallMethod m vs # as) (attached, ref) = (if ref then ani_run as (attached, ref) else None)"

lemma ani_run_append: "ani_run (as @ bs) st = Option.bind (ani_run as st) (ani_run bs)"
  by (induction "as" st rule: ani_run.induct) simp_all

definition thread_there :: "ani_env \<Rightarrow> bool" where
  "thread_there A \<longleftrightarrow> ani_ok A ''GetEnv'' \<or> ani_ok A ''AttachCurrentThread''"

lemma with_thread_run:
  assumes "\<And>attached. ani_run body (attached, r) = Some (attached, r')"
  shows "ani_run (with_thread A body) (False, r) = Some (False, if thread_there A then r' else r)"
  using assms by (simp add: with_thread_def thread_there_def ani_run_append)

text \<open>The life of a listener: construction, events on any threads, destruction.\<close>

definition listener_life :: "ani_env \<Rightarrow> (ani_env \<times> effect) list \<Rightarrow> ani_env \<Rightarrow> ani_action list" where
  "listener_life A events B =
     construct_listener A @ concat (map (\<lambda>(C, ev). ani_OnHandle C ev) events) @ destroy_listener B (ani_listener_init A)"

lemma OnHandle_run:
  "ani_run (ani_OnHandle C ev) (False, ani_listener_init C) = Some (False, ani_listener_init C)"
proof (cases "ani_listener_init C")
  case True
  have body: "ani_run (if \<not> ani_ok C ''FindClass DataMigrationCallback'' then []
         else case ev of
           EventHeartBeat \<Rightarrow> ani_DoHeartbeatCallback C
         | EventProgress t p \<Rightarrow> ani_DoProgressCallback C t p
         | EventResult r \<Rightarrow> ani_DoResultCallback C r
         | _ \<Rightarrow> []) (attached, True) = Some (attached, True)" for attached
    by (simp add: ani_DoHeartbeatCallback_def ani_DoProgressCallback_def ani_DoResultCallback_def split: effect.split)
  from with_thread_run [OF this] True show ?thesis by (simp add: ani_OnHandle_def)
qed (simp add: ani_OnHandle_def)

lemma construct_run: "ani_run (construct_listener A) (False, False) = Some (False, ani_listener_init A)"
  by (simp add: construct_listener_def)

lemma destroy_run:
  "ani_run (destroy_listener B r) (False, r) = Some (False, r \<and> \<not> (thread_there B \<and> ani_ok B ''GlobalReference_Delete''))"
proof (cases r)
  case True
  have "ani_run (if ani_ok B ''GlobalReference_Delete'' then [DeleteGlobalRef] else []) (attached, True) =
      Some (attached, \<not> ani_ok B ''GlobalReference_Delete'')" for attached by simp
  from with_thread_run [OF this, of B] True show ?thesis by (auto simp: destroy_listener_def)
qed (simp add: destroy_listener_def)

text \<open>
  On every path threads are detached as they were attached and nothing is called without a reference; the
  reference is left behind only when the last thread cannot be attached or the deletion is refused.
\<close>

lemma listener_life_ok:
  assumes "\<forall>(C, ev)\<in>set events. ani_listener_init C = ani_listener_init A"
  shows "ani_run (listener_life A events B) (False, False) =
    Some (False, ani_listener_init A \<and> \<not> (thread_there B \<and> ani_ok B ''GlobalReference_Delete''))"
proof -
  have evs: "ani_run (concat (map (\<lambda>(C, ev). ani_OnHandle C ev) events)) (False, ani_listener_init A)
      = Some (False, ani_listener_init A)"
    using assms
  proof (induction events)
    case (Cons e events)
    obtain C ev where e: "e = (C, ev)" by fastforce
    with Cons.prems have "ani_listener_init C = ani_listener_init A" by simp
    with OnHandle_run [of C ev] Cons show ?case by (simp add: e ani_run_append)
  qed simp
  then show ?thesis by (simp add: listener_life_def ani_run_append construct_run destroy_run)
qed

text \<open>The observer's reference is treated the same way.\<close>

lemma observer_life_ok:
  assumes "ani_listener_init C = ani_listener_init A"
  shows "ani_run (construct_AniObserverRef A @ CallOnServiceDied C @ destroy_AniObserverRef B (ani_listener_init A)) (False, False) =
    Some (False, ani_listener_init A \<and> \<not> (thread_there B \<and> ani_ok B ''GlobalReference_Delete''))"
proof -
  have "construct_AniObserverRef A = construct_listener A"
    by (simp add: construct_AniObserverRef_def construct_listener_def ani_listener_init_def)
  moreover have "destroy_AniObserverRef B r = destroy_listener B r" for r
    by (simp add: destroy_AniObserverRef_def destroy_listener_def)
  moreover have "ani_run (CallOnServiceDied C) (False, ani_listener_init A) = Some (False, ani_listener_init A)"
    using assms with_thread_run [of "[CallMethod ''onServiceDied'' []]" True True C] by (auto simp: CallOnServiceDied_def)
  ultimately show ?thesis by (simp add: ani_run_append construct_run destroy_run)
qed

end
