(* ===== verification/Boot_Laws.thy ===== *)
theory Boot_Laws
  imports Sweep_Laws Manager_Cleanup Font_Server
begin

text \<open>
  What the clean-up of all users does at the start of the service (\<open>CleanupAllScopeFontsOnBoot\<close> and
  \<open>CleanupAppScopeFontsOnStart\<close>): the clean-ups of the users do not get in each other's way, the file tree
  stays well-formed for the sweeps that follow, and only what belongs to applications and sessions is touched.
\<close>

section \<open>Well-formed trees under the operations\<close>

lemma tree_ok_fs: "fs w' = fs w \<Longrightarrow> tree_ok w' = tree_ok w"
  unfolding tree_ok_def using node_at_cong_fs [of w' w] by presburger

lemma tree_ok_put_file:
  assumes ok: "tree_ok w" and p: "p \<noteq> []" "simple_name (last p)" "node_at w (butlast p) = Some Dir" "node_at w p \<noteq> Some Dir"
  shows "tree_ok (put_node p (File c) w)"
proof -
  let ?w = "put_node p (File c) w"
  have keep: "node_at ?w q = Some Dir" if "node_at w q = Some Dir" for q
  proof -
    from that p(4) have "q \<noteq> p" by auto
    with that p(1) show ?thesis by (simp add: node_at_put_node)
  qed
  have old: "q \<noteq> [] \<and> simple_name (last q) \<and> node_at w (butlast q) = Some Dir" if "(q, n) \<in> set (fs w)" for q n
    using ok that unfolding tree_ok_def by fast
  have "set (AList.update p (File c) xs) \<subseteq> insert (p, File c) (set xs)" for xs :: file_tree
    by (induction xs) auto
  then have sub: "(q, n) = (p, File c) \<or> (q, n) \<in> set (fs w)" if "(q, n) \<in> set (fs ?w)" for q n
    using that by (auto simp: put_node_def)
  have "q \<noteq> [] \<and> simple_name (last q) \<and> node_at ?w (butlast q) = Some Dir" if "(q, n) \<in> set (fs ?w)" for q n
    using sub [OF that] old [of q n] p(1-3) keep by blast
  moreover have "distinct (map fst (fs ?w))"
    using ok by (simp add: put_node_def tree_ok_def distinct_update)
  ultimately show ?thesis unfolding tree_ok_def by blast
qed

lemma tree_ok_RemoveAll: "tree_ok w \<Longrightarrow> resolve p \<noteq> [] \<Longrightarrow> tree_ok (snd (RemoveAll E w p))"
  by (simp add: RemoveAll_def remove_all_def tree_ok_drop)

lemma tree_ok_DeleteDir: "tree_ok w \<Longrightarrow> resolve p \<noteq> [] \<Longrightarrow> tree_ok (DeleteDir E w p True)"
  by (simp add: DeleteDir_def tree_ok_RemoveAll)

lemma tree_ok_WriteToFile:
  assumes ok: "tree_ok w" and run: "WriteToFile E w (user_config u) t = (b, w')"
  shows "tree_ok w'"
proof (cases "w' = w")
  case False
  let ?p = "resolve (ConfigPath (user_config u))"
  from False run obtain w1 c where w1: "fopen_w E w (ConfigPath (user_config u)) = Some w1"
    and w': "w' = put_node ?p (File c) w1"
    by (auto simp: WriteToFile_def fwrite_all_def Let_def split: option.splits)
  have last: "simple_name (last ?p)" unfolding resolve_config by simp
  from w1 have ne: "?p \<noteq> []" and dir: "node_at w (butlast ?p) = Some Dir" "node_at w ?p \<noteq> Some Dir"
    and w1: "w1 = put_node ?p (File []) w"
    by (auto simp: fopen_w_def can_create_def split: if_splits)
  have "butlast ?p \<noteq> ?p" using ne by (metis append_butlast_last_id append_self_conv not_Cons_self2)
  then have "node_at w1 (butlast ?p) = Some Dir" "node_at w1 ?p \<noteq> Some Dir"
    using ne dir by (simp_all add: w1 node_at_put_node)
  with tree_ok_put_file [OF _ ne last] tree_ok_put_file [OF ok ne last dir, of "[]"] show ?thesis
    unfolding w' w1 by blast
qed (use ok in simp)

lemma tree_ok_delete_by_member:
  "tree_ok w \<Longrightarrow> delete_by_member E w (user_config u) key v = (b, w') \<Longrightarrow> tree_ok w'"
  by (auto simp: delete_by_member_def dest: tree_ok_WriteToFile split: option.splits prod.splits)

lemma resolved_not_Nil:
  "ValidateAndResolveRealPath E (install_path u) p \<noteq> [] \<Longrightarrow> resolve (ValidateAndResolveRealPath E (install_path u) p) \<noteq> []"
  using prefix_ValidateAndResolveRealPath [of E u p] by (auto simp: resolve_install_path)

lemma tree_ok_remove_records:
  "tree_ok w \<Longrightarrow> remove_records E (user_config u) (install_path u) rs acc w = (names, w') \<Longrightarrow> tree_ok w'"
proof (induction rs arbitrary: acc w)
  case (Cons r rs)
  let ?real = "ValidateAndResolveRealPath E (install_path u) (fr_fontPath r)"
  let ?w1 = "if ?real \<noteq> [] \<and> CheckPathExist E w ?real then snd (RemoveFile E w ?real) else w"
  have 1: "tree_ok ?w1"
    using Cons.prems(1) by (auto simp: RemoveFile_def intro!: tree_ok_RemoveAll resolved_not_Nil)
  obtain b w2 where 2: "DeleteScopeFontRecordByUrl E ?w1 (user_config u) (fr_srcPath r) = (b, w2)" by fastforce
  from tree_ok_delete_by_member [OF 1 this [unfolded DeleteScopeFontRecordByUrl_def]] have "tree_ok w2" .
  with Cons.IH Cons.prems(2) 2 show ?case by (auto simp: Let_def)
qed simp

lemma fs_report_update: "fs (report_update E w p u t names) = fs w"
  by (simp add: report_update_def Let_def fs_reports)

lemma tree_ok_cleanup_records: "tree_ok w \<Longrightarrow> tree_ok (cleanup_records E (user_config u) u rs w)"
proof -
  obtain names w1 where rm: "remove_records E (user_config u) (install_path u) rs [] w = (names, w1)" by fastforce
  have "fs (cleanup_records E (user_config u) u rs w) = fs w1"
    by (simp add: cleanup_records_def rm Let_def fs_report_update fs_reports)
  then show "tree_ok w \<Longrightarrow> ?thesis" using tree_ok_remove_records [OF _ rm] tree_ok_fs by blast
qed

section \<open>What a clean-up touches\<close>

text \<open>The configuration, and what the removed records are resolved to.\<close>

lemma remove_records_only:
  "remove_records E (user_config u) (install_path u) rs acc w = (names, w') \<Longrightarrow>
   q \<noteq> install_dir u @ [FONT_CONFIG_FILE] \<Longrightarrow>
   \<forall>r\<in>set rs. ValidateAndResolveRealPath E (install_path u) (fr_fontPath r) \<noteq> [] \<longrightarrow>
     \<not> prefix (resolve (ValidateAndResolveRealPath E (install_path u) (fr_fontPath r))) q \<Longrightarrow>
   node_at w' q = node_at w q"
proof (induction rs arbitrary: acc w)
  case (Cons r rs)
  let ?real = "ValidateAndResolveRealPath E (install_path u) (fr_fontPath r)"
  let ?w1 = "if ?real \<noteq> [] \<and> CheckPathExist E w ?real then snd (RemoveFile E w ?real) else w"
  have 1: "node_at ?w1 q = node_at w q"
    using Cons.prems(3) by (auto simp: RemoveFile_def RemoveAll_def remove_all_def world_simps)
  obtain b w2 where 2: "DeleteScopeFontRecordByUrl E ?w1 (user_config u) (fr_srcPath r) = (b, w2)" by fastforce
  have "node_at w2 q = node_at ?w1 q"
    using delete_by_member_frame [OF 2 [unfolded DeleteScopeFontRecordByUrl_def]] Cons.prems(2)
    unfolding config_frame_def resolve_config by blast
  moreover obtain acc' where "remove_records E (user_config u) (install_path u) rs acc' w2 = (names, w')"
    using Cons.prems(1) 2 by (auto simp: Let_def)
  then have "node_at w' q = node_at w2 q" using Cons.prems(2,3) by (intro Cons.IH) auto
  ultimately show ?case using 1 by simp
qed simp

lemma cleanup_records_only:
  assumes "q \<noteq> install_dir u @ [FONT_CONFIG_FILE]"
    "\<forall>r\<in>set rs. ValidateAndResolveRealPath E (install_path u) (fr_fontPath r) \<noteq> [] \<longrightarrow>
       \<not> prefix (resolve (ValidateAndResolveRealPath E (install_path u) (fr_fontPath r))) q"
  shows "node_at (cleanup_records E (user_config u) u rs w) q = node_at w q"
proof -
  obtain names w1 where rm: "remove_records E (user_config u) (install_path u) rs [] w = (names, w1)" by fastforce
  have "fs (cleanup_records E (user_config u) u rs w) = fs w1"
    by (simp add: cleanup_records_def rm Let_def fs_report_update fs_reports)
  then have "node_at (cleanup_records E (user_config u) u rs w) q = node_at w1 q" by (rule node_at_cong_fs)
  with remove_records_only [OF rm assms] show ?thesis by simp
qed

text \<open>Where the fonts of applications and sessions are, with the temporary directory and the configuration.\<close>

definition in_scope_dir :: "int \<Rightarrow> path \<Rightarrow> bool" where
  "in_scope_dir u q \<longleftrightarrow> (\<exists>d. app_or_session_dir d \<and> prefix (install_dir u @ [d]) q)"

definition boot_path :: "int \<Rightarrow> path \<Rightarrow> bool" where
  "boot_path u q \<longleftrightarrow> in_scope_dir u q \<or> prefix (install_dir u @ [''temp'']) q \<or> q = install_dir u @ [FONT_CONFIG_FILE]"

lemma scope_dir_names [simp]: "\<not> app_or_session_dir FONT_CONFIG_FILE" "\<not> app_or_session_dir ''temp''"
  by (simp_all add: app_or_session_dir_def FONT_CONFIG_FILE_def path_defs)

lemma config_outside [simp]: "\<not> in_scope_dir v (install_dir u @ [FONT_CONFIG_FILE])"
proof (cases "u = v")
  case False
  then show ?thesis using install_dir_apart [of u v] by (auto simp: in_scope_dir_def dest: prefix_order.trans append_prefixD)
qed (auto simp: in_scope_dir_def)

lemma temp_apart: "\<not> prefix (install_dir v @ [''temp'']) (install_dir u @ [FONT_CONFIG_FILE])"
  by (simp add: resolve_install_path FONT_CONFIG_FILE_def)

lemma prefix_in_scope_dir: "in_scope_dir u p \<Longrightarrow> prefix p q \<Longrightarrow> in_scope_dir u q"
  unfolding in_scope_dir_def using prefix_order.trans by blast

section \<open>All users\<close>

text \<open>
  The records of a user that satisfy \<open>P\<close> can be cleaned up: the disk can be written, memory suffices, the
  URLs tell the records apart and their fonts are where scope fonts are.
\<close>

definition cleanable ::
    "'e font_env_scheme \<Rightarrow> (cJSON \<Rightarrow> bool) \<Rightarrow> 'a world_scheme \<Rightarrow> int \<Rightarrow> cJSON list \<Rightarrow> bool" where
  "cleanable E P w u xs \<longleftrightarrow>
     disk_ok E w (user_config u) \<and> config_size E w (user_config u) \<le> JSON_MEMORY \<and>
     config_items E w (user_config u) = Some xs \<and> unique_member FONT_SRC_PATH xs \<and>
     (\<forall>x\<in>set xs. P x \<longrightarrow> jstring x FONT_SRC_PATH \<noteq> None \<and>
        (ValidateAndResolveRealPath E (install_path u) (jtext x FONT_PATH) \<noteq> [] \<longrightarrow>
           in_scope_dir u (resolve (ValidateAndResolveRealPath E (install_path u) (jtext x FONT_PATH)))))"

lemma cleanable_mono: "cleanable E P w u xs \<Longrightarrow> (\<And>x. Q x \<Longrightarrow> P x) \<Longrightarrow> cleanable E Q w u xs"
  by (auto simp: cleanable_def)

lemma cleanable_cong:
  assumes "\<And>q. q \<in> {install_dir u, install_dir u @ [FONT_CONFIG_FILE]} \<Longrightarrow> node_at w' q = node_at w q"
  shows "cleanable E P w' u xs = cleanable E P w u xs"
proof -
  have n: "node_at w' (resolve (ConfigPath (user_config u))) = node_at w (resolve (ConfigPath (user_config u)))"
    "node_at w' (butlast (resolve (ConfigPath (user_config u)))) = node_at w (butlast (resolve (ConfigPath (user_config u))))"
    using assms unfolding resolve_config by simp_all
  show ?thesis
    unfolding cleanable_def disk_ok_def config_size_def n(2) LoadConfig_cong [OF n(1)] config_items_cong [OF n(1)] ..
qed

lemma cleanable_safe:
  assumes "cleanable E P w u xs" "x \<in> set xs" "P x"
  shows "resolve (ValidateAndResolveRealPath E (install_path u) (jtext x FONT_PATH)) \<noteq> install_dir u @ [FONT_CONFIG_FILE]"
proof
  assume eq: "resolve (ValidateAndResolveRealPath E (install_path u) (jtext x FONT_PATH)) = install_dir u @ [FONT_CONFIG_FILE]"
  have "resolve [] = []" by (simp add: resolve_def)
  with eq have "ValidateAndResolveRealPath E (install_path u) (jtext x FONT_PATH) \<noteq> []" by auto
  with assms have "in_scope_dir u (install_dir u @ [FONT_CONFIG_FILE])" unfolding eq [symmetric] by (auto simp: cleanable_def)
  then show False by simp
qed

text \<open>
  What the two operations that clean up a user do: the loop over the records with \<open>P\<close>, after the
  configuration object has been looked up.
\<close>

definition scope_cleaner ::
    "'e font_env_scheme \<Rightarrow> (cJSON \<Rightarrow> bool) \<Rightarrow> ('a fm_state_scheme \<Rightarrow> int \<Rightarrow> 'a fm_state_scheme) \<Rightarrow> bool" where
  "scope_cleaner E P clean \<longleftrightarrow> (\<forall>s u xs. configs_ok s \<longrightarrow> config_items E s (user_config u) = Some xs \<longrightarrow>
     (\<exists>s1. SafeGetOrCreateConfig s u (install_path u @ FONT_CONFIG_FILE) = (user_config u, s1) \<and>
       clean s u = cleanup_records E (user_config u) u (map jrecord (filter P xs)) s1))"

lemma boot_path_other: "u \<noteq> v \<Longrightarrow> prefix (install_dir v) q \<Longrightarrow> \<not> boot_path u q"
  using install_dir_apart [of v u q]
  by (auto simp: boot_path_def in_scope_dir_def dest: append_prefixD)

context config_memory
begin

text \<open>One user.\<close>

lemma clean_user:
  assumes cl: "scope_cleaner E P clean" and ok: "configs_ok s" "tree_ok s" and c: "cleanable E P s u xs"
  shows "configs_ok (clean s u)" "tree_ok (clean s u)"
    "config_items E (clean s u) (user_config u) = Some (filter (\<lambda>x. \<not> P x) xs)"
    "\<not> boot_path u q \<Longrightarrow> node_at (clean s u) q = node_at s q"
proof -
  from c have items: "config_items E s (user_config u) = Some xs" by (simp add: cleanable_def)
  from cl ok(1) items obtain s1 where get: "SafeGetOrCreateConfig s u (install_path u @ FONT_CONFIG_FILE) = (user_config u, s1)"
    and eq: "clean s u = cleanup_records E (user_config u) u (map jrecord (filter P xs)) s1" unfolding scope_cleaner_def by blast
  note get' = SafeGetOrCreateConfig_eq [OF get ok(1)]
  from cleanup_frame [OF ok(1) get] obtain es where "fm_frame u es s (clean s u)" unfolding eq by blast
  with ok(1) show "configs_ok (clean s u)" by (simp add: fm_frame_def)
  have "s1 = s \<or> s1 = s\<lparr>configMap := (configMap s)(u \<mapsto> user_config u)\<rparr>"
    using get unfolding SafeGetOrCreateConfig_def Let_def by (cases "configMap s u") simp_all
  then have "fs s1 = fs s" by auto
  then have "tree_ok s1" using ok(2) tree_ok_fs [of s1 s] by blast
  then show "tree_ok (clean s u)" unfolding eq by (rule tree_ok_cleanup_records)
  show "config_items E (clean s u) (user_config u) = Some (filter (\<lambda>x. \<not> P x) xs)"
    unfolding eq using c cleanable_safe [OF c]
    by (intro cleanup_selected(1) [OF ok(1) _ _ items _ _ get]) (auto simp: cleanable_def)
  assume q: "\<not> boot_path u q"
  have "\<not> prefix (resolve (ValidateAndResolveRealPath E (install_path u) (jtext x FONT_PATH))) q"
    if "x \<in> set xs" "P x" "ValidateAndResolveRealPath E (install_path u) (jtext x FONT_PATH) \<noteq> []" for x
    using c that q prefix_in_scope_dir by (fastforce simp: cleanable_def boot_path_def)
  then have "node_at (clean s u) q = node_at s1 q"
    unfolding eq using q by (intro cleanup_records_only) (auto simp: boot_path_def jrecord_def)
  with get'(4) show "node_at (clean s u) q = node_at s q" by simp
qed

text \<open>One user after the other.\<close>

lemma clean_users:
  assumes cl: "scope_cleaner E P clean"
    and "configs_ok s" "tree_ok s" "distinct us" "\<forall>u\<in>set us. cleanable E P s u (xs u)"
  shows "configs_ok (foldl clean s us) \<and> tree_ok (foldl clean s us) \<and>
    (\<forall>u\<in>set us. config_items E (foldl clean s us) (user_config u) = Some (filter (\<lambda>x. \<not> P x) (xs u))) \<and>
    (\<forall>q. (\<forall>u\<in>set us. \<not> boot_path u q) \<longrightarrow> node_at (foldl clean s us) q = node_at s q)"
  using assms(2-)
proof (induction us rule: rev_induct)
  case (snoc u us)
  let ?t = "foldl clean s us"
  from snoc have ih: "configs_ok ?t" "tree_ok ?t"
    "\<forall>v\<in>set us. config_items E ?t (user_config v) = Some (filter (\<lambda>x. \<not> P x) (xs v))"
    "\<forall>q. (\<forall>v\<in>set us. \<not> boot_path v q) \<longrightarrow> node_at ?t q = node_at s q" by simp_all
  have other: "node_at ?t q = node_at s q" if "prefix (install_dir u) q" for q
    using ih(4) boot_path_other [OF _ that] snoc.prems(3) by fastforce
  have c: "cleanable E P ?t u (xs u)"
    using snoc.prems(4) other by (subst cleanable_cong [where w = s]) auto
  note step = clean_user [OF cl ih(1,2) c]
  have "config_items E (clean ?t u) (user_config v) = Some (filter (\<lambda>x. \<not> P x) (xs v))" if "v \<in> set us" for v
  proof -
    have "u \<noteq> v" using that snoc.prems(3) by auto
    then have "node_at (clean ?t u) (resolve (ConfigPath (user_config v))) = node_at ?t (resolve (ConfigPath (user_config v)))"
      unfolding resolve_config by (intro step(4) boot_path_other [of u v]) simp_all
    then have "config_items E (clean ?t u) (user_config v) = config_items E ?t (user_config v)"
      by (rule config_items_cong)
    with ih(3) that show ?thesis by simp
  qed
  with step ih(4) show ?case by simp
qed simp

end

section \<open>The directories\<close>

lemma temp_dir_path: "resolve (install_path u @ TEMP_FILE) = install_dir u @ [''temp'']"
  using resolve_dir_temp install_path_slash [of u] by auto

lemma ClearAllTempFileDir_only:
  "tree_ok w \<Longrightarrow> tree_ok (ClearAllTempFileDir E w)"
  "\<forall>u\<in>set (GetAllCreatedUserIds E). \<not> prefix (install_dir u @ [''temp'']) q \<Longrightarrow>
     node_at (ClearAllTempFileDir E w) q = node_at w q"
proof -
  let ?step = "\<lambda>w1 u. if CheckPathExist E w1 (install_path u @ TEMP_FILE)
     then DeleteDir E w1 (install_path u @ TEMP_FILE) True else w1"
  have "tree_ok w \<Longrightarrow> tree_ok (foldl ?step w us)" for us
    by (induction us arbitrary: w) (simp_all add: tree_ok_DeleteDir temp_dir_path)
  then show "tree_ok w \<Longrightarrow> tree_ok (ClearAllTempFileDir E w)" by (simp add: ClearAllTempFileDir_def Let_def)
  have "\<forall>u\<in>set us. \<not> prefix (install_dir u @ [''temp'']) q \<Longrightarrow> node_at (foldl ?step w us) q = node_at w q" for us
    by (induction us arbitrary: w) (simp_all add: DeleteDir_def RemoveAll_def remove_all_def temp_dir_path world_simps)
  then show "\<forall>u\<in>set (GetAllCreatedUserIds E). \<not> prefix (install_dir u @ [''temp'']) q \<Longrightarrow>
     node_at (ClearAllTempFileDir E w) q = node_at w q" by (simp add: ClearAllTempFileDir_def Let_def)
qed

text \<open>A sweep empties the directories it looks for and touches nothing else.\<close>

lemma sweep_users:
  assumes "tree_ok w" "\<forall>c. \<not> sys_fault E c" "w' = foldl (sweep_user E P) w us" "\<And>d. P d \<Longrightarrow> app_or_session_dir d"
  shows "u \<in> set us \<Longrightarrow> P d \<Longrightarrow> strict_prefix (install_dir u @ [d]) q \<Longrightarrow> node_at w' q = None"
    "\<forall>u\<in>set us. \<not> in_scope_dir u q \<Longrightarrow> node_at w' q = node_at w q"
proof -
  have cl: "node_at w' q = (if \<exists>p\<in>swept P w (set us). prefix p q then None else node_at w q)" for q
    using foldl_sweep_cleared [OF assms(2,1), of P us] unfolding assms(3) cleared_def by blast
  show "\<forall>u\<in>set us. \<not> in_scope_dir u q \<Longrightarrow> node_at w' q = node_at w q"
    unfolding cl using assms(4) by (auto simp: swept_def in_scope_dir_def)
  assume u: "u \<in> set us" "P d" and q: "strict_prefix (install_dir u @ [d]) q"
  show "node_at w' q = None"
  proof (cases "node_at w (install_dir u @ [d]) = Some Dir")
    case True
    with u have "install_dir u @ [d] \<in> swept P w (set us)" by (auto simp: swept_def)
    with q show ?thesis unfolding cl by auto
  next
    case False
    have "node_at w q = None" using q False
    proof (induction q rule: rev_induct)
      case (snoc x q)
      then show ?case using node_at_parent(1) [OF assms(1), of q x]
        by (cases "q = install_dir u @ [d]") (fastforce simp: strict_prefix_def prefix_snoc)+
    qed simp
    then show ?thesis unfolding cl by simp
  qed
qed

section \<open>The two tasks\<close>

context config_memory
begin

lemma config_looked_up:
  assumes "configs_ok s" "config_items E s (user_config u) = Some xs"
  shows "\<exists>s1. SafeGetOrCreateConfig s u (install_path u @ FONT_CONFIG_FILE) = (user_config u, s1) \<and>
    config_items E s1 (user_config u) = Some xs"
proof -
  obtain cfg s1 where get: "SafeGetOrCreateConfig s u (install_path u @ FONT_CONFIG_FILE) = (cfg, s1)" by fastforce
  note get' = SafeGetOrCreateConfig_eq [OF get assms(1)]
  from config_items_cong [OF get'(4)] get get'(1) assms(2) show ?thesis by metis
qed

lemma scope_cleaners:
  "scope_cleaner E (has_scope (\<lambda>v. v \<ge> 0)) (\<lambda>s u. snd (CleanupScopeFontsByUser E s u))"
  "scope_cleaner E (has_scope (\<lambda>v. v = FONT_SCOPE_APP)) (\<lambda>s u. snd (CleanupAppScopeFontsByUser E s u))"
  unfolding scope_cleaner_def CleanupScopeFontsByUser_def GetScopeFontRecords_eq
    CleanupAppScopeFontsByUser_def GetAppScopeFontRecords_eq
  by (auto dest: config_looked_up)

text \<open>The records of all users are cleaned up, then the directories are swept, whatever a step in between cleared.\<close>

lemma clean_then_sweep:
  assumes "scope_cleaner E P clean" "configs_ok s" "tree_ok s" "distinct us" "\<forall>u\<in>set us. cleanable E P s u (xs u)"
    "\<forall>c. \<not> sys_fault E c" "\<And>d. Q d \<Longrightarrow> app_or_session_dir d"
    "t = foldl clean s us" "tree_ok t \<Longrightarrow> tree_ok t'"
    "\<And>q. \<forall>u\<in>set us. \<not> prefix (install_dir u @ [''temp'']) q \<Longrightarrow> node_at t' q = node_at t q"
    "s' = foldl (sweep_user E Q) t' us"
  shows "\<forall>u\<in>set us. config_items E s' (user_config u) = Some (filter (\<lambda>x. \<not> P x) (xs u)) \<and>
      (\<forall>d q. Q d \<longrightarrow> strict_prefix (install_dir u @ [d]) q \<longrightarrow> node_at s' q = None)"
    "\<forall>u\<in>set us. \<not> boot_path u q \<Longrightarrow> node_at s' q = node_at s q"
proof -
  note users = clean_users [OF assms(1-5), folded assms(8)]
  then have t': "tree_ok t'" using assms(9) by blast
  note sweep = sweep_users [OF t' assms(6,11,7)]
  have "node_at s' (resolve (ConfigPath (user_config u))) = node_at t (resolve (ConfigPath (user_config u)))" for u
    unfolding resolve_config
    using sweep(2) [of "install_dir u @ [FONT_CONFIG_FILE]"] assms(10) [OF ballI [OF temp_apart]] by simp
  then have "config_items E s' (user_config u) = config_items E t (user_config u)" for u by (rule config_items_cong)
  with users sweep(1) show "\<forall>u\<in>set us. config_items E s' (user_config u) = Some (filter (\<lambda>x. \<not> P x) (xs u)) \<and>
      (\<forall>d q. Q d \<longrightarrow> strict_prefix (install_dir u @ [d]) q \<longrightarrow> node_at s' q = None)" by auto
  assume q: "\<forall>u\<in>set us. \<not> boot_path u q"
  then have "node_at s' q = node_at t' q" by (intro sweep(2)) (auto simp: boot_path_def)
  also have "\<dots> = node_at t q" using q by (intro assms(10)) (auto simp: boot_path_def)
  finally show "node_at s' q = node_at s q" using users q by simp
qed

end

end
