(* ===== verification/Spec2Isabelle.thy ===== *)
theory Spec2Isabelle
  imports Manager_Properties Scope_Properties Config_Properties Utility_Properties Migration_Properties
    Tool_Laws Binding_Properties Concurrency_Properties Config_Typing Front_Ends Binding_Lifetimes
    Boot_Properties
begin

text \<open>
  \<^bold>\<open>The OpenHarmony font manager.\<close> The service keeps the fonts that users and applications have installed.
  A caller passes an open font file; the service copies it below
  \<open>/data/service/el1/<user>/for-all-app/fonts/\<close> and records its path and names in the JSON file
  \<open>install_fontconfig.json\<close> of that user. Fonts of a user carry no scope; fonts of one application (scope 0,
  in a directory \<open>app_<token>\<close>) or of one session (scope 1, \<open>session_<token>\<close>) belong to the bundle and the
  token that installed them and go when the application unregisters or dies, when the user stops, or at
  boot. Everything else is support: the upgrade of old configuration files, the migration of fonts from the
  old shared directory, the unloading of the idle service, the client library and a command line tool.

  \<^bold>\<open>Parts of the program and their theories\<close> (sources below \<open>src/\<close>):

  \<^item> \<open>common/include/font_define.h\<close> is \<^theory_text>\<open>Font_Define\<close>: result codes, paths, limits, scope values.
  \<^item> POSIX and \<open>std::filesystem\<close> as the sources use them are \<^theory_text>\<open>File_System\<close>: a tree of files and directories
    (no symbolic links), open descriptors, and the trace \<open>effects\<close> of what leaves the process. The record
    \<open>font_env\<close> holds what the program does not decide: which system calls are refused (\<open>sys_fault\<close>, fixed
    for each call and path), the answers of \<open>sendfile\<close>, the time, the accounts, the font parser, the other
    services. \<^theory_text>\<open>Prelude\<close> has the pieces of \<open>std::string\<close>, \<open>strtol\<close> and \<open>std::to_string\<close>.
  \<^item> cJSON is third-party code: \<^theory_text>\<open>CJSON_Api\<close> has its items as a datatype, its functions as fields of a
    record and its documented behaviour as the locale \<open>cjson_library\<close> (\<open>cjson_memory\<close> when memory suffices);
    \<^theory_text>\<open>CJSON_Instance\<close> gives an instance, so the laws can hold together.
  \<^item> \<open>frameworks/fontmgr/src\<close>: \<open>font_manager_utils.cpp\<close> is \<^theory_text>\<open>Font_Utils\<close>, \<open>font_config.cpp\<close> is
    \<^theory_text>\<open>Font_Config\<close>, \<open>font_manager.cpp\<close> is \<^theory_text>\<open>Font_Manager\<close>, \<open>data_migration_manager.cpp\<close> is
    \<^theory_text>\<open>Data_Migration\<close>, \<open>font_client_registry.cpp\<close> is \<^theory_text>\<open>Client_Registry\<close>, and the reports to other services
    (\<open>hisysevent_adapter.cpp\<close>, \<open>storage_manager_adapter.cpp\<close>, \<open>font_event_publish.cpp\<close>) are \<^theory_text>\<open>Adapters\<close>.
  \<^item> \<open>service/server\<close> is \<^theory_text>\<open>Font_Server\<close>; \<open>service/client\<close> is \<^theory_text>\<open>Font_Client\<close>, with the agents
    through which the service calls back; \<open>tools/ohos-fontManager\<close> is \<^theory_text>\<open>Cli_Tool\<close>.
  \<^item> \<open>interfaces/js/kits\<close> is \<^theory_text>\<open>JS_Binding\<close> and \<open>interfaces/ani\<close> is \<^theory_text>\<open>ANI_Binding\<close>: arguments, results,
    promises and errors, listeners and observers, and the table of what is exported. The N-API and the ANI are
    records of answers. \<^theory_text>\<open>Front_Ends\<close> has \<open>service/inner_api\<close> and puts front ends, client and service together.
  \<^item> \<^theory_text>\<open>Install_Threads\<close> and \<^theory_text>\<open>Removal_Threads\<close> are \<open>FontManager::InstallFont\<close> and \<open>UninstallFont\<close>
    once more, cut at their locks; \<^theory_text>\<open>Font_Threads\<close> runs any number of both at the same time.

  \<^bold>\<open>State and operations.\<close> The members of the singletons are one extensible record: \<open>world\<close> (files,
  descriptors, effects), extended by \<open>fm_state\<close> (\<open>configMap_\<close>), \<open>dm_state\<close> (the migration's flag, callback
  and users), \<open>registry_state\<close> (\<open>clients_\<close>, \<open>userClients_\<close>, the linked death recipients, the callback) and
  \<open>server_state\<close> (\<open>callingCount_\<close> as a 32-bit word, \<open>isDataMigrationing_\<close>, the task queue of \<open>handler_\<close>, the
  subscriber). An operation takes the environment and the state and returns its result and the new state,
  under the source's name (\<open>Server_\<close> and \<open>Client_\<close> where the name is taken; \<open>...Inner\<close> as in the source).
  An out parameter is the second component of the result. Every early return is a branch, in the source's
  order. Code that several functions repeat is one helper.

  \<^bold>\<open>Interleaving.\<close> \<^theory_text>\<open>Server_Steps\<close> is the running service: calls enter their guard, run and leave it at any
  time and in any order, tasks run from the queue, binders die, events arrive; the body of a handler or of a task is
  one step there. \<^theory_text>\<open>Install_Threads\<close> and \<^theory_text>\<open>Removal_Threads\<close> go inside the bodies of \<open>InstallFont\<close>
  and \<open>UninstallFont\<close>: a step is one operation under its lock or one piece of work between two locks, and a
  thread alone is the function (\<open>run_install_alone\<close>, \<open>run_removal_alone\<close>). In \<^theory_text>\<open>Font_Threads\<close> a
  schedule is a list of turns of the threads, each an installation or a removal. \<^theory_text>\<open>Font_Interleaving\<close>
  has the invariant of all schedules for the records and files of the threads, \<^theory_text>\<open>Store_Interleaving\<close> a second one
  for the store as a whole, \<^theory_text>\<open>Concurrency_Properties\<close> what follows: no finished installation is lost unless
  somebody asks for its removal, no two records name one file, no record loses its file, the limit holds, every thread
  finishes; but one name can be recorded twice. \<^theory_text>\<open>Config_Typing\<close> takes the operations of
  \<open>FontConfig\<close> in any order (\<open>config_step\<close>) and shows that the records keep their type. Setting up
  directories, copying and reporting are one step of a thread each.

  \<^bold>\<open>What the lemmas show.\<close> \<^theory_text>\<open>Config_Store\<close>, \<^theory_text>\<open>Config_Ops\<close> and \<^theory_text>\<open>Config_Update\<close> abstract a
  configuration file to the list of its items (\<open>config_items\<close>) and give the effect of every operation on it,
  on every branch, from the laws of the JSON interface. \<^theory_text>\<open>Frames\<close> says what an operation leaves alone
  and what it reports; \<^theory_text>\<open>Manager_Laws\<close> lifts this to the manager and shows that resolved paths stay
  inside the user's directory. \<^theory_text>\<open>Manager_Records\<close>, \<^theory_text>\<open>Manager_Scope\<close> and \<^theory_text>\<open>Manager_Cleanup\<close>
  say what success has done to files and records, \<^theory_text>\<open>Manager_Progress\<close> and \<^theory_text>\<open>Manager_Removal\<close> when
  success is certain, \<^theory_text>\<open>Manager_Store\<close> has the invariant of a user's records. \<^theory_text>\<open>Sweep_Laws\<close>,
  \<^theory_text>\<open>Registry_Laws\<close>, \<^theory_text>\<open>Migration_Laws\<close> and \<^theory_text>\<open>Server_Laws\<close> do the same for the directory sweeps, the
  registry (against the locale \<open>died_listener\<close> for its callback), the migration and the handlers (locale
  \<open>server_body\<close> for what the guard relies on), \<^theory_text>\<open>Guard_Views\<close> for what the guard leaves alone,
  \<^theory_text>\<open>Boot_Laws\<close> for the clean-up of all users when the service starts (\<^theory_text>\<open>Boot_Properties\<close>).
  \<^theory_text>\<open>Tool_Laws\<close> is about the options, lines and exit codes of the tool, \<^theory_text>\<open>Binding_Properties\<close> about promises,
  errors and observers of the bindings, \<^theory_text>\<open>Binding_Lifetimes\<close> about what they hold and give back. The properties stand in the theories named
  \<open>..._Properties\<close> and, where they span components, here; \<^theory_text>\<open>Reference_World\<close> and \<^theory_text>\<open>Reference_Runs\<close>
  hold the concrete environment and runs their witnesses use.

  \<^bold>\<open>Bounds and fuel.\<close> The only loop the program does not bound is \<open>sendfile\<close>: the kernel's answers are a
  finite list of the environment, after which the rest arrives at once, so every finite run of the loop is
  covered and an endless run of \<open>EINTR\<close> is not. The heartbeat thread is a number of heartbeats before the
  copying (\<open>heart_beats\<close>, any number), the wait of the client for the service one answer. The calling count
  is a word: a call enters only while fewer than \<open>2 ^ 32 - 1\<close> are inside. A thread that installs a font with
  \<open>n\<close> names is given \<open>3 * n + 7\<close> turns: three for a name that is recorded with a lost file, and one for
  each other step; a thread that removes a font is given six. \<open>threads_finish\<close> shows that they are enough.

  \<^bold>\<open>Not modelled.\<close> The generated stubs and proxies of the IDL interfaces, which are not in the repository; logging;
  file permissions (\<open>fchmod\<close>, \<open>permissions\<close>) beyond their refusal; JavaScript getters that throw and the reference
  counts of thread-safe functions; the positions inside the operations of \<open>FontManager\<close> other than \<open>InstallFont\<close> and
  \<open>UninstallFont\<close>, which run as one step even where they hold no lock; constructors and destructors that do
  nothing. The arithmetic of \<open>double\<close> in \<open>IsShouldUpdateProgress\<close> is taken as exact.

  \<^bold>\<open>Plan.\<close> Every component with logic of its own is modelled. What could be added is a finer grain: fonts of
  applications and sessions, and the clean-up operations, as threads beside the installations and removals.
\<close>

section \<open>Isolation of users\<close>

text \<open>
  C17: no call of one user reaches the files of another: installing, removing and looking up fonts, with and
  without a scope, leaves everything below the directory of every other user as it is; the calls that
  name a user reach that user only.
\<close>

theorem caller_isolation:
  assumes "configs_ok s" "prefix (install_dir v) q" "GetCallingUserId E c \<noteq> v" "u \<noteq> v"
  shows "node_at (snd (Server_InstallFont E c fd s)) q = node_at s q \<and>
    node_at (snd (Server_UninstallFont E c n s)) q = node_at s q \<and>
    node_at (snd (InstallFontWithUserId E c fd u s)) q = node_at s q \<and>
    node_at (snd (UninstallFontWithUserId E c n u s)) q = node_at s q \<and>
    node_at (snd (Server_InstallScopeFont E c fd sc url s)) q = node_at s q \<and>
    node_at (snd (Server_UninstallScopeFont E c url s)) q = node_at s q \<and>
    node_at (snd (Server_GetFontScope E c url out s)) q = node_at s q"
proof -
  have keep: "fm_frame w es t t' \<Longrightarrow> w \<noteq> v \<Longrightarrow> node_at t' q = node_at t q" for w es and t t' :: "'a server_state_scheme"
    using install_dir_apart assms(2) by (auto simp: fm_frame_def)
  have inst: "node_at (snd (InstallFont E t fd w)) q = node_at t q"
    and uninst: "node_at (snd (UninstallFont E t n w)) q = node_at t q"
    and uninst_scope: "node_at (snd (UninstallScopeFont E t url b tok w)) q = node_at t q"
    if "configs_ok t" "w \<noteq> v" for t :: "'a server_state_scheme" and w b tok
    using InstallFont_frame [OF that(1) prod.collapse [symmetric], where E = E and fd = fd and u = w]
      UninstallFont_frame [OF that(1) prod.collapse [symmetric], where E = E and n = n and u = w]
      UninstallScopeFont_frame [OF that(1) prod.collapse [symmetric], where E = E and url = url and tok = tok and u = w]
      keep [OF _ that(2)] by blast+
  have inst_scope: "node_at (snd (InstallScopeFont E t info)) q = node_at t q"
    if "configs_ok t" "si_userId info \<noteq> v" "simple_name (si_appIdentifier info)" for t :: "'a server_state_scheme" and info
    using InstallScopeFont_frame [OF that(1,3) prod.collapse [symmetric], where E = E] keep [OF _ that(2)] by blast
  have scope: "node_at (snd (GetFontScope E t url b tok w)) q = node_at t q" if "configs_ok t"
    for t :: "'a server_state_scheme" and b tok w
    using SafeGetOrCreateConfig_eq(4) [OF prod.collapse [symmetric] that]
    by (simp add: GetFontScope_def split: prod.split option.split) (metis prod.collapse snd_conv)
  have caller: "ACCOUNT_ENABLE E \<Longrightarrow> GetOsAccountLocalIdFromUid E (CallingUid c) = Some w \<Longrightarrow> w \<noteq> v" for w
    using assms(3) by (auto simp: GetCallingUserId_def)
  show ?thesis
    using assms(1,3,4) inst uninst uninst_scope inst_scope scope caller
    unfolding Server_InstallFont_def Server_UninstallFont_def InstallFontWithUserId_def UninstallFontWithUserId_def
      Server_InstallScopeFont_def Server_UninstallScopeFont_def Server_GetFontScope_def
    by (intro conjI with_guard_node)
      (simp_all add: InstallFontInner_def UninstallFontInner_def InstallFontWithUserIdInner_def
        UninstallFontWithUserIdInner_def InstallScopeFontInner_def UninstallScopeFontInner_def GetFontScopeInner_def
        Let_def simple_name_MakeAppIdentifier split_beta split: option.split)
qed

theorem caller_isolation_witness:
  "node_at (snd (Server_InstallFont ref_env ref_caller 3 ref_fresh)) (install_dir 101 @ [''b.ttf'']) =
     node_at ref_fresh (install_dir 101 @ [''b.ttf''])"
proof -
  have "GetCallingUserId ref_env ref_caller \<noteq> 101" by (simp add: GetCallingUserId_def)
  from caller_isolation [OF ref_saved_configs(2) _ this, where u = 100] show ?thesis by simp
qed

section \<open>A scope font through the service\<close>



section \<open>The codes the tool reports\<close>

definition install_codes :: "int set" where
  "install_codes = {ERR_OK, ERR_FILE_NOT_EXISTS, ERR_FILE_VERIFY_FAIL, ERR_INSTALLED_ALRADY, ERR_INSTALL_FAIL,
     ERR_MAX_FILE_COUNT, ERR_COPY_FAIL}"

definition uninstall_codes :: "int set" where
  "uninstall_codes = {ERR_OK, ERR_UNINSTALL_FILE_NOT_EXISTS, ERR_UNINSTALL_REMOVE_FAIL, ERR_UNINSTALL_FAIL}"

lemma stale_names_codes: "clear_stale_names E cfg p ns w = (Some e, w') \<Longrightarrow> e \<in> install_codes"
  by (drule clear_stale_names_code) (auto simp: install_codes_def)

lemma insert_code: "InsertFontRecordIfUnderLimit E w cfg p ns m = (r, w') \<Longrightarrow> r \<in> install_codes"
  by (auto simp: InsertFontRecordIfUnderLimit_def install_codes_def split: option.splits prod.splits bool.splits if_splits)

lemma install_new_font_code: "fst (install_new_font E cfg p fd u ns w) \<in> install_codes"
proof -
  have "ERR_MAX_FILE_COUNT \<in> install_codes" "ERR_COPY_FAIL \<in> install_codes" "ERR_OK \<in> install_codes"
    by (simp_all add: install_codes_def)
  then show ?thesis
    by (auto simp: install_new_font_def Let_def dest: insert_code split: prod.split)
qed

lemma InstallFont_code: "fst (InstallFont E s fd u) \<in> install_codes"
proof -
  have "ERR_FILE_NOT_EXISTS \<in> install_codes" "ERR_FILE_VERIFY_FAIL \<in> install_codes" by (simp_all add: install_codes_def)
  then show ?thesis
    using install_new_font_code [of E] stale_names_codes [of E]
    by (auto simp: InstallFont_def Let_def split: prod.split bool.split option.split)
qed

lemma UninstallFont_code: "fst (UninstallFont E s n u) \<in> uninstall_codes"
  by (simp add: UninstallFont_def Let_def uninstall_codes_def split: prod.split bool.split option.split)

lemma code_has_entry:
  assumes "code \<in> insert ERR_NO_PERMISSION (install_codes \<union> uninstall_codes)"
  shows "fst (MapFontError code) = ''ERR_INTERNAL_ERROR'' \<longleftrightarrow> code = ERR_OK" "map_of ani_errorMsg code = None \<longleftrightarrow> code = ERR_OK"
    "code \<in> insert ERR_NO_PERMISSION install_codes \<Longrightarrow> install_message code = ''Other error.'' \<longleftrightarrow> code = ERR_OK"
    "code \<in> insert ERR_NO_PERMISSION uninstall_codes \<Longrightarrow> uninstall_message code = ''Other error.'' \<longleftrightarrow> code = ERR_OK"
proof -
  show "fst (MapFontError code) = ''ERR_INTERNAL_ERROR'' \<longleftrightarrow> code = ERR_OK"
    using assms unfolding install_codes_def uninstall_codes_def
    by (elim insertE UnE emptyE) (simp_all add: MapFontError_def G_ERROR_TABLE_def err_defs)
  show "map_of ani_errorMsg code = None \<longleftrightarrow> code = ERR_OK"
    using assms unfolding install_codes_def uninstall_codes_def
    by (elim insertE UnE emptyE) (simp_all add: ani_errorMsg_def err_defs)
  show "install_message code = ''Other error.'' \<longleftrightarrow> code = ERR_OK" if "code \<in> insert ERR_NO_PERMISSION install_codes"
    using that unfolding install_codes_def
    by (elim insertE emptyE) (simp_all add: install_message_def MSG_PERMISSION_def err_defs)
  show "uninstall_message code = ''Other error.'' \<longleftrightarrow> code = ERR_OK" if "code \<in> insert ERR_NO_PERMISSION uninstall_codes"
    using that unfolding uninstall_codes_def
    by (elim insertE emptyE) (simp_all add: uninstall_message_def MSG_PERMISSION_def err_defs)
qed

lemma Server_InstallFont_code:
  "snd (fst (Server_InstallFont E c fd s)) \<in> insert ERR_NO_PERMISSION install_codes"
proof -
  have "fst (InstallFontInner E c fd t) \<in> insert ERR_NO_PERMISSION install_codes" for t
    using InstallFont_code [of E t fd]
    by (auto simp: InstallFontInner_def CheckPermission_def Let_def install_codes_def split: option.split)
  from this [of "guard_enter s"] show ?thesis by (auto simp: Server_InstallFont_def with_guard_def split: prod.splits)
qed

lemma Server_UninstallFont_code:
  "snd (fst (Server_UninstallFont E c n s)) \<in> insert ERR_NO_PERMISSION uninstall_codes"
proof -
  have "fst (UninstallFontInner E c n t) \<in> insert ERR_NO_PERMISSION uninstall_codes" for t
    using UninstallFont_code [of E t n]
    by (auto simp: UninstallFontInner_def CheckPermission_def Let_def uninstall_codes_def split: option.split)
  from this [of "guard_enter s"] show ?thesis by (auto simp: Server_UninstallFont_def with_guard_def split: prod.splits)
qed

lemma known_codes:
  "known_code ERR_OK" "known_code ERR_NO_PERMISSION" "known_code ERR_INVALID_PARAM" "known_code ERR_SYSTEM_ERROR"
  "known_code ERR_SCOPE_FONT_NOT_REGISTERED" "known_code ERR_INSTALLED_ALRADY" "known_code ERR_MAX_FILE_COUNT"
  "known_code ERR_FILE_VERIFY_FAIL" "known_code ERR_COPY_FAIL" "known_code ERR_SCOPE_FONT_NOT_FOUND"
  "known_code ERR_UNINSTALL_REMOVE_FAIL"
  by (simp_all add: known_code_def g_ScopeFontErrMsgMap_def)

lemma InstallScopeFont_code: "known_code (fst (InstallScopeFont E s info))"
proof -
  have val: "known_code (fst (ValidateScopeFontForInstall E t cfg p fd))" for t :: "'a fm_state_scheme" and cfg p fd
    by (simp add: ValidateScopeFontForInstall_def Let_def known_codes)
  have cop: "known_code (fst (CopyAndInsertScopeFont E t info cfg ns))" for t :: "'a fm_state_scheme" and cfg ns
    by (simp add: CopyAndInsertScopeFont_def Let_def known_codes split: prod.split bool.split)
  show ?thesis
    using val cop by (auto simp: InstallScopeFont_def Let_def known_codes split: prod.split bool.split) (metis fst_conv)+
qed

lemma UninstallScopeFont_code: "known_code (fst (UninstallScopeFont E s url b tok u))"
  by (simp add: UninstallScopeFont_def Let_def known_codes split: prod.split bool.split option.split)

lemma Server_scope_code:
  "known_code (answer_code (fst (Server_InstallScopeFont E c fd sc url s)))"
  "known_code (answer_code (fst (Server_UninstallScopeFont E c url s)))"
proof -
  have "known_code (fst (InstallScopeFontInner E c fd sc url t))" for t
    by (simp add: InstallScopeFontInner_def CheckScopeFontPermission_def Let_def known_codes InstallScopeFont_code)
  from this [of "guard_enter s"] show "known_code (answer_code (fst (Server_InstallScopeFont E c fd sc url s)))"
    by (cases "InstallScopeFontInner E c fd sc url (guard_enter s)") (simp add: Server_InstallScopeFont_def with_guard_def answer_code_def)
  have "known_code (fst (UninstallScopeFontInner E c url t))" for t
    by (simp add: UninstallScopeFontInner_def CheckScopeFontPermission_def Let_def known_codes UninstallScopeFont_code)
  from this [of "guard_enter s"] show "known_code (answer_code (fst (Server_UninstallScopeFont E c url s)))"
    by (cases "UninstallScopeFontInner E c url (guard_enter s)") (simp add: Server_UninstallScopeFont_def with_guard_def answer_code_def)
qed

text \<open>
  C40: every failure that the service can report for an installation or a removal has a message of its own in
  every front end: the table of the command line tool and that of ArkTS have an entry for the code, the
  \<open>switch\<close> statements of JavaScript never come to ``other error'', and the codes for scope fonts are in the
  table both languages use.
\<close>

theorem error_codes_have_messages:
  "(let code = snd (fst (Server_InstallFont E c fd s)) in
      (fst (MapFontError code) = ''ERR_INTERNAL_ERROR'' \<longleftrightarrow> code = ERR_OK) \<and>
      (install_message code = ''Other error.'' \<longleftrightarrow> code = ERR_OK) \<and> (map_of ani_errorMsg code = None \<longleftrightarrow> code = ERR_OK)) \<and>
   (let code = snd (fst (Server_UninstallFont E c n s)) in
      (fst (MapFontError code) = ''ERR_INTERNAL_ERROR'' \<longleftrightarrow> code = ERR_OK) \<and>
      (uninstall_message code = ''Other error.'' \<longleftrightarrow> code = ERR_OK) \<and> (map_of ani_errorMsg code = None \<longleftrightarrow> code = ERR_OK)) \<and>
   known_code (answer_code (fst (Server_InstallScopeFont E c fd sc url s))) \<and>
   known_code (answer_code (fst (Server_UninstallScopeFont E c url s)))"
  using code_has_entry [of "snd (fst (Server_InstallFont E c fd s))"] Server_InstallFont_code [of E c fd s]
    code_has_entry [of "snd (fst (Server_UninstallFont E c n s))"] Server_UninstallFont_code [of E c n s]
    Server_scope_code [of E c]
  unfolding Let_def by blast

end
